(* ===== verification/Prelude.thy ===== *)
theory Prelude
  imports Main "HOL-Library.State_Monad" "HOL-Library.Sublist" "HOL-Library.AList"
begin

text \<open>
  Shared vocabulary of the development: Go strings, Go maps, errors and panics as values,
  and the state monad in which every component is written.

  \<^item> A Go \<^verbatim>\<open>string\<close> is a \<^typ>\<open>string\<close>; the functions of the package \<^verbatim>\<open>strings\<close> that the
    sources use are defined here (\<open>HasPrefix\<close>, \<open>Contains\<close>, \<open>split_on\<close>, \<open>join\<close>, ...).
  \<^item> A Go \<^verbatim>\<open>map\<close> is an association list with distinct keys. Go leaves the iteration order of a
    map open; a loop over a map runs in the order of the list, and theorems hold for every
    list, so for every order.
  \<^item> An \<^verbatim>\<open>error\<close> is a value of \<open>go_error\<close>; a call that returns \<^verbatim>\<open>(T, error)\<close> returns
    \<open>go_error + T\<close>. A run-time panic is the value \<open>Panic\<close> of the type \<open>go\<close>, which only the
    operations that can panic return.
  \<^item> The outside (OpenSearch, the curator, the aggregator, the clock, random numbers) is one
    abstract state of type \<open>'s\<close>, changed only by the functions an environment record
    supplies. Every request that leaves the program is appended to a trace, so that a theorem
    can speak about the requests sent, for every possible behaviour of the outside.
\<close>

section \<open>Collections of rules\<close>

named_theorems go_strings \<open>unfolding the string functions\<close>
named_theorems run_simps \<open>running monadic code\<close>
named_theorems sends_intros \<open>bounding the requests an operation sends\<close>

section \<open>Strings\<close>

definition HasPrefix :: "string \<Rightarrow> string \<Rightarrow> bool" where
  "HasPrefix s p \<longleftrightarrow> prefix p s"

definition HasSuffix :: "string \<Rightarrow> string \<Rightarrow> bool" where
  "HasSuffix s p \<longleftrightarrow> suffix p s"

definition Contains :: "string \<Rightarrow> string \<Rightarrow> bool" where
  "Contains s p \<longleftrightarrow> sublist p s"

definition TrimRight :: "string \<Rightarrow> char \<Rightarrow> string" where
  "TrimRight s c = rev (dropWhile (\<lambda>x. x = c) (rev s))"

fun split_on :: "char \<Rightarrow> string \<Rightarrow> string list" where
  "split_on c [] = [[]]"
| "split_on c (x # xs) =
     (if x = c then [] # split_on c xs
      else (case split_on c xs of [] \<Rightarrow> [[x]] | y # ys \<Rightarrow> (x # y) # ys))"

fun join :: "string \<Rightarrow> string list \<Rightarrow> string" where
  "join sep [] = []"
| "join sep [x] = x"
| "join sep (x # y # ys) = x @ sep @ join sep (y # ys)"

definition ReplaceAll :: "string \<Rightarrow> char \<Rightarrow> string \<Rightarrow> string" where
  "ReplaceAll s c new = concat (map (\<lambda>x. if x = c then new else [x]) s)"

definition lower_char :: "char \<Rightarrow> char" where
  "lower_char c = (let n = of_char c :: nat in
     if 65 \<le> n \<and> n \<le> 90 then char_of (n + 32) else c)"

definition upper_char :: "char \<Rightarrow> char" where
  "upper_char c = (let n = of_char c :: nat in
     if 97 \<le> n \<and> n \<le> 122 then char_of (n - 32) else c)"

definition ToLower :: "string \<Rightarrow> string" where
  "ToLower s = map lower_char s"

definition ToUpper :: "string \<Rightarrow> string" where
  "ToUpper s = map upper_char s"

text \<open>Decimal rendering of an integer, as the verb \<^verbatim>\<open>%d\<close> of \<^verbatim>\<open>fmt\<close> prints it.\<close>

fun show_nat :: "nat \<Rightarrow> string" where
  "show_nat n = (if n < 10 then [char_of (48 + n)]
     else show_nat (n div 10) @ [char_of (48 + n mod 10)])"

declare show_nat.simps [simp del]

definition show_int :: "int \<Rightarrow> string" where
  "show_int i = (if i < 0 then CHR ''-'' # show_nat (nat (- i)) else show_nat (nat i))"

text \<open>Go's \<^verbatim>\<open>strconv.Atoi\<close> on 64-bit integers and \<^verbatim>\<open>strconv.ParseBool\<close>, whose error reads as false.\<close>

definition decimal_digit :: "char \<Rightarrow> bool" where
  "decimal_digit ch \<longleftrightarrow> 48 \<le> (of_char ch :: nat) \<and> (of_char ch :: nat) \<le> 57"

definition Atoi :: "string \<Rightarrow> int option" where
  "Atoi s =
     (let negative = (s \<noteq> [] \<and> hd s = CHR ''-'');
          ds = (if s \<noteq> [] \<and> hd s \<in> {CHR ''-'', CHR ''+''} then tl s else s);
          n = foldl (\<lambda>acc ch. 10 * acc + (int (of_char ch) - 48)) 0 ds;
          v = (if negative then - n else n) in
      if ds \<noteq> [] \<and> list_all decimal_digit ds \<and> - (2 ^ 63) \<le> v \<and> v < 2 ^ 63 then Some v else None)"

definition ParseBool :: "string \<Rightarrow> bool" where
  "ParseBool s \<longleftrightarrow> s \<in> {''1'', ''t'', ''T'', ''true'', ''TRUE'', ''True''}"

lemma HasPrefix_append [simp]: "HasPrefix (p @ s) p"
  by (simp add: HasPrefix_def)

lemma HasPrefix_refl [simp]: "HasPrefix s s"
  by (simp add: HasPrefix_def)

lemma HasPrefix_Nil [simp]: "HasPrefix s []"
  by (simp add: HasPrefix_def)

lemma HasPrefix_trans: "HasPrefix s q \<Longrightarrow> HasPrefix q p \<Longrightarrow> HasPrefix s p"
  by (auto simp: HasPrefix_def intro: prefix_order.trans)

lemma HasPrefix_iff: "HasPrefix s p \<longleftrightarrow> (\<exists>t. s = p @ t)"
  by (auto simp: HasPrefix_def prefix_def)

lemma split_on_not_Nil [simp]: "split_on c s \<noteq> []"
  by (induction s) (auto split: list.splits)

lemma Contains_char: "Contains s [c] \<longleftrightarrow> c \<in> set s"
  by (auto simp: Contains_def sublist_def in_set_conv_decomp)

lemma show_nat_digits: "c \<in> set (show_nat n) \<Longrightarrow> 48 \<le> (of_char c :: nat) \<and> (of_char c :: nat) \<le> 57"
proof (induction n rule: show_nat.induct)
  case (1 n)
  have "n mod 10 < 10" by simp
  with 1 show ?case
    by (subst (asm) (2) show_nat.simps) (auto split: if_splits)
qed

lemma show_nat_chars: "CHR ''*'' \<notin> set (show_nat n)" "CHR ''.'' \<notin> set (show_nat n)"
  by (auto dest: show_nat_digits)

lemma join_Cons: "join sep (x # xs) = (if xs = [] then x else x @ sep @ join sep xs)"
  by (cases xs) auto

lemma join_split_on [simp]: "join [c] (split_on c s) = s"
proof (induction s)
  case Nil
  then show ?case by simp
next
  case (Cons x xs)
  obtain y ys where "split_on c xs = y # ys"
    by (cases "split_on c xs") auto
  with Cons show ?case
    by (auto simp: join_Cons split: if_splits)
qed

lemma split_on_no_sep: "c \<notin> set s \<Longrightarrow> split_on c s = [s]"
  by (induction s) auto

lemma split_on_append: "c \<notin> set s \<Longrightarrow> split_on c (s @ c # t) = s # split_on c t"
  by (induction s) auto

lemma split_on_join:
  "names \<noteq> [] \<Longrightarrow> \<forall>n \<in> set names. c \<notin> set n \<Longrightarrow> split_on c (join [c] names) = names"
proof (induction "[c]" names rule: join.induct)
  case (3 x y ys)
  then show ?case using split_on_append [of c x "join [c] (y # ys)"] by simp
qed (auto simp: split_on_no_sep)

lemma split_on_part: "x \<in> set (split_on c s) \<Longrightarrow> c \<notin> set x"
proof (induction s arbitrary: x)
  case Nil
  then show ?case by simp
next
  case (Cons a s)
  show ?case
  proof (cases "a = c")
    case True
    with Cons show ?thesis by auto
  next
    case False
    obtain y ys where "split_on c s = y # ys"
      by (cases "split_on c s") auto
    with False Cons show ?thesis by auto
  qed
qed

section \<open>Maps\<close>

type_synonym 'v go_map = "(string \<times> 'v) list"

text \<open>Reading a missing key of a Go map gives the zero value of its element type.\<close>

definition map_get :: "'v \<Rightarrow> 'v go_map \<Rightarrow> string \<Rightarrow> 'v" where
  "map_get zero m k = (case map_of m k of None \<Rightarrow> zero | Some v \<Rightarrow> v)"

definition map_put :: "string \<Rightarrow> 'v \<Rightarrow> 'v go_map \<Rightarrow> 'v go_map" where
  "map_put k v m = AList.update k v m"

definition map_del :: "string \<Rightarrow> 'v go_map \<Rightarrow> 'v go_map" where
  "map_del k m = AList.delete k m"

definition wf_map :: "'v go_map \<Rightarrow> bool" where
  "wf_map m \<longleftrightarrow> distinct (map fst m)"

text \<open>
  The contract of a string-keyed store, as the clients of a Go map rely on it: what a lookup
  returns after a write or a deletion, and that both keep the representation.
\<close>

locale string_store =
  fixes empty :: 'm
    and put :: "string \<Rightarrow> 'v \<Rightarrow> 'm \<Rightarrow> 'm"
    and del :: "string \<Rightarrow> 'm \<Rightarrow> 'm"
    and find :: "'m \<Rightarrow> string \<Rightarrow> 'v option"
    and invar :: "'m \<Rightarrow> bool"
  assumes find_empty: "find empty k = None"
    and find_put: "find (put k v m) k' = (if k' = k then Some v else find m k')"
    and find_del: "invar m \<Longrightarrow> find (del k m) k' = (if k' = k then None else find m k')"
    and invar_empty: "invar empty"
    and invar_put: "invar m \<Longrightarrow> invar (put k v m)"
    and invar_del: "invar m \<Longrightarrow> invar (del k m)"
begin

text \<open>Writing a list of entries in order: the last entry of a key wins.\<close>

lemma find_fold_put:
  "find (fold (\<lambda>(k, v). put k v) kvs m) k =
     (case map_of (rev kvs) k of None \<Rightarrow> find m k | Some v \<Rightarrow> Some v)"
proof (induction kvs arbitrary: m)
  case Nil
  then show ?case by simp
next
  case (Cons kv kvs)
  then show ?case
    by (cases kv) (auto simp: find_put map_add_def split: option.splits)
qed

lemma invar_fold_put: "invar m \<Longrightarrow> invar (fold (\<lambda>(k, v). put k v) kvs m)"
  by (induction kvs arbitrary: m) (auto intro: invar_put)

lemma find_put_del: "invar m \<Longrightarrow> find (put k v (del k m)) k' = find (put k v m) k'"
  by (simp add: find_put find_del)

end

interpretation gomap: string_store "[]" map_put map_del map_of wf_map
  by unfold_locales
    (auto simp: map_put_def map_del_def wf_map_def update_conv' delete_conv' distinct_update
      intro: distinct_delete)

lemma map_get_put [simp]: "map_get z (map_put k v m) k' = (if k' = k then v else map_get z m k')"
  by (simp add: map_get_def gomap.find_put)

lemma map_get_del: "wf_map m \<Longrightarrow> map_get z (map_del k m) k' = (if k' = k then z else map_get z m k')"
  by (simp add: map_get_def gomap.find_del)

section \<open>Errors and panics\<close>

text \<open>The verb \<^verbatim>\<open>'%s'\<close> of the messages.\<close>

definition squote :: "string \<Rightarrow> string" where
  "squote s = [CHR 39] @ s @ [CHR 39]"

datatype go_error =
    Err string
  | Wrapped string go_error
  | ErrBackupNotFound
  | ErrCuratorUnavailable

text \<open>The method \<^verbatim>\<open>Error()\<close>.\<close>

fun err_text :: "go_error \<Rightarrow> string" where
  "err_text (Err s) = s"
| "err_text (Wrapped s e) = s @ err_text e"
| "err_text ErrBackupNotFound = ''backup not found''"
| "err_text ErrCuratorUnavailable = ''curator return internal server error''"

text \<open>\<^verbatim>\<open>errors.Is(err, target)\<close>: the error itself or one it wraps with \<^verbatim>\<open>%w\<close>.\<close>

fun errors_Is :: "go_error \<Rightarrow> go_error \<Rightarrow> bool" where
  "errors_Is (Wrapped s e) t \<longleftrightarrow> Wrapped s e = t \<or> errors_Is e t"
| "errors_Is e t \<longleftrightarrow> e = t"

datatype 'a go = Ret 'a | Panic string

section \<open>The monad\<close>

record ('s, 'e) world =
  srv :: 's
  trace :: "'e list"

type_synonym ('s, 'e, 'a) io = "(('s, 'e) world, 'a) state"

text \<open>
  A program with memory of its own extends the world by further fields; calls and requests
  leave those alone.
\<close>

type_synonym ('s, 'e, 'm, 'a) io_with = "(('s, 'e, 'm) world_scheme, 'a) state"

abbreviation return :: "'a \<Rightarrow> ('w, 'a) state" where
  "return \<equiv> State_Monad.return"

text \<open>A call that leaves no request behind (random numbers, the clock, files).\<close>

definition silent :: "('s \<Rightarrow> 'a \<times> 's) \<Rightarrow> ('s, 'e, 'm, 'a) io_with" where
  "silent f = State (\<lambda>w. case f (srv w) of (a, s) \<Rightarrow> (a, w\<lparr>srv := s\<rparr>))"

text \<open>A request: it is appended to the trace and answered by the outside.\<close>

definition request :: "'e \<Rightarrow> ('s \<Rightarrow> 'a \<times> 's) \<Rightarrow> ('s, 'e, 'm, 'a) io_with" where
  "request e f = State (\<lambda>w. case f (srv w) of (a, s) \<Rightarrow> (a, w\<lparr>srv := s, trace := trace w @ [e]\<rparr>))"

text \<open>\<^verbatim>\<open>v, err := m; if err != nil { return err }; k(v)\<close>\<close>

definition onOk :: "('w, go_error + 'a) state \<Rightarrow> ('a \<Rightarrow> ('w, go_error + 'b) state) \<Rightarrow> ('w, go_error + 'b) state" where
  "onOk m k = do { r \<leftarrow> m; (case r of Inl e \<Rightarrow> return (Inl e) | Inr a \<Rightarrow> k a) }"

text \<open>A panic in \<open>m\<close> unwinds the caller.\<close>

definition onRet :: "('w, 'a go) state \<Rightarrow> ('a \<Rightarrow> ('w, 'b go) state) \<Rightarrow> ('w, 'b go) state" where
  "onRet m k = do { r \<leftarrow> m; (case r of Panic p \<Rightarrow> return (Panic p) | Ret a \<Rightarrow> k a) }"

text \<open>A loop over a slice whose body cannot fail, collecting its results.\<close>

fun for_each :: "('a \<Rightarrow> ('w, 'b) state) \<Rightarrow> 'a list \<Rightarrow> ('w, 'b list) state" where
  "for_each f [] = return []"
| "for_each f (x # xs) = do { y \<leftarrow> f x; ys \<leftarrow> for_each f xs; return (y # ys) }"

text \<open>A loop over a slice that returns at the first error of its body.\<close>

fun for_ok :: "('a \<Rightarrow> ('w, go_error + 'b) state) \<Rightarrow> 'a list \<Rightarrow> ('w, go_error + 'b list) state" where
  "for_ok f [] = return (Inr [])"
| "for_ok f (x # xs) = onOk (f x) (\<lambda>y. onOk (for_ok f xs) (\<lambda>ys. return (Inr (y # ys))))"

text \<open>A loop over a slice whose body may panic.\<close>

fun for_ret :: "('a \<Rightarrow> ('w, 'b go) state) \<Rightarrow> 'a list \<Rightarrow> ('w, 'b list go) state" where
  "for_ret f [] = return (Ret [])"
| "for_ret f (x # xs) = onRet (f x) (\<lambda>y. onRet (for_ret f xs) (\<lambda>ys. return (Ret (y # ys))))"

text \<open>An operation that cannot panic, used where one may.\<close>

definition no_panic :: "('w, 'a) state \<Rightarrow> ('w, 'a go) state" where
  "no_panic m = do { r \<leftarrow> m; return (Ret r) }"

text \<open>
  \<^verbatim>\<open>wait.PollImmediate\<close>: the condition is evaluated at once and then again until it is
  done, fails or the time is up; \<open>n\<close> is the number of evaluations that fit before the
  timeout. The condition is told how many evaluations came before it, since what it does may
  depend on it (a request body is a reader that the first attempt drains).
\<close>

fun poll_from :: "nat \<Rightarrow> nat \<Rightarrow> (nat \<Rightarrow> ('w, go_error + bool) state) \<Rightarrow> ('w, go_error + unit) state" where
  "poll_from k 0 c = return (Inl (Err ''timed out waiting for the condition''))"
| "poll_from k (Suc n) c = do {
     r \<leftarrow> c k;
     (case r of
        Inl e \<Rightarrow> return (Inl e)
      | Inr True \<Rightarrow> return (Inr ())
      | Inr False \<Rightarrow> poll_from (Suc k) n c) }"

definition poll_immediate :: "nat \<Rightarrow> (nat \<Rightarrow> ('w, go_error + bool) state) \<Rightarrow> ('w, go_error + unit) state" where
  "poll_immediate n c = poll_from 0 (Suc n) c"

text \<open>Reading and changing the memory of a program.\<close>

definition recall :: "('w \<Rightarrow> 'a) \<Rightarrow> ('w, 'a) state" where
  "recall f = State (\<lambda>w. (f w, w))"

definition remember :: "('w \<Rightarrow> 'w) \<Rightarrow> ('w, unit) state" where
  "remember f = State (\<lambda>w. ((), f w))"

text \<open>An operation that may panic or fail: the continuation runs when it does neither.\<close>

definition onDone ::
  "('w, (go_error + 'a) go) state \<Rightarrow> ('a \<Rightarrow> ('w, (go_error + 'b) go) state) \<Rightarrow> ('w, (go_error + 'b) go) state" where
  "onDone m k = onRet m (\<lambda>r. case r of Inl e \<Rightarrow> return (Ret (Inl e)) | Inr a \<Rightarrow> k a)"

text \<open>
  A poll whose condition may panic. \<^verbatim>\<open>wait.Poll\<close> waits before its first evaluation, so \<open>n\<close>
  evaluations may be none.
\<close>

fun poll_go :: "nat \<Rightarrow> ('w, (go_error + bool) go) state \<Rightarrow> ('w, (go_error + unit) go) state" where
  "poll_go 0 c = return (Ret (Inl (Err ''timed out waiting for the condition'')))"
| "poll_go (Suc n) c = onDone c (\<lambda>done. if done then return (Ret (Inr ())) else poll_go n c)"

definition poll :: "nat \<Rightarrow> (nat \<Rightarrow> ('w, go_error + bool) state) \<Rightarrow> ('w, go_error + unit) state" where
  "poll n c = poll_from 0 n c"

subsection \<open>Running code\<close>

lemma run_silent [run_simps]:
  "run_state (silent f) w = (case f (srv w) of (a, s) \<Rightarrow> (a, w\<lparr>srv := s\<rparr>))"
  by (simp add: silent_def)

lemma run_request [run_simps]:
  "run_state (request e f) w = (case f (srv w) of (a, s) \<Rightarrow> (a, w\<lparr>srv := s, trace := trace w @ [e]\<rparr>))"
  by (simp add: request_def)

lemma run_onOk [run_simps]:
  "run_state (onOk m k) w =
     (case run_state m w of (Inl e, w') \<Rightarrow> (Inl e, w') | (Inr a, w') \<Rightarrow> run_state (k a) w')"
  by (auto simp: onOk_def split: prod.splits sum.splits)

lemma run_onRet [run_simps]:
  "run_state (onRet m k) w =
     (case run_state m w of (Panic p, w') \<Rightarrow> (Panic p, w') | (Ret a, w') \<Rightarrow> run_state (k a) w')"
  by (auto simp: onRet_def split: prod.splits go.splits)

lemma run_no_panic [run_simps]:
  "run_state (no_panic m) w = (case run_state m w of (r, w') \<Rightarrow> (Ret r, w'))"
  by (simp add: no_panic_def)

lemma run_recall [run_simps]: "run_state (recall f) w = (f w, w)"
  by (simp add: recall_def)

lemma run_remember [run_simps]: "run_state (remember f) w = ((), f w)"
  by (simp add: remember_def)

lemma run_onDone [run_simps]:
  "run_state (onDone m k) w =
     (case run_state m w of
        (Panic p, w') \<Rightarrow> (Panic p, w')
      | (Ret (Inl e), w') \<Rightarrow> (Ret (Inl e), w')
      | (Ret (Inr a), w') \<Rightarrow> run_state (k a) w')"
  by (auto simp: onDone_def run_simps split: prod.splits go.splits sum.splits)

lemma onOk_assoc: "onOk (onOk m f) g = onOk m (\<lambda>x. onOk (f x) g)"
  by (rule state_ext) (auto simp: run_simps split: prod.splits sum.splits)

subsection \<open>Requests an operation sends\<close>

text \<open>
  \<open>sends R m\<close>: whatever the outside answers, running \<open>m\<close> only appends to the trace, and every
  request it appends satisfies \<open>R\<close>.
\<close>

definition sends :: "('e \<Rightarrow> bool) \<Rightarrow> ('s, 'e, 'm, 'a) io_with \<Rightarrow> bool" where
  "sends R m \<longleftrightarrow> (\<forall>w. \<exists>es. trace (snd (run_state m w)) = trace w @ es \<and> (\<forall>e \<in> set es. R e))"

lemma sendsI:
  "(\<And>w. \<exists>es. trace (snd (run_state m w)) = trace w @ es \<and> (\<forall>e \<in> set es. R e)) \<Longrightarrow> sends R m"
  by (simp add: sends_def)

lemma sendsD:
  assumes "sends R m" and "run_state m w = (r, w')"
  obtains es where "trace w' = trace w @ es" and "\<forall>e \<in> set es. R e"
  using assms by (auto simp: sends_def dest!: spec [of _ w])

lemma sends_mono: "sends R m \<Longrightarrow> (\<And>e. R e \<Longrightarrow> R' e) \<Longrightarrow> sends R' m"
  by (fastforce simp: sends_def)

lemma sends_return [sends_intros]: "sends R (return a)"
  by (simp add: sends_def)

lemma sends_silent [sends_intros]: "sends R (silent f)"
  by (auto simp: sends_def run_simps split: prod.splits)

lemma sends_request [sends_intros]: "R e \<Longrightarrow> sends R (request e f)"
  by (auto simp: sends_def run_simps split: prod.splits)

lemma sends_bind [sends_intros]:
  assumes "sends R m" and "\<And>a. sends R (k a)"
  shows "sends R (State_Monad.bind m k)"
proof (rule sendsI)
  fix w
  obtain a w1 where m: "run_state m w = (a, w1)" by (cases "run_state m w")
  obtain b w2 where k: "run_state (k a) w1 = (b, w2)" by (cases "run_state (k a) w1")
  obtain es1 where 1: "trace w1 = trace w @ es1" "\<forall>e \<in> set es1. R e"
    by (rule sendsD [OF assms(1) m])
  obtain es2 where 2: "trace w2 = trace w1 @ es2" "\<forall>e \<in> set es2. R e"
    by (rule sendsD [OF assms(2) k])
  have "trace w2 = trace w @ (es1 @ es2)" "\<forall>e \<in> set (es1 @ es2). R e"
    using 1 2 by auto
  then show "\<exists>es. trace (snd (run_state (State_Monad.bind m k) w)) = trace w @ es \<and> (\<forall>e \<in> set es. R e)"
    using m k by (intro exI [of _ "es1 @ es2"]) simp
qed

text \<open>The same for a continuation whose bound may use what the first part returned.\<close>

lemma sends_two:
  assumes "sends R (k a)" and "sends R m" and "run_state m w = (a, w1)"
  shows "\<exists>es. trace (snd (run_state (State_Monad.bind m k) w)) = trace w @ es \<and> (\<forall>e \<in> set es. R e)"
proof -
  obtain b w2 where k: "run_state (k a) w1 = (b, w2)" by (cases "run_state (k a) w1")
  obtain es1 where "trace w1 = trace w @ es1" "\<forall>e \<in> set es1. R e"
    by (rule sendsD [OF assms(2,3)])
  moreover obtain es2 where "trace w2 = trace w1 @ es2" "\<forall>e \<in> set es2. R e"
    by (rule sendsD [OF assms(1) k])
  ultimately show ?thesis using assms(3) k by (intro exI [of _ "es1 @ es2"]) auto
qed

lemma sends_onOk [sends_intros]:
  "sends R m \<Longrightarrow> (\<And>a. sends R (k a)) \<Longrightarrow> sends R (onOk m k)"
  unfolding onOk_def by (intro sends_bind) (auto intro: sends_return split: sum.splits)

lemma sends_onRet [sends_intros]:
  "sends R m \<Longrightarrow> (\<And>a. sends R (k a)) \<Longrightarrow> sends R (onRet m k)"
  unfolding onRet_def by (intro sends_bind) (auto intro: sends_return split: go.splits)

lemma sends_if [sends_intros]:
  "(b \<Longrightarrow> sends R m) \<Longrightarrow> (\<not> b \<Longrightarrow> sends R n) \<Longrightarrow> sends R (if b then m else n)"
  by simp

lemma sends_case_sum [sends_intros]:
  "(\<And>e. x = Inl e \<Longrightarrow> sends R (f e)) \<Longrightarrow> (\<And>a. x = Inr a \<Longrightarrow> sends R (g a)) \<Longrightarrow>
     sends R (case x of Inl e \<Rightarrow> f e | Inr a \<Rightarrow> g a)"
  by (cases x) auto

lemma sends_case_option [sends_intros]:
  "(x = None \<Longrightarrow> sends R m) \<Longrightarrow> (\<And>a. x = Some a \<Longrightarrow> sends R (g a)) \<Longrightarrow>
     sends R (case x of None \<Rightarrow> m | Some a \<Rightarrow> g a)"
  by (cases x) auto

lemma sends_case_prod [sends_intros]:
  "(\<And>a b. x = (a, b) \<Longrightarrow> sends R (f a b)) \<Longrightarrow> sends R (case x of (a, b) \<Rightarrow> f a b)"
  by (cases x) auto

lemma sends_case_go [sends_intros]:
  "(\<And>a. x = Ret a \<Longrightarrow> sends R (f a)) \<Longrightarrow> (\<And>p. x = Panic p \<Longrightarrow> sends R (g p)) \<Longrightarrow>
     sends R (case x of Ret a \<Rightarrow> f a | Panic p \<Rightarrow> g p)"
  by (cases x) auto

lemma sends_case_list [sends_intros]:
  "(x = [] \<Longrightarrow> sends R m) \<Longrightarrow> (\<And>a as. x = a # as \<Longrightarrow> sends R (g a as)) \<Longrightarrow>
     sends R (case x of [] \<Rightarrow> m | a # as \<Rightarrow> g a as)"
  by (cases x) auto

lemma sends_for_each [sends_intros]:
  "(\<And>x. x \<in> set xs \<Longrightarrow> sends R (f x)) \<Longrightarrow> sends R (for_each f xs)"
  by (induction xs) (auto intro!: sends_intros)

lemma sends_for_ok [sends_intros]:
  "(\<And>x. x \<in> set xs \<Longrightarrow> sends R (f x)) \<Longrightarrow> sends R (for_ok f xs)"
  by (induction xs) (auto intro!: sends_intros)

lemma sends_for_ret [sends_intros]:
  "(\<And>x. x \<in> set xs \<Longrightarrow> sends R (f x)) \<Longrightarrow> sends R (for_ret f xs)"
  by (induction xs) (auto intro!: sends_intros)

lemma sends_no_panic [sends_intros]: "sends R m \<Longrightarrow> sends R (no_panic m)"
  unfolding no_panic_def by (intro sends_intros)

lemma sends_poll_from: "(\<And>k. sends R (c k)) \<Longrightarrow> sends R (poll_from k n c)"
proof (induction n arbitrary: k)
  case 0
  then show ?case by (simp add: sends_return)
next
  case (Suc n)
  then have "sends R (c k)" and "\<And>k. sends R (poll_from k n c)" by auto
  then show ?case
    by (auto intro!: sends_bind sends_return split: sum.splits bool.splits)
qed

lemma sends_poll_immediate [sends_intros]:
  "(\<And>k. sends R (c k)) \<Longrightarrow> sends R (poll_immediate n c)"
  by (simp only: poll_immediate_def sends_poll_from)

lemma sends_recall [sends_intros]: "sends R (recall f)"
  by (simp add: sends_def run_simps)

lemma sends_remember [sends_intros]: "(\<And>w. trace (f w) = trace w) \<Longrightarrow> sends R (remember f)"
  by (simp add: sends_def run_simps)

lemma sends_onDone [sends_intros]:
  "sends R m \<Longrightarrow> (\<And>a. sends R (k a)) \<Longrightarrow> sends R (onDone m k)"
  unfolding onDone_def by (intro sends_intros)

lemma sends_poll_go [sends_intros]: "sends R c \<Longrightarrow> sends R (poll_go n c)"
  by (induction n) (auto intro!: sends_intros)

lemma sends_poll [sends_intros]: "(\<And>k. sends R (c k)) \<Longrightarrow> sends R (poll n c)"
  by (simp only: poll_def sends_poll_from)

text \<open>The same where the bound of the continuation needs what the first part can return.\<close>

lemma sends_bind_run:
  assumes "sends R m" and "\<And>a w w'. run_state m w = (a, w') \<Longrightarrow> sends R (k a)"
  shows "sends R (State_Monad.bind m k)"
proof (rule sendsI)
  fix w
  obtain a w1 where m: "run_state m w = (a, w1)" by (cases "run_state m w")
  show "\<exists>es. trace (snd (run_state (State_Monad.bind m k) w)) = trace w @ es \<and> (\<forall>e \<in> set es. R e)"
    by (rule sends_two [where k = k, OF assms(2) [OF m] assms(1) m])
qed

lemma sends_onOk_run:
  assumes "sends R m" and "\<And>a w w'. run_state m w = (Inr a, w') \<Longrightarrow> sends R (k a)"
  shows "sends R (onOk m k)"
  unfolding onOk_def by (rule sends_bind_run) (auto intro: assms sends_return split: sum.splits)

lemma sends_traceD: "sends R m \<Longrightarrow> run_state m w = (a, w1) \<Longrightarrow> \<exists>es. trace w1 = trace w @ es \<and> (\<forall>e \<in> set es. R e)"
  unfolding sends_def by (metis snd_conv)

subsection \<open>Loops\<close>

text \<open>A poll ends well only through an evaluation of its condition that is done.\<close>

lemma poll_from_ok:
  "run_state (poll_from k n c) w = (Inr (), w') \<Longrightarrow>
     \<exists>j w1. k \<le> j \<and> j < k + n \<and> run_state (c j) w1 = (Inr True, w')"
proof (induction n arbitrary: k w)
  case 0
  then show ?case by simp
next
  case (Suc n)
  obtain r w1 where c: "run_state (c k) w = (r, w1)" by (cases "run_state (c k) w")
  show ?case
  proof (cases "r = Inr True")
    case True
    then show ?thesis using Suc.prems c by (intro exI [of _ k] exI [of _ w]) simp
  next
    case False
    then have "run_state (poll_from (Suc k) n c) w1 = (Inr (), w')"
      using Suc.prems c by (cases r) (auto split: bool.splits)
    from Suc.IH [OF this] obtain j w2 where
      "Suc k \<le> j" "j < Suc k + n" "run_state (c j) w2 = (Inr True, w')" by auto
    then show ?thesis by (intro exI [of _ j] exI [of _ w2]) auto
  qed
qed

text \<open>A poll whose condition makes one request makes them one after the other, at least one.\<close>

lemma poll_from_trace:
  assumes "\<And>k w. trace (snd (run_state (c k) w)) = trace w @ [ev k]"
  shows "\<exists>m \<le> n. (0 < n \<longrightarrow> 0 < m) \<and>
    trace (snd (run_state (poll_from k n c) w)) = trace w @ map ev [k ..< k + m]"
proof (induction n arbitrary: k w)
  case 0
  then show ?case by simp
next
  case (Suc n)
  obtain r w1 where c: "run_state (c k) w = (r, w1)" by (cases "run_state (c k) w")
  have t: "trace w1 = trace w @ [ev k]" using assms [of k w] c by simp
  obtain m where m: "m \<le> n" "trace (snd (run_state (poll_from (Suc k) n c) w1)) =
      trace w1 @ map ev [Suc k ..< Suc k + m]"
    using Suc.IH [of "Suc k" w1] by blast
  show ?case
  proof (cases "r = Inr False")
    case True
    have "map ev [k ..< k + Suc m] = ev k # map ev [Suc k ..< Suc k + m]"
      by (subst upt_conv_Cons) auto
    then show ?thesis using True c t m by (intro exI [of _ "Suc m"]) simp
  next
    case False
    then show ?thesis using c t
      by (intro exI [of _ 1]) (cases r, auto split: bool.splits)
  qed
qed

lemma poll_immediate_ok:
  "run_state (poll_immediate n c) w = (Inr (), w') \<Longrightarrow>
     \<exists>j w1. j \<le> n \<and> run_state (c j) w1 = (Inr True, w')"
  unfolding poll_immediate_def by (drule poll_from_ok) (auto simp: less_Suc_eq_le)

lemma for_each_length: "run_state (for_each f xs) w = (ys, w') \<Longrightarrow> length ys = length xs"
  by (induction xs arbitrary: w ys) (auto split: prod.splits)

lemma for_ok_length: "run_state (for_ok f xs) w = (Inr ys, w') \<Longrightarrow> length ys = length xs"
  by (induction xs arbitrary: w ys) (auto simp: run_simps split: prod.splits sum.splits)

text \<open>What the body establishes of every element's result holds of all results.\<close>

lemma for_ret_all:
  assumes "\<And>x w y w'. x \<in> set xs \<Longrightarrow> run_state (f x) w = (Ret y, w') \<Longrightarrow> P x y"
  shows "run_state (for_ret f xs) w = (Ret ys, w') \<Longrightarrow> list_all2 P xs ys"
  using assms
proof (induction xs arbitrary: w ys w')
  case Nil
  then show ?case by simp
next
  case (Cons x xs)
  from Cons.prems(1) obtain y w1 ys' where
    "run_state (f x) w = (Ret y, w1)" "run_state (for_ret f xs) w1 = (Ret ys', w')" "ys = y # ys'"
    by (auto simp: run_simps split: prod.splits go.splits)
  then show ?case using Cons.IH [of w1 ys' w'] Cons.prems(2) by auto
qed

lemma for_each_append:
  "run_state (for_each f (xs @ ys)) w =
     (case run_state (for_each f xs) w of (as, w1) \<Rightarrow>
        (case run_state (for_each f ys) w1 of (bs, w2) \<Rightarrow> (as @ bs, w2)))"
  by (induction xs arbitrary: w) (auto split: prod.splits)

end
