(* ===== verification/Json.thy ===== *)
theory Json
  imports Prelude
begin

text \<open>
  The part of \<^verbatim>\<open>encoding/json\<close> the sources use: documents, printing, and decoding into a Go
  value. A decoder takes the document and the value decoded into, as \<^verbatim>\<open>json.Unmarshal\<close> does:
  \<^verbatim>\<open>null\<close> leaves a string, number, boolean or struct as it was and resets a slice, map or
  pointer; a value of the wrong type is an error; a struct field is found by its exact name
  first and ignoring case otherwise; an unknown field is skipped. Numbers are integers: no
  struct of the sources holds a fraction. An object decoded into \<^verbatim>\<open>interface{}\<close> is taken to
  have no repeated key.
\<close>

section \<open>Documents\<close>

datatype json =
    JNull
  | JBool bool
  | JNum int
  | JStr string
  | JArr "json list"
  | JObj "(string \<times> json) list"

text \<open>
  The escapes of \<^verbatim>\<open>json.Marshal\<close>: quotes, backslashes, control characters, and the three characters that
  mean something in HTML. Strings are taken to be valid UTF-8 without the two separators
  U+2028 and U+2029, which it would escape too.
\<close>

definition hex_digit :: "nat \<Rightarrow> char" where
  "hex_digit n = ''0123456789abcdef'' ! n"

fun quote_char :: "char \<Rightarrow> string" where
  "quote_char c =
     (let n = of_char c :: nat in
      if n = 34 \<or> n = 92 then [CHR 92, c]
      else if n = 8 then [CHR 92, CHR ''b'']
      else if n = 12 then [CHR 92, CHR ''f'']
      else if n = 10 then [CHR 92, CHR ''n'']
      else if n = 13 then [CHR 92, CHR ''r'']
      else if n = 9 then [CHR 92, CHR ''t'']
      else if n < 32 \<or> n = 38 \<or> n = 60 \<or> n = 62 then CHR 92 # ''u00'' @ [hex_digit (n div 16), hex_digit (n mod 16)]
      else [c])"

definition quote :: "string \<Rightarrow> string" where
  "quote s = [CHR 34] @ concat (map quote_char s) @ [CHR 34]"

fun json_print :: "json \<Rightarrow> string" where
  "json_print JNull = ''null''"
| "json_print (JBool b) = (if b then ''true'' else ''false'')"
| "json_print (JNum n) = show_int n"
| "json_print (JStr s) = quote s"
| "json_print (JArr js) = ''['' @ join '','' (map json_print js) @ '']''"
| "json_print (JObj kvs) =
     CHR ''{'' # join '','' (map (\<lambda>kv. quote (fst kv) @ '':'' @ json_print (snd kv)) kvs) @ ''}''"

section \<open>Decoding\<close>

type_synonym 'a decoder = "json \<Rightarrow> 'a \<Rightarrow> 'a option"

fun dec_string :: "string decoder" where
  "dec_string (JStr s) _ = Some s"
| "dec_string JNull old = Some old"
| "dec_string _ _ = None"

fun dec_int :: "int decoder" where
  "dec_int (JNum n) _ = Some n"
| "dec_int JNull old = Some old"
| "dec_int _ _ = None"

fun dec_bool :: "bool decoder" where
  "dec_bool (JBool b) _ = Some b"
| "dec_bool JNull old = Some old"
| "dec_bool _ _ = None"

text \<open>\<^verbatim>\<open>interface{}\<close>: any document.\<close>

fun dec_any :: "json decoder" where
  "dec_any j _ = Some j"

fun dec_ptr :: "'a \<Rightarrow> 'a decoder \<Rightarrow> 'a option decoder" where
  "dec_ptr z d JNull _ = Some None"
| "dec_ptr z d j old = map_option Some (d j (case old of None \<Rightarrow> z | Some v \<Rightarrow> v))"

fun dec_elems :: "'a \<Rightarrow> 'a decoder \<Rightarrow> json list \<Rightarrow> 'a list option" where
  "dec_elems z d [] = Some []"
| "dec_elems z d (j # js) =
     (case d j z of None \<Rightarrow> None | Some v \<Rightarrow> map_option ((#) v) (dec_elems z d js))"

fun dec_list :: "'a \<Rightarrow> 'a decoder \<Rightarrow> 'a list decoder" where
  "dec_list z d (JArr js) _ = dec_elems z d js"
| "dec_list z d JNull _ = Some []"
| "dec_list z d _ _ = None"

fun dec_entries :: "'a \<Rightarrow> 'a decoder \<Rightarrow> (string \<times> json) list \<Rightarrow> 'a go_map \<Rightarrow> 'a go_map option" where
  "dec_entries z d [] m = Some m"
| "dec_entries z d ((k, j) # kvs) m =
     (case d j z of None \<Rightarrow> None | Some v \<Rightarrow> dec_entries z d kvs (map_put k v m))"

fun dec_map :: "'a \<Rightarrow> 'a decoder \<Rightarrow> 'a go_map decoder" where
  "dec_map z d (JObj kvs) m = dec_entries z d kvs m"
| "dec_map z d JNull _ = Some []"
| "dec_map z d _ _ = None"

text \<open>A map that may be \<^verbatim>\<open>nil\<close>, where the sources tell \<^verbatim>\<open>nil\<close> from empty.\<close>

fun dec_nil_map :: "'a \<Rightarrow> 'a decoder \<Rightarrow> 'a go_map option decoder" where
  "dec_nil_map z d (JObj kvs) m = map_option Some (dec_entries z d kvs (case m of None \<Rightarrow> [] | Some m' \<Rightarrow> m'))"
| "dec_nil_map z d JNull _ = Some None"
| "dec_nil_map z d _ _ = None"

text \<open>Structs: a field is a name with a decoder into the whole record.\<close>

type_synonym 'r field = "string \<times> (json \<Rightarrow> 'r \<Rightarrow> 'r option)"

definition field :: "string \<Rightarrow> 'a decoder \<Rightarrow> ('r \<Rightarrow> 'a) \<Rightarrow> (('a \<Rightarrow> 'a) \<Rightarrow> 'r \<Rightarrow> 'r) \<Rightarrow> 'r field" where
  "field name d get upd = (name, \<lambda>j r. map_option (\<lambda>v. upd (\<lambda>_. v) r) (d j (get r)))"

definition find_field :: "'r field list \<Rightarrow> string \<Rightarrow> (json \<Rightarrow> 'r \<Rightarrow> 'r option) option" where
  "find_field fs k =
     (case map_of fs k of
        Some f \<Rightarrow> Some f
      | None \<Rightarrow> map_option snd (find (\<lambda>(n, _). ToLower n = ToLower k) fs))"

fun dec_fields :: "'r field list \<Rightarrow> (string \<times> json) list \<Rightarrow> 'r \<Rightarrow> 'r option" where
  "dec_fields fs [] r = Some r"
| "dec_fields fs ((k, j) # kvs) r =
     (case find_field fs k of
        None \<Rightarrow> dec_fields fs kvs r
      | Some f \<Rightarrow> (case f j r of None \<Rightarrow> None | Some r' \<Rightarrow> dec_fields fs kvs r'))"

fun dec_struct :: "'r field list \<Rightarrow> 'r decoder" where
  "dec_struct fs (JObj kvs) r = dec_fields fs kvs r"
| "dec_struct fs JNull r = Some r"
| "dec_struct fs _ _ = None"

section \<open>Message bodies\<close>

text \<open>
  What reading a body to its end gives: an error, a JSON document, or text that is not one.
\<close>

datatype body = Unreadable go_error | Text string | Doc json

fun ReadAll :: "body \<Rightarrow> go_error + string" where
  "ReadAll (Unreadable e) = Inl e"
| "ReadAll (Text s) = Inr s"
| "ReadAll (Doc j) = Inr (json_print j)"

fun unmarshal :: "'a decoder \<Rightarrow> body \<Rightarrow> 'a \<Rightarrow> go_error + 'a" where
  "unmarshal d (Unreadable e) old = Inl e"
| "unmarshal d (Text s) old = Inl (Err ''invalid character in JSON input'')"
| "unmarshal d (Doc j) old =
     (case d j old of None \<Rightarrow> Inl (Err ''json: cannot unmarshal'') | Some v \<Rightarrow> Inr v)"

section \<open>Facts about decoding\<close>

lemma dec_entries_wf: "dec_entries z d kvs m = Some m' \<Longrightarrow> wf_map m \<Longrightarrow> wf_map m'"
  by (induction z d kvs m rule: dec_entries.induct)
    (auto split: option.splits intro: gomap.invar_put)

lemma dec_entries_keys:
  "dec_entries z d kvs m = Some m' \<Longrightarrow> set (map fst m') = set (map fst m) \<union> set (map fst kvs)"
  by (induction z d kvs m rule: dec_entries.induct)
    (auto simp: map_put_def dom_update split: option.splits)

lemma dec_map_wf: "dec_map z d j m = Some m' \<Longrightarrow> wf_map m \<Longrightarrow> wf_map m'"
  by (cases j) (auto intro: dec_entries_wf gomap.invar_empty)

lemma dec_elems_length: "dec_elems z d js = Some vs \<Longrightarrow> length vs = length js"
  by (induction js arbitrary: vs) (auto split: option.splits)

end
