(* ===== verification/Http.thy ===== *)
theory Http
  imports Json
begin

text \<open>
  HTTP messages, shared by the adapter and the operator: requests as \<^verbatim>\<open>net/http\<close> builds them,
  responses, the check of URLs, and answers from a script for evaluating code on concrete inputs.
\<close>

section \<open>Messages\<close>

record http_request =
  rq_method :: string
  rq_url :: string
  rq_query :: "(string \<times> string) list"
  rq_headers :: "(string \<times> string) list"
  rq_auth :: "(string \<times> string) option"
  rq_body :: "body option"

record http_response =
  StatusCode :: int
  Body :: body

text \<open>A reply of a handler: status code and body.\<close>

type_synonym reply = "int \<times> body"

text \<open>
  \<^verbatim>\<open>net/url\<close> refuses a URL with a control character or with a percent sign that two
  hexadecimal digits do not follow in its path.
\<close>

definition is_hex :: "char \<Rightarrow> bool" where
  "is_hex c \<longleftrightarrow> (let n = of_char c :: nat in
     (48 \<le> n \<and> n \<le> 57) \<or> (65 \<le> n \<and> n \<le> 70) \<or> (97 \<le> n \<and> n \<le> 102))"

fun escapes_ok :: "string \<Rightarrow> bool" where
  "escapes_ok [] = True"
| "escapes_ok (c # cs) =
     (if c = CHR ''%'' then
        (case cs of a # b # rest \<Rightarrow> is_hex a \<and> is_hex b \<and> escapes_ok rest | _ \<Rightarrow> False)
      else escapes_ok cs)"

definition url_ok :: "string \<Rightarrow> bool" where
  "url_ok u \<longleftrightarrow> list_all (\<lambda>c. let n = of_char c :: nat in 32 \<le> n \<and> n \<noteq> 127) u \<and>
     escapes_ok (takeWhile (\<lambda>c. c \<noteq> CHR ''?'') u)"

definition bad_url :: go_error where
  "bad_url = Err ''parse: invalid URL''"

text \<open>Pieces of the request texts: a quoted string, a new line with tabs, and a member of an object.\<close>

definition dquote :: "string \<Rightarrow> string" where
  "dquote s = [CHR 34] @ s @ [CHR 34]"

definition nl :: "nat \<Rightarrow> string" where
  "nl n = CHR 10 # replicate n (CHR 9)"

definition member_text :: "string \<Rightarrow> string \<Rightarrow> string" where
  "member_text k v = dquote k @ '': '' @ dquote v"

section \<open>Scripts\<close>

text \<open>The state of a scripted outside: the answers still to give and a counter for generated names.\<close>

type_synonym script = "(go_error + http_response) list \<times> nat"

fun next_answer :: "script \<Rightarrow> (go_error + http_response) \<times> script" where
  "next_answer ([], n) = (Inl (Err ''connection refused''), ([], n))"
| "next_answer (a # as, n) = (a, (as, n))"

definition ok_doc :: "json \<Rightarrow> go_error + http_response" where
  "ok_doc j = Inr \<lparr>StatusCode = 200, Body = Doc j\<rparr>"

definition status_only :: "int \<Rightarrow> go_error + http_response" where
  "status_only n = Inr \<lparr>StatusCode = n, Body = Text []\<rparr>"

end
