(* ===== verification/Adapter_Common.thy ===== *)
theory Adapter_Common
  imports Http
begin

text \<open>
  What the packages of the DBaaS adapter share: HTTP messages, the OpenSearch client the
  adapter is given, the request types of the package \<^verbatim>\<open>api\<close> (the REST API of the security
  plugin), and the helpers of the package \<^verbatim>\<open>common\<close>.

  The OpenSearch client, the HTTP clients for the curator and the aggregator, the UUID and
  password generators and the name generator of \<^verbatim>\<open>qubership-dbaas-adapter-core\<close> are not part
  of the sources. They are the fields of the record \<open>env\<close>, functions on an abstract outside
  state. Requests of the package \<^verbatim>\<open>opensearchapi\<close> stay symbolic (\<open>os_call\<close>), since that package
  turns them into HTTP; requests of \<^verbatim>\<open>src/opensearch-dbaas-adapter/api\<close> are built here.
\<close>

section \<open>Messages and the outside\<close>

text \<open>The calls of \<^verbatim>\<open>opensearchapi\<close> the adapter makes, and requests it builds itself.\<close>

datatype os_call =
    IndicesExistsRequest "string list"
  | IndicesCreateRequest string "body option"
  | IndicesGetRequest "string list"
  | IndicesDeleteRequest "string list"
  | CatIndicesRequest "string list"
  | CatHealthRequest string
  | GetRequest string string
  | IndexRequest string string body
  | UpdateRequest string string body
  | DeleteRequest string string
  | IndicesGetTemplateRequest "string list"
  | IndicesDeleteTemplateRequest string
  | IndicesGetIndexTemplateRequest "string list"
  | IndicesDeleteIndexTemplateRequest string
  | IndicesGetAliasRequest "string list"
  | IndicesDeleteAliasRequest "string list" "string list"
  | IndicesRecoveryRequest "string list"
  | SnapshotStatusRequest string "string list"
  | Perform http_request

datatype event = OpenSearch os_call | Curator http_request | Aggregator http_request

record 's env =
  perform :: "os_call \<Rightarrow> 's \<Rightarrow> (go_error + http_response) \<times> 's"
  curator_do :: "http_request \<Rightarrow> 's \<Rightarrow> (go_error + http_response) \<times> 's"
  aggregator_do :: "http_request \<Rightarrow> 's \<Rightarrow> (go_error + http_response) \<times> 's"
  NewV4 :: "'s \<Rightarrow> (go_error + string) \<times> 's"
  gen_password :: "'s \<Rightarrow> (go_error + string) \<times> 's"
  PrepareDatabaseName :: "string \<Rightarrow> string \<Rightarrow> nat \<Rightarrow> 's \<Rightarrow> (go_error + string) \<times> 's"
  poll_retries :: "'s \<Rightarrow> nat \<times> 's"
  LookupEnv :: "string \<Rightarrow> string option"
  ReadFile :: "string \<Rightarrow> 's \<Rightarrow> (go_error + body) \<times> 's"

type_synonym ('s, 'a) adapter = "('s, event, 'a) io"

definition opensearch :: "'s env \<Rightarrow> os_call \<Rightarrow> ('s, go_error + http_response) adapter" where
  "opensearch E c = request (OpenSearch c) (perform E c)"

text \<open>
  An outside that answers from a script, for evaluating operations on concrete inputs: the
  state is the list of answers still to give and a counter for generated names.
\<close>

definition script_env :: "script env" where
  "script_env = \<lparr>perform = (\<lambda>_. next_answer), curator_do = (\<lambda>_. next_answer),
     aggregator_do = (\<lambda>_. next_answer),
     NewV4 = (\<lambda>(as, n). (Inr (''id-'' @ show_nat n), (as, Suc n))),
     gen_password = (\<lambda>s. (Inr ''secret'', s)),
     PrepareDatabaseName = (\<lambda>ns ms k s. (Inr (ns @ ''_'' @ ms), s)),
     poll_retries = (\<lambda>s. (1, s)), LookupEnv = (\<lambda>_. None),
     ReadFile = (\<lambda>_ s. (Inl (Err ''no such file''), s))\<rparr>"

definition answers :: "(go_error + http_response) list \<Rightarrow> (script, event) world" where
  "answers as = \<lparr>srv = (as, 0), trace = []\<rparr>"

section \<open>Requests of the package api\<close>

record api_options =
  WaitForCompletion :: "bool option"
  Pretty :: bool
  Human :: bool
  ErrorTrace :: bool
  FilterPath :: "string list"
  Header :: "(string \<times> string) list"

definition no_options :: api_options where
  "no_options = \<lparr>WaitForCompletion = None, Pretty = False, Human = False, ErrorTrace = False,
     FilterPath = [], Header = []\<rparr>"

definition json_options :: api_options where
  "json_options = no_options\<lparr>Header := [(''Content-Type'', ''application/json'')]\<rparr>"

text \<open>The query string; \<^verbatim>\<open>url.Values.Encode\<close> sorts its keys.\<close>

definition api_params :: "api_options \<Rightarrow> (string \<times> string) list" where
  "api_params o1 =
     (if ErrorTrace o1 then [(''error_trace'', ''true'')] else []) @
     (if FilterPath o1 \<noteq> [] then [(''filter_path'', join '','' (FilterPath o1))] else []) @
     (if Human o1 then [(''human'', ''true'')] else []) @
     (if Pretty o1 then [(''pretty'', ''true'')] else []) @
     (case WaitForCompletion o1 of None \<Rightarrow> []
      | Some b \<Rightarrow> [(''wait_for_completion'', if b then ''true'' else ''false'')])"

definition api_http :: "string \<Rightarrow> string \<Rightarrow> body option \<Rightarrow> api_options \<Rightarrow> http_request" where
  "api_http meth path b o1 =
     \<lparr>rq_method = meth, rq_url = path, rq_query = api_params o1, rq_headers = Header o1,
      rq_auth = None, rq_body = b\<rparr>"

text \<open>The common end of every \<^verbatim>\<open>Do\<close>: build the request, perform it, hand on the response.\<close>

definition api_Do :: "'s env \<Rightarrow> http_request \<Rightarrow> ('s, go_error + http_response) adapter" where
  "api_Do E rq = (if url_ok (rq_url rq) then opensearch E (Perform rq) else return (Inl bad_url))"

definition users_path :: string where
  "users_path = ''/_plugins/_security/api/internalusers''"

definition roles_path :: string where
  "roles_path = ''/_plugins/_security/api/roles''"

definition rolesmapping_path :: string where
  "rolesmapping_path = ''/_plugins/_security/api/rolesmapping''"

text \<open>
  The request types. \<^verbatim>\<open>CreateUserRequest\<close>, \<^verbatim>\<open>CreateRoleRequest\<close> and \<^verbatim>\<open>CreateRolesMappingRequest\<close> close the
  body of the request and so need one; \<^verbatim>\<open>PatchUserRequest\<close> does not. Every caller supplies a body to all
  four, so it is an argument here.
\<close>

definition CreateUserRequest_Do :: "'s env \<Rightarrow> string \<Rightarrow> body \<Rightarrow> api_options \<Rightarrow> ('s, go_error + http_response) adapter" where
  "CreateUserRequest_Do E username b o1 =
     api_Do E (api_http ''PUT'' (users_path @ ''/'' @ username) (Some b) o1)"

definition PatchUserRequest_Do :: "'s env \<Rightarrow> string \<Rightarrow> body \<Rightarrow> api_options \<Rightarrow> ('s, go_error + http_response) adapter" where
  "PatchUserRequest_Do E username b o1 =
     api_Do E (api_http ''PATCH'' (users_path @ ''/'' @ username) (Some b) o1)"

definition PatchUsersRequest_Do :: "'s env \<Rightarrow> body option \<Rightarrow> api_options \<Rightarrow> ('s, go_error + http_response) adapter" where
  "PatchUsersRequest_Do E b o1 = api_Do E (api_http ''PATCH'' users_path b o1)"

definition GetUserRequest_Do :: "'s env \<Rightarrow> string \<Rightarrow> api_options \<Rightarrow> ('s, go_error + http_response) adapter" where
  "GetUserRequest_Do E username o1 = api_Do E (api_http ''GET'' (users_path @ ''/'' @ username) None o1)"

definition GetUsersRequest_Do :: "'s env \<Rightarrow> api_options \<Rightarrow> ('s, go_error + http_response) adapter" where
  "GetUsersRequest_Do E o1 = api_Do E (api_http ''GET'' users_path None o1)"

definition DeleteUserRequest_Do :: "'s env \<Rightarrow> string \<Rightarrow> api_options \<Rightarrow> ('s, go_error + http_response) adapter" where
  "DeleteUserRequest_Do E username o1 =
     api_Do E (api_http ''DELETE'' (users_path @ ''/'' @ username) None o1)"

definition CreateRoleRequest_Do :: "'s env \<Rightarrow> string \<Rightarrow> body \<Rightarrow> api_options \<Rightarrow> ('s, go_error + http_response) adapter" where
  "CreateRoleRequest_Do E role b o1 =
     api_Do E (api_http ''PUT'' (roles_path @ ''/'' @ role) (Some b) o1)"

definition GetRoleRequest_Do :: "'s env \<Rightarrow> string \<Rightarrow> api_options \<Rightarrow> ('s, go_error + http_response) adapter" where
  "GetRoleRequest_Do E role o1 = api_Do E (api_http ''GET'' (roles_path @ ''/'' @ role) None o1)"

definition GetRolesRequest_Do :: "'s env \<Rightarrow> api_options \<Rightarrow> ('s, go_error + http_response) adapter" where
  "GetRolesRequest_Do E o1 = api_Do E (api_http ''GET'' roles_path None o1)"

definition DeleteRoleRequest_Do :: "'s env \<Rightarrow> string \<Rightarrow> api_options \<Rightarrow> ('s, go_error + http_response) adapter" where
  "DeleteRoleRequest_Do E role o1 = api_Do E (api_http ''DELETE'' (roles_path @ ''/'' @ role) None o1)"

definition CreateRolesMappingRequest_Do :: "'s env \<Rightarrow> string \<Rightarrow> body \<Rightarrow> api_options \<Rightarrow> ('s, go_error + http_response) adapter" where
  "CreateRolesMappingRequest_Do E role b o1 =
     api_Do E (api_http ''PUT'' (rolesmapping_path @ ''/'' @ role) (Some b) o1)"

definition GetRoleMappingRequest_Do :: "'s env \<Rightarrow> string \<Rightarrow> api_options \<Rightarrow> ('s, go_error + http_response) adapter" where
  "GetRoleMappingRequest_Do E role o1 =
     api_Do E (api_http ''GET'' (rolesmapping_path @ ''/'' @ role) None o1)"

definition GetRolesMappingRequest_Do :: "'s env \<Rightarrow> api_options \<Rightarrow> ('s, go_error + http_response) adapter" where
  "GetRolesMappingRequest_Do E o1 = api_Do E (api_http ''GET'' rolesmapping_path None o1)"

lemmas api_request_defs =
  CreateUserRequest_Do_def PatchUserRequest_Do_def PatchUsersRequest_Do_def GetUserRequest_Do_def
  GetUsersRequest_Do_def DeleteUserRequest_Do_def CreateRoleRequest_Do_def GetRoleRequest_Do_def
  GetRolesRequest_Do_def DeleteRoleRequest_Do_def CreateRolesMappingRequest_Do_def
  GetRoleMappingRequest_Do_def GetRolesMappingRequest_Do_def

section \<open>The package common\<close>

definition AliasKind :: string where "AliasKind = ''alias''"
definition IndexKind :: string where "IndexKind = ''index''"
definition MetadataKind :: string where "MetadataKind = ''metadataDocument''"
definition ResourcePrefixKind :: string where "ResourcePrefixKind = ''resourcePrefix''"
definition TemplateKind :: string where "TemplateKind = ''template''"
definition IndexTemplateKind :: string where "IndexTemplateKind = ''indexTemplate''"
definition UserKind :: string where "UserKind = ''user''"

lemmas kind_defs =
  AliasKind_def IndexKind_def MetadataKind_def ResourcePrefixKind_def TemplateKind_def
  IndexTemplateKind_def UserKind_def

definition ApiV1 :: string where "ApiV1 = ''v1''"
definition ApiV2 :: string where "ApiV2 = ''v2''"
definition Https :: string where "Https = ''https''"

definition role_name :: "string \<Rightarrow> string" where
  "role_name roleType = ''dbaas_'' @ roleType @ ''_role''"

definition resourcePrefixAttributeName :: string where
  "resourcePrefixAttributeName = ''resource_prefix''"

record db_resource =
  Kind :: string
  Name :: string
  Status :: string
  ErrorMessage :: string

definition resource :: "string \<Rightarrow> string \<Rightarrow> db_resource" where
  "resource k n = \<lparr>Kind = k, Name = n, Status = [], ErrorMessage = []\<rparr>"

record connection_properties =
  cp_DbName :: string
  cp_Host :: string
  cp_Port :: int
  cp_Url :: string
  cp_Username :: string
  cp_Password :: string
  cp_ResourcePrefix :: string
  cp_Role :: string
  cp_Tls :: bool

record user =
  Attributes :: "string go_map"
  Hash :: string
  Roles :: "string list"

definition zero_user :: user where
  "zero_user = \<lparr>Attributes = [], Hash = [], Roles = []\<rparr>"

definition dec_user :: "user decoder" where
  "dec_user = dec_struct
     [field ''attributes'' (dec_map [] dec_string) Attributes Attributes_update,
      field ''hash'' dec_string Hash Hash_update,
      field ''backend_roles'' (dec_list [] dec_string) Roles Roles_update]"

definition enc_strings :: "string list \<Rightarrow> json" where
  "enc_strings xs = JArr (map JStr xs)"

text \<open>A struct field with the option \<^verbatim>\<open>omitempty\<close>.\<close>

definition omit_empty :: "bool \<Rightarrow> string \<Rightarrow> json \<Rightarrow> (string \<times> json) list" where
  "omit_empty isEmpty name j = (if isEmpty then [] else [(name, j)])"

definition enc_connection :: "connection_properties \<Rightarrow> json" where
  "enc_connection c = JObj (
     [(''dbName'', JStr (cp_DbName c)), (''host'', JStr (cp_Host c)), (''port'', JNum (cp_Port c)),
      (''url'', JStr (cp_Url c))] @
     omit_empty (cp_Username c = []) ''username'' (JStr (cp_Username c)) @
     omit_empty (cp_Password c = []) ''password'' (JStr (cp_Password c)) @
     omit_empty (cp_ResourcePrefix c = []) ''resourcePrefix'' (JStr (cp_ResourcePrefix c)) @
     omit_empty (cp_Role c = []) ''role'' (JStr (cp_Role c)) @
     omit_empty (\<not> cp_Tls c) ''tls'' (JBool (cp_Tls c)))"

definition zero_connection :: connection_properties where
  "zero_connection = \<lparr>cp_DbName = [], cp_Host = [], cp_Port = 0, cp_Url = [], cp_Username = [],
     cp_Password = [], cp_ResourcePrefix = [], cp_Role = [], cp_Tls = False\<rparr>"

definition dec_connection :: "connection_properties decoder" where
  "dec_connection = dec_struct
     [field ''dbName'' dec_string cp_DbName cp_DbName_update,
      field ''host'' dec_string cp_Host cp_Host_update,
      field ''port'' dec_int cp_Port cp_Port_update,
      field ''url'' dec_string cp_Url cp_Url_update,
      field ''username'' dec_string cp_Username cp_Username_update,
      field ''password'' dec_string cp_Password cp_Password_update,
      field ''resourcePrefix'' dec_string cp_ResourcePrefix cp_ResourcePrefix_update,
      field ''role'' dec_string cp_Role cp_Role_update,
      field ''tls'' dec_bool cp_Tls cp_Tls_update]"

definition dec_resource :: "db_resource decoder" where
  "dec_resource = dec_struct
     [field ''kind'' dec_string Kind Kind_update, field ''name'' dec_string Name Name_update,
      field ''status'' dec_string Status Status_update,
      field ''errorMessage'' dec_string ErrorMessage ErrorMessage_update]"

definition enc_resource :: "db_resource \<Rightarrow> json" where
  "enc_resource r = JObj [(''kind'', JStr (Kind r)), (''name'', JStr (Name r)),
     (''status'', JStr (Status r)), (''errorMessage'', JStr (ErrorMessage r))]"

text \<open>A slice that was never appended to is \<^verbatim>\<open>nil\<close> and prints as \<^verbatim>\<open>null\<close>.\<close>

definition enc_slice :: "('a \<Rightarrow> json) \<Rightarrow> 'a list \<Rightarrow> json" where
  "enc_slice enc xs = (if xs = [] then JNull else JArr (map enc xs))"

definition GetEnv :: "'s env \<Rightarrow> string \<Rightarrow> string \<Rightarrow> string" where
  "GetEnv E key fallback = (case LookupEnv E key of Some v \<Rightarrow> v | None \<Rightarrow> fallback)"

definition GetUUID :: "'s env \<Rightarrow> ('s, string) adapter" where
  "GetUUID E = do {
     r \<leftarrow> silent (NewV4 E);
     return (case r of Inl _ \<Rightarrow> [] | Inr u \<Rightarrow> u) }"

definition GenerateUUID :: "'s env \<Rightarrow> ('s, string) adapter" where
  "GenerateUUID E = do { u \<leftarrow> GetUUID E; return (ReplaceAll u (CHR ''-'') []) }"

text \<open>
  A request to a handler: its \<^verbatim>\<open>X-Request-Id\<close> header, the variables of the route, the query
  and the body. A reply is a status code with a body.
\<close>

record incoming =
  in_id :: string
  in_vars :: "string go_map"
  in_query :: "string go_map"
  in_body :: body

definition error_reply :: "go_error \<Rightarrow> reply" where
  "error_reply e = (500, Text (err_text e))"

text \<open>\<^verbatim>\<open>ProcessResponseBody\<close>: with no status the header written before it, or 200, stands.\<close>

definition ProcessResponseBody :: "int \<Rightarrow> body \<Rightarrow> int \<Rightarrow> reply" where
  "ProcessResponseBody written b status = (if status > 0 \<and> written = 0 then status else
     if written = 0 then 200 else written, b)"

definition PrepareContext :: "'s env \<Rightarrow> incoming \<Rightarrow> ('s, string) adapter" where
  "PrepareContext E r = (if in_id r = [] then GenerateUUID E else return (in_id r))"

fun ConvertAnyToString :: "json \<Rightarrow> string" where
  "ConvertAnyToString (JStr s) = s"
| "ConvertAnyToString _ = []"

fun ProcessBody :: "'a decoder \<Rightarrow> body \<Rightarrow> 'a \<Rightarrow> go_error + 'a" where
  "ProcessBody d (Text []) result = Inr result"
| "ProcessBody d b result = unmarshal d b result"

definition DoRequest :: "'s env \<Rightarrow> os_call \<Rightarrow> 'a decoder \<Rightarrow> 'a \<Rightarrow> ('s, go_error + 'a) adapter" where
  "DoRequest E c d result =
     onOk (opensearch E c) (\<lambda>response. return (ProcessBody d (Body response) result))"

text \<open>
  A user stands in the way of a prefix when its name or its resource prefix starts with it.
  The loop of \<^verbatim>\<open>CheckPrefixUniqueness\<close> returns at the first such user.
\<close>

definition occupies :: "string \<Rightarrow> string \<times> user \<Rightarrow> bool" where
  "occupies p = (\<lambda>(element, u).
     HasPrefix element p \<or>
     (map_get [] (Attributes u) resourcePrefixAttributeName \<noteq> [] \<and>
      HasPrefix (map_get [] (Attributes u) resourcePrefixAttributeName) p))"

definition prefix_taken :: "string \<Rightarrow> go_error" where
  "prefix_taken p = Err (''provided prefix already exists or a part of another prefix: '' @ p)"

fun scan_users :: "string \<Rightarrow> user go_map \<Rightarrow> bool \<times> go_error option" where
  "scan_users p [] = (True, None)"
| "scan_users p ((element, u) # rest) =
     (if HasPrefix element p then (False, Some (prefix_taken p))
      else if map_get [] (Attributes u) resourcePrefixAttributeName \<noteq> [] \<and>
              HasPrefix (map_get [] (Attributes u) resourcePrefixAttributeName) p
           then (False, Some (prefix_taken p))
      else scan_users p rest)"

definition CheckPrefixUniqueness :: "'s env \<Rightarrow> string \<Rightarrow> ('s, bool \<times> go_error option) adapter" where
  "CheckPrefixUniqueness E p = do {
     r \<leftarrow> GetUsersRequest_Do E no_options;
     return (case r of
       Inl e \<Rightarrow> (False, Some (Err (''failed to receive users: '' @ err_text e)))
     | Inr response \<Rightarrow>
         (if StatusCode response = 200 then
            (case ProcessBody (dec_map zero_user dec_user) (Body response) [] of
               Inl e \<Rightarrow> (False, Some e)
             | Inr users \<Rightarrow> scan_users p users)
          else (True, None))) }"

text \<open>Index names for restored backups (\<^verbatim>\<open>naming.go\<close>).\<close>

record index_adapter =
  defaultPrefix :: string
  delimiter :: string

definition NewIndexAdapter :: index_adapter where
  "NewIndexAdapter = \<lparr>defaultPrefix = ''dbaas'', delimiter = ''_''\<rparr>"

definition NameIndexPrefixed :: "'s env \<Rightarrow> index_adapter \<Rightarrow> string \<Rightarrow> ('s, string) adapter" where
  "NameIndexPrefixed E a p = do {
     u \<leftarrow> GetUUID E;
     return ((if p = [] then defaultPrefix a else p) @ delimiter a @ u) }"

definition NameIndex :: "'s env \<Rightarrow> index_adapter \<Rightarrow> ('s, string) adapter" where
  "NameIndex E a = NameIndexPrefixed E a (defaultPrefix a)"

section \<open>Facts\<close>

lemma sends_opensearch [sends_intros]: "R (OpenSearch c) \<Longrightarrow> sends R (opensearch E c)"
  by (simp add: opensearch_def sends_request)

lemma sends_api_Do [sends_intros]: "R (OpenSearch (Perform rq)) \<Longrightarrow> sends R (api_Do E rq)"
  unfolding api_Do_def by (intro sends_intros)

lemma sends_GetUUID [sends_intros]: "sends R (GetUUID E)"
  unfolding GetUUID_def by (intro sends_intros)

lemma sends_GenerateUUID [sends_intros]: "sends R (GenerateUUID E)"
  unfolding GenerateUUID_def by (intro sends_intros)

lemma sends_PrepareContext [sends_intros]: "sends R (PrepareContext E r)"
  unfolding PrepareContext_def by (intro sends_intros)

lemma sends_DoRequest [sends_intros]: "R (OpenSearch c) \<Longrightarrow> sends R (DoRequest E c d z)"
  unfolding DoRequest_def by (intro sends_intros)

lemma run_opensearch [run_simps]:
  "run_state (opensearch E c) w =
     (case perform E c (srv w) of (r, s) \<Rightarrow> (r, w\<lparr>srv := s, trace := trace w @ [OpenSearch c]\<rparr>))"
  by (simp add: opensearch_def run_simps)

lemma run_api_Do [run_simps]:
  "run_state (api_Do E rq) w =
     (if url_ok (rq_url rq) then run_state (opensearch E (Perform rq)) w else (Inl bad_url, w))"
  by (simp add: api_Do_def)

lemma scan_users_iff:
  "scan_users p us = (if \<exists>x \<in> set us. occupies p x then (False, Some (prefix_taken p)) else (True, None))"
  by (induction p us rule: scan_users.induct) (auto simp: occupies_def)

lemma occupies_longer: "occupies q x \<Longrightarrow> HasPrefix q p \<Longrightarrow> occupies p x"
  by (auto simp: occupies_def intro: HasPrefix_trans)

lemma users_path_ok: "url_ok users_path"
  by code_simp

lemma run_GetUsersRequest_Do [run_simps]:
  "run_state (GetUsersRequest_Do E o1) w =
     run_state (opensearch E (Perform (api_http ''GET'' users_path None o1))) w"
  by (simp add: GetUsersRequest_Do_def api_Do_def api_http_def users_path_ok)

section \<open>Properties\<close>


definition tenant_answer :: json where
  "tenant_answer = JObj [(''ns_1'', JObj [(''attributes'', JObj [(''resource_prefix'', JStr ''ns'')]),
     (''hash'', JStr []), (''backend_roles'', JArr [JStr ''dbaas_admin''])])]"

definition tenant_users :: "user go_map" where
  "tenant_users = [(''ns_1'', \<lparr>Attributes = [(''resource_prefix'', ''ns'')], Hash = [], Roles = [''dbaas_admin'']\<rparr>)]"

lemma tenant_decoded: "ProcessBody (dec_map zero_user dec_user) (Doc tenant_answer) [] = Inr tenant_users"
  by code_simp


text \<open>
  The check looks in one direction only: a prefix that extends the resource prefix of an
  existing tenant is accepted, so the tenant's index pattern covers the indices of the new one.
\<close>

theorem CheckPrefixUniqueness_accepts_extension:
  "fst (run_state (CheckPrefixUniqueness script_env ''ns.a'') (answers [ok_doc tenant_answer])) = (True, None) \<and>
   HasPrefix ''ns.a'' (map_get [] (Attributes (map_get zero_user tenant_users ''ns_1'')) ''resource_prefix'')"
  by code_simp

end
