(* ===== verification/Security.thy ===== *)
theory Security
  imports Adapter_Common
begin

text \<open>
  The package \<^verbatim>\<open>basic\<close>, security side: roles (\<^verbatim>\<open>role.go\<close>), role mappings (\<^verbatim>\<open>rolemapping.go\<close>), users
  (\<^verbatim>\<open>user.go\<close>, \<^verbatim>\<open>password.go\<close>). The provider's methods take the environment and the provider
  record; a function that only reads \<^verbatim>\<open>bp.opensearch.Client\<close> takes the environment alone.
\<close>

section \<open>The provider\<close>

record base_provider =
  os_Host :: string
  os_Port :: int
  os_Protocol :: string
  ApiVersion :: string
  recoveryState :: string

definition getConnectionProperties :: "base_provider \<Rightarrow> string \<Rightarrow> string \<Rightarrow> string \<Rightarrow> connection_properties" where
  "getConnectionProperties bp dbName username password =
     \<lparr>cp_DbName = dbName, cp_Host = os_Host bp, cp_Port = os_Port bp,
      cp_Url = os_Protocol bp @ ''://'' @ os_Host bp @ '':'' @ show_int (os_Port bp) @ ''/'' @ dbName,
      cp_Username = username, cp_Password = password, cp_ResourcePrefix = [], cp_Role = [],
      cp_Tls = False\<rparr>"

definition IsOpenSearchTlsEnabled :: "base_provider \<Rightarrow> bool" where
  "IsOpenSearchTlsEnabled bp \<longleftrightarrow> ApiVersion bp = ApiV2 \<and> os_Protocol bp = Https"

definition GetExtendedConnectionProperties ::
  "base_provider \<Rightarrow> string \<Rightarrow> string \<Rightarrow> string \<Rightarrow> string \<Rightarrow> string \<Rightarrow> connection_properties" where
  "GetExtendedConnectionProperties bp dbName username password pfx roleType =
     (let c = getConnectionProperties bp dbName username password;
          c1 = (if pfx \<noteq> [] then c\<lparr>cp_ResourcePrefix := pfx\<rparr> else c)
      in if roleType \<noteq> [] then c1\<lparr>cp_Role := roleType\<rparr> else c1)"

section \<open>Roles\<close>

definition AttributeResourcePrefix :: string where
  "AttributeResourcePrefix = ''${attr.internal.resource_prefix}*''"
definition AllIndices :: string where "AllIndices = ''*''"
definition AdminRoleType :: string where "AdminRoleType = ''admin''"
definition DmlRoleType :: string where "DmlRoleType = ''dml''"
definition ReadOnlyRoleType :: string where "ReadOnlyRoleType = ''readonly''"
definition IsmRoleType :: string where "IsmRoleType = ''ism''"

definition backend_role :: "string \<Rightarrow> string" where
  "backend_role roleType = ''dbaas_'' @ roleType"

record index_permission =
  IndexPatterns :: "string list"
  AllowedActions :: "string list"

record role =
  ClusterPermissions :: "string list"
  IndexPermissions :: "index_permission list"

definition enc_role :: "role \<Rightarrow> json" where
  "enc_role r = JObj (
     omit_empty (ClusterPermissions r = []) ''cluster_permissions'' (enc_strings (ClusterPermissions r)) @
     [(''index_permissions'', JArr (map (\<lambda>p. JObj
        [(''index_patterns'', enc_strings (IndexPatterns p)),
         (''allowed_actions'', enc_strings (AllowedActions p))]) (IndexPermissions r)))])"

definition dec_index_permission :: "index_permission decoder" where
  "dec_index_permission = dec_struct
     [field ''index_patterns'' (dec_list [] dec_string) IndexPatterns IndexPatterns_update,
      field ''allowed_actions'' (dec_list [] dec_string) AllowedActions AllowedActions_update]"

definition zero_role :: role where
  "zero_role = \<lparr>ClusterPermissions = [], IndexPermissions = []\<rparr>"

definition dec_role :: "role decoder" where
  "dec_role = dec_struct
     [field ''cluster_permissions'' (dec_list [] dec_string) ClusterPermissions ClusterPermissions_update,
      field ''index_permissions'' (dec_list \<lparr>IndexPatterns = [], AllowedActions = []\<rparr> dec_index_permission)
        IndexPermissions IndexPermissions_update]"

definition GetSupportedRoleTypes :: "string list" where
  "GetSupportedRoleTypes = [ReadOnlyRoleType, DmlRoleType, AdminRoleType, IsmRoleType]"

definition DefineRoleType :: "string \<Rightarrow> string" where
  "DefineRoleType roleName =
     (case find (Contains roleName) GetSupportedRoleTypes of Some t \<Rightarrow> t | None \<Rightarrow> AdminRoleType)"

definition GetBackendRoles :: "string \<Rightarrow> string list" where
  "GetBackendRoles roleType = [backend_role roleType]"

definition role_of :: "string list \<Rightarrow> string list \<Rightarrow> string list \<Rightarrow> role" where
  "role_of clusterPermissions indexPermissions globalIndexPermissions =
     \<lparr>ClusterPermissions = clusterPermissions,
      IndexPermissions =
        [\<lparr>IndexPatterns = [AttributeResourcePrefix], AllowedActions = indexPermissions\<rparr>] @
        (if globalIndexPermissions \<noteq> []
         then [\<lparr>IndexPatterns = [AllIndices], AllowedActions = globalIndexPermissions\<rparr>] else [])\<rparr>"

definition createRole ::
  "'s env \<Rightarrow> string list \<Rightarrow> string list \<Rightarrow> string list \<Rightarrow> string \<Rightarrow> ('s, go_error + unit) adapter" where
  "createRole E clusterPermissions indexPermissions globalIndexPermissions roleType =
     (let name = role_name roleType;
          r = role_of clusterPermissions indexPermissions globalIndexPermissions
      in do {
        x \<leftarrow> CreateRoleRequest_Do E name (Doc (enc_role r)) json_options;
        return (case x of
          Inl e \<Rightarrow> Inl (Err (''error occurred during ['' @ name @ ''] role creation: '' @ err_text e))
        | Inr response \<Rightarrow>
            (if StatusCode response = 200 \<or> StatusCode response = 201 then Inr ()
             else Inl (Err (''role with name ['' @ name @ ''] is not created'')))) })"

definition ism_cluster :: "string list" where
  "ism_cluster = [''cluster:admin/opendistro/ism/*'']"

definition ism_global :: "bool \<Rightarrow> string list" where
  "ism_global enhancedSecurityPluginEnabled = [''indices:admin/opensearch/ism/managedindex''] @
     (if enhancedSecurityPluginEnabled then []
      else [''indices:monitor/stats'', ''indices:admin/rollover'', ''indices:admin/delete''])"

definition CreateRoleWithISMPermissions :: "'s env \<Rightarrow> bool \<Rightarrow> ('s, go_error + unit) adapter" where
  "CreateRoleWithISMPermissions E enhancedSecurityPluginEnabled =
     createRole E ism_cluster [] (ism_global enhancedSecurityPluginEnabled) IsmRoleType"

definition admin_index :: "string list" where
  "admin_index = [''indices_all'', ToUpper ''indices_all'']"

definition admin_cluster :: "string list" where
  "admin_cluster = [''cluster_composite_ops'', ToUpper ''cluster_composite_ops'', ''cluster:monitor/main'',
     ''cluster:monitor/health'', ''cluster:monitor/task*'', ''cluster:monitor/state'',
     ''indices:data/read/scroll/clear'', ''cluster_manage_index_templates'',
     ''indices:admin/template/*'', ''indices:admin/index_template/*'']"

definition admin_global :: "string list" where
  "admin_global = [''indices:admin/index_template/*'', ''indices:admin/aliases/get'', ''indices:admin/resize'']"

definition CreateRoleWithAdminPermissions :: "'s env \<Rightarrow> ('s, go_error + unit) adapter" where
  "CreateRoleWithAdminPermissions E = createRole E admin_cluster admin_index admin_global AdminRoleType"

definition dml_index :: "string list" where
  "dml_index = [''indices:data/*'', ToUpper ''indices:data/*'', ''indices:admin/mapping/put'',
     ToUpper ''indices:admin/mapping/put'', ''indices:admin/exists'', ToUpper ''indices:admin/exists'',
     ''indices:admin/get'', ToUpper ''indices:admin/get'']"

definition dml_cluster :: "string list" where
  "dml_cluster = [''cluster_composite_ops'', ToUpper ''cluster_composite_ops'',
     ''indices:data/read/scroll/clear'', ''cluster:monitor/task/get'', ''cluster:monitor/state'',
     ''cluster:monitor/main'']"

definition CreateRoleWithDMLPermissions :: "'s env \<Rightarrow> ('s, go_error + unit) adapter" where
  "CreateRoleWithDMLPermissions E = createRole E dml_cluster dml_index [] DmlRoleType"

definition readonly_index :: "string list" where
  "readonly_index = [''indices:data/read/*'', ''indices:admin/exists'', ''indices:admin/get'',
     ToUpper ''indices:data/read/*'', ToUpper ''indices:admin/exists'', ToUpper ''indices:admin/get'']"

definition readonly_cluster :: "string list" where
  "readonly_cluster = [''cluster_composite_ops_ro'', ToUpper ''cluster_composite_ops_ro'',
     ''indices:data/read/scroll/clear'', ''cluster:monitor/state'', ''cluster:monitor/main'']"

definition CreateRoleWithReadOnlyPermissions :: "'s env \<Rightarrow> ('s, go_error + unit) adapter" where
  "CreateRoleWithReadOnlyPermissions E = createRole E readonly_cluster readonly_index [] ReadOnlyRoleType"

text \<open>
  The result of a lookup: an error, nothing (\<^verbatim>\<open>nil, nil\<close>), or the first entry in iteration
  order, which for an empty map is the zero value of the entry.
\<close>

definition first_entry :: "'v \<Rightarrow> 'v go_map \<Rightarrow> 'v" where
  "first_entry z m = (case m of [] \<Rightarrow> z | (_, v) # _ \<Rightarrow> v)"

definition GetRole :: "'s env \<Rightarrow> string \<Rightarrow> ('s, go_error + role option) adapter" where
  "GetRole E name = do {
     x \<leftarrow> GetRoleRequest_Do E name no_options;
     return (case x of
       Inl e \<Rightarrow> Inl (Err (''failed to receive role with '' @ squote name @ '' name: '' @ err_text e))
     | Inr response \<Rightarrow>
         (if StatusCode response = 200 then
            (case ProcessBody (dec_map None (dec_ptr zero_role dec_role)) (Body response) [] of
               Inl e \<Rightarrow> Inl e
             | Inr roles \<Rightarrow> Inr (first_entry None roles))
          else if StatusCode response = 404 then Inr None
          else Inl (Err ''during receiving role error occurred''))) }"

section \<open>Role mappings\<close>

record role_mapping =
  rm_Users :: "string list"
  Reserved :: bool
  BackendRoles :: "string list"

definition zero_role_mapping :: role_mapping where
  "zero_role_mapping = \<lparr>rm_Users = [], Reserved = False, BackendRoles = []\<rparr>"

definition dec_role_mapping :: "role_mapping decoder" where
  "dec_role_mapping = dec_struct
     [field ''users'' (dec_list [] dec_string) rm_Users rm_Users_update,
      field ''reserved'' dec_bool Reserved Reserved_update,
      field ''backend_roles'' (dec_list [] dec_string) BackendRoles BackendRoles_update]"

definition enc_role_mapping :: "role_mapping \<Rightarrow> json" where
  "enc_role_mapping m = JObj (
     omit_empty (rm_Users m = []) ''users'' (enc_strings (rm_Users m)) @
     omit_empty (\<not> Reserved m) ''reserved'' (JBool (Reserved m)) @
     omit_empty (BackendRoles m = []) ''backend_roles'' (enc_strings (BackendRoles m)))"

definition createRoleMapping :: "'s env \<Rightarrow> string \<Rightarrow> role_mapping \<Rightarrow> ('s, go_error + unit) adapter" where
  "createRoleMapping E roleName m = do {
     x \<leftarrow> CreateRolesMappingRequest_Do E roleName (Doc (enc_role_mapping m)) json_options;
     return (case x of
       Inl e \<Rightarrow> Inl (Err (''failed to create role mapping for '' @ squote roleName @ '' role: '' @ err_text e))
     | Inr response \<Rightarrow>
         (if StatusCode response \<noteq> 200 \<and> StatusCode response \<noteq> 201 then
            (case ProcessBody (dec_map JNull dec_any) (Body response) [] of
               Inl e \<Rightarrow> Inl (Err (''failed to parse response body: '' @ err_text e))
             | Inr message \<Rightarrow> Inl (Err (''failed to create role mapping for ['' @ roleName @ ''] role: ['' @
                 show_int (StatusCode response) @ ''] '')))
          else Inr ())) }"

definition GetBackendRolesForMapping :: "string \<Rightarrow> string list" where
  "GetBackendRolesForMapping roleType =
     (if roleType = AdminRoleType then [backend_role AdminRoleType, backend_role IsmRoleType]
      else [backend_role roleType])"

definition GetRoleMapping :: "'s env \<Rightarrow> string \<Rightarrow> ('s, go_error + role_mapping option) adapter" where
  "GetRoleMapping E roleName = do {
     x \<leftarrow> GetRoleMappingRequest_Do E roleName no_options;
     return (case x of
       Inl e \<Rightarrow> Inl (Err (''failed to receive role mapping for '' @ squote roleName @ '' role: '' @ err_text e))
     | Inr response \<Rightarrow>
         (if StatusCode response = 200 then
            (case ProcessBody (dec_map None (dec_ptr zero_role_mapping dec_role_mapping)) (Body response) [] of
               Inl e \<Rightarrow> Inl e
             | Inr m \<Rightarrow> Inr (map_get None m roleName))
          else if StatusCode response = 404 then Inr None
          else Inl (Err ''during receiving role mapping error occurred''))) }"

definition CreateOrUpdateRoleMapping :: "'s env \<Rightarrow> string \<Rightarrow> ('s, go_error + unit) adapter" where
  "CreateOrUpdateRoleMapping E roleType = (let roleName = role_name roleType in
     onOk (GetRoleMapping E roleName) (\<lambda>found.
       let m = (case found of None \<Rightarrow> zero_role_mapping | Some m \<Rightarrow> m)
       in createRoleMapping E roleName (m\<lparr>BackendRoles := GetBackendRolesForMapping roleType\<rparr>)))"

text \<open>The status 404 gives a \<^verbatim>\<open>nil\<close> map, which has no entries.\<close>

definition GetRolesMapping :: "'s env \<Rightarrow> ('s, role_mapping go_map \<times> go_error option) adapter" where
  "GetRolesMapping E = do {
     x \<leftarrow> GetRolesMappingRequest_Do E no_options;
     return (case x of
       Inl e \<Rightarrow> ([], Some (Err (''failed to receive roles mapping: '' @ err_text e)))
     | Inr response \<Rightarrow>
         (if StatusCode response = 200 then
            (case ProcessBody (dec_map zero_role_mapping dec_role_mapping) (Body response) [] of
               Inl e \<Rightarrow> ([], Some e)
             | Inr m \<Rightarrow> (m, None))
          else if StatusCode response = 404 then ([], None)
          else ([], Some (Err ''during receiving roles mapping error occurred'')))) }"

section \<open>Users\<close>

record created_user =
  cu_ConnectionProperties :: connection_properties
  cu_Name :: string
  cu_Resources :: "db_resource list"

record change =
  Operation :: string
  Path :: string
  Value :: json

record content =
  ct_Attributes :: "string go_map"
  ct_BackendRoles :: "string list"
  ct_Password :: string

record user_create_request =
  ucr_DbName :: string
  ucr_Password :: string
  ucr_Role :: string

definition dec_user_create_request :: "user_create_request decoder" where
  "dec_user_create_request = dec_struct
     [field ''dbName'' dec_string ucr_DbName ucr_DbName_update,
      field ''password'' dec_string ucr_Password ucr_Password_update,
      field ''role'' dec_string ucr_Role ucr_Role_update]"

definition enc_string_map :: "string go_map \<Rightarrow> json" where
  "enc_string_map m = JObj (map (\<lambda>(k, v). (k, JStr v)) m)"

definition enc_content :: "content \<Rightarrow> json" where
  "enc_content c = JObj (
     omit_empty (ct_Attributes c = []) ''attributes'' (enc_string_map (ct_Attributes c)) @
     omit_empty (ct_BackendRoles c = []) ''backend_roles'' (enc_strings (ct_BackendRoles c)) @
     omit_empty (ct_Password c = []) ''password'' (JStr (ct_Password c)))"

definition enc_change :: "change \<Rightarrow> json" where
  "enc_change c = JObj [(''op'', JStr (Operation c)), (''path'', JStr (Path c)), (''value'', Value c)]"

definition enc_created_user :: "created_user \<Rightarrow> json" where
  "enc_created_user u = JObj [(''connectionProperties'', enc_connection (cu_ConnectionProperties u)),
     (''name'', JStr (cu_Name u)), (''resources'', enc_slice enc_resource (cu_Resources u))]"

definition GetUser :: "'s env \<Rightarrow> string \<Rightarrow> ('s, go_error + user option) adapter" where
  "GetUser E username = do {
     x \<leftarrow> GetUserRequest_Do E username no_options;
     return (case x of
       Inl e \<Rightarrow> Inl (Err (''failed to receive user with '' @ squote username @ '' name: '' @ err_text e))
     | Inr response \<Rightarrow>
         (if StatusCode response = 200 then
            (case ProcessBody (dec_map zero_user dec_user) (Body response) [] of
               Inl e \<Rightarrow> Inl e
             | Inr users \<Rightarrow> Inr (Some (first_entry zero_user users)))
          else if StatusCode response = 404 then Inr None
          else Inl (Err ''during receiving user error occurred''))) }"

text \<open>
  The attempt number \<open>k\<close> of \<^verbatim>\<open>createUser\<close> and \<^verbatim>\<open>PatchUser\<close>: all attempts share one
  \<^verbatim>\<open>strings.Reader\<close>, which the first of them has read to its end.
\<close>

definition attempt_body :: "json \<Rightarrow> nat \<Rightarrow> body" where
  "attempt_body j k = (if k = 0 then Doc j else Text [])"

definition user_written :: "http_response \<Rightarrow> bool" where
  "user_written response \<longleftrightarrow>
     (case ReadAll (Body response) of Inl _ \<Rightarrow> False
      | Inr _ \<Rightarrow> StatusCode response = 200 \<or> StatusCode response = 201)"

definition new_user_content :: "string \<Rightarrow> string \<Rightarrow> string \<Rightarrow> content" where
  "new_user_content password pfx roleType =
     (if pfx \<noteq> [] then
        \<lparr>ct_Attributes = [(resourcePrefixAttributeName, TrimRight pfx (CHR ''*''))],
         ct_BackendRoles = GetBackendRoles roleType, ct_Password = password\<rparr>
      else \<lparr>ct_Attributes = [], ct_BackendRoles = [], ct_Password = password\<rparr>)"

definition createUser :: "'s env \<Rightarrow> string \<Rightarrow> string \<Rightarrow> string \<Rightarrow> string \<Rightarrow> ('s, go_error + unit) adapter" where
  "createUser E username password pfx roleType =
     (let processedBody = enc_content (new_user_content password pfx roleType) in do {
        n \<leftarrow> silent (poll_retries E);
        poll_immediate n (\<lambda>k. do {
          x \<leftarrow> CreateUserRequest_Do E username (attempt_body processedBody k) json_options;
          return (case x of Inl e \<Rightarrow> Inl e | Inr response \<Rightarrow> Inr (user_written response)) }) })"

definition user_changes :: "string \<Rightarrow> string \<Rightarrow> string \<Rightarrow> change list" where
  "user_changes password pfx roleType =
     (if password \<noteq> [] then [\<lparr>Operation = ''add'', Path = ''/password'', Value = JStr password\<rparr>] else []) @
     (if pfx \<noteq> [] then
        [\<lparr>Operation = ''add'', Path = ''/attributes'',
          Value = enc_string_map [(resourcePrefixAttributeName, TrimRight pfx (CHR ''*''))]\<rparr>,
         \<lparr>Operation = ''add'', Path = ''/backend_roles'', Value = enc_strings (GetBackendRoles roleType)\<rparr>]
      else [])"

definition PatchUser :: "'s env \<Rightarrow> string \<Rightarrow> string \<Rightarrow> string \<Rightarrow> string \<Rightarrow> ('s, go_error + unit) adapter" where
  "PatchUser E username password pfx roleType =
     (if password = [] \<and> pfx = [] then return (Inr ())
      else let processedBody = JArr (map enc_change (user_changes password pfx roleType)) in do {
        n \<leftarrow> silent (poll_retries E);
        poll_immediate n (\<lambda>k. do {
          x \<leftarrow> PatchUserRequest_Do E username (attempt_body processedBody k) json_options;
          return (case x of Inl e \<Rightarrow> Inr False | Inr response \<Rightarrow> Inr (user_written response)) }) })"

text \<open>
  \<^verbatim>\<open>createOrUpdateUser\<close> also returns the name and the password next to an error; every caller
  drops them then. The mutex of the provider makes the operation atomic.
\<close>

definition createOrUpdateUser ::
  "'s env \<Rightarrow> string \<Rightarrow> string \<Rightarrow> string \<Rightarrow> string \<Rightarrow>
     ('s, go_error + string \<times> string \<times> db_resource list) adapter" where
  "createOrUpdateUser E username0 password0 dbName roleType = do {
     username \<leftarrow> (if username0 = [] then do { u \<leftarrow> GenerateUUID E; return (''dbaas_'' @ u) }
                  else return username0);
     onOk (if password0 = [] then silent (gen_password E) else return (Inr password0)) (\<lambda>password.
     onOk (GetUser E username) (\<lambda>found.
     onOk (case found of
             None \<Rightarrow> do {
               r \<leftarrow> createUser E username password dbName roleType;
               return (case r of
                 Inl e \<Rightarrow> Inl (Err (''during user creation error occurred: '' @ err_text e))
               | Inr u \<Rightarrow> Inr u) }
           | Some _ \<Rightarrow> do {
               r \<leftarrow> PatchUser E username password dbName roleType;
               return (case r of
                 Inl e \<Rightarrow> Inl (Err (''during user update error occurred: '' @ err_text e))
               | Inr u \<Rightarrow> Inr u) }) (\<lambda>_.
     return (Inr (username, password, [resource UserKind username]))))) }"

definition CreateUserByPrefix ::
  "'s env \<Rightarrow> string \<Rightarrow> string \<Rightarrow> string \<Rightarrow> string \<Rightarrow>
     ('s, go_error + string \<times> string \<times> db_resource list) adapter" where
  "CreateUserByPrefix E pfx password dbName roleType = do {
     u \<leftarrow> GenerateUUID E;
     createOrUpdateUser E (pfx @ ''_'' @ u) password dbName roleType }"

definition ensureUser ::
  "'s env \<Rightarrow> base_provider \<Rightarrow> string \<Rightarrow> user_create_request \<Rightarrow> ('s, go_error + created_user) adapter" where
  "ensureUser E bp username0 r =
     (let dbName = ucr_DbName r;
          roleType = (if ucr_Role r = [] then AdminRoleType else ucr_Role r) in
      onOk (createOrUpdateUser E username0 (ucr_Password r) dbName roleType) (\<lambda>(username, password, resources).
      let resources1 = (if dbName \<noteq> []
            then resources @ [resource MetadataKind dbName, resource ResourcePrefixKind dbName]
            else resources);
          c = GetExtendedConnectionProperties bp [] username password [] roleType in
      onOk (GetUser E username) (\<lambda>user.
      let c1 = (case user of
            None \<Rightarrow> c
          | Some u \<Rightarrow>
              (if map_get [] (Attributes u) resourcePrefixAttributeName \<noteq> []
               then c\<lparr>cp_ResourcePrefix := map_get [] (Attributes u) resourcePrefixAttributeName\<rparr> else c)) in
      return (Inr \<lparr>cu_ConnectionProperties = c1, cu_Name = dbName, cu_Resources = resources1\<rparr>))))"

definition CreateUserHandler :: "'s env \<Rightarrow> base_provider \<Rightarrow> incoming \<Rightarrow> ('s, reply) adapter" where
  "CreateUserHandler E bp r = do {
     _ \<leftarrow> PrepareContext E r;
     username \<leftarrow> (if map_get [] (in_vars r) ''name'' = []
                  then do { u \<leftarrow> GenerateUUID E; return (''dbaas_'' @ u) }
                  else return (map_get [] (in_vars r) ''name''));
     (case unmarshal dec_user_create_request (in_body r) \<lparr>ucr_DbName = [], ucr_Password = [], ucr_Role = []\<rparr> of
        Inl e \<Rightarrow> return (error_reply e)
      | Inr userCreateRequest \<Rightarrow> do {
          x \<leftarrow> ensureUser E bp username userCreateRequest;
          return (case x of
            Inl e \<Rightarrow> error_reply e
          | Inr response \<Rightarrow> ProcessResponseBody 0 (Doc (enc_created_user response)) 201) }) }"

definition patchUsers :: "'s env \<Rightarrow> change list \<Rightarrow> ('s, go_error + unit) adapter" where
  "patchUsers E changes =
     (if changes = [] then return (Inr ())
      else onOk (PatchUsersRequest_Do E (Some (Doc (JArr (map enc_change changes)))) json_options) (\<lambda>response.
        return (if StatusCode response = 200 then Inr ()
          else (case ReadAll (Body response) of
              Inl e \<Rightarrow> Inl e
            | Inr responseBody \<Rightarrow> Inl (Err (''creation of users batch is finished with '' @
                show_int (StatusCode response) @ '' code, response is '' @ responseBody))))))"

definition getUsersByPrefix :: "'s env \<Rightarrow> string \<Rightarrow> ('s, go_error + string list) adapter" where
  "getUsersByPrefix E pfx = do {
     x \<leftarrow> GetUsersRequest_Do E no_options;
     return (case x of
       Inl e \<Rightarrow> Inl (Err (''failed to receive users: '' @ err_text e))
     | Inr response \<Rightarrow>
         (if StatusCode response = 200 then
            (case ProcessBody (dec_map zero_user dec_user) (Body response) [] of
               Inl e \<Rightarrow> Inl e
             | Inr users \<Rightarrow> Inr (filter (\<lambda>element. HasPrefix element pfx) (map fst users)))
          else if StatusCode response = 404 then Inr []
          else Inl (Err (''during receiving users by prefix '' @ pfx @ '' error occurred'')))) }"

definition deleteUser :: "'s env \<Rightarrow> string \<Rightarrow> ('s, go_error + unit) adapter" where
  "deleteUser E username =
     onOk (DeleteUserRequest_Do E username no_options) (\<lambda>response. return (Inr ()))"
section \<open>What a role grants\<close>

text \<open>
  The reading of a role by the security plugin: \<^verbatim>\<open>*\<close> in a pattern stands for any text, and
  \<^verbatim>\<open>${attr.internal.resource_prefix}\<close> for the user's attribute.
\<close>

fun wild :: "string \<Rightarrow> string \<Rightarrow> bool" where
  "wild [] s \<longleftrightarrow> s = []"
| "wild (c # p) s \<longleftrightarrow>
     (if c = CHR ''*'' then wild p s \<or> (case s of [] \<Rightarrow> False | _ # s' \<Rightarrow> wild (c # p) s')
      else (case s of [] \<Rightarrow> False | d # s' \<Rightarrow> d = c \<and> wild p s'))"

definition resolve :: "string \<Rightarrow> string \<Rightarrow> string" where
  "resolve pfx pat = (if pat = AttributeResourcePrefix then pfx @ ''*'' else pat)"

definition grants :: "role \<Rightarrow> string \<Rightarrow> string \<Rightarrow> string \<Rightarrow> bool" where
  "grants r pfx idx action \<longleftrightarrow>
     (\<exists>p \<in> set (IndexPermissions r). (\<exists>pat \<in> set (IndexPatterns p). wild (resolve pfx pat) idx) \<and>
        (\<exists>a \<in> set (AllowedActions p). wild a action))"

lemma wild_literal: "CHR ''*'' \<notin> set p \<Longrightarrow> wild p s \<longleftrightarrow> s = p"
proof (induction p arbitrary: s)
  case (Cons c p)
  then show ?case by (cases s) auto
qed simp

lemma wild_star: "wild ''*'' s"
  by (induction s) auto

declare wild.simps [simp del]

lemma wild_prefix: "CHR ''*'' \<notin> set p \<Longrightarrow> wild (p @ ''*'') s \<longleftrightarrow> HasPrefix s p"
proof (induction p arbitrary: s)
  case Nil
  then show ?case by (simp add: wild_star)
next
  case (Cons c p)
  then show ?case by (cases s) (auto simp: HasPrefix_def wild.simps)
qed

lemma role_of_outside:
  assumes "CHR ''*'' \<notin> set pfx" and "\<not> HasPrefix idx pfx" and "grants (role_of c i g) pfx idx action"
  shows "\<exists>a \<in> set g. wild a action"
  using assms
  by (auto simp: grants_def role_of_def resolve_def wild_prefix AllIndices_def AttributeResourcePrefix_def
      split: if_splits)

lemma role_of_inside:
  assumes "CHR ''*'' \<notin> set pfx" and "HasPrefix idx pfx" and "a \<in> set i" and "wild a action"
  shows "grants (role_of c i g) pfx idx action"
  using assms
  by (auto simp: grants_def role_of_def resolve_def wild_prefix)

definition role_event :: "string \<Rightarrow> role \<Rightarrow> event" where
  "role_event roleType r = OpenSearch (Perform (api_http ''PUT'' (roles_path @ ''/'' @ role_name roleType)
     (Some (Doc (enc_role r))) json_options))"

lemma trace_createRole:
  "url_ok (roles_path @ ''/'' @ role_name roleType) \<Longrightarrow>
     trace (snd (run_state (createRole E c i g roleType) w)) = trace w @ [role_event roleType (role_of c i g)]"
  by (simp add: createRole_def CreateRoleRequest_Do_def run_simps api_http_def role_event_def Let_def
      split: prod.splits)

lemma role_paths_ok:
  "url_ok (roles_path @ ''/'' @ role_name ReadOnlyRoleType)"
  "url_ok (roles_path @ ''/'' @ role_name DmlRoleType)"
  "url_ok (roles_path @ ''/'' @ role_name AdminRoleType)"
  "url_ok (roles_path @ ''/'' @ role_name IsmRoleType)"
  by code_simp+

lemma wild_prefix_pattern: "q = p @ ''*'' \<Longrightarrow> CHR ''*'' \<notin> set p \<Longrightarrow> wild q s \<longleftrightarrow> HasPrefix s p"
  by (simp add: wild_prefix)

lemma wild_index_template: "wild ''indices:admin/index_template/*'' s \<longleftrightarrow> HasPrefix s ''indices:admin/index_template/''"
  by (rule wild_prefix_pattern) simp_all

lemma admin_outside:
  "a \<in> set admin_global \<Longrightarrow> wild a action \<Longrightarrow>
     HasPrefix action ''indices:admin/index_template/'' \<or>
     action \<in> {''indices:admin/aliases/get'', ''indices:admin/resize''}"
  by (auto simp: admin_global_def wild_index_template wild_literal)

lemma ism_outside:
  "a \<in> set (ism_global True) \<Longrightarrow> wild a action \<Longrightarrow> action = ''indices:admin/opensearch/ism/managedindex''"
  by (simp add: ism_global_def wild_literal)

section \<open>Requests about one user\<close>

definition user_event :: "string \<Rightarrow> string \<Rightarrow> body option \<Rightarrow> api_options \<Rightarrow> event" where
  "user_event meth username b o1 =
     OpenSearch (Perform (api_http meth (users_path @ ''/'' @ username) b o1))"

lemma run_GetUserRequest_Do:
  "url_ok (users_path @ ''/'' @ username) \<Longrightarrow>
   run_state (GetUserRequest_Do E username o1) w =
     run_state (opensearch E (Perform (api_http ''GET'' (users_path @ ''/'' @ username) None o1))) w"
  by (simp add: GetUserRequest_Do_def api_Do_def api_http_def)

lemma trace_GetUser:
  "url_ok (users_path @ ''/'' @ username) \<Longrightarrow>
     trace (snd (run_state (GetUser E username) w)) = trace w @ [user_event ''GET'' username None no_options]"
  by (simp add: GetUser_def run_GetUserRequest_Do run_simps user_event_def split: prod.splits)

lemma GetUser_url_ok:
  "run_state (GetUser E username) w = (Inr r, w') \<Longrightarrow> url_ok (users_path @ ''/'' @ username)"
  by (auto simp: GetUser_def GetUserRequest_Do_def api_Do_def api_http_def split: if_splits)

text \<open>
  A poll that repeats one request until the cluster has written the user: a run that ends well
  has sent the request one or more times, and the last answer was a success.
\<close>

lemma write_poll_ok:
  assumes c: "\<And>k w. run_state (c k) w =
      (case run_state (opensearch E (Perform (rq k))) w of (x, w1) \<Rightarrow> (f x, w1))"
    and f: "\<And>x. f x = Inr True \<Longrightarrow> \<exists>response. x = Inr response \<and> user_written response"
    and run: "run_state (poll_immediate n c) w = (Inr (), w')"
  shows "\<exists>m > 0. trace w' = trace w @ map (\<lambda>k. OpenSearch (Perform (rq k))) [0 ..< m] \<and>
    (\<exists>s response. perform E (Perform (rq (m - 1))) s = (Inr response, srv w') \<and> user_written response)"
proof -
  let ?ev = "\<lambda>k. OpenSearch (Perform (rq k))"
  have t: "\<And>k w. trace (snd (run_state (c k) w)) = trace w @ [?ev k]"
    by (simp add: c run_simps split: prod.splits)
  obtain m where m: "0 < m" "trace w' = trace w @ map ?ev [0 ..< m]"
    using poll_from_trace [of c ?ev, OF t, of "Suc n" 0 w] run
    by (auto simp: poll_immediate_def simp del: poll_from.simps)
  obtain j w1 where j: "run_state (c j) w1 = (Inr True, w')"
    using poll_immediate_ok [OF run] by blast
  obtain x s where x: "perform E (Perform (rq j)) (srv w1) = (x, s)" by (cases "perform E (Perform (rq j)) (srv w1)")
  have "f x = Inr True" "srv w' = s" "trace w' = trace w1 @ [?ev j]"
    using j x by (auto simp: c run_simps)
  moreover have "last (trace w') = ?ev (m - 1)"
    using m by (simp add: last_map)
  ultimately have "rq j = rq (m - 1)" "\<exists>response. x = Inr response \<and> user_written response"
    using f by auto
  then show ?thesis using m x \<open>srv w' = s\<close> by (intro exI [of _ m]) auto
qed

lemma written_or_error:
  "(case x of Inl e \<Rightarrow> Inl e | Inr response \<Rightarrow> Inr (user_written response)) = (Inr True :: go_error + bool) \<Longrightarrow>
     \<exists>response. x = Inr response \<and> user_written response"
  by (cases x) auto

lemma written_or_retry:
  "(case x of Inl e \<Rightarrow> Inr False | Inr response \<Rightarrow> Inr (user_written response)) = (Inr True :: go_error + bool) \<Longrightarrow>
     \<exists>response. x = Inr response \<and> user_written response"
  by (cases x) auto

definition user_rq :: "string \<Rightarrow> string \<Rightarrow> json \<Rightarrow> nat \<Rightarrow> http_request" where
  "user_rq meth username j k =
     api_http meth (users_path @ ''/'' @ username) (Some (attempt_body j k)) json_options"

lemma createUser_ok:
  assumes "url_ok (users_path @ ''/'' @ username)"
    and "run_state (createUser E username password pfx roleType) w = (Inr (), w')"
  shows "\<exists>m > 0. trace w' = trace w @ map (\<lambda>k. OpenSearch (Perform
      (user_rq ''PUT'' username (enc_content (new_user_content password pfx roleType)) k))) [0 ..< m] \<and>
    (\<exists>s response. perform E (Perform (user_rq ''PUT'' username
       (enc_content (new_user_content password pfx roleType)) (m - 1))) s = (Inr response, srv w') \<and>
       user_written response)"
proof -
  obtain n s where n: "poll_retries E (srv w) = (n, s)" by (cases "poll_retries E (srv w)")
  let ?f = "\<lambda>x. (case x of Inl e \<Rightarrow> Inl e | Inr response \<Rightarrow> Inr (user_written response)) :: go_error + bool"
  show ?thesis
    using write_poll_ok [where f = ?f and E = E and n = n and w = "w\<lparr>srv := s\<rparr>" and w' = w' and
        rq = "user_rq ''PUT'' username (enc_content (new_user_content password pfx roleType))" and
        c = "\<lambda>k. do { x \<leftarrow> CreateUserRequest_Do E username
          (attempt_body (enc_content (new_user_content password pfx roleType)) k) json_options; return (?f x) }",
        OF _ written_or_error] assms n
    by (simp add: createUser_def Let_def run_simps CreateUserRequest_Do_def api_http_def user_rq_def)
qed

lemma PatchUser_ok:
  assumes "url_ok (users_path @ ''/'' @ username)" and "password \<noteq> [] \<or> pfx \<noteq> []"
    and "run_state (PatchUser E username password pfx roleType) w = (Inr (), w')"
  shows "\<exists>m > 0. trace w' = trace w @ map (\<lambda>k. OpenSearch (Perform
      (user_rq ''PATCH'' username (JArr (map enc_change (user_changes password pfx roleType))) k))) [0 ..< m] \<and>
    (\<exists>s response. perform E (Perform (user_rq ''PATCH'' username
       (JArr (map enc_change (user_changes password pfx roleType))) (m - 1))) s = (Inr response, srv w') \<and>
       user_written response)"
proof -
  obtain n s where n: "poll_retries E (srv w) = (n, s)" by (cases "poll_retries E (srv w)")
  let ?f = "\<lambda>x. (case x of Inl e \<Rightarrow> Inr False | Inr response \<Rightarrow> Inr (user_written response)) :: go_error + bool"
  show ?thesis
    using write_poll_ok [where f = ?f and E = E and n = n and w = "w\<lparr>srv := s\<rparr>" and w' = w' and
        rq = "user_rq ''PATCH'' username (JArr (map enc_change (user_changes password pfx roleType)))" and
        c = "\<lambda>k. do { x \<leftarrow> PatchUserRequest_Do E username
          (attempt_body (JArr (map enc_change (user_changes password pfx roleType))) k) json_options; return (?f x) }",
        OF _ written_or_retry] assms n
    by (simp add: PatchUser_def Let_def run_simps PatchUserRequest_Do_def api_http_def user_rq_def
        split: if_splits)
qed

text \<open>What is written for a user: its whole content, or the changes to an existing one.\<close>

definition user_write :: "user option \<Rightarrow> string \<Rightarrow> string \<Rightarrow> string \<Rightarrow> string \<times> json" where
  "user_write found password dbName roleType =
     (case found of
        None \<Rightarrow> (''PUT'', enc_content (new_user_content password dbName roleType))
      | Some _ \<Rightarrow> (''PATCH'', JArr (map enc_change (user_changes password dbName roleType))))"

lemma createOrUpdateUser_split:
  assumes "run_state (createOrUpdateUser E username pw dbName roleType) w = (Inr (u, p, res), w')"
  obtains w0 found w1 where "trace w0 = trace w" and "run_state (GetUser E u) w0 = (Inr found, w1)"
    and "res = [resource UserKind u]" and "username \<noteq> [] \<Longrightarrow> u = username" and "pw \<noteq> [] \<Longrightarrow> p = pw"
    and "run_state (case found of None \<Rightarrow> createUser E u p dbName roleType
           | Some _ \<Rightarrow> PatchUser E u p dbName roleType) w1 = (Inr (), w')"
proof -
  obtain u0 w00 where u0: "run_state (if username = [] then do { u \<leftarrow> GenerateUUID E; return (''dbaas_'' @ u) }
      else return username) w = (u0, w00)" by fastforce
  have tu: "trace w00 = trace w" and un: "username \<noteq> [] \<Longrightarrow> u0 = username"
    using u0 by (auto simp: GenerateUUID_def GetUUID_def run_simps split: if_splits prod.splits)
  obtain p0 w0 where p0: "run_state (if pw = [] then silent (gen_password E) else return (Inr pw)) w00 = (p0, w0)"
    by fastforce
  have tp: "trace w0 = trace w00" and pn: "pw \<noteq> [] \<Longrightarrow> p0 = Inr pw"
    using p0 by (auto simp: run_simps split: if_splits prod.splits)
  show thesis
    using assms u0 p0 tu un tp pn
    by (auto simp: createOrUpdateUser_def run_simps split: prod.splits sum.splits option.splits
        intro!: that [of w0])
qed

section \<open>Properties\<close>



text \<open>
  A user of a role type is mapped by its backend role to the role of that type and to no other,
  except that users for index state management also get the admin role.
\<close>

theorem backend_role_mapping:
  "set (GetBackendRoles t) \<inter> set (GetBackendRolesForMapping t') \<noteq> {} \<longleftrightarrow>
     t = t' \<or> (t = IsmRoleType \<and> t' = AdminRoleType)"
  by (auto simp: GetBackendRoles_def GetBackendRolesForMapping_def backend_role_def
      AdminRoleType_def IsmRoleType_def)

text \<open>
  Updating a role mapping keeps the users and the flag of the mapping found in the cluster and
  replaces its backend roles; it sends one read and one write of that role's mapping.
\<close>

theorem CreateOrUpdateRoleMapping_updates:
  assumes "url_ok (rolesmapping_path @ ''/'' @ role_name roleType)"
    and "run_state (GetRoleMapping E (role_name roleType)) w = (Inr found, w1)"
  shows "trace (snd (run_state (CreateOrUpdateRoleMapping E roleType) w)) = trace w @
    [OpenSearch (Perform (api_http ''GET'' (rolesmapping_path @ ''/'' @ role_name roleType) None no_options)),
     OpenSearch (Perform (api_http ''PUT'' (rolesmapping_path @ ''/'' @ role_name roleType)
       (Some (Doc (enc_role_mapping
         \<lparr>rm_Users = (case found of None \<Rightarrow> [] | Some m \<Rightarrow> rm_Users m),
          Reserved = (case found of None \<Rightarrow> False | Some m \<Rightarrow> Reserved m),
          BackendRoles = GetBackendRolesForMapping roleType\<rparr>))) json_options))]"
proof -
  have "trace w1 = trace w @
      [OpenSearch (Perform (api_http ''GET'' (rolesmapping_path @ ''/'' @ role_name roleType) None no_options))]"
    using assms by (auto simp: GetRoleMapping_def GetRoleMappingRequest_Do_def run_simps api_http_def
        split: prod.splits)
  then show ?thesis
    using assms
    by (auto simp: enc_role_mapping_def CreateOrUpdateRoleMapping_def createRoleMapping_def CreateRolesMappingRequest_Do_def
        run_simps api_http_def zero_role_mapping_def Let_def split: prod.splits option.splits)
qed

theorem CreateOrUpdateRoleMapping_updates_witness:
  "length (trace (snd (run_state (CreateOrUpdateRoleMapping script_env DmlRoleType) (answers [status_only 404])))) = 2"
proof -
  have run: "run_state (GetRoleMapping script_env (role_name DmlRoleType)) (answers [status_only 404]) =
      (Inr None, \<lparr>srv = ([], 0), trace = [OpenSearch (Perform (api_http ''GET''
        (rolesmapping_path @ ''/'' @ role_name DmlRoleType) None no_options))]\<rparr>)"
    by code_simp
  have ok: "url_ok (rolesmapping_path @ ''/'' @ role_name DmlRoleType)" by code_simp
  show ?thesis using CreateOrUpdateRoleMapping_updates [OF ok run] by (simp add: answers_def)
qed

text \<open>
  C31. When creating or updating a user succeeds, the requested name and password were kept, the
  user is the one resource reported, the cluster was first asked for the user, then written with
  the full content if it had no such user and with changes otherwise, and the last write was
  accepted. Every repeated attempt has an empty body.
\<close>

theorem createOrUpdateUser_ok:
  assumes run: "run_state (createOrUpdateUser E username pw dbName roleType) w = (Inr (u, p, res), w')"
    and "dbName \<noteq> []"
  shows "res = [resource UserKind u] \<and> (username \<noteq> [] \<longrightarrow> u = username) \<and> (pw \<noteq> [] \<longrightarrow> p = pw) \<and>
    (\<exists>w0 found w1 meth j m. trace w0 = trace w \<and> run_state (GetUser E u) w0 = (Inr found, w1) \<and>
       user_write found p dbName roleType = (meth, j) \<and> 0 < m \<and>
       trace w' = trace w @ [user_event ''GET'' u None no_options] @
         map (\<lambda>k. user_event meth u (Some (if k = 0 then Doc j else Text [])) json_options) [0 ..< m] \<and>
       (\<exists>s response. perform E (Perform (user_rq meth u j (m - 1))) s = (Inr response, srv w') \<and>
          StatusCode response \<in> {200, 201}))"
proof (rule createOrUpdateUser_split [OF run])
  fix w0 found w1
  assume tr: "trace w0 = trace w" and get: "run_state (GetUser E u) w0 = (Inr found, w1)"
    and res: "res = [resource UserKind u]" "username \<noteq> [] \<Longrightarrow> u = username" "pw \<noteq> [] \<Longrightarrow> p = pw"
    and wr: "run_state (case found of None \<Rightarrow> createUser E u p dbName roleType
      | Some _ \<Rightarrow> PatchUser E u p dbName roleType) w1 = (Inr (), w')"
  obtain meth j where mj: "user_write found p dbName roleType = (meth, j)" by fastforce
  have ok: "url_ok (users_path @ ''/'' @ u)" using get by (rule GetUser_url_ok)
  have t1: "trace w1 = trace w @ [user_event ''GET'' u None no_options]"
    using trace_GetUser [OF ok, of E w0] get tr by simp
  have "\<exists>m > 0. trace w' = trace w1 @ map (\<lambda>k. OpenSearch (Perform (user_rq meth u j k))) [0 ..< m] \<and>
      (\<exists>s response. perform E (Perform (user_rq meth u j (m - 1))) s = (Inr response, srv w') \<and>
         user_written response)"
  proof (cases found)
    case None
    then show ?thesis using createUser_ok [OF ok, of E p dbName roleType w1 w'] wr mj by (simp add: user_write_def)
  next
    case (Some a)
    then show ?thesis using PatchUser_ok [OF ok, of p dbName E roleType w1 w'] wr mj \<open>dbName \<noteq> []\<close>
      by (simp add: user_write_def)
  qed
  then obtain m s response where m: "0 < m"
    "trace w' = trace w1 @ map (\<lambda>k. OpenSearch (Perform (user_rq meth u j k))) [0 ..< m]"
    "perform E (Perform (user_rq meth u j (m - 1))) s = (Inr response, srv w')" "user_written response"
    by blast
  moreover have "StatusCode response \<in> {200, 201}"
    using m(4) by (auto simp: user_written_def split: sum.splits)
  moreover have "trace w' = trace w @ [user_event ''GET'' u None no_options] @
      map (\<lambda>k. user_event meth u (Some (if k = 0 then Doc j else Text [])) json_options) [0 ..< m]"
    using m(2) t1 by (simp add: user_rq_def user_event_def attempt_body_def)
  ultimately show ?thesis
    using res tr get mj by blast
qed

definition created_dml :: "(go_error + string \<times> string \<times> db_resource list) \<times> (script, event) world" where
  "created_dml = run_state (createOrUpdateUser script_env ''ns_1'' [] ''ns*'' ''dml'')
     (answers [status_only 404, status_only 503, status_only 201])"

theorem createOrUpdateUser_ok_witness:
  "fst created_dml = Inr (''ns_1'', ''secret'', [resource UserKind ''ns_1'']) \<and>
   length (trace (snd created_dml)) = 3 \<and>
   (\<exists>meth j m. trace (snd created_dml) = [user_event ''GET'' ''ns_1'' None no_options] @
      map (\<lambda>k. user_event meth ''ns_1'' (Some (if k = 0 then Doc j else Text [])) json_options) [0 ..< m])"
proof -
  have r: "fst created_dml = Inr (''ns_1'', ''secret'', [resource UserKind ''ns_1''])" by code_simp
  have t: "length (trace (snd created_dml)) = 3" by code_simp
  have "run_state (createOrUpdateUser script_env ''ns_1'' [] ''ns*'' ''dml'')
      (answers [status_only 404, status_only 503, status_only 201]) =
      (Inr (''ns_1'', ''secret'', [resource UserKind ''ns_1'']), snd created_dml)"
    using r by (simp add: created_dml_def prod_eq_iff)
  from createOrUpdateUser_ok [OF this] obtain meth j m where
    "trace (snd created_dml) = trace (answers [status_only 404, status_only 503, status_only 201]) @
      [user_event ''GET'' ''ns_1'' None no_options] @
      map (\<lambda>k. user_event meth ''ns_1'' (Some (if k = 0 then Doc j else Text [])) json_options) [0 ..< m]"
    by blast
  then show ?thesis using r t by (auto simp: answers_def)
qed

end
