(* ===== verification/Recovery.thy ===== *)
theory Recovery
  imports Security
begin

text \<open>
  Restoring users after a disaster (\<^verbatim>\<open>users_recovery.go\<close>): the batches of the goroutine
  \<^verbatim>\<open>recovery\<close>, its retries, and the recovery state the two handlers and the goroutine share.
\<close>

definition RecoveryIdleState :: string where "RecoveryIdleState = ''idle''"
definition RecoveryRunningState :: string where "RecoveryRunningState = ''running''"
definition RecoveryFailedState :: string where "RecoveryFailedState = ''failed''"
definition RecoveryDoneState :: string where "RecoveryDoneState = ''done''"
definition batchSize :: nat where "batchSize = 100"

lemmas recovery_state_defs =
  RecoveryIdleState_def RecoveryRunningState_def RecoveryFailedState_def RecoveryDoneState_def

definition dec_users_to_recover :: "connection_properties list decoder" where
  "dec_users_to_recover = dec_struct
     [field ''connectionProperties'' (dec_list zero_connection dec_connection) id (\<lambda>f. f)]"

definition NewBaseProvider :: "string \<Rightarrow> int \<Rightarrow> string \<Rightarrow> base_provider" where
  "NewBaseProvider host port protocol =
     \<lparr>os_Host = host, os_Port = port, os_Protocol = protocol, ApiVersion = [],
      recoveryState = RecoveryIdleState\<rparr>"

definition getUserContent :: "connection_properties \<Rightarrow> content" where
  "getUserContent properties =
     (let roleType = (if cp_Role properties \<noteq> [] then cp_Role properties else AdminRoleType);
          pfx = (if cp_ResourcePrefix properties = [] then cp_DbName properties
                 else cp_ResourcePrefix properties)
      in \<lparr>ct_Attributes = [(resourcePrefixAttributeName, pfx)],
          ct_BackendRoles = GetBackendRoles roleType, ct_Password = cp_Password properties\<rparr>)"

definition recovery_change :: "connection_properties \<Rightarrow> change" where
  "recovery_change properties =
     \<lparr>Operation = ''add'', Path = ''/'' @ cp_Username properties,
      Value = enc_content (getUserContent properties)\<rparr>"

text \<open>The attempts at one batch: \<open>n\<close> are left, \<open>err\<close> is the error of the last one.\<close>

fun patch_attempts :: "'s env \<Rightarrow> change list \<Rightarrow> nat \<Rightarrow> go_error option \<Rightarrow> ('s, go_error option) adapter" where
  "patch_attempts E batch 0 err = return err"
| "patch_attempts E batch (Suc n) err = do {
     r \<leftarrow> patchUsers E batch;
     (case r of Inr _ \<Rightarrow> return None | Inl e \<Rightarrow> patch_attempts E batch n (Some e)) }"

definition batch_at :: "change list \<Rightarrow> nat \<Rightarrow> change list" where
  "batch_at changes position =
     (if position + batchSize < length changes then take batchSize (drop position changes)
      else drop position changes)"

function recover_from :: "'s env \<Rightarrow> change list \<Rightarrow> nat \<Rightarrow> ('s, string) adapter" where
  "recover_from E changes position =
     (if position < length changes then do {
        err \<leftarrow> patch_attempts E (batch_at changes position) 3 None;
        (case err of
           Some _ \<Rightarrow> return RecoveryFailedState
         | None \<Rightarrow> recover_from E changes (position + batchSize)) }
      else return RecoveryDoneState)"
  by pat_completeness auto
termination
  by (relation "measure (\<lambda>(E, changes, position). length changes - position)")
    (auto simp: batchSize_def)

declare recover_from.simps [simp del]

text \<open>The goroutine: its result is the state it assigns before it returns.\<close>

definition recovery :: "'s env \<Rightarrow> connection_properties list \<Rightarrow> ('s, string) adapter" where
  "recovery E connectionProperties = recover_from E (map recovery_change connectionProperties) 0"

text \<open>The handler: the reply, the provider after it and the goroutine it starts.\<close>

definition RecoverUsersHandler ::
  "'s env \<Rightarrow> base_provider \<Rightarrow> incoming \<Rightarrow>
     ('s, reply \<times> base_provider \<times> connection_properties list option) adapter" where
  "RecoverUsersHandler E bp r = do {
     _ \<leftarrow> PrepareContext E r;
     return (case unmarshal dec_users_to_recover (in_body r) [] of
       Inl e \<Rightarrow> (error_reply e, bp, None)
     | Inr users \<Rightarrow>
         (if recoveryState bp \<noteq> RecoveryRunningState
          then ((200, Text []), bp\<lparr>recoveryState := RecoveryRunningState\<rparr>, Some users)
          else ((200, Text []), bp, None))) }"

definition GetRecoveryStateHandler :: "base_provider \<Rightarrow> reply" where
  "GetRecoveryStateHandler bp = ProcessResponseBody 0 (Text (recoveryState bp)) 200"

section \<open>Handlers and goroutines together\<close>

text \<open>
  Handlers run concurrently and the state is not guarded by a lock. A handler first compares
  the state (line 52) and then assigns it and starts the goroutine (lines 53 and 54); a
  goroutine ends by assigning one of its two final states. \<open>passed\<close> are the requests between
  the comparison and the assignment, \<open>jobs\<close> the running goroutines.
\<close>

record recovery_sys =
  rstate :: string
  passed :: "connection_properties list list"
  jobs :: "connection_properties list list"

definition recovery_init :: recovery_sys where
  "recovery_init = \<lparr>rstate = RecoveryIdleState, passed = [], jobs = []\<rparr>"

inductive rstep :: "recovery_sys \<Rightarrow> recovery_sys \<Rightarrow> bool" where
  check: "rstate s \<noteq> RecoveryRunningState \<Longrightarrow> rstep s (s\<lparr>passed := users # passed s\<rparr>)"
| start: "passed s = ps @ users # qs \<Longrightarrow>
     rstep s (s\<lparr>rstate := RecoveryRunningState, passed := ps @ qs, jobs := users # jobs s\<rparr>)"
| finish: "jobs s = ps @ users # qs \<Longrightarrow> st \<in> {RecoveryDoneState, RecoveryFailedState} \<Longrightarrow>
     rstep s (s\<lparr>rstate := st, jobs := ps @ qs\<rparr>)"

text \<open>The runs in which no step comes between the comparison and the assignment of a handler.\<close>

inductive rstep_serial :: "recovery_sys \<Rightarrow> recovery_sys \<Rightarrow> bool" where
  handle: "rstate s \<noteq> RecoveryRunningState \<Longrightarrow>
     rstep_serial s (s\<lparr>rstate := RecoveryRunningState, jobs := users # jobs s\<rparr>)"
| finish: "jobs s = ps @ users # qs \<Longrightarrow> st \<in> {RecoveryDoneState, RecoveryFailedState} \<Longrightarrow>
     rstep_serial s (s\<lparr>rstate := st, jobs := ps @ qs\<rparr>)"

section \<open>Facts\<close>

text \<open>Cutting a list into batches, the reference for the loop of \<^verbatim>\<open>recovery\<close>.\<close>

function chunks :: "nat \<Rightarrow> 'a list \<Rightarrow> 'a list list" where
  "chunks n xs = (if xs = [] \<or> n = 0 then [] else take n xs # chunks n (drop n xs))"
  by pat_completeness auto
termination
  by (relation "measure (\<lambda>(n, xs). length xs)") auto

declare chunks.simps [simp del]

lemma concat_chunks: "0 < n \<Longrightarrow> concat (chunks n xs) = xs"
  by (induction n xs rule: chunks.induct) (subst chunks.simps, auto)

lemma chunks_length: "c \<in> set (chunks n xs) \<Longrightarrow> c \<noteq> [] \<and> length c \<le> n"
proof (induction n xs rule: chunks.induct)
  case (1 n xs)
  from 1(2) show ?case
    by (subst (asm) chunks.simps) (use 1(1) in \<open>auto split: if_splits\<close>)
qed

lemma batch_at_eq: "batch_at changes position = take batchSize (drop position changes)"
  by (simp add: batch_at_def)

definition patch_users_event :: "change list \<Rightarrow> event" where
  "patch_users_event batch = OpenSearch (Perform (api_http ''PATCH'' users_path
     (Some (Doc (JArr (map enc_change batch)))) json_options))"

lemma trace_patchUsers:
  "changes \<noteq> [] \<Longrightarrow> trace (snd (run_state (patchUsers E changes) w)) = trace w @ [patch_users_event changes]"
  by (simp add: patchUsers_def PatchUsersRequest_Do_def run_simps api_http_def users_path_ok
      patch_users_event_def split: prod.splits sum.splits)

lemma trace_patch_attempts:
  assumes "batch \<noteq> []"
  shows "run_state (patch_attempts E batch n err) w = (r, w') \<Longrightarrow>
     \<exists>k \<le> n. trace w' = trace w @ replicate k (patch_users_event batch) \<and> (0 < n \<longrightarrow> 0 < k)"
proof (induction n arbitrary: err w)
  case 0
  then show ?case by simp
next
  case (Suc n)
  obtain a w1 where p: "run_state (patchUsers E batch) w = (a, w1)"
    by (cases "run_state (patchUsers E batch) w")
  have t: "trace w1 = trace w @ [patch_users_event batch]"
    using trace_patchUsers [OF assms, of E w] p by simp
  show ?case
  proof (cases a)
    case (Inl e)
    then have "run_state (patch_attempts E batch n (Some e)) w1 = (r, w')"
      using Suc.prems p by simp
    from Suc.IH [OF this] obtain k where k: "k \<le> n"
      "trace w' = trace w1 @ replicate k (patch_users_event batch)" by auto
    then show ?thesis using t by (intro exI [of _ "Suc k"]) simp
  next
    case (Inr u)
    then show ?thesis using Suc.prems p t by (intro exI [of _ 1]) simp
  qed
qed

text \<open>The trace of a recovery: every batch sent one to three times, in order.\<close>

definition batches_sent :: "nat list \<Rightarrow> change list list \<Rightarrow> event list" where
  "batches_sent ks bs = concat (map2 (\<lambda>k b. replicate k (patch_users_event b)) ks bs)"

lemma trace_recover_from:
  "run_state (recover_from E changes position) w = (r, w') \<Longrightarrow>
     \<exists>ks. set ks \<subseteq> {1..3} \<and> length ks \<le> length (chunks batchSize (drop position changes)) \<and>
       trace w' = trace w @ batches_sent ks (chunks batchSize (drop position changes)) \<and>
       (r = RecoveryDoneState \<longrightarrow> length ks = length (chunks batchSize (drop position changes))) \<and>
       (r = RecoveryDoneState \<or> r = RecoveryFailedState)"
proof (induction E changes position arbitrary: w rule: recover_from.induct)
  case (1 E changes position)
  show ?case
  proof (cases "position < length changes")
    case False
    then have "chunks batchSize (drop position changes) = []" by (simp add: chunks.simps)
    moreover have "r = RecoveryDoneState" "w' = w"
      using "1.prems" False by (auto simp: recover_from.simps)
    ultimately show ?thesis by (simp add: batches_sent_def)
  next
    case True
    let ?b = "batch_at changes position"
    have ne: "?b \<noteq> []" using True by (simp add: batch_at_eq batchSize_def)
    have ch: "chunks batchSize (drop position changes) =
        ?b # chunks batchSize (drop (position + batchSize) changes)"
      using True by (subst chunks.simps) (simp add: batch_at_eq batchSize_def add.commute)
    obtain err w1 where p: "run_state (patch_attempts E ?b 3 None) w = (err, w1)"
      by (cases "run_state (patch_attempts E ?b 3 None) w")
    obtain k where k: "k \<in> {1..3}" "trace w1 = trace w @ replicate k (patch_users_event ?b)"
      using trace_patch_attempts [OF ne p] by fastforce
    show ?thesis
    proof (cases err)
      case (Some e)
      then have "r = RecoveryFailedState" "w' = w1"
        using "1.prems" True p by (auto simp: recover_from.simps)
      then show ?thesis using k ch
        by (intro exI [of _ "[k]"]) (simp add: batches_sent_def recovery_state_defs)
    next
      case None
      then have "run_state (recover_from E changes (position + batchSize)) w1 = (r, w')"
        using "1.prems" True p by (subst (asm) recover_from.simps) simp
      from "1.IH" [OF True this] obtain ks where
        "set ks \<subseteq> {1..3}" "length ks \<le> length (chunks batchSize (drop (position + batchSize) changes))"
        "trace w' = trace w1 @ batches_sent ks (chunks batchSize (drop (position + batchSize) changes))"
        "r = RecoveryDoneState \<longrightarrow> length ks = length (chunks batchSize (drop (position + batchSize) changes))"
        "r = RecoveryDoneState \<or> r = RecoveryFailedState" by blast
      then show ?thesis using k ch
        by (intro exI [of _ "k # ks"]) (auto simp: batches_sent_def)
    qed
  qed
qed

lemma patch_attempts_ok:
  assumes "\<And>c s. \<exists>response s'. perform E c s = (Inr response, s') \<and> StatusCode response = 200"
    and "0 < n"
  shows "fst (run_state (patch_attempts E batch n err) w) = None"
proof -
  obtain response s' where "perform E (Perform (api_http ''PATCH'' users_path
      (Some (Doc (JArr (map enc_change batch)))) json_options)) (srv w) = (Inr response, s')"
    and "StatusCode response = 200"
    using assms(1) by blast
  then show ?thesis
    using \<open>0 < n\<close> by (cases n) (simp_all add: patchUsers_def PatchUsersRequest_Do_def run_simps users_path_ok api_http_def)
qed

lemma recover_from_ok:
  assumes "\<And>c s. \<exists>response s'. perform E c s = (Inr response, s') \<and> StatusCode response = 200"
  shows "fst (run_state (recover_from E changes position) w) = RecoveryDoneState"
  using assms
proof (induction E changes position arbitrary: w rule: recover_from.induct)
  case (1 E changes position)
  obtain err w1 where p: "run_state (patch_attempts E (batch_at changes position) 3 None) w = (err, w1)"
    by (cases "run_state (patch_attempts E (batch_at changes position) 3 None) w")
  have "err = None" using patch_attempts_ok [OF "1.prems", of 3 "batch_at changes position" None w] p by simp
  then show ?case using 1 p by (subst recover_from.simps) simp
qed

lemma recovery_states_distinct [simp]:
  "RecoveryIdleState \<noteq> RecoveryRunningState" "RecoveryDoneState \<noteq> RecoveryRunningState"
  "RecoveryFailedState \<noteq> RecoveryRunningState" "RecoveryFailedState \<noteq> RecoveryDoneState"
  "RecoveryRunningState \<noteq> RecoveryIdleState" "RecoveryRunningState \<noteq> RecoveryDoneState"
  "RecoveryRunningState \<noteq> RecoveryFailedState" "RecoveryDoneState \<noteq> RecoveryFailedState"
  by (simp_all add: recovery_state_defs)

lemma recovery_state_values:
  "rstep\<^sup>*\<^sup>* recovery_init s \<Longrightarrow>
     rstate s \<in> {RecoveryIdleState, RecoveryRunningState, RecoveryFailedState, RecoveryDoneState} \<and>
     (rstate s = RecoveryRunningState \<longrightarrow> jobs s \<noteq> [])"
proof (induction rule: rtranclp_induct)
  case base
  then show ?case by (simp add: recovery_init_def)
next
  case (step s t)
  from step(2) step(3) show ?case by cases auto
qed

lemma recovery_serial_invariant:
  "rstep_serial\<^sup>*\<^sup>* recovery_init s \<Longrightarrow>
     jobs s = [] \<and> rstate s \<noteq> RecoveryRunningState \<or>
     length (jobs s) = 1 \<and> rstate s = RecoveryRunningState"
proof (induction rule: rtranclp_induct)
  case base
  then show ?case by (simp add: recovery_init_def)
next
  case (step s t)
  from step(2) step(3) show ?case by cases auto
qed

lemma recovery_race_run: "rstep\<^sup>*\<^sup>* recovery_init
    \<lparr>rstate = RecoveryRunningState, passed = [], jobs = [users', users]\<rparr>"
proof -
  let ?s1 = "\<lparr>rstate = RecoveryIdleState, passed = [users], jobs = []\<rparr>"
  let ?s2 = "\<lparr>rstate = RecoveryIdleState, passed = [users', users], jobs = []\<rparr>"
  let ?s3 = "\<lparr>rstate = RecoveryRunningState, passed = [users'], jobs = [users]\<rparr>"
  have "rstep recovery_init ?s1"
    using rstep.check [of recovery_init users] by (simp add: recovery_init_def recovery_state_defs)
  moreover have "rstep ?s1 ?s2"
    using rstep.check [of ?s1 users'] by (simp add: recovery_state_defs)
  moreover have "rstep ?s2 ?s3"
    using rstep.start [of ?s2 "[users']" users "[]"] by simp
  moreover have "rstep ?s3 \<lparr>rstate = RecoveryRunningState, passed = [], jobs = [users', users]\<rparr>"
    using rstep.start [of ?s3 "[]" users' "[]"] by simp
  ultimately show ?thesis by (meson converse_rtranclp_into_rtranclp rtranclp.rtrancl_refl)
qed

lemma TrimRight_star: "CHR ''*'' \<notin> set s \<Longrightarrow> TrimRight (s @ ''*'') (CHR ''*'') = s"
  by (cases s rule: rev_cases) (auto simp: TrimRight_def)

section \<open>Properties\<close>

text \<open>
  C28. The goroutine sends the users in batches that together are all users in order, each of at
  most 100 entries; every batch is sent at most three times before the next one, the batches
  after a failed one are not sent, and the final state is done only when every batch was sent.
\<close>

theorem recovery_batches:
  assumes "run_state (recovery E cps) w = (st, w')"
  shows "concat (chunks batchSize (map recovery_change cps)) = map recovery_change cps \<and>
    (\<forall>b \<in> set (chunks batchSize (map recovery_change cps)). b \<noteq> [] \<and> length b \<le> 100) \<and>
    st \<in> {RecoveryDoneState, RecoveryFailedState} \<and>
    (\<exists>ks. set ks \<subseteq> {1..3} \<and> length ks \<le> length (chunks batchSize (map recovery_change cps)) \<and>
       trace w' = trace w @ batches_sent ks (chunks batchSize (map recovery_change cps)) \<and>
       (st = RecoveryDoneState \<longrightarrow> length ks = length (chunks batchSize (map recovery_change cps))))"
  using trace_recover_from [of E "map recovery_change cps" 0 w st w'] assms
  by (auto simp: recovery_def concat_chunks batchSize_def dest: chunks_length)

definition recovered_admin :: connection_properties where
  "recovered_admin = zero_connection\<lparr>cp_Username := ''u'', cp_ResourcePrefix := ''p''\<rparr>"

theorem recovery_batches_witness:
  "run_state (recovery script_env [recovered_admin]) (answers [status_only 500, status_only 200]) =
     (RecoveryDoneState, \<lparr>srv = ([], 0), trace = replicate 2 (patch_users_event [recovery_change recovered_admin])\<rparr>) \<and>
   concat (chunks batchSize (map recovery_change [recovered_admin])) = map recovery_change [recovered_admin]"
proof
  show run: "run_state (recovery script_env [recovered_admin]) (answers [status_only 500, status_only 200]) =
     (RecoveryDoneState, \<lparr>srv = ([], 0), trace = replicate 2 (patch_users_event [recovery_change recovered_admin])\<rparr>)"
    by code_simp
  show "concat (chunks batchSize (map recovery_change [recovered_admin])) = map recovery_change [recovered_admin]"
    using recovery_batches [OF run] by blast
qed

text \<open>
  When the cluster accepts every batch, the recovery ends in the state done, for any number of
  users.
\<close>

theorem recovery_succeeds:
  assumes "\<And>c s. \<exists>response s'. perform E c s = (Inr response, s') \<and> StatusCode response = 200"
  shows "fst (run_state (recovery E cps) w) = RecoveryDoneState"
  unfolding recovery_def using assms by (rule recover_from_ok)

definition always_ok_env :: "script env" where
  "always_ok_env = script_env\<lparr>perform := (\<lambda>_ s. (status_only 200, s))\<rparr>"

theorem recovery_succeeds_witness:
  "fst (run_state (recovery always_ok_env (replicate 250 recovered_admin)) (answers [])) = RecoveryDoneState"
  by (rule recovery_succeeds) (simp add: always_ok_env_def script_env_def status_only_def)



text \<open>
  As long as no step comes between a handler's comparison and its assignment, at most one
  recovery runs, and the state is running exactly while one does.
\<close>

theorem one_recovery_when_serial:
  assumes "rstep_serial\<^sup>*\<^sup>* recovery_init s"
  shows "length (jobs s) \<le> 1 \<and> (rstate s = RecoveryRunningState \<longleftrightarrow> jobs s \<noteq> [])"
  using recovery_serial_invariant [OF assms] by auto

theorem one_recovery_when_serial_witness:
  "length (jobs (recovery_init\<lparr>rstate := RecoveryRunningState, jobs := [[]]\<rparr>)) \<le> 1"
proof -
  have "rstep_serial recovery_init (recovery_init\<lparr>rstate := RecoveryRunningState, jobs := [[]]\<rparr>)"
    using rstep_serial.handle [of recovery_init "[]"] by (simp add: recovery_init_def recovery_state_defs)
  then show ?thesis using one_recovery_when_serial by blast
qed



end
