(* ===== verification/Databases.thy ===== *)
theory Databases
  imports Recovery
begin

text \<open>
  The package \<^verbatim>\<open>basic\<close>, databases (\<^verbatim>\<open>basic.go\<close>): creating a database with its users and metadata,
  listing, metadata updates, and the deletion of resources by kind and by prefix. JSON objects
  that the sources build from Go maps keep the order of the model's map; \<^verbatim>\<open>json.Marshal\<close> sorts
  their keys, which the receiver of an object does not see.
\<close>

section \<open>Requests and replies\<close>

definition DbaasMetadata :: string where "DbaasMetadata = ''dbaas_opensearch_metadata''"
definition DeletedStatus :: string where "DeletedStatus = ''DELETED''"
definition DeletionFailedStatus :: string where "DeletionFailedStatus = ''DELETE_FAILED''"

record settings =
  ResourcePrefix :: bool
  CreateOnly :: "string list"
  IndexSettings :: json

record db_create_request =
  Metadata :: "json go_map option"
  NamePrefix :: string
  Password :: string
  Username :: string
  DbName :: string
  Settings :: settings

definition zero_settings :: settings where
  "zero_settings = \<lparr>ResourcePrefix = False, CreateOnly = [], IndexSettings = JNull\<rparr>"

definition dec_settings :: "settings decoder" where
  "dec_settings = dec_struct
     [field ''resourcePrefix'' dec_bool ResourcePrefix ResourcePrefix_update,
      field ''createOnly'' (dec_list [] dec_string) CreateOnly CreateOnly_update,
      field ''indexSettings'' dec_any IndexSettings IndexSettings_update]"

definition zero_create_request :: db_create_request where
  "zero_create_request = \<lparr>Metadata = None, NamePrefix = [], Password = [], Username = [], DbName = [],
     Settings = zero_settings\<rparr>"

definition dec_create_request :: "db_create_request decoder" where
  "dec_create_request = dec_struct
     [field ''metadata'' (dec_nil_map JNull dec_any) Metadata Metadata_update,
      field ''namePrefix'' dec_string NamePrefix NamePrefix_update,
      field ''password'' dec_string Password Password_update,
      field ''username'' dec_string Username Username_update,
      field ''dbName'' dec_string DbName DbName_update,
      field ''settings'' dec_settings Settings Settings_update]"

record db_create_response =
  resp_Name :: string
  resp_ConnectionProperties :: connection_properties
  resp_Resources :: "db_resource list"

record db_create_response_multi_user =
  multi_Name :: string
  multi_ConnectionProperties :: "connection_properties list"
  multi_Resources :: "db_resource list"

text \<open>The \<^verbatim>\<open>interface{}\<close> that \<^verbatim>\<open>createDatabase\<close> returns.\<close>

datatype create_result =
    NoResult
  | SingleUser db_create_response
  | MultiUser db_create_response_multi_user

fun enc_create_result :: "create_result \<Rightarrow> json" where
  "enc_create_result NoResult = JNull"
| "enc_create_result (SingleUser r) = JObj [(''name'', JStr (resp_Name r)),
     (''connectionProperties'', enc_connection (resp_ConnectionProperties r)),
     (''resources'', enc_slice enc_resource (resp_Resources r))]"
| "enc_create_result (MultiUser r) = JObj [(''name'', JStr (multi_Name r)),
     (''connectionProperties'', enc_slice enc_connection (multi_ConnectionProperties r)),
     (''resources'', enc_slice enc_resource (multi_Resources r))]"

section \<open>The metadata index\<close>

definition EnsureAggregationIndex :: "'s env \<Rightarrow> ('s, go_error + unit) adapter" where
  "EnsureAggregationIndex E = do {
     _ \<leftarrow> GenerateUUID E;
     exist \<leftarrow> opensearch E (IndicesExistsRequest [DbaasMetadata]);
     (case exist of
        Inl e \<Rightarrow> return (Inl (Wrapped (''failed to check if '' @ squote DbaasMetadata @ '' index exists '') e))
      | Inr response \<Rightarrow>
          if StatusCode response = 200 then return (Inr ())
          else do {
            created \<leftarrow> opensearch E (IndicesCreateRequest DbaasMetadata None);
            (case created of
               Inl _ \<Rightarrow> do {
                 exist2 \<leftarrow> opensearch E (IndicesExistsRequest [DbaasMetadata]);
                 return (case exist2 of
                   Inl e \<Rightarrow> Inl (Wrapped (''failed to check if '' @ squote DbaasMetadata @ '' index exists '') e)
                 | Inr response2 \<Rightarrow>
                     (if StatusCode response2 = 200 then Inr ()
                      else Inl (Err (''failed to create '' @ squote DbaasMetadata @ '' index %!w(<nil>)'')))) }
             | Inr createResponse \<Rightarrow>
                 return (if StatusCode createResponse \<noteq> 201 \<and> StatusCode createResponse \<noteq> 200 then
                   (case ReadAll (Body createResponse) of
                      Inl e \<Rightarrow> Inl e
                    | Inr _ \<Rightarrow> Inl (Err (DbaasMetadata @ '' index cannot be created because of error: ['' @
                        show_int (StatusCode createResponse) @ '']'')))
                   else Inr ())) }) }"

record metadata_doc =
  Found :: bool
  Source :: "json go_map option"

definition dec_metadata_doc :: "metadata_doc decoder" where
  "dec_metadata_doc = dec_struct
     [field ''found'' dec_bool Found Found_update,
      field ''_source'' (dec_nil_map JNull dec_any) Source Source_update]"

definition GetMetadata :: "'s env \<Rightarrow> string \<Rightarrow> ('s, go_error + json go_map option) adapter" where
  "GetMetadata E indexName =
     onOk (DoRequest E (GetRequest DbaasMetadata indexName) dec_metadata_doc \<lparr>Found = False, Source = None\<rparr>)
       (\<lambda>response. return (Inr (if Found response then Source response else None)))"

definition CreateMetadata :: "'s env \<Rightarrow> string \<Rightarrow> json go_map option \<Rightarrow> ('s, go_error + string) adapter" where
  "CreateMetadata E identifier metadata =
     (case metadata of
        None \<Rightarrow> return (Inr [])
      | Some m \<Rightarrow> do {
          x \<leftarrow> opensearch E (IndexRequest DbaasMetadata identifier (Doc (JObj m)));
          return (case x of
            Inl e \<Rightarrow> Inl (Err (''error occurred during insert metadata for '' @ squote identifier @ '' ID to '' @
              squote DbaasMetadata @ '' index : '' @ err_text e))
          | Inr response \<Rightarrow> ReadAll (Body response)) })"

definition enc_metadata :: "json go_map option \<Rightarrow> json" where
  "enc_metadata m = (case m of None \<Rightarrow> JNull | Some kvs \<Rightarrow> JObj kvs)"

definition ensureMetadata :: "'s env \<Rightarrow> string \<Rightarrow> json go_map option \<Rightarrow> ('s, bool) adapter" where
  "ensureMetadata E indexName metadata = do {
     source \<leftarrow> GetMetadata E indexName;
     (case source of
        Inr (Some _) \<Rightarrow> return False
      | _ \<Rightarrow> do {
          r \<leftarrow> CreateMetadata E indexName metadata;
          return (case r of Inl _ \<Rightarrow> False | Inr _ \<Rightarrow> True) }) }"

definition updateMetadata :: "'s env \<Rightarrow> string \<Rightarrow> json go_map option \<Rightarrow> ('s, go_error + string) adapter" where
  "updateMetadata E indexName metadata = do {
     done \<leftarrow> ensureMetadata E indexName metadata;
     (if \<not> done then
        onOk (opensearch E (UpdateRequest DbaasMetadata indexName (Doc (enc_metadata metadata))))
          (\<lambda>response. return (ReadAll (Body response)))
      else return (Inr [])) }"

definition deleteMetadata :: "'s env \<Rightarrow> string \<Rightarrow> ('s, go_error + unit) adapter" where
  "deleteMetadata E indexName =
     onOk (opensearch E (DeleteRequest DbaasMetadata indexName)) (\<lambda>_. return (Inr ()))"

section \<open>Indices, templates and aliases\<close>

text \<open>An \<^verbatim>\<open>interface{}\<close> taken out of a decoded map is \<^verbatim>\<open>nil\<close> for \<^verbatim>\<open>null\<close> and for an empty map.\<close>

definition non_nil :: "json \<Rightarrow> json option" where
  "non_nil j = (if j = JNull then None else Some j)"

definition lookup_any ::
  "(go_error \<Rightarrow> go_error) \<Rightarrow> string \<Rightarrow> (go_error + http_response) \<Rightarrow> go_error + json option" where
  "lookup_any wrap what x =
     (case x of
        Inl e \<Rightarrow> Inl (wrap e)
      | Inr response \<Rightarrow>
          (if StatusCode response = 200 then
             (case ProcessBody (dec_map JNull dec_any) (Body response) [] of
                Inl e \<Rightarrow> Inl e
              | Inr entries \<Rightarrow> Inr (non_nil (first_entry JNull entries)))
           else if StatusCode response = 404 then Inr None
           else Inl (Err (''during receiving '' @ what @ '' error occurred''))))"

definition getDatabase :: "'s env \<Rightarrow> string \<Rightarrow> ('s, go_error + json option) adapter" where
  "getDatabase E name = do {
     x \<leftarrow> opensearch E (IndicesGetRequest [name]);
     return (lookup_any
       (\<lambda>e. Err (''failed to receive index with '' @ squote name @ '' name: '' @ err_text e)) ''index'' x) }"

definition deleteDatabase :: "'s env \<Rightarrow> string \<Rightarrow> ('s, go_error + unit) adapter" where
  "deleteDatabase E name = onOk (opensearch E (IndicesDeleteRequest [name])) (\<lambda>_. return (Inr ()))"

definition listDatabases :: "'s env \<Rightarrow> ('s, go_error + string list) adapter" where
  "listDatabases E = do {
     x \<leftarrow> opensearch E (CatIndicesRequest [''index'']);
     return (case (case x of Inl e \<Rightarrow> Inl e | Inr response \<Rightarrow> ReadAll (Body response)) of
       Inl e \<Rightarrow> Inl (Err (''error occurred during retrieving indices list: '' @ err_text e))
     | Inr text \<Rightarrow>
         Inr (filter (\<lambda>index. index \<noteq> [] \<and> \<not> HasPrefix index ''.'') (split_on (CHR 10) text))) }"

definition getTemplate :: "'s env \<Rightarrow> string \<Rightarrow> ('s, go_error + json option) adapter" where
  "getTemplate E name = do {
     x \<leftarrow> opensearch E (IndicesGetTemplateRequest [name]);
     return (lookup_any (\<lambda>e. e) ''template'' x) }"

definition deleteTemplate :: "'s env \<Rightarrow> string \<Rightarrow> ('s, go_error + unit) adapter" where
  "deleteTemplate E template =
     onOk (opensearch E (IndicesDeleteTemplateRequest template)) (\<lambda>_. return (Inr ()))"

record index_template =
  it_Name :: string
  it_IndexTemplate :: json

definition dec_index_template :: "index_template decoder" where
  "dec_index_template = dec_struct
     [field ''name'' dec_string it_Name it_Name_update,
      field ''index_template'' dec_any it_IndexTemplate it_IndexTemplate_update]"

text \<open>Indexing the slice \<^verbatim>\<open>templates["index_templates"]\<close> at 0 panics when it is empty.\<close>

definition getIndexTemplate :: "'s env \<Rightarrow> string \<Rightarrow> ('s, (go_error + index_template option) go) adapter" where
  "getIndexTemplate E name = do {
     x \<leftarrow> opensearch E (IndicesGetIndexTemplateRequest [name]);
     return (case x of
       Inl e \<Rightarrow> Ret (Inl e)
     | Inr response \<Rightarrow>
         (if StatusCode response = 200 then
            (case ProcessBody (dec_map [] (dec_list \<lparr>it_Name = [], it_IndexTemplate = JNull\<rparr> dec_index_template))
                    (Body response) [] of
               Inl e \<Rightarrow> Ret (Inl e)
             | Inr templates \<Rightarrow>
                 (case map_get [] templates ''index_templates'' of
                    [] \<Rightarrow> Panic ''runtime error: index out of range [0] with length 0''
                  | template # _ \<Rightarrow> Ret (Inr (Some template))))
          else if StatusCode response = 404 then Ret (Inr None)
          else Ret (Inl (Err ''during receivingindex  template error occurred'')))) }"

definition deleteIndexTemplate :: "'s env \<Rightarrow> string \<Rightarrow> ('s, go_error + unit) adapter" where
  "deleteIndexTemplate E template =
     onOk (opensearch E (IndicesDeleteIndexTemplateRequest template)) (\<lambda>_. return (Inr ()))"

text \<open>The alias is returned as the address of a local variable, which is never \<^verbatim>\<open>nil\<close>.\<close>

definition getAlias :: "'s env \<Rightarrow> string \<Rightarrow> ('s, go_error + json go_map option) adapter" where
  "getAlias E name = do {
     x \<leftarrow> opensearch E (IndicesGetAliasRequest [name]);
     return (case x of
       Inl e \<Rightarrow> Inl e
     | Inr response \<Rightarrow>
         (if StatusCode response = 200 then
            (case ProcessBody (dec_map [] (dec_map JNull dec_any)) (Body response) [] of
               Inl e \<Rightarrow> Inl e
             | Inr aliases \<Rightarrow> Inr (Some (first_entry [] aliases)))
          else if StatusCode response = 404 then Inr None
          else Inl (Err ''during receiving alias error occurred''))) }"

definition deleteAlias :: "'s env \<Rightarrow> string \<Rightarrow> ('s, go_error + unit) adapter" where
  "deleteAlias E alias =
     onOk (opensearch E (IndicesDeleteAliasRequest [alias] [alias])) (\<lambda>_. return (Inr ()))"

section \<open>Creating a database\<close>

definition checkForbiddenSymbolPrefix :: "string \<Rightarrow> go_error + unit" where
  "checkForbiddenSymbolPrefix namePrefix =
     (if HasPrefix namePrefix ''.'' \<or> Contains namePrefix ''*''
      then Inl (Err ''prefix contains forbidden symbols'') else Inr ())"

definition buildIndexName :: "'s env \<Rightarrow> string \<Rightarrow> string \<Rightarrow> ('s, string) adapter" where
  "buildIndexName E dbName pfx = do {
     name \<leftarrow> (if dbName = [] then GetUUID E else return dbName);
     return (pfx @ ''_'' @ name) }"

definition getIndexSettings :: "db_create_request \<Rightarrow> body" where
  "getIndexSettings r =
     (if IndexSettings (Settings r) \<noteq> JNull then Doc (IndexSettings (Settings r)) else Text [])"

definition createIndex :: "'s env \<Rightarrow> db_create_request \<Rightarrow> string \<Rightarrow> ('s, go_error + string) adapter" where
  "createIndex E r pfx = do {
     indexName \<leftarrow> buildIndexName E (DbName r) pfx;
     onOk (opensearch E (IndicesCreateRequest indexName (Some (getIndexSettings r))))
       (\<lambda>_. return (Inr indexName)) }"

definition request_namespace :: "db_create_request \<Rightarrow> string" where
  "request_namespace r =
     (case map_get JNull (case Metadata r of None \<Rightarrow> [] | Some m \<Rightarrow> m) ''classifier'' of
        JObj classifierMap \<Rightarrow> ConvertAnyToString (map_get JNull classifierMap ''namespace'')
      | _ \<Rightarrow> [])"

definition request_microservice :: "db_create_request \<Rightarrow> string" where
  "request_microservice r =
     ConvertAnyToString (map_get JNull (case Metadata r of None \<Rightarrow> [] | Some m \<Rightarrow> m) ''microserviceName'')"

text \<open>The prefix of a new database, and the resources it starts with.\<close>

definition choose_prefix ::
  "'s env \<Rightarrow> base_provider \<Rightarrow> db_create_request \<Rightarrow> ('s, go_error + string \<times> db_resource list) adapter" where
  "choose_prefix E bp r =
     (if ResourcePrefix (Settings r) then
        (case checkForbiddenSymbolPrefix (NamePrefix r) of
           Inl e \<Rightarrow> return (Inl e)
         | Inr _ \<Rightarrow>
             onOk (if NamePrefix r = [] then
                     (if request_namespace r = [] \<or> request_microservice r = [] then do {
                        u \<leftarrow> GetUUID E; return (Inr u) }
                      else onOk (silent (PrepareDatabaseName E (request_namespace r) (request_microservice r) 64))
                        (\<lambda>pfx. return (case checkForbiddenSymbolPrefix pfx of
                           Inl e \<Rightarrow> Inl e | Inr _ \<Rightarrow> Inr pfx)))
                   else return (Inr (NamePrefix r)))
               (\<lambda>pfx. return (Inr (pfx, [resource ResourcePrefixKind pfx]))))
      else if ApiVersion bp = ApiV2 then
        return (Inl (Err (squote ''resourcePrefix'' @ '' must be set to '' @ squote ''true'' @
          '' for v2 version of OpenSearch DBaaS adapter'')))
      else return (Inr (if NamePrefix r = [] then ''dbaas'' else NamePrefix r, [])))"

definition resources_to_create :: "base_provider \<Rightarrow> db_create_request \<Rightarrow> string list" where
  "resources_to_create bp r =
     (if CreateOnly (Settings r) = [] then
        (if ApiVersion bp = ApiV2 then [UserKind] else [UserKind, IndexKind])
      else CreateOnly (Settings r))"

record creation =
  cr_indexName :: string
  cr_username :: string
  cr_password :: string
  cr_resources :: "db_resource list"
  cr_connections :: "connection_properties list"

text \<open>The users of the second API version: one for each supported role type.\<close>

fun create_role_users ::
  "'s env \<Rightarrow> base_provider \<Rightarrow> string \<Rightarrow> string \<Rightarrow> string list \<Rightarrow> creation \<Rightarrow> ('s, go_error + creation) adapter" where
  "create_role_users E bp pfx dbName [] st = return (Inr st)"
| "create_role_users E bp pfx dbName (roleType # rest) st =
     onOk (CreateUserByPrefix E pfx [] dbName roleType) (\<lambda>(username, password, securityResources).
       create_role_users E bp pfx dbName rest
         (st\<lparr>cr_connections := cr_connections st @
               [GetExtendedConnectionProperties bp (cr_indexName st) username password pfx roleType],
             cr_resources := cr_resources st @ securityResources\<rparr>))"

definition create_users ::
  "'s env \<Rightarrow> base_provider \<Rightarrow> db_create_request \<Rightarrow> string \<Rightarrow> creation \<Rightarrow> ('s, go_error + creation) adapter" where
  "create_users E bp r pfx st = do {
     dbName \<leftarrow> (if ResourcePrefix (Settings r) then return (pfx @ ''*'') else buildIndexName E (DbName r) pfx);
     let st0 = st\<lparr>cr_username := (if ResourcePrefix (Settings r) then pfx else Username r)\<rparr>;
     onOk (if ApiVersion bp = ApiV1 then
             onOk (createOrUpdateUser E (cr_username st0) (Password r) dbName AdminRoleType)
               (\<lambda>(username, password, securityResources).
                 return (Inr (st0\<lparr>cr_username := username, cr_password := password,
                   cr_resources := cr_resources st0 @ securityResources\<rparr>)))
           else return (Inr st0))
       (\<lambda>st1. if ApiVersion bp = ApiV2 then create_role_users E bp pfx dbName GetSupportedRoleTypes st1
              else return (Inr st1)) }"

fun create_resources ::
  "'s env \<Rightarrow> base_provider \<Rightarrow> db_create_request \<Rightarrow> string \<Rightarrow> string list \<Rightarrow> creation \<Rightarrow> ('s, go_error + creation) adapter" where
  "create_resources E bp r pfx [] st = return (Inr st)"
| "create_resources E bp r pfx (k # ks) st =
     onOk (if k = IndexKind then
             onOk (createIndex E r pfx) (\<lambda>indexName.
               return (Inr (st\<lparr>cr_indexName := indexName,
                 cr_resources := cr_resources st @ [resource IndexKind indexName]\<rparr>)))
           else return (Inr st))
       (\<lambda>st1. onOk (if k = UserKind then create_users E bp r pfx st1 else return (Inr st1))
         (\<lambda>st2. create_resources E bp r pfx ks st2))"

definition create_answer :: "base_provider \<Rightarrow> db_create_request \<Rightarrow> string \<Rightarrow> creation \<Rightarrow> create_result" where
  "create_answer bp r pfx st =
     (if ApiVersion bp = ApiV1 then
        (let c = getConnectionProperties bp (cr_indexName st) (cr_username st) (cr_password st)
         in SingleUser \<lparr>resp_Name = cr_indexName st,
              resp_ConnectionProperties = (if ResourcePrefix (Settings r) then c\<lparr>cp_ResourcePrefix := pfx\<rparr> else c),
              resp_Resources = cr_resources st\<rparr>)
      else if ApiVersion bp = ApiV2 then
        MultiUser \<lparr>multi_Name = cr_indexName st, multi_ConnectionProperties = cr_connections st,
          multi_Resources = cr_resources st\<rparr>
      else NoResult)"

definition createDatabase ::
  "'s env \<Rightarrow> base_provider \<Rightarrow> db_create_request \<Rightarrow> ('s, go_error + create_result) adapter" where
  "createDatabase E bp r =
     onOk (choose_prefix E bp r) (\<lambda>(pfx, resources). do {
       unique \<leftarrow> CheckPrefixUniqueness E pfx;
       (case unique of
          (False, Some e) \<Rightarrow> return (Inl e)
        | _ \<Rightarrow>
            onOk (create_resources E bp r pfx (resources_to_create bp r)
                   \<lparr>cr_indexName = [], cr_username = [], cr_password = [], cr_resources = resources,
                    cr_connections = []\<rparr>)
              (\<lambda>st. let metadataID = (if cr_indexName st \<noteq> [] then cr_indexName st else pfx) in do {
                 inserted \<leftarrow> CreateMetadata E metadataID (Metadata r);
                 (case inserted of
                    Inl e \<Rightarrow>
                      if cr_indexName st \<noteq> [] then
                        onOk (deleteDatabase E (cr_indexName st)) (\<lambda>_. return (Inr NoResult))
                      else return (Inl e)
                  | Inr _ \<Rightarrow>
                      return (Inr (create_answer bp r pfx
                        (st\<lparr>cr_resources := cr_resources st @ [resource MetadataKind metadataID]\<rparr>)))) })) })"

section \<open>Deleting resources\<close>

definition getResourceDeletionSuccessStatus :: "db_resource \<Rightarrow> db_resource" where
  "getResourceDeletionSuccessStatus r =
     \<lparr>Kind = Kind r, Name = Name r, Status = DeletedStatus, ErrorMessage = []\<rparr>"

definition getResourceDeletionFailedStatus :: "db_resource \<Rightarrow> go_error \<Rightarrow> db_resource" where
  "getResourceDeletionFailedStatus r e =
     \<lparr>Kind = Kind r, Name = Name r, Status = DeletionFailedStatus, ErrorMessage = err_text e\<rparr>"

definition getResourcesWithFailedStatus :: "db_resource list \<Rightarrow> db_resource list" where
  "getResourcesWithFailedStatus rs = filter (\<lambda>r. Status r = DeletionFailedStatus) rs"

text \<open>
  The shape all branches of \<^verbatim>\<open>deleteResource\<close> have: look the resource up, report a failed lookup,
  skip the deletion of what does not exist, and report what the deletion gave.
\<close>

definition delete_found ::
  "('s, (go_error + 'a option) go) adapter \<Rightarrow> ('s, go_error + unit) adapter \<Rightarrow> db_resource \<Rightarrow>
     ('s, db_resource go) adapter" where
  "delete_found get del r =
     onRet get (\<lambda>found. case found of
         Inl e \<Rightarrow> return (Ret (getResourceDeletionFailedStatus r e))
       | Inr None \<Rightarrow> return (Ret (getResourceDeletionSuccessStatus r))
       | Inr (Some _) \<Rightarrow> do {
           deleted \<leftarrow> del;
           return (Ret (case deleted of
             Inl e \<Rightarrow> getResourceDeletionFailedStatus r e
           | Inr _ \<Rightarrow> getResourceDeletionSuccessStatus r)) })"

definition deleteResource :: "'s env \<Rightarrow> db_resource \<Rightarrow> ('s, db_resource go) adapter" where
  "deleteResource E r =
     (if Kind r = IndexKind then
        delete_found (no_panic (getDatabase E (Name r))) (deleteDatabase E (Name r)) r
      else if Kind r = MetadataKind then
        delete_found (no_panic (GetMetadata E (Name r))) (deleteMetadata E (Name r)) r
      else if Kind r = UserKind then
        delete_found (no_panic (GetUser E (Name r))) (deleteUser E (Name r)) r
      else if Kind r = TemplateKind then
        delete_found (no_panic (getTemplate E (Name r))) (deleteTemplate E (Name r)) r
      else if Kind r = IndexTemplateKind then
        delete_found (getIndexTemplate E (Name r)) (deleteIndexTemplate E (Name r)) r
      else if Kind r = AliasKind then
        delete_found (no_panic (getAlias E (Name r))) (deleteAlias E (Name r)) r
      else return (Ret (getResourceDeletionSuccessStatus r)))"

definition deleteResourcesByKind :: "'s env \<Rightarrow> db_resource list \<Rightarrow> string \<Rightarrow> ('s, db_resource list go) adapter" where
  "deleteResourcesByKind E rs kind = for_ret (deleteResource E) (filter (\<lambda>r. Kind r = kind) rs)"

definition pattern_resources :: "string \<Rightarrow> db_resource list" where
  "pattern_resources n =
     [resource IndexKind (n @ ''*''), resource MetadataKind n, resource TemplateKind (n @ ''*''),
      resource IndexTemplateKind (n @ ''*''), resource AliasKind (n @ ''*'')]"

definition resources_of_prefix :: "'s env \<Rightarrow> base_provider \<Rightarrow> string \<Rightarrow> ('s, db_resource list) adapter" where
  "resources_of_prefix E bp n =
     (if ApiVersion bp = ApiV1 then return (resource UserKind n # pattern_resources n)
      else if ApiVersion bp = ApiV2 then do {
        users \<leftarrow> getUsersByPrefix E n;
        return (pattern_resources n @
          (case users of Inl _ \<Rightarrow> [] | Inr names \<Rightarrow> map (resource UserKind) names)) }
      else return [])"

definition processResourcePrefixKind ::
  "'s env \<Rightarrow> base_provider \<Rightarrow> db_resource list \<Rightarrow> ('s, db_resource list) adapter" where
  "processResourcePrefixKind E bp rs = do {
     parts \<leftarrow> for_each (\<lambda>r. resources_of_prefix E bp (Name r)) (filter (\<lambda>r. Kind r = ResourcePrefixKind) rs);
     return (concat parts) }"

text \<open>The kinds in the order in which they are deleted.\<close>

definition deletion_order :: "string list" where
  "deletion_order = [UserKind, IndexKind, MetadataKind, TemplateKind, IndexTemplateKind, AliasKind]"

definition deleteResources ::
  "'s env \<Rightarrow> base_provider \<Rightarrow> db_resource list \<Rightarrow> ('s, db_resource list go) adapter" where
  "deleteResources E bp rs = do {
     additional \<leftarrow> processResourcePrefixKind E bp rs;
     onRet (for_ret (deleteResourcesByKind E (rs @ additional)) deletion_order)
       (\<lambda>parts. return (Ret (concat parts))) }"

section \<open>Handlers\<close>

definition CreateDatabaseHandler :: "'s env \<Rightarrow> base_provider \<Rightarrow> incoming \<Rightarrow> ('s, reply) adapter" where
  "CreateDatabaseHandler E bp r = do {
     _ \<leftarrow> PrepareContext E r;
     (case unmarshal dec_create_request (in_body r) zero_create_request of
        Inl e \<Rightarrow> return (error_reply e)
      | Inr dbCreateRequest \<Rightarrow> do {
          x \<leftarrow> createDatabase E bp dbCreateRequest;
          return (case x of
            Inl e \<Rightarrow> error_reply e
          | Inr response \<Rightarrow> ProcessResponseBody 0 (Doc (enc_create_result response)) 201) }) }"

definition ListDatabasesHandler :: "'s env \<Rightarrow> incoming \<Rightarrow> ('s, reply) adapter" where
  "ListDatabasesHandler E r = do {
     _ \<leftarrow> PrepareContext E r;
     x \<leftarrow> listDatabases E;
     return (case x of
       Inl e \<Rightarrow> error_reply e
     | Inr databases \<Rightarrow> ProcessResponseBody 0 (Doc (enc_slice JStr databases)) 200) }"

definition BulkDropResourceHandler :: "'s env \<Rightarrow> base_provider \<Rightarrow> incoming \<Rightarrow> ('s, reply go) adapter" where
  "BulkDropResourceHandler E bp r = do {
     _ \<leftarrow> PrepareContext E r;
     (case unmarshal (dec_list (resource [] []) dec_resource) (in_body r) [] of
        Inl e \<Rightarrow> return (Ret (error_reply e))
      | Inr resources \<Rightarrow>
          onRet (deleteResources E bp resources) (\<lambda>deletedResources.
            let failedResources = getResourcesWithFailedStatus deletedResources in
            return (Ret (if failedResources \<noteq> []
              then ProcessResponseBody 500 (Doc (enc_slice enc_resource failedResources)) 0
              else ProcessResponseBody 200 (Doc (enc_slice enc_resource deletedResources)) 0)))) }"

definition UpdateMetadataHandler :: "'s env \<Rightarrow> incoming \<Rightarrow> ('s, reply) adapter" where
  "UpdateMetadataHandler E r = do {
     _ \<leftarrow> PrepareContext E r;
     (case unmarshal (dec_nil_map JNull dec_any) (in_body r) None of
        Inl e \<Rightarrow> return (error_reply e)
      | Inr metadata \<Rightarrow> do {
          x \<leftarrow> updateMetadata E (map_get [] (in_vars r) ''dbName'') metadata;
          return (case x of Inl e \<Rightarrow> error_reply e | Inr _ \<Rightarrow> (200, Text [])) }) }"

definition SupportsHandler :: "'s env \<Rightarrow> incoming \<Rightarrow> ('s, reply) adapter" where
  "SupportsHandler E r = do {
     _ \<leftarrow> PrepareContext E r;
     return (ProcessResponseBody 0 (Doc (JObj [(''users'', JBool True), (''settings'', JBool True),
       (''describeDatabases'', JBool False)])) 0) }"

section \<open>The interface of deletable resources\<close>

text \<open>
  What \<^verbatim>\<open>deleteResource\<close> relies on for each kind: the lookup and the deletion of a name send only
  requests about that name. \<open>about\<close> says which requests these are.
\<close>

locale deletable =
  fixes get :: "'s env \<Rightarrow> string \<Rightarrow> ('s, (go_error + 'a option) go) adapter"
    and del :: "'s env \<Rightarrow> string \<Rightarrow> ('s, go_error + unit) adapter"
    and about :: "string \<Rightarrow> event \<Rightarrow> bool"
  assumes get_sends: "sends (about n) (get E n)"
    and del_sends: "sends (about n) (del E n)"
begin

lemma delete_sends: "sends (about (Name r)) (delete_found (get E (Name r)) (del E (Name r)) r)"
  unfolding delete_found_def by (intro sends_intros get_sends del_sends)

text \<open>The report is about the resource asked for and has one of the two statuses.\<close>

lemma delete_reports:
  "run_state (delete_found (get E (Name r)) (del E (Name r)) r) w = (Ret d, w') \<Longrightarrow>
     Kind d = Kind r \<and> Name d = Name r \<and> Status d \<in> {DeletedStatus, DeletionFailedStatus}"
  by (auto simp: delete_found_def run_simps getResourceDeletionFailedStatus_def
      getResourceDeletionSuccessStatus_def split: prod.splits go.splits sum.splits option.splits)

text \<open>Nothing is deleted that the lookup did not find.\<close>

lemma delete_absent:
  "run_state (get E (Name r)) w = (Ret (Inr None), w') \<Longrightarrow>
     run_state (delete_found (get E (Name r)) (del E (Name r)) r) w = (Ret (getResourceDeletionSuccessStatus r), w')"
  by (simp add: delete_found_def run_simps)

lemma delete_unknown:
  "run_state (get E (Name r)) w = (Ret (Inl e), w') \<Longrightarrow>
     run_state (delete_found (get E (Name r)) (del E (Name r)) r) w = (Ret (getResourceDeletionFailedStatus r e), w')"
  by (simp add: delete_found_def run_simps)

text \<open>A failure is reported exactly when the lookup or the deletion returned an error.\<close>

lemma delete_failed_iff:
  assumes "run_state (delete_found (get E (Name r)) (del E (Name r)) r) w = (Ret d, w')"
  shows "Status d = DeletionFailedStatus \<longleftrightarrow>
    (\<exists>e. fst (run_state (get E (Name r)) w) = Ret (Inl e)) \<or>
    (\<exists>a w1 e. run_state (get E (Name r)) w = (Ret (Inr (Some a)), w1) \<and>
       fst (run_state (del E (Name r)) w1) = Inl e)"
  using assms
  by (auto simp: delete_found_def run_simps getResourceDeletionFailedStatus_def DeletedStatus_def
      DeletionFailedStatus_def getResourceDeletionSuccessStatus_def
      split: prod.splits go.splits sum.splits option.splits)

end

definition about_index :: "string \<Rightarrow> event \<Rightarrow> bool" where
  "about_index n e \<longleftrightarrow> e \<in> {OpenSearch (IndicesGetRequest [n]), OpenSearch (IndicesDeleteRequest [n])}"

definition about_metadata :: "string \<Rightarrow> event \<Rightarrow> bool" where
  "about_metadata n e \<longleftrightarrow> e \<in> {OpenSearch (GetRequest DbaasMetadata n), OpenSearch (DeleteRequest DbaasMetadata n)}"

definition about_user :: "string \<Rightarrow> event \<Rightarrow> bool" where
  "about_user n e \<longleftrightarrow> e \<in> {user_event ''GET'' n None no_options, user_event ''DELETE'' n None no_options}"

definition about_template :: "string \<Rightarrow> event \<Rightarrow> bool" where
  "about_template n e \<longleftrightarrow>
     e \<in> {OpenSearch (IndicesGetTemplateRequest [n]), OpenSearch (IndicesDeleteTemplateRequest n)}"

definition about_index_template :: "string \<Rightarrow> event \<Rightarrow> bool" where
  "about_index_template n e \<longleftrightarrow>
     e \<in> {OpenSearch (IndicesGetIndexTemplateRequest [n]), OpenSearch (IndicesDeleteIndexTemplateRequest n)}"

definition about_alias :: "string \<Rightarrow> event \<Rightarrow> bool" where
  "about_alias n e \<longleftrightarrow>
     e \<in> {OpenSearch (IndicesGetAliasRequest [n]), OpenSearch (IndicesDeleteAliasRequest [n] [n])}"

interpretation index_kind: deletable "\<lambda>E n. no_panic (getDatabase E n)" deleteDatabase about_index
  by unfold_locales (auto simp: getDatabase_def deleteDatabase_def about_index_def intro!: sends_intros)

interpretation metadata_kind: deletable "\<lambda>E n. no_panic (GetMetadata E n)" deleteMetadata about_metadata
  by unfold_locales (auto simp: GetMetadata_def deleteMetadata_def about_metadata_def intro!: sends_intros)

interpretation user_kind: deletable "\<lambda>E n. no_panic (GetUser E n)" deleteUser about_user
  by unfold_locales
    (auto simp: GetUser_def deleteUser_def about_user_def user_event_def GetUserRequest_Do_def
      DeleteUserRequest_Do_def intro!: sends_intros)

interpretation template_kind: deletable "\<lambda>E n. no_panic (getTemplate E n)" deleteTemplate about_template
  by unfold_locales (auto simp: getTemplate_def deleteTemplate_def about_template_def intro!: sends_intros)

interpretation index_template_kind: deletable getIndexTemplate deleteIndexTemplate about_index_template
  by unfold_locales
    (auto simp: getIndexTemplate_def deleteIndexTemplate_def about_index_template_def intro!: sends_intros)

interpretation alias_kind: deletable "\<lambda>E n. no_panic (getAlias E n)" deleteAlias about_alias
  by unfold_locales (auto simp: getAlias_def deleteAlias_def about_alias_def intro!: sends_intros)

lemmas kind_reports =
  index_kind.delete_reports metadata_kind.delete_reports user_kind.delete_reports
  template_kind.delete_reports index_template_kind.delete_reports alias_kind.delete_reports

lemmas kind_sends =
  index_kind.delete_sends metadata_kind.delete_sends user_kind.delete_sends
  template_kind.delete_sends index_template_kind.delete_sends alias_kind.delete_sends

text \<open>The requests about a resource, by its kind.\<close>

definition about_resource :: "db_resource \<Rightarrow> event \<Rightarrow> bool" where
  "about_resource r e \<longleftrightarrow>
     (Kind r = IndexKind \<and> about_index (Name r) e) \<or> (Kind r = MetadataKind \<and> about_metadata (Name r) e) \<or>
     (Kind r = UserKind \<and> about_user (Name r) e) \<or> (Kind r = TemplateKind \<and> about_template (Name r) e) \<or>
     (Kind r = IndexTemplateKind \<and> about_index_template (Name r) e) \<or>
     (Kind r = AliasKind \<and> about_alias (Name r) e)"

lemma sends_deleteResource: "sends (about_resource r) (deleteResource E r)"
  unfolding deleteResource_def
  by (auto intro!: sends_if sends_return intro: sends_mono [OF kind_sends(1)] sends_mono [OF kind_sends(2)]
      sends_mono [OF kind_sends(3)] sends_mono [OF kind_sends(4)] sends_mono [OF kind_sends(5)]
      sends_mono [OF kind_sends(6)] simp: about_resource_def)

lemma deleteResource_reports:
  "run_state (deleteResource E r) w = (Ret d, w') \<Longrightarrow>
     Kind d = Kind r \<and> Name d = Name r \<and> Status d \<in> {DeletedStatus, DeletionFailedStatus}"
  by (auto simp: deleteResource_def getResourceDeletionSuccessStatus_def split: if_splits dest: kind_reports)

lemma resources_of_prefix_within:
  "run_state (resources_of_prefix E bp n) w = (rs, w') \<Longrightarrow> a \<in> set rs \<Longrightarrow> HasPrefix (Name a) n"
  by (auto simp: resources_of_prefix_def pattern_resources_def resource_def HasPrefix_append
      getUsersByPrefix_def run_simps split: if_splits prod.splits sum.splits)

lemma for_each_all:
  assumes "\<And>x w y w'. x \<in> set xs \<Longrightarrow> run_state (f x) w = (y, w') \<Longrightarrow> P x y"
  shows "run_state (for_each f xs) w = (ys, w') \<Longrightarrow> list_all2 P xs ys"
  using assms
proof (induction xs arbitrary: w ys w')
  case Nil
  then show ?case by simp
next
  case (Cons x xs)
  from Cons.prems(1) obtain y w1 ys' where
    "run_state (f x) w = (y, w1)" "run_state (for_each f xs) w1 = (ys', w')" "ys = y # ys'"
    by (auto split: prod.splits)
  then show ?case using Cons.IH [of w1 ys' w'] Cons.prems(2) by auto
qed

lemma processResourcePrefixKind_within:
  assumes "run_state (processResourcePrefixKind E bp rs) w = (additional, w')" and "a \<in> set additional"
  shows "\<exists>r \<in> set rs. Kind r = ResourcePrefixKind \<and> HasPrefix (Name a) (Name r)"
proof -
  let ?ps = "filter (\<lambda>r. Kind r = ResourcePrefixKind) rs"
  obtain parts where parts: "run_state (for_each (\<lambda>r. resources_of_prefix E bp (Name r)) ?ps) w = (parts, w')"
    and "additional = concat parts"
    using assms(1) by (auto simp: processResourcePrefixKind_def split: prod.splits)
  then obtain as where "as \<in> set parts" "a \<in> set as"
    using assms(2) by auto
  then obtain i where i: "i < length parts" "a \<in> set (parts ! i)"
    by (metis in_set_conv_nth)
  have "list_all2 (\<lambda>r as. \<forall>a \<in> set as. HasPrefix (Name a) (Name r)) ?ps parts"
    by (rule for_each_all [OF _ parts]) (auto dest: resources_of_prefix_within)
  then have "i < length ?ps" "HasPrefix (Name a) (Name (?ps ! i))"
    using i by (auto simp: list_all2_conv_all_nth)
  then show ?thesis using nth_mem [of i ?ps] by auto
qed

definition list_users_event :: event where
  "list_users_event = OpenSearch (Perform (api_http ''GET'' users_path None no_options))"

lemma sends_processResourcePrefixKind: "sends (\<lambda>e. e = list_users_event) (processResourcePrefixKind E bp rs)"
  unfolding processResourcePrefixKind_def resources_of_prefix_def getUsersByPrefix_def GetUsersRequest_Do_def
  by (intro sends_intros) (simp add: list_users_event_def)

lemma deleteResourcesByKind_reports:
  "run_state (deleteResourcesByKind E rs k) w = (Ret ds, w') \<Longrightarrow>
     list_all2 (\<lambda>r d. Kind d = Kind r \<and> Name d = Name r \<and> Status d \<in> {DeletedStatus, DeletionFailedStatus})
       (filter (\<lambda>r. Kind r = k) rs) ds"
  unfolding deleteResourcesByKind_def by (erule for_ret_all [rotated]) (rule deleteResource_reports)

lemma sends_deleteResourcesByKind:
  "sends (\<lambda>e. \<exists>r \<in> set rs. about_resource r e) (deleteResourcesByKind E rs k)"
  unfolding deleteResourcesByKind_def
  by (rule sends_for_ret) (auto intro: sends_mono [OF sends_deleteResource])

lemma list_all2_concat:
  "list_all2 (\<lambda>x y. list_all2 P (g x) y) xs ys \<Longrightarrow> list_all2 P (concat (map g xs)) (concat ys)"
  by (induction rule: list_all2_induct) (auto intro: list_all2_appendI)

lemma deleteResources_split:
  assumes "run_state (deleteResources E bp rs) w = (Ret ds, w')"
  obtains additional w1 parts where "run_state (processResourcePrefixKind E bp rs) w = (additional, w1)"
    and "run_state (for_ret (deleteResourcesByKind E (rs @ additional)) deletion_order) w1 = (Ret parts, w')"
    and "ds = concat parts"
  using assms by (auto simp: deleteResources_def run_simps split: prod.splits go.splits)

lemma CreateUserByPrefix_ok:
  assumes "run_state (CreateUserByPrefix E pfx pw dbName roleType) w = (Inr (u, p, res), w')"
  shows "HasPrefix u (pfx @ ''_'') \<and> res = [resource UserKind u]"
proof -
  obtain x w1 where x: "run_state (GenerateUUID E) w = (x, w1)" by fastforce
  then have "run_state (createOrUpdateUser E (pfx @ ''_'' @ x) pw dbName roleType) w1 = (Inr (u, p, res), w')"
    using assms by (simp add: CreateUserByPrefix_def)
  then show ?thesis by (rule createOrUpdateUser_split) (simp add: HasPrefix_def)
qed

text \<open>The users of the second API version: one connection and one user resource per role type.\<close>

lemma create_role_users_ok:
  "run_state (create_role_users E bp pfx dbName roles st) w = (Inr st', w') \<Longrightarrow> [] \<notin> set roles \<Longrightarrow>
     \<exists>conns. st' = st\<lparr>cr_connections := cr_connections st @ conns,
         cr_resources := cr_resources st @ map (\<lambda>c. resource UserKind (cp_Username c)) conns\<rparr> \<and>
       map cp_Role conns = roles \<and>
       (\<forall>c \<in> set conns. cp_ResourcePrefix c = pfx \<and> HasPrefix (cp_Username c) (pfx @ ''_''))"
proof (induction roles arbitrary: st w)
  case Nil
  then show ?case by simp
next
  case (Cons t roles)
  from Cons.prems(1) obtain u p res w1 where
    u: "run_state (CreateUserByPrefix E pfx [] dbName t) w = (Inr (u, p, res), w1)"
    and rest: "run_state (create_role_users E bp pfx dbName roles
      (st\<lparr>cr_connections := cr_connections st @ [GetExtendedConnectionProperties bp (cr_indexName st) u p pfx t],
          cr_resources := cr_resources st @ res\<rparr>)) w1 = (Inr st', w')"
    by (auto simp: run_simps split: prod.splits sum.splits)
  let ?c = "GetExtendedConnectionProperties bp (cr_indexName st) u p pfx t"
  have c: "cp_Username ?c = u" "cp_Role ?c = t" "cp_ResourcePrefix ?c = pfx"
    using Cons.prems(2) by (auto simp: GetExtendedConnectionProperties_def getConnectionProperties_def Let_def)
  from Cons.IH [OF rest] Cons.prems(2) obtain conns where
    "st' = st\<lparr>cr_connections := cr_connections st @ ?c # conns,
       cr_resources := cr_resources st @ res @ map (\<lambda>c. resource UserKind (cp_Username c)) conns\<rparr>"
    "map cp_Role conns = roles"
    "\<forall>c \<in> set conns. cp_ResourcePrefix c = pfx \<and> HasPrefix (cp_Username c) (pfx @ ''_'')"
    by auto
  then show ?case using CreateUserByPrefix_ok [OF u] c by (intro exI [of _ "?c # conns"]) auto
qed

lemma choose_prefix_ok:
  assumes "run_state (choose_prefix E bp r) w = (Inr (pfx, resources), w')" and "ResourcePrefix (Settings r)"
  shows "resources = [resource ResourcePrefixKind pfx] \<and> (NamePrefix r \<noteq> [] \<longrightarrow> pfx = NamePrefix r) \<and>
    trace w' = trace w \<and>
    (checkForbiddenSymbolPrefix pfx = Inr () \<or> (\<exists>s s'. NewV4 E s = (Inr pfx, s')))"
  using assms
  by (auto simp: choose_prefix_def run_simps GetUUID_def checkForbiddenSymbolPrefix_def HasPrefix_def
      split: prod.splits sum.splits if_splits)

lemma versions_differ [simp]: "ApiV2 \<noteq> ApiV1" "ApiV1 \<noteq> ApiV2"
  by (simp_all add: ApiV1_def ApiV2_def)

lemma kinds_differ [simp]: "UserKind \<noteq> IndexKind" "IndexKind \<noteq> UserKind"
  by (simp_all add: kind_defs)

lemma roles_not_empty: "[] \<notin> set GetSupportedRoleTypes"
  by (simp add: GetSupportedRoleTypes_def ReadOnlyRoleType_def DmlRoleType_def AdminRoleType_def IsmRoleType_def)

lemma create_resources_v2:
  assumes "run_state (create_resources E bp r pfx [UserKind] st) w = (Inr st', w')"
    and "ApiVersion bp = ApiV2" and "ResourcePrefix (Settings r)" and "cr_connections st = []"
  shows "\<exists>conns. st' = st\<lparr>cr_username := pfx, cr_connections := conns,
        cr_resources := cr_resources st @ map (\<lambda>c. resource UserKind (cp_Username c)) conns\<rparr> \<and>
      map cp_Role conns = GetSupportedRoleTypes \<and>
      (\<forall>c \<in> set conns. cp_ResourcePrefix c = pfx \<and> HasPrefix (cp_Username c) (pfx @ ''_''))"
proof -
  have "run_state (create_role_users E bp pfx (pfx @ ''*'') GetSupportedRoleTypes (st\<lparr>cr_username := pfx\<rparr>)) w = (Inr st', w')"
    using assms by (auto simp: run_simps create_users_def split: prod.splits sum.splits)
  from create_role_users_ok [OF this roles_not_empty] show ?thesis
    using assms(4) by auto
qed

lemma createDatabase_split:
  assumes "run_state (createDatabase E bp r) w = (Inr res, w')"
  obtains pfx resources w1 w2 st w3 where "run_state (choose_prefix E bp r) w = (Inr (pfx, resources), w1)"
    and "run_state (create_resources E bp r pfx (resources_to_create bp r)
      \<lparr>cr_indexName = [], cr_username = [], cr_password = [], cr_resources = resources, cr_connections = []\<rparr>) w2 = (Inr st, w3)"
    and "cr_indexName st = [] \<longrightarrow> res = create_answer bp r pfx
      (st\<lparr>cr_resources := cr_resources st @ [resource MetadataKind pfx]\<rparr>)"
  using assms
  by (auto simp: createDatabase_def run_simps Let_def simp del: create_resources.simps
      split: prod.splits sum.splits bool.splits option.splits if_splits)

section \<open>Properties\<close>

text \<open>
  C27. Deleting resources gives one report for every resource of a deletable kind that was asked
  for or that a resource prefix stands for, users first and aliases last; a report is about its
  resource and says deleted or failed. What a prefix stands for has names that start with it.
\<close>

theorem deleteResources_reports:
  assumes "run_state (deleteResources E bp rs) w = (Ret ds, w')"
  shows "\<exists>additional.
    list_all2 (\<lambda>r d. Kind d = Kind r \<and> Name d = Name r \<and> Status d \<in> {DeletedStatus, DeletionFailedStatus})
      (concat (map (\<lambda>k. filter (\<lambda>r. Kind r = k) (rs @ additional))
        [UserKind, IndexKind, MetadataKind, TemplateKind, IndexTemplateKind, AliasKind])) ds \<and>
    (\<forall>a \<in> set additional. \<exists>r \<in> set rs. Kind r = ResourcePrefixKind \<and> HasPrefix (Name a) (Name r))"
proof (rule deleteResources_split [OF assms])
  fix additional w1 parts
  assume a: "run_state (processResourcePrefixKind E bp rs) w = (additional, w1)"
    and p: "run_state (for_ret (deleteResourcesByKind E (rs @ additional)) deletion_order) w1 = (Ret parts, w')"
    and ds: "ds = concat parts"
  have "list_all2 (\<lambda>r d. Kind d = Kind r \<and> Name d = Name r \<and> Status d \<in> {DeletedStatus, DeletionFailedStatus})
      (concat (map (\<lambda>k. filter (\<lambda>r. Kind r = k) (rs @ additional)) deletion_order)) ds"
    unfolding ds by (rule list_all2_concat, rule for_ret_all [OF _ p]) (rule deleteResourcesByKind_reports)
  then show ?thesis
    using processResourcePrefixKind_within [OF a] by (auto simp: deletion_order_def)
qed

definition drop_user_world :: "(script, event) world" where
  "drop_user_world = answers [ok_doc tenant_answer, status_only 403]"

definition drop_user_run :: "db_resource list go \<times> (script, event) world" where
  "drop_user_run = run_state (deleteResources script_env (NewBaseProvider [] 0 []) [resource UserKind ''ns_1'']) drop_user_world"

theorem deleteResources_reports_witness:
  "\<exists>additional.
    list_all2 (\<lambda>r d. Kind d = Kind r \<and> Name d = Name r \<and> Status d \<in> {DeletedStatus, DeletionFailedStatus})
      (concat (map (\<lambda>k. filter (\<lambda>r. Kind r = k) ([resource UserKind ''ns_1''] @ additional))
        [UserKind, IndexKind, MetadataKind, TemplateKind, IndexTemplateKind, AliasKind]))
      [getResourceDeletionSuccessStatus (resource UserKind ''ns_1'')]"
proof -
  have "fst drop_user_run = Ret [getResourceDeletionSuccessStatus (resource UserKind ''ns_1'')]" by code_simp
  then have "run_state (deleteResources script_env (NewBaseProvider [] 0 []) [resource UserKind ''ns_1'']) drop_user_world =
      (Ret [getResourceDeletionSuccessStatus (resource UserKind ''ns_1'')], snd drop_user_run)"
    by (simp add: drop_user_run_def prod_eq_iff)
  from deleteResources_reports [OF this] show ?thesis by blast
qed

text \<open>
  C13. Whatever the cluster answers, deleting resources sends only the request for the list of
  users and lookups and deletions of resources that were asked for or whose names start with a
  resource prefix that was asked for.
\<close>

theorem deleteResources_confined:
  "sends (\<lambda>e. e = list_users_event \<or> (\<exists>r \<in> set rs. about_resource r e) \<or>
      (\<exists>p \<in> set rs. \<exists>a. Kind p = ResourcePrefixKind \<and> HasPrefix (Name a) (Name p) \<and> about_resource a e))
    (deleteResources E bp rs)" (is "sends ?R _")
proof (rule sendsI)
  fix w
  obtain additional w1 where a: "run_state (processResourcePrefixKind E bp rs) w = (additional, w1)" by fastforce
  have "sends ?R (onRet (for_ret (deleteResourcesByKind E (rs @ additional)) deletion_order)
      (\<lambda>parts. return (Ret (concat parts))))"
    using processResourcePrefixKind_within [OF a]
    by (intro sends_intros sends_mono [OF sends_deleteResourcesByKind]) fastforce
  moreover have "sends ?R (processResourcePrefixKind E bp rs)"
    by (rule sends_mono [OF sends_processResourcePrefixKind]) simp
  ultimately show "\<exists>es. trace (snd (run_state (deleteResources E bp rs) w)) = trace w @ es \<and> (\<forall>e \<in> set es. ?R e)"
    unfolding deleteResources_def by (rule sends_two [OF _ _ a])
qed


definition v2_provider :: base_provider where
  "v2_provider = (NewBaseProvider ''os'' 9200 ''http'')\<lparr>ApiVersion := ApiV2\<rparr>"

definition v2_request :: db_create_request where
  "v2_request = zero_create_request\<lparr>NamePrefix := ''ns'', Metadata := Some [],
     Settings := zero_settings\<lparr>ResourcePrefix := True\<rparr>\<rparr>"

definition v2_world :: "(script, event) world" where
  "v2_world = answers [ok_doc (JObj []), status_only 404, status_only 201, status_only 404, status_only 201,
     status_only 404, status_only 201, status_only 404, status_only 201, status_only 201]"

definition plain_env :: "script env" where
  "plain_env = script_env\<lparr>NewV4 := (\<lambda>s. (Inr ''id'', s))\<rparr>"

lemma plain_env_simps [simp]:
  "perform plain_env c = next_answer" "NewV4 plain_env = (\<lambda>s. (Inr ''id'', s))"
  "gen_password plain_env = (\<lambda>s. (Inr ''secret'', s))" "poll_retries plain_env = (\<lambda>s. (1, s))"
  by (simp_all add: plain_env_def script_env_def)

lemma case_status_only [simp]:
  "(case status_only k of Inl e \<Rightarrow> f e | Inr response \<Rightarrow> g response) = g \<lparr>StatusCode = k, Body = Text []\<rparr>"
  by (simp add: status_only_def)

lemma plain_user_url: "url_ok (users_path @ ''/ns_id'')"
  by code_simp

lemma plain_uuid: "run_state (GenerateUUID plain_env) w = (''id'', w)"
  by (simp add: GenerateUUID_def GetUUID_def run_simps ReplaceAll_def)

lemma plain_get_user:
  "run_state (GetUser plain_env ''ns_id'') \<lparr>srv = (status_only 404 # as, n), trace = tr\<rparr> =
     (Inr None, \<lparr>srv = (as, n), trace = tr @ [user_event ''GET'' ''ns_id'' None no_options]\<rparr>)"
  using plain_user_url
  by (simp add: GetUser_def run_GetUserRequest_Do run_simps status_only_def user_event_def)

lemma plain_create_user:
  "run_state (createUser plain_env ''ns_id'' pw pfx t) \<lparr>srv = (status_only 201 # as, n), trace = tr\<rparr> =
     (Inr (), \<lparr>srv = (as, n), trace = tr @ [user_event ''PUT'' ''ns_id''
        (Some (Doc (enc_content (new_user_content pw pfx t)))) json_options]\<rparr>)"
  using plain_user_url
  by (simp add: createUser_def poll_immediate_def CreateUserRequest_Do_def run_simps api_http_def Let_def
      status_only_def user_event_def user_written_def attempt_body_def)

lemma plain_user:
  "run_state (CreateUserByPrefix plain_env ''ns'' [] ''ns*'' t)
      \<lparr>srv = (status_only 404 # status_only 201 # as, n), trace = tr\<rparr> =
    (Inr (''ns_id'', ''secret'', [resource UserKind ''ns_id'']),
     \<lparr>srv = (as, n), trace = tr @ [user_event ''GET'' ''ns_id'' None no_options, user_event ''PUT'' ''ns_id''
        (Some (Doc (enc_content (new_user_content ''secret'' ''ns*'' t)))) json_options]\<rparr>)"
  by (simp add: CreateUserByPrefix_def createOrUpdateUser_def plain_uuid plain_get_user plain_create_user run_simps)

definition v2_run :: "(go_error + create_result) \<times> (script, event) world" where
  "v2_run = run_state (createDatabase plain_env v2_provider v2_request) v2_world"

definition v2_result :: create_result where
  "v2_result = (case fst v2_run of Inl _ \<Rightarrow> NoResult | Inr res \<Rightarrow> res)"

lemma v2_run_ok: "\<exists>res. fst v2_run = Inr res"
  by (simp add: v2_run_def createDatabase_def choose_prefix_def CheckPrefixUniqueness_def run_simps
      v2_provider_def v2_request_def v2_world_def answers_def zero_settings_def
      checkForbiddenSymbolPrefix_def HasPrefix_def Contains_char ok_doc_def resources_to_create_def
      create_users_def GetSupportedRoleTypes_def plain_user CreateMetadata_def Let_def)


text \<open>
  The prefix a database gets, given or generated from the namespace and the microservice,
  holds no star and does not start with a dot, and choosing it sends no request. Only a prefix
  that is a bare UUID is not looked at.
\<close>

theorem choose_prefix_safe:
  assumes run: "run_state (choose_prefix E bp r) w = (Inr (pfx, resources), w')"
    and "ResourcePrefix (Settings r)"
    and uuid: "\<And>s u s'. NewV4 E s = (Inr u, s') \<Longrightarrow> CHR ''*'' \<notin> set u \<and> \<not> HasPrefix u ''.''"
  shows "CHR ''*'' \<notin> set pfx \<and> \<not> HasPrefix pfx ''.'' \<and> trace w' = trace w"
  using choose_prefix_ok [OF run assms(2)] uuid
  by (auto simp: checkForbiddenSymbolPrefix_def Contains_char split: if_splits)

definition generated_request :: db_create_request where
  "generated_request = zero_create_request\<lparr>Metadata := Some [(''microserviceName'', JStr ''svc''),
     (''classifier'', JObj [(''namespace'', JStr ''space'')])], Settings := zero_settings\<lparr>ResourcePrefix := True\<rparr>\<rparr>"

theorem choose_prefix_safe_witness:
  "run_state (choose_prefix script_env v2_provider generated_request) (answers []) =
     (Inr (''space_svc'', [resource ResourcePrefixKind ''space_svc'']), answers []) \<and>
   CHR ''*'' \<notin> set ''space_svc''"
proof -
  have run: "run_state (choose_prefix script_env v2_provider generated_request) (answers []) =
     (Inr (''space_svc'', [resource ResourcePrefixKind ''space_svc'']), answers [])"
    by code_simp
  have "ResourcePrefix (Settings generated_request)" by code_simp
  moreover have "\<And>s u s'. NewV4 script_env s = (Inr u, s') \<Longrightarrow> CHR ''*'' \<notin> set u \<and> \<not> HasPrefix u ''.''"
    by (auto simp: script_env_def HasPrefix_def show_nat_chars split: prod.splits)
  ultimately show ?thesis using choose_prefix_safe [OF run] run by blast
qed

text \<open>
  The second API version refuses a request without a resource prefix, and every version
  refuses a prefix with a star or a leading dot, before any request is sent.
\<close>

theorem createDatabase_refuses:
  assumes "ApiVersion bp = ApiV2 \<and> \<not> ResourcePrefix (Settings r) \<or>
    ResourcePrefix (Settings r) \<and> (HasPrefix (NamePrefix r) ''.'' \<or> CHR ''*'' \<in> set (NamePrefix r))"
  shows "\<exists>e. run_state (createDatabase E bp r) w = (Inl e, w)"
  using assms
  by (auto simp: createDatabase_def choose_prefix_def checkForbiddenSymbolPrefix_def Contains_char run_simps)

theorem createDatabase_refuses_witness:
  "\<exists>e. run_state (createDatabase script_env v2_provider zero_create_request) v2_world = (Inl e, v2_world)"
  by (rule createDatabase_refuses)
    (simp add: v2_provider_def zero_create_request_def zero_settings_def)

definition index_only_request :: incoming where
  "index_only_request = \<lparr>in_id = ''1'', in_vars = [], in_query = [],
     in_body = Doc (JObj [(''metadata'', JObj []), (''settings'', JObj [(''createOnly'', JArr [JStr ''index''])])])\<rparr>"

definition index_only_db :: db_create_request where
  "index_only_db = zero_create_request\<lparr>Metadata := Some [], Settings := zero_settings\<lparr>CreateOnly := [''index'']\<rparr>\<rparr>"

definition metadata_failure_world :: "(script, event) world" where
  "metadata_failure_world =
     answers [ok_doc (JObj []), status_only 200, Inl (Err ''timeout''), status_only 200]"

lemma index_only_decoded:
  "unmarshal dec_create_request (in_body index_only_request) zero_create_request = Inr index_only_db"
  by code_simp

lemma index_only_run:
  "fst (run_state (createDatabase plain_env (v2_provider\<lparr>ApiVersion := ApiV1\<rparr>) index_only_db) metadata_failure_world) =
     Inr NoResult"
  by (simp add: createDatabase_def choose_prefix_def CheckPrefixUniqueness_def run_simps v2_provider_def answers_def
      index_only_db_def metadata_failure_world_def zero_settings_def ok_doc_def resources_to_create_def
      createIndex_def buildIndexName_def zero_create_request_def IndexKind_def UserKind_def GetUUID_def
      CreateMetadata_def Let_def deleteDatabase_def)

text \<open>
  When the metadata of a new index cannot be inserted and the index is removed again, the
  error is lost: the caller gets status 201 with the body null.
\<close>

theorem metadata_failure_is_created:
  "fst (run_state (CreateDatabaseHandler plain_env (v2_provider\<lparr>ApiVersion := ApiV1\<rparr>) index_only_request)
      metadata_failure_world) = (201, Doc JNull)"
proof -
  have "in_id index_only_request \<noteq> []" by (simp add: index_only_request_def)
  then show ?thesis
    using index_only_run
    by (auto simp: CreateDatabaseHandler_def index_only_decoded PrepareContext_def
        ProcessResponseBody_def split: prod.splits)
qed

text \<open>
  A user whose deletion the cluster refuses is reported as deleted, with status 200.
\<close>

theorem refused_deletion_is_deleted:
  "fst (run_state (BulkDropResourceHandler script_env v2_provider
      \<lparr>in_id = ''1'', in_vars = [], in_query = [],
       in_body = Doc (JArr [JObj [(''kind'', JStr ''user''), (''name'', JStr ''ns_1'')]])\<rparr>)
      (answers [ok_doc tenant_answer, status_only 403])) =
   Ret (200, Doc (JArr [enc_resource \<lparr>Kind = ''user'', Name = ''ns_1'', Status = ''DELETED'', ErrorMessage = []\<rparr>]))"
  by code_simp

text \<open>
  Dropping an index template panics when the cluster answers the lookup with an empty list of
  templates.
\<close>

theorem empty_index_templates_panic:
  "\<exists>p. fst (run_state (BulkDropResourceHandler script_env v2_provider
      \<lparr>in_id = ''1'', in_vars = [], in_query = [],
       in_body = Doc (JArr [JObj [(''kind'', JStr ''indexTemplate''), (''name'', JStr ''t'')]])\<rparr>)
      (answers [ok_doc (JObj [(''index_templates'', JArr [])])])) = Panic p"
proof
  show "fst (run_state (BulkDropResourceHandler script_env v2_provider
      \<lparr>in_id = ''1'', in_vars = [], in_query = [],
       in_body = Doc (JArr [JObj [(''kind'', JStr ''indexTemplate''), (''name'', JStr ''t'')]])\<rparr>)
      (answers [ok_doc (JObj [(''index_templates'', JArr [])])])) =
    Panic ''runtime error: index out of range [0] with length 0''"
    by code_simp
qed

text \<open>
  The list of databases is the cluster's list of indices without empty lines and without
  inner indices, in the cluster's order, whatever status code came with it.
\<close>

theorem listDatabases_spec:
  assumes "perform E (CatIndicesRequest [''index'']) (srv w) =
      (Inr \<lparr>StatusCode = code, Body = Text (join [CHR 10] names)\<rparr>, s')"
    and "names \<noteq> []" and "\<forall>n \<in> set names. CHR 10 \<notin> set n"
  shows "fst (run_state (listDatabases E) w) = Inr (filter (\<lambda>n. n \<noteq> [] \<and> \<not> HasPrefix n ''.'') names)"
  using assms by (simp add: listDatabases_def run_simps split_on_join)

theorem listDatabases_spec_witness:
  "fst (run_state (listDatabases script_env)
      (answers [Inr \<lparr>StatusCode = 200, Body = Text (join [CHR 10] [''.kibana'', ''ns_a'', []])\<rparr>])) = Inr [''ns_a'']"
  by (subst listDatabases_spec [where names = "[''.kibana'', ''ns_a'', []]" and code = 200 and s' = "([], 0)"])
    (simp_all add: script_env_def answers_def HasPrefix_def)

text \<open>
  A bulk drop answers 500 with exactly the failed reports when a deletion failed, and 200 with
  all reports otherwise.
\<close>

theorem BulkDropResourceHandler_status:
  assumes "in_id r \<noteq> []" and "unmarshal (dec_list (resource [] []) dec_resource) (in_body r) [] = Inr rs"
    and "run_state (deleteResources E bp rs) w = (Ret ds, w')"
  shows "run_state (BulkDropResourceHandler E bp r) w =
    (Ret (if \<exists>d \<in> set ds. Status d = ''DELETE_FAILED''
          then (500, Doc (enc_slice enc_resource (filter (\<lambda>d. Status d = ''DELETE_FAILED'') ds)))
          else (200, Doc (enc_slice enc_resource ds))), w')"
  using assms
  by (auto simp: BulkDropResourceHandler_def PrepareContext_def run_simps Let_def ProcessResponseBody_def
      getResourcesWithFailedStatus_def DeletionFailedStatus_def filter_empty_conv)

definition drop_request :: incoming where
  "drop_request = \<lparr>in_id = ''1'', in_vars = [], in_query = [],
     in_body = Doc (JArr [JObj [(''kind'', JStr ''user''), (''name'', JStr ''ns_1'')]])\<rparr>"

theorem BulkDropResourceHandler_status_witness:
  "fst (run_state (BulkDropResourceHandler script_env (NewBaseProvider [] 0 []) drop_request) drop_user_world) =
     Ret (200, Doc (JArr [enc_resource (getResourceDeletionSuccessStatus (resource UserKind ''ns_1''))]))"
proof -
  have d: "unmarshal (dec_list (resource [] []) dec_resource) (in_body drop_request) [] = Inr [resource UserKind ''ns_1'']"
    by code_simp
  have i: "in_id drop_request \<noteq> []" by (simp add: drop_request_def)
  have "fst drop_user_run = Ret [getResourceDeletionSuccessStatus (resource UserKind ''ns_1'')]" by code_simp
  then have "run_state (deleteResources script_env (NewBaseProvider [] 0 []) [resource UserKind ''ns_1'']) drop_user_world =
      (Ret [getResourceDeletionSuccessStatus (resource UserKind ''ns_1'')], snd drop_user_run)"
    by (simp add: drop_user_run_def prod_eq_iff)
  from BulkDropResourceHandler_status [OF i d this] show ?thesis
    by (simp add: getResourceDeletionSuccessStatus_def DeletedStatus_def enc_slice_def)
qed

definition get_metadata_event :: "string \<Rightarrow> event" where
  "get_metadata_event n = OpenSearch (GetRequest DbaasMetadata n)"

definition update_metadata_event :: "string \<Rightarrow> json go_map option \<Rightarrow> event" where
  "update_metadata_event n m = OpenSearch (UpdateRequest DbaasMetadata n (Doc (enc_metadata m)))"

definition insert_metadata_events :: "string \<Rightarrow> json go_map option \<Rightarrow> event list" where
  "insert_metadata_events n m = (case m of None \<Rightarrow> [] | Some kvs \<Rightarrow> [OpenSearch (IndexRequest DbaasMetadata n (Doc (JObj kvs)))])"

lemma trace_GetMetadata:
  "run_state (GetMetadata E n) w = (r, w') \<Longrightarrow> trace w' = trace w @ [get_metadata_event n]"
  by (auto simp: GetMetadata_def DoRequest_def run_simps get_metadata_event_def split: prod.splits sum.splits)

lemma trace_CreateMetadata:
  "run_state (CreateMetadata E n m) w = (r, w') \<Longrightarrow> trace w' = trace w @ insert_metadata_events n m"
  by (auto simp: CreateMetadata_def run_simps insert_metadata_events_def split: prod.splits option.splits)

text \<open>
  Updating metadata looks the document up once. A document that is found is updated; one that
  is missing, or whose lookup fails, is inserted, and when the insertion fails an update is
  tried; only an absent document without new metadata leads to no write at all.
\<close>

theorem updateMetadata_requests:
  assumes "run_state (GetMetadata E n) w = (found, w1)" and "run_state (CreateMetadata E n m) w1 = (inserted, w2)"
  shows "trace (snd (run_state (updateMetadata E n m) w)) = trace w @ [get_metadata_event n] @
    (case found of
       Inr (Some _) \<Rightarrow> [update_metadata_event n m]
     | _ \<Rightarrow> insert_metadata_events n m @ (case inserted of Inl _ \<Rightarrow> [update_metadata_event n m] | Inr _ \<Rightarrow> []))"
  using assms trace_GetMetadata [OF assms(1)] trace_CreateMetadata [OF assms(2)]
  by (auto simp: updateMetadata_def ensureMetadata_def run_simps update_metadata_event_def
      split: prod.splits sum.splits option.splits)

theorem updateMetadata_requests_witness:
  "trace (snd (run_state (updateMetadata script_env ''i'' (Some [])) (answers [status_only 404, Inl (Err ''timeout'')]))) =
     [get_metadata_event ''i''] @ insert_metadata_events ''i'' (Some []) @ [update_metadata_event ''i'' (Some [])]"
proof -
  let ?w = "answers [status_only 404, Inl (Err ''timeout'')]"
  let ?w1 = "\<lparr>srv = ([Inl (Err ''timeout'')], 0), trace = [get_metadata_event ''i'']\<rparr> :: (script, event) world"
  have 1: "run_state (GetMetadata script_env ''i'') ?w = (Inr None, ?w1)" by code_simp
  obtain inserted w2 where 2: "run_state (CreateMetadata script_env ''i'' (Some [])) ?w1 = (inserted, w2)" by fastforce
  then have "\<exists>e. inserted = Inl e" by (auto simp: CreateMetadata_def run_simps script_env_def)
  then show ?thesis using updateMetadata_requests [OF 1 2] by (auto simp: answers_def)
qed

end
