(* ===== verification/Backup.thy ===== *)
theory Backup
  imports Databases
begin

text \<open>
  The package \<^verbatim>\<open>backup\<close>: collecting, deleting, tracking and restoring backups through the curator,
  and tracking a restoration by the recovery state of the indices. The sources print request
  bodies as text, which is kept here character by character: \<open>nl n\<close> is a line break with \<open>n\<close> tabs.
\<close>

section \<open>Data\<close>

record action_track =
  at_Action :: string
  at_LocalId :: string
  at_Status :: string
  at_TrackID :: string
  at_ChangedNameDb :: "string go_map option"
  at_TrackPath :: "string option"

definition enc_action_track :: "action_track \<Rightarrow> json" where
  "enc_action_track t = JObj [(''action'', JStr (at_Action t)),
     (''details'', JObj [(''localId'', JStr (at_LocalId t))]), (''status'', JStr (at_Status t)),
     (''trackId'', JStr (at_TrackID t)),
     (''changedNameDb'', (case at_ChangedNameDb t of None \<Rightarrow> JNull | Some m \<Rightarrow> enc_string_map m)),
     (''trackPath'', (case at_TrackPath t of None \<Rightarrow> JNull | Some p \<Rightarrow> JStr p))]"

record job_status =
  State :: string
  Message :: string
  Vault :: string
  Type :: string
  Error :: string
  TaskId :: string

definition zero_job_status :: job_status where
  "zero_job_status = \<lparr>State = [], Message = [], Vault = [], Type = [], Error = [], TaskId = []\<rparr>"

definition dec_job_status :: "job_status decoder" where
  "dec_job_status = dec_struct
     [field ''status'' dec_string State State_update, field ''details'' dec_string Message Message_update,
      field ''vault'' dec_string Vault Vault_update, field ''type'' dec_string Type Type_update,
      field ''err'' dec_string Error Error_update, field ''trackPath'' dec_string TaskId TaskId_update]"

record database =
  Namespace :: string
  Microservice :: string
  db_Name :: string
  Prefix :: string

definition dec_database :: "database decoder" where
  "dec_database = dec_struct
     [field ''namespace'' dec_string Namespace Namespace_update,
      field ''microservice'' dec_string Microservice Microservice_update,
      field ''name'' dec_string db_Name db_Name_update, field ''prefix'' dec_string Prefix Prefix_update]"

record restoration_request =
  Databases :: "database list"
  RegenerateNames :: bool

definition dec_restoration_request :: "restoration_request decoder" where
  "dec_restoration_request = dec_struct
     [field ''databases'' (dec_list \<lparr>Namespace = [], Microservice = [], db_Name = [], Prefix = []\<rparr> dec_database)
        Databases Databases_update,
      field ''regenerateNames'' dec_bool RegenerateNames RegenerateNames_update]"

record snapshot_status =
  ss_State :: string
  ss_Snapshot :: string
  ss_Indices :: "json go_map"

definition dec_snapshots :: "snapshot_status list decoder" where
  "dec_snapshots = dec_struct
     [field ''Snapshots''
        (dec_list \<lparr>ss_State = [], ss_Snapshot = [], ss_Indices = []\<rparr> (dec_struct
          [field ''State'' dec_string ss_State ss_State_update,
           field ''Snapshot'' dec_string ss_Snapshot ss_Snapshot_update,
           field ''Indices'' (dec_map JNull dec_any) ss_Indices ss_Indices_update]))
        id (\<lambda>f. f)]"

record shard_recovery_info =
  sh_Type :: string
  Stage :: string
  src_Snapshot :: string
  src_Repository :: string
  src_Index :: string

definition zero_shard :: shard_recovery_info where
  "zero_shard = \<lparr>sh_Type = [], Stage = [], src_Snapshot = [], src_Repository = [], src_Index = []\<rparr>"

definition dec_shard :: "shard_recovery_info decoder" where
  "dec_shard = dec_struct
     [field ''Type'' dec_string sh_Type sh_Type_update, field ''Stage'' dec_string Stage Stage_update,
      (''Source'', dec_struct
        [field ''Snapshot'' dec_string src_Snapshot src_Snapshot_update,
         field ''Repository'' dec_string src_Repository src_Repository_update,
         field ''Index'' dec_string src_Index src_Index_update])]"

text \<open>\<^verbatim>\<open>RecoveryInfo\<close>: the shards of each index.\<close>

type_synonym recovery_info = "shard_recovery_info list go_map"

definition dec_recovery_info :: "recovery_info decoder" where
  "dec_recovery_info = dec_map [] (dec_struct [field ''Shards'' (dec_list zero_shard dec_shard) id (\<lambda>f. f)])"

record curator =
  curator_url :: string
  curator_username :: string
  curator_password :: string

record backup_provider =
  indexNames :: index_adapter
  repoRoot :: string
  bp_Curator :: curator

definition NewBackupProvider :: "'s env \<Rightarrow> string \<Rightarrow> backup_provider" where
  "NewBackupProvider E root =
     \<lparr>indexNames = NewIndexAdapter,
      repoRoot = (if HasSuffix root ''/'' then root else root @ ''/''),
      bp_Curator = \<lparr>curator_url = GetEnv E ''CURATOR_ADDRESS'' [],
        curator_username = GetEnv E ''CURATOR_USERNAME'' [],
        curator_password = GetEnv E ''CURATOR_PASSWORD'' []\<rparr>\<rparr>"

definition backupTrack :: "string \<Rightarrow> string \<Rightarrow> action_track" where
  "backupTrack backupId backupStatus =
     \<lparr>at_Action = ''BACKUP'', at_LocalId = backupId, at_Status = backupStatus, at_TrackID = backupId,
      at_ChangedNameDb = None, at_TrackPath = None\<rparr>"

definition restoreTrack :: "string \<Rightarrow> string \<Rightarrow> string go_map option \<Rightarrow> action_track" where
  "restoreTrack backupId restoreStatus changedNameDb =
     \<lparr>at_Action = ''RESTORE'', at_LocalId = backupId, at_Status = restoreStatus, at_TrackID = backupId,
      at_ChangedNameDb = changedNameDb, at_TrackPath = None\<rparr>"

section \<open>Requests to the curator\<close>

text \<open>The argument \<open>rid\<close> is the request id of the context, sent on in a header.\<close>

definition curator_request ::
  "backup_provider \<Rightarrow> string \<Rightarrow> string \<Rightarrow> string \<Rightarrow> body option \<Rightarrow> http_request" where
  "curator_request bp rid meth path b =
     \<lparr>rq_method = meth, rq_url = curator_url (bp_Curator bp) @ path, rq_query = [],
      rq_headers = (if b = None then [] else [(''Content-Type'', ''application/json'')]) @ [(''X-Request-Id'', rid)],
      rq_auth = Some (curator_username (bp_Curator bp), curator_password (bp_Curator bp)), rq_body = b\<rparr>"

definition curator_Do :: "'s env \<Rightarrow> http_request \<Rightarrow> ('s, go_error + http_response) adapter" where
  "curator_Do E rq = request (Curator rq) (curator_do E rq)"

definition collect_text :: "string list \<Rightarrow> string" where
  "collect_text dbs = nl 2 @ ''{'' @ [CHR 9] @ nl 3 @ dquote ''allow_eviction'' @ '':'' @ dquote ''False'' @ '','' @ [CHR 9] @
     nl 3 @ dquote ''dbs'' @ '': ['' @ join '','' (map dquote dbs) @ '']'' @ nl 2 @ ''}''"

text \<open>
  Without databases the body is a \<^verbatim>\<open>*strings.Reader\<close> that is \<^verbatim>\<open>nil\<close>: as an \<^verbatim>\<open>io.Reader\<close> it is
  not, and \<^verbatim>\<open>http.NewRequest\<close>, having parsed the URL, asks it for its length.
\<close>

definition CollectBackup ::
  "'s env \<Rightarrow> backup_provider \<Rightarrow> string \<Rightarrow> string list \<Rightarrow> ('s, (go_error + string) go) adapter" where
  "CollectBackup E bp rid dbs =
     (let rq = curator_request bp rid ''POST'' ''/backup'' (Some (Text (collect_text dbs))) in
      if \<not> url_ok (rq_url rq) then return (Ret (Inl bad_url))
      else if dbs = [] then return (Panic ''invalid memory address or nil pointer dereference'')
      else no_panic (onOk (curator_Do E rq) (\<lambda>response. return (ReadAll (Body response)))))"

fun job_state :: "string \<Rightarrow> string" where
  "job_state state =
     (if state = ''Failed'' then ''FAIL''
      else if state = ''Successful'' then ''SUCCESS''
      else if state = ''Queued'' then ''PROCEEDING''
      else if state = ''Processing'' then ''PROCEEDING''
      else ''FAIL'')"

text \<open>\<^verbatim>\<open>getJobStatus\<close> returns \<^verbatim>\<open>FAIL\<close> next to every error.\<close>

definition getJobStatus ::
  "'s env \<Rightarrow> backup_provider \<Rightarrow> string \<Rightarrow> string \<Rightarrow> ('s, go_error + string) adapter" where
  "getJobStatus E bp rid snapshotName =
     (let rq = curator_request bp rid ''GET'' (''/jobstatus/'' @ snapshotName) None in
      if \<not> url_ok (rq_url rq) then return (Inl bad_url)
      else onOk (curator_Do E rq) (\<lambda>response.
        return (if StatusCode response = 404 then Inl ErrBackupNotFound
          else (case unmarshal dec_job_status (Body response) zero_job_status of
              Inl e \<Rightarrow> Inl (Wrapped ''failed to decode response from JSON: '' e)
            | Inr jobStatus \<Rightarrow> Inr (job_state (State jobStatus))))))"

definition TrackBackup ::
  "'s env \<Rightarrow> backup_provider \<Rightarrow> string \<Rightarrow> string \<Rightarrow> ('s, action_track \<times> go_error option) adapter" where
  "TrackBackup E bp rid backupID = do {
     r \<leftarrow> getJobStatus E bp rid backupID;
     return (case r of
       Inl e \<Rightarrow> (backupTrack backupID ''FAIL'', Some e)
     | Inr jobStatus \<Rightarrow> (backupTrack backupID jobStatus, None)) }"

definition TrackRestore ::
  "'s env \<Rightarrow> backup_provider \<Rightarrow> string \<Rightarrow> string \<Rightarrow> string go_map option \<Rightarrow>
     ('s, action_track \<times> go_error option) adapter" where
  "TrackRestore E bp rid trackId changedNameDb = do {
     r \<leftarrow> getJobStatus E bp rid trackId;
     return (case r of
       Inl e \<Rightarrow> (backupTrack trackId ''FAIL'', Some e)
     | Inr jobStatus \<Rightarrow> (restoreTrack trackId jobStatus changedNameDb, None)) }"

definition DeleteBackup ::
  "'s env \<Rightarrow> backup_provider \<Rightarrow> string \<Rightarrow> string \<Rightarrow> ('s, go_error + string \<times> int) adapter" where
  "DeleteBackup E bp rid backupID =
     (let rq = curator_request bp rid ''POST'' (''/evict/'' @ backupID) None in
      if \<not> url_ok (rq_url rq) then return (Inl bad_url)
      else onOk (curator_Do E rq) (\<lambda>response.
        return (if StatusCode response = 500 then Inl ErrCuratorUnavailable
          else if StatusCode response = 404 then Inl ErrBackupNotFound
          else (case ReadAll (Body response) of
              Inl e \<Rightarrow> Inl e
            | Inr text \<Rightarrow> Inr (text, StatusCode response)))))"

text \<open>The request of a restoration: a URL that does not parse panics.\<close>

definition prepareRestoreRequest ::
  "backup_provider \<Rightarrow> string \<Rightarrow> string \<Rightarrow> http_request go" where
  "prepareRestoreRequest bp rid text =
     (let rq = curator_request bp rid ''POST'' ''/restore'' (Some (Text text)) in
      if url_ok (rq_url rq) then Ret rq else Panic (err_text bad_url))"

definition namesRegenerateRequestPart :: "string \<Rightarrow> string \<Rightarrow> string" where
  "namesRegenerateRequestPart pattern replacement =
     (if pattern = [] then []
      else nl 2 @ '','' @ dquote ''rename_pattern'' @ '': '' @ dquote pattern @ '','' @
        nl 2 @ dquote ''rename_replacement'' @ '': '' @ dquote replacement @ nl 1)"

definition restore_text :: "string list \<Rightarrow> string \<Rightarrow> string \<Rightarrow> string \<Rightarrow> string" where
  "restore_text dbs backupId pattern replacement =
     nl 2 @ ''{'' @ nl 3 @ dquote ''vault'' @ '': '' @ dquote backupId @ '','' @
     nl 3 @ dquote ''skip_users_recovery'' @ '': '' @ dquote ''true'' @ '','' @ [CHR 9, CHR 9] @
     nl 3 @ dquote ''dbs'' @ '': ['' @ dquote (join '','' dbs) @ '']'' @
     nl 2 @ namesRegenerateRequestPart pattern replacement @ nl 2 @ ''}'' @ [CHR 9, CHR 9] @ nl 2"

definition requestRestore ::
  "'s env \<Rightarrow> backup_provider \<Rightarrow> string \<Rightarrow> string list \<Rightarrow> string \<Rightarrow> string \<Rightarrow> string \<Rightarrow>
     ('s, (go_error + unit) go) adapter" where
  "requestRestore E bp rid dbs backupId pattern replacement =
     (case prepareRestoreRequest bp rid (restore_text dbs backupId pattern replacement) of
        Panic p \<Rightarrow> return (Panic p)
      | Ret rq \<Rightarrow> no_panic (onOk (curator_Do E rq) (\<lambda>response.
          return (if StatusCode response = 404 then Inl ErrBackupNotFound
            else if StatusCode response \<ge> 500 then Inl ErrCuratorUnavailable
            else Inr ()))))"

text \<open>\<^verbatim>\<open>parts := strings.Split(pair, ":")\<close> and its first two elements.\<close>

definition split_pair :: "string \<Rightarrow> string \<times> string" where
  "split_pair pair = (let parts = split_on (CHR '':'') pair in (parts ! 0, parts ! 1))"

definition prepareChangeNameRequestPart :: "string list \<Rightarrow> string" where
  "prepareChangeNameRequestPart renames =
     (if renames = [] then []
      else '','' @ dquote ''changeDbNames'' @ '': {'' @
        join '','' (map (\<lambda>pair. dquote (fst (split_pair pair)) @ '':'' @ dquote (snd (split_pair pair))) renames) @ ''}'')"

definition restoration_text :: "string list \<Rightarrow> string \<Rightarrow> string list \<Rightarrow> string" where
  "restoration_text dbs backupId renames =
     nl 2 @ ''{'' @ nl 3 @ dquote ''vault'' @ '': '' @ dquote backupId @ '','' @
     nl 3 @ dquote ''skip_users_recovery'' @ '': '' @ dquote ''true'' @ '','' @
     nl 3 @ dquote ''dbs'' @ '': ['' @ join '','' dbs @ '']'' @
     nl 2 @ prepareChangeNameRequestPart renames @ nl 2 @ ''}'' @ [CHR 9, CHR 9] @ nl 2"

definition requestRestoration ::
  "'s env \<Rightarrow> backup_provider \<Rightarrow> string \<Rightarrow> string list \<Rightarrow> string \<Rightarrow> string list \<Rightarrow>
     ('s, (go_error + string) go) adapter" where
  "requestRestoration E bp rid dbs backupId renames =
     (case prepareRestoreRequest bp rid (restoration_text dbs backupId renames) of
        Panic p \<Rightarrow> return (Panic p)
      | Ret rq \<Rightarrow> no_panic (onOk (curator_Do E rq) (\<lambda>response. return (ReadAll (Body response)))))"

section \<open>Snapshots and recovery states\<close>

definition getSnapshotStatus ::
  "'s env \<Rightarrow> string \<Rightarrow> string \<Rightarrow> ('s, go_error + snapshot_status) adapter" where
  "getSnapshotStatus E snapshotName repo =
     onOk (DoRequest E (SnapshotStatusRequest repo [snapshotName]) dec_snapshots []) (\<lambda>snapshots.
       return (case find (\<lambda>s. ss_Snapshot s = snapshotName) snapshots of
         Some snapshot \<Rightarrow> Inr snapshot
       | None \<Rightarrow> Inl (Err (''failed to find '' @ squote snapshotName @ '' snapshot in '' @ repo))))"

definition getActualIndices ::
  "'s env \<Rightarrow> string \<Rightarrow> string \<Rightarrow> string go_map \<Rightarrow> ('s, go_error + string list) adapter" where
  "getActualIndices E backupId repoName changedNameDb = do {
     r \<leftarrow> getSnapshotStatus E backupId (if repoName = [] then backupId else repoName);
     return (case r of
       Inl e \<Rightarrow> Inl (Err (''failed to find '' @ squote backupId @ '' snapshot: '' @ err_text e))
     | Inr snapshot \<Rightarrow> Inr (map (\<lambda>name. if map_get [] changedNameDb name = [] then name
         else map_get [] changedNameDb name) (map fst (ss_Indices snapshot)))) }"

text \<open>The scan of the shards: a shard of the snapshot that is not done ends it.\<close>

fun scan_shards :: "string \<Rightarrow> string \<Rightarrow> shard_recovery_info list \<Rightarrow> bool \<Rightarrow> string" where
  "scan_shards backupId repoName [] foundOneDone = (if foundOneDone then ''SUCCESS'' else ''PROCEEDING'')"
| "scan_shards backupId repoName (s # ss) foundOneDone =
     (if src_Snapshot s = backupId \<and> src_Repository s = repoName then
        (if Stage s \<noteq> ''DONE'' \<and> Stage s \<noteq> ''done'' then ''PROCEEDING''
         else scan_shards backupId repoName ss True)
      else scan_shards backupId repoName ss foundOneDone)"

definition TrackRestoreIndices ::
  "'s env \<Rightarrow> string \<Rightarrow> string list \<Rightarrow> string \<Rightarrow> string go_map option \<Rightarrow> ('s, action_track) adapter" where
  "TrackRestoreIndices E backupId indices repoName changedNameDb = do {
     r \<leftarrow> DoRequest E (IndicesRecoveryRequest indices) dec_recovery_info [];
     return (case r of
       Inl _ \<Rightarrow> restoreTrack backupId ''PROCEEDING'' changedNameDb
     | Inr info \<Rightarrow> restoreTrack backupId
         (scan_shards backupId (if repoName = [] then backupId else repoName)
            (concat (map snd info)) False) changedNameDb) }"

section \<open>Restoring\<close>

text \<open>
  Waiting for one index, at most \<open>limit\<close> times: the last status and the number of tries. The
  pause of a second between tries is left out.
\<close>

fun track_loop ::
  "'s env \<Rightarrow> string \<Rightarrow> string \<Rightarrow> string \<Rightarrow> nat \<Rightarrow> nat \<Rightarrow> string \<Rightarrow> ('s, string \<times> nat) adapter" where
  "track_loop E backupId newName fromRepo 0 tries status = return (status, tries)"
| "track_loop E backupId newName fromRepo (Suc left) tries status = do {
     track \<leftarrow> TrackRestoreIndices E backupId [newName] fromRepo None;
     (if at_Status track = ''PROCEEDING''
      then track_loop E backupId newName fromRepo left (Suc tries) (at_Status track)
      else return (at_Status track, Suc tries)) }"

definition restore_limit :: nat where "restore_limit = 120"

fun restore_each ::
  "'s env \<Rightarrow> backup_provider \<Rightarrow> string \<Rightarrow> string \<Rightarrow> string \<Rightarrow> string list \<Rightarrow> string go_map \<Rightarrow>
     ('s, (go_error + string go_map) go) adapter" where
  "restore_each E bp rid backupId fromRepo [] changedNameDb = return (Ret (Inr changedNameDb))"
| "restore_each E bp rid backupId fromRepo (index # rest) changedNameDb = do {
     newName \<leftarrow> NameIndex E (indexNames bp);
     onRet (requestRestore E bp rid [index] backupId index newName) (\<lambda>requested.
       case requested of
         Inl e \<Rightarrow> return (Ret (Inl e))
       | Inr _ \<Rightarrow> do {
           (status, tries) \<leftarrow> track_loop E backupId newName fromRepo restore_limit 0 [];
           (if status \<noteq> ''SUCCESS'' then
              return (Ret (Inl (Err (''failed to restore '' @ index @ ''->'' @ newName @ '', status is '' @
                squote status @ '' after '' @ show_nat tries @ '' retries''))))
            else restore_each E bp rid backupId fromRepo rest (map_put index newName changedNameDb)) }) }"

definition max_length :: "string list \<Rightarrow> nat" where
  "max_length indices = foldl (\<lambda>m index. if length index > m then length index else m) 0 indices"

definition RestoreBackup ::
  "'s env \<Rightarrow> backup_provider \<Rightarrow> string \<Rightarrow> string \<Rightarrow> string list \<Rightarrow> string \<Rightarrow> bool \<Rightarrow>
     ('s, (go_error + string go_map option) go) adapter" where
  "RestoreBackup E bp rid backupId dbs fromRepo regenerateNames =
     (if dbs = [] then return (Ret (Inl (Err ''database prefixes to restore are not specified'')))
      else if regenerateNames then do {
        found \<leftarrow> getActualIndices E backupId fromRepo [];
        (case found of
           Inl e \<Rightarrow> return (Ret (Inl e))
         | Inr indices \<Rightarrow> do {
             name \<leftarrow> NameIndex E (indexNames bp);
             (if length (name @ ''_'') + max_length indices \<ge> 255 then
                onRet (restore_each E bp rid backupId fromRepo indices []) (\<lambda>r.
                  return (Ret (case r of Inl e \<Rightarrow> Inl e | Inr m \<Rightarrow> Inr (Some m))))
              else
                onRet (requestRestore E bp rid indices backupId ''.+'' (name @ ''_$0'')) (\<lambda>r.
                  return (Ret (case r of
                    Inl e \<Rightarrow> Inl e
                  | Inr _ \<Rightarrow> Inr (Some (fold (\<lambda>indexName. map_put indexName (name @ ''_'' @ indexName)) indices [])))))) }) }
      else onRet (requestRestore E bp rid dbs backupId [] []) (\<lambda>r.
        return (Ret (case r of Inl e \<Rightarrow> Inl e | Inr _ \<Rightarrow> Inr None))))"

text \<open>The provider's own copy of the prefix check.\<close>

definition checkPrefixUniqueness :: "'s env \<Rightarrow> string \<Rightarrow> ('s, bool \<times> go_error option) adapter" where
  "checkPrefixUniqueness E p = do {
     r \<leftarrow> GetUsersRequest_Do E no_options;
     return (case r of
       Inl e \<Rightarrow> (False, Some (Err (''failed to receive users: '' @ err_text e)))
     | Inr response \<Rightarrow>
         (if StatusCode response = 200 then
            (case ProcessBody (dec_map zero_user dec_user) (Body response) [] of
               Inl e \<Rightarrow> (False, Some e)
             | Inr users \<Rightarrow>
                 (if list_ex (occupies p) users then (False, Some (prefix_taken p)) else (True, None)))
          else (True, None))) }"

text \<open>
  The prefix generated for a database: a second one when the first is taken by an earlier
  database of the request. The generator is taken to return the empty string next to an error.
\<close>

definition regenerated_prefix ::
  "'s env \<Rightarrow> database \<Rightarrow> string list \<Rightarrow> ('s, go_error + string) adapter" where
  "regenerated_prefix E d taken = do {
     first \<leftarrow> silent (PrepareDatabaseName E (Namespace d) (Microservice d) 64);
     (if (case first of Inl _ \<Rightarrow> [] | Inr p \<Rightarrow> p) \<in> set taken
      then silent (PrepareDatabaseName E (Namespace d) (Microservice d) 64)
      else return first) }"

text \<open>The loop over the databases: the renames so far and the prefixes generated so far.\<close>

fun collect_renames ::
  "'s env \<Rightarrow> bool \<Rightarrow> database list \<Rightarrow> string list \<Rightarrow> string list \<Rightarrow> ('s, go_error + string list) adapter" where
  "collect_renames E regenerate [] renames taken = return (Inr renames)"
| "collect_renames E regenerate (d # ds) renames taken =
     (if regenerate then
        (if Prefix d \<noteq> [] then do {
           unique \<leftarrow> checkPrefixUniqueness E (Prefix d);
           (case unique of
              (True, Some e) \<Rightarrow> return (Inl e)
            | (True, None) \<Rightarrow> collect_renames E regenerate ds (renames @ [db_Name d @ '':'' @ Prefix d]) taken
            | (False, _) \<Rightarrow> collect_renames E regenerate ds renames taken) }
         else onOk (regenerated_prefix E d taken) (\<lambda>p.
           collect_renames E regenerate ds (renames @ [db_Name d @ '':'' @ p]) (p # taken)))
      else collect_renames E regenerate ds renames taken)"

definition changed_names :: "string list \<Rightarrow> string go_map option" where
  "changed_names renames =
     (if renames = [] then None
      else Some (fold (\<lambda>pair. map_put (fst (split_pair pair)) (snd (split_pair pair))) renames []))"

definition ProcessRestorationRequest ::
  "'s env \<Rightarrow> backup_provider \<Rightarrow> string \<Rightarrow> string \<Rightarrow> restoration_request \<Rightarrow>
     ('s, (go_error + string go_map option \<times> string) go) adapter" where
  "ProcessRestorationRequest E bp rid backupId r =
     (if Databases r = [] then return (Ret (Inl (Err ''database to restore are not specified'')))
      else do {
        collected \<leftarrow> collect_renames E (RegenerateNames r) (Databases r) [] [];
        (case collected of
           Inl e \<Rightarrow> return (Ret (Inl e))
         | Inr renames \<Rightarrow>
             onRet (requestRestoration E bp rid (map (\<lambda>d. dquote (db_Name d)) (Databases r)) backupId renames) (\<lambda>x.
               return (Ret (case x of Inl e \<Rightarrow> Inl e | Inr trackId \<Rightarrow> Inr (changed_names renames, trackId))))) })"

section \<open>Handlers\<close>

definition CollectBackupHandler :: "'s env \<Rightarrow> backup_provider \<Rightarrow> incoming \<Rightarrow> ('s, reply go) adapter" where
  "CollectBackupHandler E bp r = do {
     rid \<leftarrow> PrepareContext E r;
     (case unmarshal (dec_list [] dec_string) (in_body r) [] of
        Inl e \<Rightarrow> return (Ret (error_reply e))
      | Inr databases \<Rightarrow>
          onRet (CollectBackup E bp rid databases) (\<lambda>x. case x of
            Inl e \<Rightarrow> return (Ret (error_reply e))
          | Inr backupID \<Rightarrow> do {
              (response, err) \<leftarrow> TrackBackup E bp rid backupID;
              return (Ret (case err of
                Some e \<Rightarrow> (500, Text (''failed to create snapshot, curator return an error: '' @ err_text e))
              | None \<Rightarrow> ProcessResponseBody 0 (Doc (enc_action_track response)) 202)) })) }"

definition DeleteBackupHandler :: "'s env \<Rightarrow> backup_provider \<Rightarrow> incoming \<Rightarrow> ('s, reply) adapter" where
  "DeleteBackupHandler E bp r = do {
     rid \<leftarrow> PrepareContext E r;
     x \<leftarrow> DeleteBackup E bp rid (map_get [] (in_vars r) ''backupID'');
     return (case x of
       Inl e \<Rightarrow> (if errors_Is e ErrBackupNotFound then 404 else 500, Text (err_text e))
     | Inr (text, status) \<Rightarrow> (if status > 200 then (status, Text text) else (200, Text []))) }"

definition TrackBackupHandler :: "'s env \<Rightarrow> backup_provider \<Rightarrow> incoming \<Rightarrow> ('s, reply) adapter" where
  "TrackBackupHandler E bp r = do {
     rid \<leftarrow> PrepareContext E r;
     (response, err) \<leftarrow> TrackBackup E bp rid (map_get [] (in_vars r) ''backupID'');
     return (case err of
       None \<Rightarrow> ProcessResponseBody 0 (Doc (enc_action_track response)) 0
     | Some e \<Rightarrow>
         (if errors_Is e ErrBackupNotFound then ProcessResponseBody 404 (Doc (enc_action_track response)) 0
          else error_reply e)) }"

text \<open>
  After a failed \<^verbatim>\<open>TrackRestore\<close> the handler writes the error and goes on: what it writes later
  follows in the same body.
\<close>

definition RestoreBackupHandler ::
  "'s env \<Rightarrow> backup_provider \<Rightarrow> string \<Rightarrow> string \<Rightarrow> incoming \<Rightarrow> ('s, reply go) adapter" where
  "RestoreBackupHandler E bp repo basePath r = do {
     rid \<leftarrow> PrepareContext E r;
     let backupID = map_get [] (in_vars r) ''backupID'';
     (case unmarshal (dec_list [] dec_string) (in_body r) [] of
        Inl e \<Rightarrow> return (Ret (error_reply e))
      | Inr databases \<Rightarrow>
          (let regenerateNames = (map_get [] (in_query r) ''regenerateNames'' = ''true'') in
           onRet (RestoreBackup E bp rid backupID databases repo regenerateNames) (\<lambda>x. case x of
             Inl e \<Rightarrow> return (Ret (if errors_Is e ErrBackupNotFound then 404 else 500, Text (err_text e)))
           | Inr changedNameDb \<Rightarrow> do {
               (response, err) \<leftarrow> TrackRestore E bp rid backupID changedNameDb;
               let status = (case err of None \<Rightarrow> 0 | Some _ \<Rightarrow> 500);
               let written = (case err of None \<Rightarrow> [] | Some e \<Rightarrow> err_text e);
               (if regenerateNames then do {
                  found \<leftarrow> getActualIndices E backupID repo (case changedNameDb of None \<Rightarrow> [] | Some m \<Rightarrow> m);
                  return (Ret (case found of
                    Inl e \<Rightarrow> ProcessResponseBody status (Text (written @ err_text e)) 500
                  | Inr indices \<Rightarrow>
                      (let trackPath = basePath @ ''/backups/track/restoring/backups/'' @ backupID @ ''/indices/'' @
                         join '','' indices
                       in ProcessResponseBody status
                         (Text (written @ json_print (enc_action_track (response\<lparr>at_TrackPath := Some trackPath\<rparr>)))) 0))) }
                else return (Ret (ProcessResponseBody status
                  (Text (written @ json_print (enc_action_track response))) 0))) }))) }"

definition RestorationBackupHandler ::
  "'s env \<Rightarrow> backup_provider \<Rightarrow> incoming \<Rightarrow> ('s, reply go) adapter" where
  "RestorationBackupHandler E bp r = do {
     rid \<leftarrow> PrepareContext E r;
     (case unmarshal dec_restoration_request (in_body r) \<lparr>Databases = [], RegenerateNames = False\<rparr> of
        Inl e \<Rightarrow> return (Ret (error_reply e))
      | Inr req \<Rightarrow>
          onRet (ProcessRestorationRequest E bp rid (map_get [] (in_vars r) ''backupID'') req) (\<lambda>x. case x of
            Inl e \<Rightarrow> return (Ret (error_reply e))
          | Inr (changedNameDb, trackId) \<Rightarrow> do {
              (response, err) \<leftarrow> TrackRestore E bp rid trackId changedNameDb;
              return (Ret (case err of
                Some e \<Rightarrow> (if errors_Is e ErrBackupNotFound then 404 else 500, Text (err_text e))
              | None \<Rightarrow> ProcessResponseBody 0 (Doc (enc_action_track response)) 0)) })) }"

definition TrackRestoreFromTrackIdHandler :: "'s env \<Rightarrow> backup_provider \<Rightarrow> incoming \<Rightarrow> ('s, reply) adapter" where
  "TrackRestoreFromTrackIdHandler E bp r = do {
     rid \<leftarrow> PrepareContext E r;
     (response, err) \<leftarrow> TrackRestore E bp rid (map_get [] (in_vars r) ''backupID'') None;
     return (ProcessResponseBody
       (case err of None \<Rightarrow> 0 | Some e \<Rightarrow> if errors_Is e ErrBackupNotFound then 404 else 500)
       (Doc (enc_action_track response)) 0) }"

definition TrackRestoreFromIndicesHandler ::
  "'s env \<Rightarrow> string \<Rightarrow> incoming \<Rightarrow> ('s, reply) adapter" where
  "TrackRestoreFromIndicesHandler E fromRepo r = do {
     _ \<leftarrow> PrepareContext E r;
     response \<leftarrow> TrackRestoreIndices E (map_get [] (in_vars r) ''backupID'')
       (split_on (CHR '','') (map_get [] (in_vars r) ''indices'')) fromRepo None;
     return (ProcessResponseBody 0 (Doc (enc_action_track response)) 200) }"

section \<open>Facts\<close>

lemma sends_curator_Do [sends_intros]: "R (Curator rq) \<Longrightarrow> sends R (curator_Do E rq)"
  by (simp add: curator_Do_def sends_request)

lemma run_curator_Do [run_simps]:
  "run_state (curator_Do E rq) w =
     (case curator_do E rq (srv w) of (r, s) \<Rightarrow> (r, w\<lparr>srv := s, trace := trace w @ [Curator rq]\<rparr>))"
  by (simp add: curator_Do_def run_simps)

text \<open>A shard belongs to a restoration when it comes from its snapshot and repository.\<close>

definition restores :: "string \<Rightarrow> string \<Rightarrow> shard_recovery_info \<Rightarrow> bool" where
  "restores backupId repoName s \<longleftrightarrow> src_Snapshot s = backupId \<and> src_Repository s = repoName"

lemma scan_shards_iff:
  "scan_shards backupId repoName ss found =
     (if (found \<or> (\<exists>s \<in> set ss. restores backupId repoName s)) \<and>
         (\<forall>s \<in> set ss. restores backupId repoName s \<longrightarrow> Stage s \<in> {''DONE'', ''done''})
      then ''SUCCESS'' else ''PROCEEDING'')"
  by (induction backupId repoName ss found rule: scan_shards.induct) (auto simp: restores_def)

lemma checkPrefixUniqueness_eq: "checkPrefixUniqueness E p = CheckPrefixUniqueness E p"
proof -
  have "scan_users p = (\<lambda>us. if list_ex (occupies p) us then (False, Some (prefix_taken p)) else (True, None))"
    by (rule ext) (simp add: scan_users_iff list_ex_iff)
  then show ?thesis unfolding checkPrefixUniqueness_def CheckPrefixUniqueness_def by (rule ssubst) (rule refl)
qed

lemma max_length_ge: "index \<in> set indices \<Longrightarrow> length index \<le> max_length indices"
proof -
  have mono: "\<And>m. m \<le> foldl (\<lambda>m index. if length index > m then length index else m) m xs" for xs :: "string list"
    by (induction xs) (auto intro: le_trans [OF less_imp_le])
  have "index \<in> set indices \<Longrightarrow>
      length index \<le> foldl (\<lambda>m index. if length index > m then length index else m) m indices" for m
  proof (induction indices arbitrary: m)
    case (Cons x xs)
    then show ?case using mono [of "if length x > m then length x else m" xs] by auto
  qed simp
  then show "index \<in> set indices \<Longrightarrow> length index \<le> max_length indices" by (simp add: max_length_def)
qed

lemma track_loop_bound:
  "run_state (track_loop E backupId newName fromRepo left tries status) w = ((st, n), w') \<Longrightarrow>
     tries \<le> n \<and> n \<le> tries + left \<and>
     trace w' = trace w @ replicate (n - tries) (OpenSearch (IndicesRecoveryRequest [newName]))"
proof (induction left arbitrary: tries status w)
  case 0
  then show ?case by simp
next
  case (Suc left)
  obtain track w1 where t: "run_state (TrackRestoreIndices E backupId [newName] fromRepo None) w = (track, w1)"
    by fastforce
  then have tr: "trace w1 = trace w @ [OpenSearch (IndicesRecoveryRequest [newName])]"
    by (auto simp: TrackRestoreIndices_def DoRequest_def run_simps split: prod.splits sum.splits)
  show ?case
  proof (cases "at_Status track = ''PROCEEDING''")
    case True
    then have "run_state (track_loop E backupId newName fromRepo left (Suc tries) (at_Status track)) w1 = ((st, n), w')"
      using Suc.prems t by simp
    from Suc.IH [OF this] obtain d where "n = Suc tries + d" "d \<le> left"
      "trace w' = trace w1 @ replicate d (OpenSearch (IndicesRecoveryRequest [newName]))"
      by (auto simp: le_iff_add)
    then show ?thesis using tr by simp
  next
    case False
    then show ?thesis using Suc.prems t tr by auto
  qed
qed

lemma fold_map_put_get:
  "map_of (fold (\<lambda>k. map_put k (f k)) ks m) k = (if k \<in> set ks then Some (f k) else map_of m k)"
  by (induction ks arbitrary: m) (auto simp: gomap.find_put)

lemma split_pair_eq:
  "CHR '':'' \<notin> set a \<Longrightarrow> CHR '':'' \<notin> set b \<Longrightarrow> split_pair (a @ CHR '':'' # b) = (a, b)"
  using split_on_append [of "CHR '':''" a b] split_on_no_sep [of "CHR '':''" b] by (simp add: split_pair_def)

lemma trace_NameIndex: "run_state (NameIndex E a) w = (n, w') \<Longrightarrow> trace w' = trace w"
  by (auto simp: NameIndex_def NameIndexPrefixed_def GetUUID_def run_simps split: prod.splits)

lemma trace_requestRestore:
  "run_state (requestRestore E bp rid dbs backupId pattern replacement) w = (Ret r, w') \<Longrightarrow>
     \<exists>rq. trace w' = trace w @ [Curator rq]"
  by (auto simp: requestRestore_def run_simps split: go.splits prod.splits sum.splits)

lemma restore_each_ok:
  "run_state (restore_each E bp rid backupId fromRepo indices m) w = (Ret r, w') \<Longrightarrow>
     length (trace w') \<le> length (trace w) + (1 + restore_limit) * length indices \<and>
     (\<forall>m'. r = Inr m' \<longrightarrow> dom (map_of m') = set indices \<union> dom (map_of m))"
proof (induction indices arbitrary: m w)
  case Nil
  then show ?case by auto
next
  case (Cons index rest)
  obtain newName w1 where n: "run_state (NameIndex E (indexNames bp)) w = (newName, w1)" by fastforce
  obtain x w2 where x: "run_state (requestRestore E bp rid [index] backupId index newName) w1 = (x, w2)" by fastforce
  with Cons.prems n obtain q where q: "x = Ret q" by (cases x) (auto simp: run_simps)
  obtain rq where t2: "trace w2 = trace w @ [Curator rq]"
    using trace_requestRestore x q trace_NameIndex [OF n] by metis
  show ?case
  proof (cases q)
    case (Inl e)
    then show ?thesis using Cons.prems n x q t2 by (auto simp: run_simps)
  next
    case (Inr u)
    obtain st k w3 where l: "run_state (track_loop E backupId newName fromRepo restore_limit 0 []) w2 = ((st, k), w3)"
      by (metis surj_pair)
    have t3: "length (trace w3) \<le> length (trace w) + (1 + restore_limit)"
      using track_loop_bound [OF l] t2 by auto
    show ?thesis
    proof (cases "st = ''SUCCESS''")
      case True
      then have "run_state (restore_each E bp rid backupId fromRepo rest (map_put index newName m)) w3 = (Ret r, w')"
        using Cons.prems n x q Inr l by (simp add: run_simps)
      from Cons.IH [OF this] t3 show ?thesis
        by (auto simp: gomap.find_put dom_def split: if_splits)
    next
      case False
      then show ?thesis using Cons.prems n x q Inr l t3 by (auto simp: run_simps)
    qed
  qed
qed

section \<open>Properties\<close>

text \<open>
  A restoration tracked by its indices is reported as successful exactly when the cluster's
  recovery information has a shard that comes from the snapshot and all such shards are done;
  in every other case, errors included, it is reported as proceeding.
\<close>

theorem TrackRestoreIndices_status:
  assumes "run_state (DoRequest E (IndicesRecoveryRequest indices) dec_recovery_info []) w = (r, w')"
    and "repoName \<noteq> []"
  shows "run_state (TrackRestoreIndices E backupId indices repoName changed) w =
    (restoreTrack backupId
      (case r of
         Inl _ \<Rightarrow> ''PROCEEDING''
       | Inr info \<Rightarrow>
           (if (\<exists>ss \<in> snd ` set info. \<exists>s \<in> set ss. src_Snapshot s = backupId \<and> src_Repository s = repoName) \<and>
               (\<forall>ss \<in> snd ` set info. \<forall>s \<in> set ss. src_Snapshot s = backupId \<and> src_Repository s = repoName \<longrightarrow>
                  Stage s = ''DONE'' \<or> Stage s = ''done'')
            then ''SUCCESS'' else ''PROCEEDING'')) changed, w')"
  using assms
  by (cases r) (auto simp: TrackRestoreIndices_def scan_shards_iff restores_def)

definition recovery_answer :: json where
  "recovery_answer = JObj [(''ns_a'', JObj [(''shards'', JArr [JObj [(''stage'', JStr ''DONE''),
     (''source'', JObj [(''snapshot'', JStr ''b1''), (''repository'', JStr ''repo'')])]])])]"

theorem TrackRestoreIndices_status_witness:
  "fst (run_state (TrackRestoreIndices script_env ''b1'' [''ns_a''] ''repo'' None) (answers [ok_doc recovery_answer])) =
     restoreTrack ''b1'' ''SUCCESS'' None"
proof -
  have run: "run_state (DoRequest script_env (IndicesRecoveryRequest [''ns_a'']) dec_recovery_info []) (answers [ok_doc recovery_answer]) =
      (Inr [(''ns_a'', [\<lparr>sh_Type = [], Stage = ''DONE'', src_Snapshot = ''b1'', src_Repository = ''repo'', src_Index = []\<rparr>])],
       \<lparr>srv = ([], 0), trace = [OpenSearch (IndicesRecoveryRequest [''ns_a''])]\<rparr>)"
    by code_simp
  show ?thesis by (subst TrackRestoreIndices_status [OF run]) simp_all
qed


definition snapshot_answer :: json where
  "snapshot_answer = JObj [(''snapshots'', JArr [JObj [(''snapshot'', JStr ''b1''), (''state'', JStr ''SUCCESS''),
     (''indices'', JObj [(''ns_a'', JObj []), (''ns_b'', JObj [])])]])]"

definition restore_world :: "(script, event) world" where
  "restore_world = answers [ok_doc snapshot_answer, status_only 200]"

definition test_backup_provider :: backup_provider where
  "test_backup_provider = NewBackupProvider script_env ''root''"

definition restore_run :: "(go_error + string go_map option) go \<times> (script, event) world" where
  "restore_run = run_state (RestoreBackup script_env test_backup_provider ''1'' ''b1'' [''ns''] ''repo'' True) restore_world"




text \<open>
  Tracking a backup answers 404 exactly when the curator does not know it, and success only
  when the curator reports the job as successful; a running or queued job is proceeding, and any
  other state is a failure.
\<close>

theorem TrackBackupHandler_status:
  assumes "in_id r \<noteq> []"
    and "url_ok (curator_url (bp_Curator bp) @ ''/jobstatus/'' @ map_get [] (in_vars r) ''backupID'')"
    and "curator_do E (curator_request bp (in_id r) ''GET'' (''/jobstatus/'' @ map_get [] (in_vars r) ''backupID'') None) (srv w) =
      (Inr \<lparr>StatusCode = code, Body = b\<rparr>, s')"
    and "code \<noteq> 404 \<Longrightarrow> unmarshal dec_job_status b zero_job_status = Inr job"
  shows "fst (run_state (TrackBackupHandler E bp r) w) =
    (let trackId = map_get [] (in_vars r) ''backupID'' in
     if code = 404 then (404, Doc (enc_action_track (backupTrack trackId ''FAIL'')))
     else (200, Doc (enc_action_track (backupTrack trackId
       (if State job = ''Successful'' then ''SUCCESS''
        else if State job \<in> {''Queued'', ''Processing''} then ''PROCEEDING'' else ''FAIL'')))))"
  using assms
  by (auto simp: TrackBackupHandler_def PrepareContext_def TrackBackup_def getJobStatus_def Let_def
      curator_request_def run_simps ProcessResponseBody_def)

definition track_request :: incoming where
  "track_request = \<lparr>in_id = ''1'', in_vars = [(''backupID'', ''b1'')], in_query = [], in_body = Text []\<rparr>"

theorem TrackBackupHandler_status_witness:
  "fst (run_state (TrackBackupHandler script_env test_backup_provider track_request)
      (answers [ok_doc (JObj [(''status'', JStr ''Queued'')])])) =
     (200, Doc (enc_action_track (backupTrack ''b1'' ''PROCEEDING'')))"
proof -
  have v: "in_id track_request = ''1''" "map_get [] (in_vars track_request) ''backupID'' = ''b1''" by code_simp+
  have u: "url_ok (curator_url (bp_Curator test_backup_provider) @ ''/jobstatus/'' @ ''b1'')" by code_simp
  have j: "unmarshal dec_job_status (Doc (JObj [(''status'', JStr ''Queued'')])) zero_job_status =
      Inr (zero_job_status\<lparr>State := ''Queued''\<rparr>)" by code_simp
  show ?thesis
    by (subst TrackBackupHandler_status [where code = 200 and b = "Doc (JObj [(''status'', JStr ''Queued'')])" and
          job = "zero_job_status\<lparr>State := ''Queued''\<rparr>" and s' = "([], 0)"])
      (use v u j in \<open>simp_all add: script_env_def answers_def ok_doc_def\<close>)
qed

text \<open>
  Deleting a backup answers 404 when the curator does not know it, 500 when the curator fails,
  and otherwise passes on any status above 200 together with the curator's text.
\<close>

theorem DeleteBackupHandler_status:
  assumes "in_id r \<noteq> []"
    and "url_ok (curator_url (bp_Curator bp) @ ''/evict/'' @ map_get [] (in_vars r) ''backupID'')"
    and "curator_do E (curator_request bp (in_id r) ''POST'' (''/evict/'' @ map_get [] (in_vars r) ''backupID'') None) (srv w) =
      (Inr \<lparr>StatusCode = code, Body = Text msg\<rparr>, s')"
  shows "fst (run_state (DeleteBackupHandler E bp r) w) =
    (if code = 404 then (404, Text ''backup not found'')
     else if code = 500 then (500, Text ''curator return internal server error'')
     else if code > 200 then (code, Text msg) else (200, Text []))"
  using assms
  by (auto simp: DeleteBackupHandler_def PrepareContext_def DeleteBackup_def Let_def curator_request_def run_simps)

theorem DeleteBackupHandler_status_witness:
  "fst (run_state (DeleteBackupHandler script_env test_backup_provider track_request) (answers [status_only 202])) =
     (202, Text [])"
proof -
  have v: "in_id track_request = ''1''" "map_get [] (in_vars track_request) ''backupID'' = ''b1''" by code_simp+
  have u: "url_ok (curator_url (bp_Curator test_backup_provider) @ ''/evict/'' @ ''b1'')" by code_simp
  show ?thesis
    by (subst DeleteBackupHandler_status [where code = 202 and msg = "[]" and s' = "([], 0)"])
      (use v u in \<open>simp_all add: script_env_def answers_def status_only_def\<close>)
qed

lemma collect_renames_given:
  assumes "\<And>d w. d \<in> set ds \<Longrightarrow> Prefix d \<noteq> [] \<and> fst (run_state (CheckPrefixUniqueness E (Prefix d)) w) = (True, None)"
  shows "fst (run_state (collect_renames E True ds renames taken) w) =
    Inr (renames @ map (\<lambda>d. db_Name d @ '':'' @ Prefix d) ds)"
  using assms
proof (induction ds arbitrary: renames w)
  case Nil
  then show ?case by simp
next
  case (Cons d ds)
  obtain w1 where "run_state (CheckPrefixUniqueness E (Prefix d)) w = ((True, None), w1)" "Prefix d \<noteq> []"
    using Cons.prems [of d w] by (metis list.set_intros(1) prod.collapse)
  moreover have "fst (run_state (collect_renames E True ds (renames @ [db_Name d @ '':'' @ Prefix d]) taken) w1) =
      Inr ((renames @ [db_Name d @ '':'' @ Prefix d]) @ map (\<lambda>d. db_Name d @ '':'' @ Prefix d) ds)"
    by (rule Cons.IH) (simp add: Cons.prems)
  ultimately show ?case by (simp add: checkPrefixUniqueness_eq)
qed

lemma changed_names_pairs:
  assumes "ps \<noteq> []" and "\<forall>(a, b) \<in> set ps. CHR '':'' \<notin> set a \<and> CHR '':'' \<notin> set b"
  shows "\<exists>m. changed_names (map (\<lambda>(a, b). a @ '':'' @ b) ps) = Some m \<and> map_of m = map_of (rev ps)"
proof -
  have "fold (\<lambda>pair. map_put (fst (split_pair pair)) (snd (split_pair pair))) (map (\<lambda>(a, b). a @ '':'' @ b) ps) [] =
      fold (\<lambda>(k, v). map_put k v) ps []"
    unfolding fold_map using assms(2) by (intro fold_cong) (auto simp: split_pair_eq)
  then show ?thesis
    using assms(1) by (auto simp: changed_names_def gomap.find_fold_put split: option.splits)
qed

text \<open>
  When every database of a restoration request brings a prefix that is free, and no name or
  prefix holds a colon, the names that are returned as changed map every database to its prefix.
\<close>

theorem ProcessRestorationRequest_renames:
  assumes "\<And>d w. d \<in> set (Databases r) \<Longrightarrow>
      Prefix d \<noteq> [] \<and> fst (run_state (CheckPrefixUniqueness E (Prefix d)) w) = (True, None)"
    and "\<And>d. d \<in> set (Databases r) \<Longrightarrow> CHR '':'' \<notin> set (db_Name d) \<and> CHR '':'' \<notin> set (Prefix d)"
    and "distinct (map db_Name (Databases r))" and "RegenerateNames r"
    and run: "run_state (ProcessRestorationRequest E bp rid backupId r) w = (Ret (Inr (changed, trackId)), w')"
  shows "\<exists>m. changed = Some m \<and> dom (map_of m) = db_Name ` set (Databases r) \<and>
    (\<forall>d \<in> set (Databases r). map_of m (db_Name d) = Some (Prefix d))"
proof -
  let ?ps = "map (\<lambda>d. (db_Name d, Prefix d)) (Databases r)"
  have ne: "Databases r \<noteq> []" using run by (auto simp: ProcessRestorationRequest_def)
  have "fst (run_state (collect_renames E True (Databases r) [] []) w) =
      Inr (map (\<lambda>(a, b). a @ '':'' @ b) ?ps)"
    using collect_renames_given [OF assms(1), of "Databases r" "[]" "[]" w] by (simp add: comp_def)
  then have "changed = changed_names (map (\<lambda>(a, b). a @ '':'' @ b) ?ps)"
    using run ne \<open>RegenerateNames r\<close>
    by (auto simp: ProcessRestorationRequest_def run_simps split: prod.splits go.splits sum.splits)
  then obtain m where "changed = Some m" "map_of m = map_of (rev ?ps)"
    using changed_names_pairs [of ?ps] ne assms(2) by auto
  moreover have "map_of (rev ?ps) = map_of ?ps"
    using assms(3) by (subst map_of_inject_set) (simp_all add: comp_def rev_map [symmetric] distinct_rev)
  moreover have "dom (map_of ?ps) = db_Name ` set (Databases r)"
    by (simp add: dom_map_of_conv_image_fst image_image)
  moreover have "\<forall>d \<in> set (Databases r). map_of ?ps (db_Name d) = Some (Prefix d)"
    using assms(3) by (auto intro!: map_of_is_SomeI simp: comp_def)
  ultimately show ?thesis by auto
qed

definition restoration_of_ns :: restoration_request where
  "restoration_of_ns = \<lparr>Databases = [\<lparr>Namespace = [], Microservice = [], db_Name = ''old'', Prefix = ''ns''\<rparr>],
     RegenerateNames = True\<rparr>"

definition free_env :: "script env" where
  "free_env = script_env\<lparr>perform := (\<lambda>_ s. (status_only 404, s))\<rparr>"

lemma free_prefix: "fst (run_state (CheckPrefixUniqueness free_env p) w) = (True, None)"
  by (simp add: CheckPrefixUniqueness_def run_simps free_env_def status_only_def)

definition restoration_run :: "(go_error + string go_map option \<times> string) go \<times> (script, event) world" where
  "restoration_run = run_state (ProcessRestorationRequest free_env test_backup_provider ''1'' ''b1'' restoration_of_ns)
     (answers [Inr \<lparr>StatusCode = 200, Body = Text ''t1''\<rparr>])"

theorem ProcessRestorationRequest_renames_witness:
  "fst restoration_run = Ret (Inr (Some [(''old'', ''ns'')], ''t1'')) \<and> map_of [(''old'', ''ns'')] ''old'' = Some ''ns''"
proof -
  have r: "fst restoration_run = Ret (Inr (Some [(''old'', ''ns'')], ''t1''))" by code_simp
  then have run: "run_state (ProcessRestorationRequest free_env test_backup_provider ''1'' ''b1'' restoration_of_ns)
      (answers [Inr \<lparr>StatusCode = 200, Body = Text ''t1''\<rparr>]) = (Ret (Inr (Some [(''old'', ''ns'')], ''t1'')), snd restoration_run)"
    by (simp add: restoration_run_def prod_eq_iff)
  have "\<exists>m. Some [(''old'', ''ns'')] = Some m \<and> dom (map_of m) = db_Name ` set (Databases restoration_of_ns) \<and>
      (\<forall>d \<in> set (Databases restoration_of_ns). map_of m (db_Name d) = Some (Prefix d))"
    by (rule ProcessRestorationRequest_renames [OF _ _ _ _ run]) (simp_all add: restoration_of_ns_def free_prefix)
  then show ?thesis using r by auto
qed

text \<open>
  A prefix that is already taken does not stop a restoration: the rename is dropped without
  an error and the database is restored under its old name.
\<close>

theorem taken_prefix_not_renamed:
  "fst (run_state (ProcessRestorationRequest script_env test_backup_provider ''1'' ''b1'' restoration_of_ns)
      (answers [ok_doc tenant_answer, Inr \<lparr>StatusCode = 200, Body = Text ''t1''\<rparr>])) =
   Ret (Inr (None, ''t1''))"
  by code_simp

text \<open>
  Collecting a backup of no particular databases panics instead of sending a request.
\<close>

theorem CollectBackup_without_databases_panics:
  assumes "url_ok (curator_url (bp_Curator bp) @ ''/backup'')"
  shows "\<exists>p. run_state (CollectBackup E bp rid []) w = (Panic p, w)"
  using assms by (simp add: CollectBackup_def curator_request_def Let_def)

theorem CollectBackup_without_databases_panics_witness:
  "\<exists>p. run_state (CollectBackup script_env test_backup_provider ''1'' []) (answers []) = (Panic p, answers [])"
  by (rule CollectBackup_without_databases_panics) code_simp

text \<open>
  When tracking a restoration that has begun fails, the handler does not stop: the reply has
  status 500 and a body in which the track record follows the error text.
\<close>

theorem RestoreBackupHandler_two_bodies:
  assumes "in_id r \<noteq> []" and "unmarshal (dec_list [] dec_string) (in_body r) [] = Inr dbs"
    and "map_get [] (in_query r) ''regenerateNames'' \<noteq> ''true''"
    and "run_state (RestoreBackup E bp (in_id r) (map_get [] (in_vars r) ''backupID'') dbs repo False) w = (Ret (Inr changed), w1)"
    and "run_state (TrackRestore E bp (in_id r) (map_get [] (in_vars r) ''backupID'') changed) w1 = ((track, Some e), w2)"
  shows "run_state (RestoreBackupHandler E bp repo basePath r) w =
    (Ret (500, Text (err_text e @ json_print (enc_action_track track))), w2)"
  using assms
  by (simp add: RestoreBackupHandler_def PrepareContext_def Let_def run_simps ProcessResponseBody_def)

definition restore_request :: incoming where
  "restore_request = \<lparr>in_id = ''1'', in_vars = [(''backupID'', ''b1'')], in_query = [], in_body = Doc (JArr [JStr ''ns''])\<rparr>"

theorem RestoreBackupHandler_two_bodies_witness:
  "\<exists>w'. run_state (RestoreBackupHandler script_env test_backup_provider ''repo'' ''/api'' restore_request)
      (answers [status_only 200, status_only 404]) =
    (Ret (500, Text (''backup not found'' @ json_print (enc_action_track (backupTrack ''b1'' ''FAIL'')))), w')"
proof -
  have v: "in_id restore_request = ''1''" "map_get [] (in_vars restore_request) ''backupID'' = ''b1''"
    "map_get [] (in_query restore_request) ''regenerateNames'' = []" by code_simp+
  have d: "unmarshal (dec_list [] dec_string) (in_body restore_request) [] = Inr [''ns'']" by code_simp
  let ?rs = "run_state (RestoreBackup script_env test_backup_provider ''1'' ''b1'' [''ns''] ''repo'' False) (answers [status_only 200, status_only 404])"
  let ?tr = "run_state (TrackRestore script_env test_backup_provider ''1'' ''b1'' None) (snd ?rs)"
  have "fst ?rs = Ret (Inr None)" by code_simp
  then have rs: "?rs = (Ret (Inr None), snd ?rs)" by (simp add: prod_eq_iff)
  have "fst ?tr = (backupTrack ''b1'' ''FAIL'', Some ErrBackupNotFound)" by code_simp
  then have tr: "?tr = ((backupTrack ''b1'' ''FAIL'', Some ErrBackupNotFound), snd ?tr)" by (simp add: prod_eq_iff)
  show ?thesis
    using RestoreBackupHandler_two_bodies [of restore_request "[''ns'']" script_env test_backup_provider "''repo''"
        "answers [status_only 200, status_only 404]" None "snd ?rs" "backupTrack ''b1'' ''FAIL''" ErrBackupNotFound "snd ?tr" "''/api''"]
      v d rs tr by auto
qed

end
