(* ===== verification/Executor.thy ===== *)
theory Executor
  imports Prelude
begin

text \<open>
  The background executor (\<^verbatim>\<open>background.go\<close>): a queue of at most five tasks, filled by
  \<^verbatim>\<open>Submit\<close> under a mutex and emptied by one goroutine. Tasks are values of an arbitrary type;
  the state also remembers which tasks were finished.
\<close>

record 't executor =
  queue :: "'t list"
  active :: bool
  started :: bool
  running :: "'t option"
  finished :: "'t list"

text \<open>The zero value of the struct: not active, and no goroutine takes work from its queue.\<close>

definition zero_executor :: "'t executor" where
  "zero_executor = \<lparr>queue = [], active = False, started = False, running = None, finished = []\<rparr>"

definition queue_capacity :: nat where "queue_capacity = 5"

definition NewBackgroundExecutor :: "'t executor" where
  "NewBackgroundExecutor = \<lparr>queue = [], active = True, started = True, running = None, finished = []\<rparr>"

text \<open>
  \<^verbatim>\<open>Submit\<close>: an inactive executor drops the work; an active one takes it when the channel has
  room and blocks otherwise (\<open>None\<close>: the call does not return in this state).
\<close>

definition Submit :: "'t \<Rightarrow> 't executor \<Rightarrow> 't executor option" where
  "Submit work x =
     (if active x then
        (if length (queue x) < queue_capacity then Some (x\<lparr>queue := queue x @ [work]\<rparr>) else None)
      else Some x)"

definition Shutdown :: "'t executor \<Rightarrow> 't executor" where
  "Shutdown x = (if active x then x\<lparr>active := False\<rparr> else x)"

text \<open>One turn of the goroutine: finish the task it runs, or take the next one from the queue.\<close>

definition worker_turn :: "'t executor \<Rightarrow> 't executor option" where
  "worker_turn x =
     (if \<not> started x then None
      else (case running x of
          Some t \<Rightarrow> Some (x\<lparr>running := None, finished := finished x @ [t]\<rparr>)
        | None \<Rightarrow> (case queue x of [] \<Rightarrow> None | t # ts \<Rightarrow> Some (x\<lparr>queue := ts, running := Some t\<rparr>))))"

text \<open>Runs from an executor: the list holds the tasks submitted and taken, in order.\<close>

inductive exec_run :: "'t executor \<Rightarrow> 't list \<Rightarrow> 't executor \<Rightarrow> bool" for init where
  begin_run: "exec_run init [] init"
| submit: "exec_run init ts x \<Longrightarrow> Submit t x = Some y \<Longrightarrow> exec_run init (if active x then ts @ [t] else ts) y"
| shutdown: "exec_run init ts x \<Longrightarrow> exec_run init ts (Shutdown x)"
| work: "exec_run init ts x \<Longrightarrow> worker_turn x = Some y \<Longrightarrow> exec_run init ts y"

section \<open>Facts\<close>

definition pending :: "'t executor \<Rightarrow> 't list" where
  "pending x = (case running x of None \<Rightarrow> [] | Some t \<Rightarrow> [t]) @ queue x"

lemma exec_run_fifo:
  "exec_run NewBackgroundExecutor ts x \<Longrightarrow>
     finished x @ pending x = ts \<and> started x \<and> length (queue x) \<le> queue_capacity"
proof (induction rule: exec_run.induct)
  case begin_run
  then show ?case by (simp add: NewBackgroundExecutor_def pending_def)
next
  case (submit ts x t y)
  then show ?case by (auto simp: Submit_def pending_def split: if_splits)
next
  case (shutdown ts x)
  then show ?case by (simp add: Shutdown_def pending_def)
next
  case (work ts x y)
  then show ?case by (auto simp: worker_turn_def pending_def split: option.splits list.splits)
qed

text \<open>Without the constructor nothing is ever taken.\<close>

lemma exec_run_zero: "exec_run zero_executor ts x \<Longrightarrow> ts = [] \<and> x = zero_executor"
proof (induction rule: exec_run.induct)
  case (submit ts x t y)
  then show ?case by (auto simp: Submit_def zero_executor_def)
qed (auto simp: Shutdown_def worker_turn_def zero_executor_def)

lemma worker_turn_shutdown: "worker_turn x = Some y \<Longrightarrow> active y = active x"
  by (auto simp: worker_turn_def split: if_splits option.splits list.splits)

text \<open>Left alone, the goroutine finishes everything that was taken: two turns per task.\<close>

fun turns :: "nat \<Rightarrow> 't executor \<Rightarrow> 't executor" where
  "turns 0 x = x"
| "turns (Suc n) x = (case worker_turn x of None \<Rightarrow> x | Some y \<Rightarrow> turns n y)"

lemma turns_drain:
  "started x \<Longrightarrow> 2 * length (queue x) + (if running x = None then 0 else 1) \<le> n \<Longrightarrow>
     pending (turns n x) = [] \<and> finished (turns n x) = finished x @ pending x"
proof (induction n arbitrary: x)
  case 0
  then show ?case by (cases "running x") (auto simp: pending_def)
next
  case (Suc n)
  show ?case
  proof (cases "worker_turn x")
    case None
    then show ?thesis using Suc.prems
      by (auto simp: worker_turn_def pending_def split: option.splits list.splits)
  next
    case (Some y)
    then have "started y" "2 * length (queue y) + (if running y = None then 0 else 1) \<le> n"
      "finished y @ pending y = finished x @ pending x"
      using Suc.prems by (auto simp: worker_turn_def pending_def split: option.splits list.splits)
    from Suc.IH [OF this(1,2)] this(3) Some show ?thesis by simp
  qed
qed

section \<open>Properties\<close>

text \<open>
  C32. Tasks are executed in the order in which they were submitted, each once: what is finished,
  what runs and what waits is together the sequence of accepted tasks, and at most five wait.
  When no further task comes, the goroutine finishes all of them, also after a shutdown.
\<close>

theorem executor_fifo:
  assumes "exec_run NewBackgroundExecutor ts x"
  shows "finished x @ (case running x of None \<Rightarrow> [] | Some t \<Rightarrow> [t]) @ queue x = ts \<and> length (queue x) \<le> 5 \<and>
    finished (turns (2 * length (queue x) + 1) x) = ts \<and> finished (turns (2 * length (queue x) + 1) (Shutdown x)) = ts"
proof -
  note f = exec_run_fifo [OF assms]
  have "finished (turns (2 * length (queue x) + 1) x) = finished x @ pending x"
    using turns_drain [of x "2 * length (queue x) + 1"] f by simp
  moreover have "queue (Shutdown x) = queue x" "started (Shutdown x)" "pending (Shutdown x) = pending x"
    "finished (Shutdown x) = finished x"
    using f by (auto simp: Shutdown_def pending_def)
  then have "finished (turns (2 * length (queue x) + 1) (Shutdown x)) = finished x @ pending x"
    using turns_drain [of "Shutdown x" "2 * length (queue x) + 1"] by simp
  ultimately show ?thesis using f by (auto simp: pending_def queue_capacity_def)
qed

definition two_tasks :: "nat executor" where
  "two_tasks = NewBackgroundExecutor\<lparr>queue := [7, 8]\<rparr>"

theorem executor_fifo_witness: "finished (turns 5 two_tasks) = [7, 8] \<and> exec_run NewBackgroundExecutor [7, 8] two_tasks"
proof -
  have "exec_run NewBackgroundExecutor ([] @ [7 :: nat]) (NewBackgroundExecutor\<lparr>queue := [7]\<rparr>)"
    using exec_run.submit [OF exec_run.begin_run [of NewBackgroundExecutor], where t = "7 :: nat"]
    by (simp add: Submit_def NewBackgroundExecutor_def queue_capacity_def)
  from exec_run.submit [OF this, where t = 8 and y = two_tasks]
  have r: "exec_run NewBackgroundExecutor [7, 8] two_tasks"
    by (simp add: Submit_def NewBackgroundExecutor_def queue_capacity_def two_tasks_def)
  from executor_fifo [OF r] r show ?thesis by (simp add: two_tasks_def)
qed

end
