(* ===== verification/Registration.thy ===== *)
theory Registration
  imports Backup Executor
begin

text \<open>
  Registration of the physical database in the aggregator (\<^verbatim>\<open>physical.go\<close>) with the migration it
  may ask for, and the health of the adapter (\<^verbatim>\<open>cluster.go\<close>, \<^verbatim>\<open>health.go\<close>).

  The messages exchanged with the aggregator are structs of \<^verbatim>\<open>qubership-dbaas-adapter-core\<close>.
  How they are written as JSON, and that package's constants, are the fields of the record
  \<open>dao\<close>. The migration loop runs as long as the aggregator answers 202; it is given fuel, and
  \<open>None\<close> is a run that has used it up.
\<close>

section \<open>Messages\<close>

record component =
  Address :: string
  cred_Username :: string
  cred_Password :: string

record registration_request =
  AdapterAddress :: string
  HttpBasicCredentials :: "string \<times> string"
  Labels :: "string go_map"
  SupportedRoles :: "string list"
  Features :: "bool go_map"
  rr_ApiVersion :: string
  rr_Status :: string

record additional_role =
  ar_Id :: string
  ar_ConnectionProperties :: "json go_map list"

record registration_response =
  Instruction_Id :: string
  AdditionalRoles :: "additional_role list"

record role_success =
  su_Id :: string
  su_ConnectionProperties :: "json go_map list"
  su_Resources :: "db_resource list"

record role_request =
  Success :: "role_success list"
  Failure :: "(string \<times> string) option"

record dao =
  StatusRunning :: string
  StatusRun :: string
  enc_registration :: "registration_request \<Rightarrow> json"
  dec_registration :: "registration_response decoder"
  enc_role_request :: "role_request \<Rightarrow> json"

section \<open>The provider\<close>

record registration_provider =
  rp_ApiVersion :: string
  dbaasAdapter :: component
  dbaasAggregator :: component
  physicalDatabaseId :: string
  labelsFileLocation :: string
  Health :: string
  rp_status :: string
  rp_executor :: "unit executor"

definition dec_supported_majors :: "int list decoder" where
  "dec_supported_majors = dec_struct
     [(''major'', \<lambda>j r. map_option (\<lambda>_. r) (dec_int j 0)), (''minor'', \<lambda>j r. map_option (\<lambda>_. r) (dec_int j 0)),
      field ''supportedMajors'' (dec_list 0 dec_int) id (\<lambda>f. f)]"

definition plain_request :: "string \<Rightarrow> string \<Rightarrow> http_request" where
  "plain_request meth url = \<lparr>rq_method = meth, rq_url = url, rq_query = [], rq_headers = [], rq_auth = None, rq_body = None\<rparr>"

definition aggregator_Do :: "'s env \<Rightarrow> http_request \<Rightarrow> ('s, go_error + http_response) adapter" where
  "aggregator_Do E rq = request (Aggregator rq) (aggregator_do E rq)"

definition getApiVersion :: "'s env \<Rightarrow> string \<Rightarrow> ('s, string) adapter" where
  "getApiVersion E aggregatorAddress =
     (let apiVersion = GetEnv E ''API_VERSION'' ApiV2; rq = plain_request ''GET'' (aggregatorAddress @ ''/api-version'') in
      if \<not> url_ok (rq_url rq) then return apiVersion
      else do {
        x \<leftarrow> aggregator_Do E rq;
        return (case x of
          Inl _ \<Rightarrow> apiVersion
        | Inr response \<Rightarrow>
            (if StatusCode response = 200 then
               (case ProcessBody dec_supported_majors (Body response) [] of
                  Inl _ \<Rightarrow> apiVersion
                | Inr majors \<Rightarrow> (if 3 \<in> set majors then ApiV2 else ApiV1))
             else ApiV1)) })"

text \<open>The constructor also hands the API version on to the provider of databases.\<close>

definition NewRegistrationProvider ::
  "'s env \<Rightarrow> dao \<Rightarrow> component \<Rightarrow> string \<Rightarrow> string \<Rightarrow> component \<Rightarrow> base_provider \<Rightarrow>
     ('s, registration_provider \<times> base_provider) adapter" where
  "NewRegistrationProvider E D aggregator labels databaseId adapter bp = do {
     apiVersion \<leftarrow> getApiVersion E (Address aggregator);
     return (\<lparr>rp_ApiVersion = apiVersion, dbaasAdapter = adapter, dbaasAggregator = aggregator,
        physicalDatabaseId = databaseId, labelsFileLocation = labels, Health = ''UNKNOWN'',
        rp_status = StatusRunning D, rp_executor = zero_executor\<rparr>, bp\<lparr>ApiVersion := apiVersion\<rparr>) }"

definition getAggregatorVersion :: "registration_provider \<Rightarrow> string" where
  "getAggregatorVersion rs = (if rp_ApiVersion rs = ApiV2 then ''v3'' else ''v1'')"

text \<open>A value that is not a string is an error, but the key is set all the same, to the empty string.\<close>

definition label_map :: "(string \<times> json) list \<Rightarrow> string go_map" where
  "label_map kvs = fold (\<lambda>(k, j). map_put k (ConvertAnyToString j)) kvs []"

definition ReadLabelsFile :: "'s env \<Rightarrow> registration_provider \<Rightarrow> ('s, string go_map) adapter" where
  "ReadLabelsFile E rs = do {
     file \<leftarrow> silent (ReadFile E (labelsFileLocation rs));
     return (case file of Inr (Doc (JObj kvs)) \<Rightarrow> label_map kvs | _ \<Rightarrow> []) }"

definition modifyReqParams :: "registration_provider \<Rightarrow> base_provider \<Rightarrow> registration_request \<Rightarrow> registration_request" where
  "modifyReqParams rs bp r =
     (if rp_ApiVersion rs = ApiV2 then
        r\<lparr>rr_ApiVersion := rp_ApiVersion rs, SupportedRoles := GetSupportedRoleTypes,
          Features := [(''multiusers'', True), (''tls'', IsOpenSearchTlsEnabled bp)],
          rr_Status := rp_status rs\<rparr>
      else r)"

definition prepareRequestParameters ::
  "'s env \<Rightarrow> dao \<Rightarrow> registration_provider \<Rightarrow> base_provider \<Rightarrow> ('s, string \<times> string \<times> body) adapter" where
  "prepareRequestParameters E D rs bp = do {
     labels \<leftarrow> ReadLabelsFile E rs;
     return (''PUT'', Address (dbaasAggregator rs) @ ''/api/'' @ getAggregatorVersion rs @
       ''/dbaas/opensearch/physical_databases/'' @ physicalDatabaseId rs,
       Doc (enc_registration D (modifyReqParams rs bp
         \<lparr>AdapterAddress = Address (dbaasAdapter rs),
          HttpBasicCredentials = (cred_Username (dbaasAdapter rs), cred_Password (dbaasAdapter rs)),
          Labels = labels, SupportedRoles = [], Features = [], rr_ApiVersion = [], rr_Status = []\<rparr>))) }"

definition doHealthRequest :: "'s env \<Rightarrow> registration_provider \<Rightarrow> ('s, go_error + int) adapter" where
  "doHealthRequest E rs =
     (let rq = plain_request ''GET'' (Address (dbaasAggregator rs) @ ''/health'') in
      if \<not> url_ok (rq_url rq) then
        return (Inl (Err (''failed to prepare request to get aggregator'' @ [CHR 39] @ ''s health: '' @ err_text bad_url)))
      else do {
        x \<leftarrow> aggregator_Do E rq;
        return (case x of
          Inl e \<Rightarrow> Inl (Err (''failed to get aggregator'' @ [CHR 39] @ ''s health: '' @ err_text e))
        | Inr response \<Rightarrow> Inr (StatusCode response)) })"

section \<open>Migration\<close>

text \<open>An interface value that is \<^verbatim>\<open>nil\<close> or the empty string.\<close>

definition unset :: "json \<Rightarrow> bool" where
  "unset j \<longleftrightarrow> j = JNull \<or> j = JStr []"

text \<open>Reading the first connection properties panics when there are none.\<close>

definition getAbsentRoleTypes :: "json go_map list \<Rightarrow> string list go" where
  "getAbsentRoleTypes received =
     (case received of
        [] \<Rightarrow> Panic ''runtime error: index out of range [0] with length 0''
      | _ \<Rightarrow> Ret (filter (\<lambda>roleType. \<not> list_ex (\<lambda>properties. map_get JNull properties ''role'' = JStr roleType) received)
               GetSupportedRoleTypes))"

definition ConvertStructToMap :: "connection_properties \<Rightarrow> json go_map" where
  "ConvertStructToMap c = (case enc_connection c of JObj kvs \<Rightarrow> kvs | _ \<Rightarrow> [])"

definition role_prefix :: "additional_role \<Rightarrow> json" where
  "role_prefix r =
     (let properties = hd (ar_ConnectionProperties r); p = map_get JNull properties ''resourcePrefix'' in
      if unset p then map_get JNull properties ''dbName'' else p)"

definition createAdditionalResources ::
  "'s env \<Rightarrow> base_provider \<Rightarrow> additional_role \<Rightarrow> string \<Rightarrow> ('s, go_error + json go_map \<times> db_resource list) adapter" where
  "createAdditionalResources E bp r roleType =
     (if unset (role_prefix r) then
        return (Inl (Err (''there is no `resourcePrefix` or `dbName` property for additional role with '' @ ar_Id r @ '' ID'')))
      else let resourcePrefix = ConvertAnyToString (role_prefix r) in
        onOk (CreateUserByPrefix E resourcePrefix [] resourcePrefix roleType) (\<lambda>(username, password, resources).
          return (Inr (ConvertStructToMap
            (GetExtendedConnectionProperties bp [] username password resourcePrefix roleType), resources))))"

text \<open>The inner loop: the absent role types of one role, up to the first failure.\<close>

fun create_absent ::
  "'s env \<Rightarrow> base_provider \<Rightarrow> additional_role \<Rightarrow> string list \<Rightarrow> ('s, go_error + json go_map list \<times> db_resource list) adapter" where
  "create_absent E bp r [] = return (Inr ([], []))"
| "create_absent E bp r (t # ts) =
     onOk (createAdditionalResources E bp r t) (\<lambda>(properties, resources).
       onOk (create_absent E bp r ts) (\<lambda>(ps, rs). return (Inr (properties # ps, resources @ rs))))"

fun migrate_roles ::
  "'s env \<Rightarrow> base_provider \<Rightarrow> additional_role list \<Rightarrow> role_request \<Rightarrow> ('s, role_request go) adapter" where
  "migrate_roles E bp [] acc = return (Ret acc)"
| "migrate_roles E bp (r # rs) acc =
     (case getAbsentRoleTypes (ar_ConnectionProperties r) of
        Panic p \<Rightarrow> return (Panic p)
      | Ret absent \<Rightarrow> do {
          x \<leftarrow> create_absent E bp r absent;
          (case x of
             Inl e \<Rightarrow> return (Ret (acc\<lparr>Failure := Some (ar_Id r, err_text e)\<rparr>))
           | Inr (properties, resources) \<Rightarrow>
               migrate_roles E bp rs (acc\<lparr>Success := Success acc @
                 [\<lparr>su_Id = ar_Id r, su_ConnectionProperties = properties, su_Resources = resources\<rparr>]\<rparr>)) })"

definition migration_url :: "registration_provider \<Rightarrow> string \<Rightarrow> string" where
  "migration_url rs instructionID = Address (dbaasAggregator rs) @ ''/api/'' @ getAggregatorVersion rs @
     ''/dbaas/opensearch/physical_databases/'' @ physicalDatabaseId rs @ ''/instruction/'' @ instructionID @ ''/additional-roles''"

definition doMigrationRequest ::
  "'s env \<Rightarrow> dao \<Rightarrow> registration_provider \<Rightarrow> string \<Rightarrow> string \<Rightarrow> role_request \<Rightarrow> ('s, go_error + http_response) adapter" where
  "doMigrationRequest E D rs rid instructionID r =
     (let rq = \<lparr>rq_method = ''POST'',
          rq_url = migration_url rs instructionID, rq_query = [],
          rq_headers = [(''Content-Type'', ''application/json''), (''X-Request-Id'', rid)],
          rq_auth = Some (cred_Username (dbaasAggregator rs), cred_Password (dbaasAggregator rs)),
          rq_body = Some (Doc (enc_role_request D r))\<rparr> in
      if url_ok (rq_url rq) then aggregator_Do E rq else return (Inl bad_url))"

definition performMigrationRequest ::
  "'s env \<Rightarrow> dao \<Rightarrow> registration_provider \<Rightarrow> string \<Rightarrow> string \<Rightarrow> role_request \<Rightarrow> ('s, go_error + int) adapter" where
  "performMigrationRequest E D rs rid instructionID r =
     onOk (doMigrationRequest E D rs rid instructionID r) (\<lambda>response. return (Inr (StatusCode response)))"

text \<open>
  The loop. The variable that should hold the aggregator's last answer is never assigned, so
  \<^verbatim>\<open>getAdditionalRoles\<close> always returns the roles of the registration response.
\<close>

fun performMigration ::
  "nat \<Rightarrow> 's env \<Rightarrow> dao \<Rightarrow> registration_provider \<Rightarrow> base_provider \<Rightarrow> string \<Rightarrow> int \<Rightarrow> registration_response \<Rightarrow>
     ('s, (go_error + unit) go option) adapter" where
  "performMigration 0 E D rs bp rid statusCode r = return None"
| "performMigration (Suc n) E D rs bp rid statusCode r =
     (if statusCode = 202 then do {
        x \<leftarrow> migrate_roles E bp (AdditionalRoles r) \<lparr>Success = [], Failure = None\<rparr>;
        (case x of
           Panic p \<Rightarrow> return (Some (Panic p))
         | Ret roleRequest \<Rightarrow> do {
             y \<leftarrow> performMigrationRequest E D rs rid (Instruction_Id r) roleRequest;
             (case y of
                Inl e \<Rightarrow> return (Some (Ret (Inl e)))
              | Inr code \<Rightarrow> performMigration n E D rs bp rid code r) }) }
      else if statusCode = 500 then return (Some (Ret (Inl (Err ''migration is not performed''))))
      else return (Some (Ret (Inr ()))))"

section \<open>Registering\<close>

text \<open>The body of \<^verbatim>\<open>doRegistrationRequest\<close>: how it ends and the status it leaves.\<close>

definition registration_attempt ::
  "nat \<Rightarrow> 's env \<Rightarrow> dao \<Rightarrow> registration_provider \<Rightarrow> base_provider \<Rightarrow> string \<Rightarrow> ('s, (unit go \<times> string) option) adapter" where
  "registration_attempt n E D rs bp rid = do {
     (meth, url, b) \<leftarrow> prepareRequestParameters E D rs bp;
     (if \<not> url_ok url then return (Some (Panic (err_text bad_url), rp_status rs))
      else do {
        x \<leftarrow> aggregator_Do E \<lparr>rq_method = meth, rq_url = url, rq_query = [],
          rq_headers = [(''Content-Type'', ''application/json''), (''X-Request-Id'', rid)],
          rq_auth = Some (cred_Username (dbaasAggregator rs), cred_Password (dbaasAggregator rs)), rq_body = Some b\<rparr>;
        (case x of
           Inl e \<Rightarrow> do {
             h \<leftarrow> doHealthRequest E rs;
             return (Some (Panic (case h of
               Inl e' \<Rightarrow> err_text e'
             | Inr code \<Rightarrow> (if code \<ge> 400 then ''aggregator is not available''
                 else ''invalid memory address or nil pointer dereference'')), rp_status rs)) }
         | Inr response \<Rightarrow>
             if StatusCode response \<ge> 400 then do {
               h \<leftarrow> doHealthRequest E rs;
               return (Some (Panic (case h of
                 Inl e' \<Rightarrow> err_text e'
               | Inr code \<Rightarrow> (if code \<ge> 400 then ''aggregator is not available''
                   else ''the aggregator is available, but the adapter fails to register'')), rp_status rs)) }
             else if rp_ApiVersion rs = ApiV2 then
               (case ProcessBody (dec_registration D) (Body response) \<lparr>Instruction_Id = [], AdditionalRoles = []\<rparr> of
                  Inl e \<Rightarrow> return (Some (Panic (err_text e), rp_status rs))
                | Inr registered \<Rightarrow>
                    if StatusCode response \<noteq> 200 then do {
                      mig \<leftarrow> performMigration n E D rs bp rid (StatusCode response) registered;
                      return (map_option (\<lambda>m. case m of
                          Panic p \<Rightarrow> (Panic p, rp_status rs)
                        | Ret (Inl e) \<Rightarrow> (Panic (err_text e), rp_status rs)
                        | Ret (Inr _) \<Rightarrow> (Ret (), StatusRun D)) mig) }
                    else return (Some (Ret (), StatusRun D)))
             else return (Some (Ret (), rp_status rs))) }) }"

text \<open>The deferred function recovers every panic and sets the health.\<close>

definition doRegistrationRequest ::
  "nat \<Rightarrow> 's env \<Rightarrow> dao \<Rightarrow> registration_provider \<Rightarrow> base_provider \<Rightarrow> ('s, registration_provider option) adapter" where
  "doRegistrationRequest n E D rs bp = do {
     rid \<leftarrow> GenerateUUID E;
     x \<leftarrow> registration_attempt n E D rs bp rid;
     return (map_option (\<lambda>(outcome, st). rs\<lparr>rp_status := st,
       Health := (case outcome of Panic _ \<Rightarrow> ''PROBLEM'' | Ret _ \<Rightarrow> ''OK'')\<rparr>) x) }"

text \<open>
  \<^verbatim>\<open>register\<close> and \<^verbatim>\<open>RegisterWithRetry\<close> run it under the mutex. The condition that
  \<^verbatim>\<open>RegisterWithRetry\<close> polls says that it is done after its first evaluation.
\<close>

definition register ::
  "nat \<Rightarrow> 's env \<Rightarrow> dao \<Rightarrow> registration_provider \<Rightarrow> base_provider \<Rightarrow> ('s, registration_provider option) adapter" where
  "register n E D rs bp = doRegistrationRequest n E D rs bp"

definition RegisterWithRetry ::
  "nat \<Rightarrow> 's env \<Rightarrow> dao \<Rightarrow> registration_provider \<Rightarrow> base_provider \<Rightarrow> ('s, registration_provider option) adapter" where
  "RegisterWithRetry n E D rs bp = doRegistrationRequest n E D rs bp"

definition ForceRegistrationHandler ::
  "'s env \<Rightarrow> registration_provider \<Rightarrow> incoming \<Rightarrow> ('s, (reply \<times> registration_provider) option) adapter" where
  "ForceRegistrationHandler E rs r = do {
     _ \<leftarrow> PrepareContext E r;
     return (map_option (\<lambda>x. ((202, Text []), rs\<lparr>rp_executor := x\<rparr>)) (Submit () (rp_executor rs))) }"

definition GetPhysicalDatabaseHandler :: "'s env \<Rightarrow> registration_provider \<Rightarrow> incoming \<Rightarrow> ('s, reply) adapter" where
  "GetPhysicalDatabaseHandler E rs r = do {
     _ \<leftarrow> PrepareContext E r;
     labels \<leftarrow> ReadLabelsFile E rs;
     return (ProcessResponseBody 0 (Doc (JObj [(''id'', JStr (physicalDatabaseId rs)),
       (''labels'', if labels = [] then JNull else enc_string_map labels)])) 0) }"

section \<open>Health\<close>

definition dec_component_health :: "string decoder" where
  "dec_component_health = dec_struct [field ''status'' dec_string id (\<lambda>f. f)]"

text \<open>Reading the first element of an empty list panics.\<close>

definition GetHealth :: "'s env \<Rightarrow> ('s, string go) adapter" where
  "GetHealth E = do {
     r \<leftarrow> DoRequest E (CatHealthRequest ''json'') (dec_list [] dec_component_health) [];
     return (case r of
       Inl _ \<Rightarrow> Ret ''PROBLEM''
     | Inr [] \<Rightarrow> Panic ''runtime error: index out of range [0] with length 0''
     | Inr (status # _) \<Rightarrow> Ret (
         if status = ''green'' then ''UP''
         else if status = ''red'' then ''DOWN''
         else if status = ''yellow'' then ''WARNING''
         else ''PROBLEM'')) }"

record health =
  h_Status :: string
  OpensearchHealth :: string
  DbaasAggregatorHealth :: string

definition healthStatuses :: "string list" where
  "healthStatuses = [''DOWN'', ''OUT_OF_SERVICE'', ''PROBLEM'', ''WARNING'', ''UNKNOWN'', ''UP'']"

definition DetermineHealthStatus :: "'s env \<Rightarrow> health \<Rightarrow> ('s, health go) adapter" where
  "DetermineHealthStatus E h =
     onRet (GetHealth E) (\<lambda>s.
       let h1 = h\<lparr>OpensearchHealth := s\<rparr> in
       return (Ret (case find (\<lambda>status. status = OpensearchHealth h1 \<or> status = DbaasAggregatorHealth h1) healthStatuses of
         Some status \<Rightarrow> h1\<lparr>h_Status := status\<rparr>
       | None \<Rightarrow> h1)))"

definition enc_health :: "health \<Rightarrow> json" where
  "enc_health h = JObj [(''status'', JStr (h_Status h)),
     (''opensearchHealth'', JObj [(''status'', JStr (OpensearchHealth h))]),
     (''dbaasAggregatorHealth'', JObj [(''status'', JStr (DbaasAggregatorHealth h))])]"

definition HealthHandler :: "'s env \<Rightarrow> health \<Rightarrow> incoming \<Rightarrow> ('s, (reply \<times> health) go) adapter" where
  "HealthHandler E h r = do {
     _ \<leftarrow> PrepareContext E r;
     onRet (DetermineHealthStatus E h) (\<lambda>h1. return (Ret ((200, Doc (enc_health h1)), h1))) }"

section \<open>Facts\<close>

lemma run_aggregator_Do [run_simps]:
  "run_state (aggregator_Do E rq) w =
     (case aggregator_do E rq (srv w) of (r, s) \<Rightarrow> (r, w\<lparr>srv := s, trace := trace w @ [Aggregator rq]\<rparr>))"
  by (simp add: aggregator_Do_def run_simps)

lemma create_absent_roles:
  "run_state (create_absent E bp r ts) w = (Inr (ps, resources), w') \<Longrightarrow> [] \<notin> set ts \<Longrightarrow>
     map (\<lambda>p. map_get JNull p ''role'') ps = map JStr ts \<and> length resources = length ts"
proof (induction ts arbitrary: ps resources w)
  case Nil
  then show ?case by simp
next
  case (Cons t ts)
  from Cons.prems(1) obtain p rs w1 ps' rs' where
    c: "run_state (createAdditionalResources E bp r t) w = (Inr (p, rs), w1)"
    and rest: "run_state (create_absent E bp r ts) w1 = (Inr (ps', rs'), w')"
    and eq: "ps = p # ps'" "resources = rs @ rs'"
    by (auto simp: run_simps split: prod.splits sum.splits)
  from c obtain u pw pfx w2 where "run_state (CreateUserByPrefix E pfx [] pfx t) w = (Inr (u, pw, rs), w2)"
    and p: "p = ConvertStructToMap (GetExtendedConnectionProperties bp [] u pw pfx t)"
    by (auto simp: createAdditionalResources_def Let_def run_simps split: if_splits prod.splits sum.splits)
  then have "rs = [resource UserKind u]" using CreateUserByPrefix_ok by blast
  moreover have "map_get JNull p ''role'' = JStr t"
    using Cons.prems(2)
    by (auto simp: p ConvertStructToMap_def enc_connection_def GetExtendedConnectionProperties_def
        getConnectionProperties_def omit_empty_def map_get_def Let_def)
  ultimately show ?case using Cons.IH [OF rest] Cons.prems(2) eq by simp
qed

lemma performMigration_mono:
  "run_state (performMigration n E D rs bp rid code r) w = (Some x, w') \<Longrightarrow> n \<le> m \<Longrightarrow>
     run_state (performMigration m E D rs bp rid code r) w = (Some x, w')"
proof (induction n arbitrary: code w m)
  case 0
  then show ?case by simp
next
  case (Suc n)
  then obtain m' where m: "m = Suc m'" "n \<le> m'" by (cases m) auto
  show ?case
    using Suc.prems(1) Suc.IH [OF _ m(2)]
    by (auto simp: m(1) split: prod.splits go.splits sum.splits if_splits)
qed

section \<open>Properties\<close>

text \<open>
  A registration changes nothing of the provider but its health and its status. The health
  becomes OK or PROBLEM, the status is left alone when the attempt failed, and after a successful
  attempt over the second API version it says that the adapter runs.
\<close>

theorem registration_outcome:
  assumes "run_state (doRegistrationRequest n E D rs bp) w = (Some rs', w')"
  shows "rs' = rs\<lparr>Health := Health rs', rp_status := rp_status rs'\<rparr> \<and> Health rs' \<in> {''OK'', ''PROBLEM''} \<and>
    (Health rs' = ''PROBLEM'' \<longrightarrow> rp_status rs' = rp_status rs) \<and>
    (Health rs' = ''OK'' \<longrightarrow> rp_status rs' = (if rp_ApiVersion rs = ApiV2 then StatusRun D else rp_status rs))"
  using assms
  by (auto simp: doRegistrationRequest_def registration_attempt_def run_simps Let_def
      split: prod.splits sum.splits if_splits go.splits option.splits)

definition test_dao :: dao where
  "test_dao = \<lparr>StatusRunning = ''running'', StatusRun = ''run'', enc_registration = (\<lambda>_. JObj []),
     dec_registration = (\<lambda>_ r. Some r), enc_role_request = (\<lambda>_. JObj [])\<rparr>"

definition test_component :: component where
  "test_component = \<lparr>Address = ''http://a'', cred_Username = ''u'', cred_Password = ''p''\<rparr>"

definition test_registration :: registration_provider where
  "test_registration = \<lparr>rp_ApiVersion = ApiV2, dbaasAdapter = test_component, dbaasAggregator = test_component,
     physicalDatabaseId = ''db'', labelsFileLocation = ''l'', Health = ''UNKNOWN'', rp_status = ''running'',
     rp_executor = zero_executor\<rparr>"

definition test_registered :: "registration_provider option \<times> (script, event) world" where
  "test_registered = run_state (doRegistrationRequest 5 script_env test_dao test_registration v2_provider) (answers [status_only 200])"

theorem registration_outcome_witness:
  "\<exists>rs'. fst test_registered = Some rs' \<and> Health rs' = ''OK'' \<and> rp_status rs' = ''run''"
proof -
  have f: "fst test_registered = Some (test_registration\<lparr>Health := ''OK'', rp_status := ''run''\<rparr>)" by code_simp
  then have run: "run_state (doRegistrationRequest 5 script_env test_dao test_registration v2_provider) (answers [status_only 200]) =
      (Some (test_registration\<lparr>Health := ''OK'', rp_status := ''run''\<rparr>), snd test_registered)"
    by (simp add: test_registered_def prod_eq_iff)
  have "rp_ApiVersion test_registration = ApiV2" "StatusRun test_dao = ''run''"
    by (simp_all add: test_registration_def test_dao_def)
  then show ?thesis using registration_outcome [OF run] f by auto
qed

definition patient_env :: "script env" where
  "patient_env = plain_env\<lparr>aggregator_do := (\<lambda>_ s. (status_only 202, s))\<rparr>"

lemma patient_answer [simp]: "aggregator_do patient_env rq s = (status_only 202, s)"
  by (simp add: patient_env_def)

lemma patient_never_ends:
  assumes "url_ok (migration_url rs (Instruction_Id r))"
    and "AdditionalRoles r = []"
  shows "fst (run_state (performMigration n patient_env D rs bp rid 202 r) w) = None"
  using assms
proof (induction n arbitrary: w)
  case 0
  then show ?case by simp
next
  case (Suc n)
  then show ?case
    by (simp add: performMigrationRequest_def doMigrationRequest_def Let_def run_simps status_only_def)
qed



text \<open>
  Migrating a role creates one user for exactly the supported role types that its connection
  properties do not have yet, so that afterwards every supported role type is present.
\<close>

theorem migration_completes_roles:
  assumes "getAbsentRoleTypes (ar_ConnectionProperties r) = Ret absent"
    and "run_state (create_absent E bp r absent) w = (Inr (ps, resources), w')"
  shows "length resources = length absent \<and>
    (\<forall>t \<in> set GetSupportedRoleTypes.
      (\<exists>p \<in> set (ar_ConnectionProperties r). map_get JNull p ''role'' = JStr t) \<noteq>
      (\<exists>p \<in> set ps. map_get JNull p ''role'' = JStr t))"
proof -
  have a: "absent = filter (\<lambda>t. \<not> list_ex (\<lambda>p. map_get JNull p ''role'' = JStr t) (ar_ConnectionProperties r)) GetSupportedRoleTypes"
    using assms(1) by (auto simp: getAbsentRoleTypes_def split: list.splits)
  then have ne: "[] \<notin> set absent" using roles_not_empty by auto
  from create_absent_roles [OF assms(2) ne] have m: "map (\<lambda>p. map_get JNull p ''role'') ps = map JStr absent"
    and l: "length resources = length absent" by auto
  have "(\<exists>p \<in> set ps. map_get JNull p ''role'' = JStr t) \<longleftrightarrow> t \<in> set absent" for t
  proof -
    have "(\<exists>p \<in> set ps. map_get JNull p ''role'' = JStr t) \<longleftrightarrow> JStr t \<in> set (map (\<lambda>p. map_get JNull p ''role'') ps)"
      by (simp only: set_map image_iff) metis
    also have "\<dots> \<longleftrightarrow> t \<in> set absent" unfolding m by auto
    finally show ?thesis .
  qed
  then show ?thesis using l a by (auto simp: list_ex_iff)
qed

definition one_role :: additional_role where
  "one_role = \<lparr>ar_Id = ''1'', ar_ConnectionProperties = [[(''role'', JStr ''admin''), (''resourcePrefix'', JStr ''ns'')],
     [(''role'', JStr ''dml'')], [(''role'', JStr ''ism'')]]\<rparr>"

lemma one_role_absent: "getAbsentRoleTypes (ar_ConnectionProperties one_role) = Ret [''readonly'']"
  by code_simp

lemma plain_user_bare:
  "run_state (CreateUserByPrefix plain_env ''ns'' [] ''ns'' t)
      \<lparr>srv = (status_only 404 # status_only 201 # as, n), trace = tr\<rparr> =
    (Inr (''ns_id'', ''secret'', [resource UserKind ''ns_id'']),
     \<lparr>srv = (as, n), trace = tr @ [user_event ''GET'' ''ns_id'' None no_options, user_event ''PUT'' ''ns_id''
        (Some (Doc (enc_content (new_user_content ''secret'' ''ns'' t)))) json_options]\<rparr>)"
  by (simp add: CreateUserByPrefix_def createOrUpdateUser_def plain_uuid plain_get_user plain_create_user run_simps)

theorem migration_completes_roles_witness:
  "\<exists>ps resources w'. run_state (create_absent plain_env v2_provider one_role [''readonly''])
      (answers [status_only 404, status_only 201]) = (Inr (ps, resources), w') \<and> length resources = 1"
proof -
  have p: "role_prefix one_role = JStr ''ns''" by code_simp
  obtain ps resources w' where run: "run_state (create_absent plain_env v2_provider one_role [''readonly''])
      (answers [status_only 404, status_only 201]) = (Inr (ps, resources), w')"
    by (simp add: createAdditionalResources_def p unset_def run_simps answers_def plain_user_bare Let_def)
  from migration_completes_roles [OF one_role_absent run] run show ?thesis by auto
qed

text \<open>How bad a status is: its position in the list, with unlisted ones last.\<close>

definition severity :: "string \<Rightarrow> nat" where
  "severity s = length (takeWhile (\<lambda>x. x \<noteq> s) healthStatuses)"

lemma find_either:
  "a \<in> set xs \<Longrightarrow> \<exists>r. find (\<lambda>x. x = a \<or> x = b) xs = Some r \<and> r \<in> {a, b} \<and>
     length (takeWhile (\<lambda>x. x \<noteq> r) xs) =
       min (length (takeWhile (\<lambda>x. x \<noteq> a) xs)) (length (takeWhile (\<lambda>x. x \<noteq> b) xs))"
  by (induction xs) auto

text \<open>
  The adapter's health is the worse of the cluster's health and the aggregator's, in the order
  down, out of service, problem, warning, unknown, up; an aggregator that is OK does not count.
\<close>

theorem health_is_worst:
  assumes "run_state (DetermineHealthStatus E h) w = (Ret h', w')"
  shows "DbaasAggregatorHealth h' = DbaasAggregatorHealth h \<and> OpensearchHealth h' \<in> {''UP'', ''DOWN'', ''WARNING'', ''PROBLEM''} \<and>
    h_Status h' \<in> {OpensearchHealth h', DbaasAggregatorHealth h'} \<and>
    severity (h_Status h') = min (severity (OpensearchHealth h')) (severity (DbaasAggregatorHealth h'))"
proof -
  obtain s w1 where g: "run_state (GetHealth E) w = (Ret s, w1)"
    using assms by (auto simp: DetermineHealthStatus_def run_simps split: prod.splits go.splits)
  then have s: "s \<in> {''UP'', ''DOWN'', ''WARNING'', ''PROBLEM''}"
    by (auto simp: GetHealth_def split: prod.splits sum.splits list.splits if_splits)
  then have "s \<in> set healthStatuses" by (auto simp: healthStatuses_def)
  from find_either [OF this, of "DbaasAggregatorHealth h"] obtain st where
    st: "find (\<lambda>x. x = s \<or> x = DbaasAggregatorHealth h) healthStatuses = Some st" "st \<in> {s, DbaasAggregatorHealth h}"
    "severity st = min (severity s) (severity (DbaasAggregatorHealth h))"
    by (auto simp: severity_def)
  then have "h' = h\<lparr>OpensearchHealth := s, h_Status := st\<rparr>"
    using assms g by (auto simp: DetermineHealthStatus_def run_simps Let_def)
  then show ?thesis using s st by simp
qed

definition test_health :: health where
  "test_health = \<lparr>h_Status = ''UP'', OpensearchHealth = ''UP'', DbaasAggregatorHealth = ''PROBLEM''\<rparr>"

theorem health_is_worst_witness:
  "\<exists>h'. fst (run_state (DetermineHealthStatus script_env test_health)
      (answers [ok_doc (JArr [JObj [(''status'', JStr ''yellow'')]])])) = Ret h' \<and> h_Status h' \<in> {''WARNING'', ''PROBLEM''}"
proof -
  let ?run = "run_state (DetermineHealthStatus script_env test_health) (answers [ok_doc (JArr [JObj [(''status'', JStr ''yellow'')]])])"
  let ?h = "\<lparr>h_Status = ''PROBLEM'', OpensearchHealth = ''WARNING'', DbaasAggregatorHealth = ''PROBLEM''\<rparr>"
  have f: "fst ?run = Ret ?h" by code_simp
  then have "?run = (Ret ?h, snd ?run)" by (simp add: prod_eq_iff)
  from health_is_worst [OF this] f show ?thesis by auto
qed

text \<open>
  The second API version is chosen exactly when the aggregator says that it supports major
  version 3; when the aggregator cannot be asked or its answer cannot be read, the configured
  version is kept.
\<close>

theorem getApiVersion_spec:
  assumes "url_ok (aggregator @ ''/api-version'')"
    and "aggregator_do E (plain_request ''GET'' (aggregator @ ''/api-version'')) (srv w) = (x, s')"
  shows "fst (run_state (getApiVersion E aggregator) w) =
    (case x of
       Inl _ \<Rightarrow> GetEnv E ''API_VERSION'' ''v2''
     | Inr response \<Rightarrow>
         (if StatusCode response \<noteq> 200 then ''v1''
          else (case ProcessBody dec_supported_majors (Body response) [] of
              Inl _ \<Rightarrow> GetEnv E ''API_VERSION'' ''v2''
            | Inr majors \<Rightarrow> if 3 \<in> set majors then ''v2'' else ''v1'')))"
  using assms
  by (auto simp: getApiVersion_def plain_request_def Let_def run_simps ApiV1_def ApiV2_def split: sum.splits)

theorem getApiVersion_spec_witness:
  "fst (run_state (getApiVersion script_env ''http://a'') (answers [ok_doc (JObj [(''supportedMajors'', JArr [JNum 2, JNum 3])])])) = ''v2''"
proof -
  have d: "ProcessBody dec_supported_majors (Doc (JObj [(''supportedMajors'', JArr [JNum 2, JNum 3])])) [] = Inr [2, 3]" by code_simp
  have u: "url_ok (''http://a'' @ ''/api-version'')" by code_simp
  have a: "aggregator_do script_env (plain_request ''GET'' (''http://a'' @ ''/api-version''))
      (srv (answers [ok_doc (JObj [(''supportedMajors'', JArr [JNum 2, JNum 3])])])) =
      (ok_doc (JObj [(''supportedMajors'', JArr [JNum 2, JNum 3])]), ([], 0))"
    by (simp add: script_env_def answers_def)
  show ?thesis using d by (subst getApiVersion_spec [OF u a]) (simp add: ok_doc_def)
qed

text \<open>
  A provider is built with the zero value of the executor. Forcing a registration on it is
  answered 202, but the work is dropped and the provider stays as it was.
\<close>

theorem forced_registration_is_dropped:
  assumes "run_state (NewRegistrationProvider E D aggregator labels databaseId adapter bp) w = ((rs, bp'), w1)"
    and "run_state (ForceRegistrationHandler E rs r) w2 = (Some (reply, rs'), w3)"
  shows "reply = (202, Text []) \<and> rs' = rs"
  using assms
  by (auto simp: NewRegistrationProvider_def ForceRegistrationHandler_def Submit_def zero_executor_def
      split: prod.splits)

theorem forced_registration_is_dropped_witness:
  "\<exists>rs w1 w3. fst (run_state (NewRegistrationProvider script_env test_dao test_component [] [] test_component v2_provider) (answers [])) =
      (rs, v2_provider) \<and>
    run_state (ForceRegistrationHandler script_env rs track_request) w1 = (Some ((202, Text []), rs), w3)"
proof -
  let ?run = "run_state (NewRegistrationProvider script_env test_dao test_component [] [] test_component v2_provider) (answers [])"
  obtain rs where f: "fst ?run = (rs, v2_provider)" and e: "rp_executor rs = zero_executor"
  proof
    show "fst ?run = (fst (fst ?run), v2_provider)" by code_simp
    show "rp_executor (fst (fst ?run)) = zero_executor" by code_simp
  qed
  then have n: "?run = ((rs, v2_provider), snd ?run)" by (simp add: prod_eq_iff)
  have i: "in_id track_request = ''1''" by code_simp
  have fr: "run_state (ForceRegistrationHandler script_env rs track_request) (answers []) =
      (Some ((202, Text []), rs\<lparr>rp_executor := zero_executor\<rparr>), answers [])"
    by (simp add: ForceRegistrationHandler_def PrepareContext_def i e Submit_def zero_executor_def)
  from forced_registration_is_dropped [OF n fr] f fr show ?thesis by metis
qed

end
