(* ===== verification/Adapter_Server.thy ===== *)
theory Adapter_Server
  imports Registration
begin

text \<open>
  The server of the adapter (\<^verbatim>\<open>server.go\<close>): start-up with the creation of the basic roles and the
  migration of users, the routes, the authorizer and the recovery of panics. Transport security,
  listening and logging are left out.
\<close>

section \<open>Start-up\<close>

definition relevantForMigration :: "string \<Rightarrow> role_mapping \<Rightarrow> bool" where
  "relevantForMigration roleName m \<longleftrightarrow>
     (HasSuffix roleName ''_role'' \<or> HasSuffix roleName ''_dml'' \<or> HasSuffix roleName ''_readonly'' \<or>
      HasSuffix roleName ''_admin'' \<or> HasSuffix roleName ''_ism'') \<and> \<not> Reserved m \<and> length (rm_Users m) = 1"

text \<open>The last index permission with one pattern that is not the star.\<close>

definition migration_pattern :: "role \<Rightarrow> string" where
  "migration_pattern r =
     fold (\<lambda>p pattern. if length (IndexPatterns p) = 1 \<and> hd (IndexPatterns p) \<noteq> AllIndices
             then hd (IndexPatterns p) else pattern) (IndexPermissions r) []"

definition updateUserConfiguration :: "'s env \<Rightarrow> string \<Rightarrow> string \<Rightarrow> ('s, go_error + unit) adapter" where
  "updateUserConfiguration E username roleName =
     onOk (GetUser E username) (\<lambda>user. case user of
         None \<Rightarrow> return (Inr ())
       | Some _ \<Rightarrow> onOk (GetRole E roleName) (\<lambda>r. case r of
             None \<Rightarrow> return (Inr ())
           | Some r \<Rightarrow>
               (if migration_pattern r = [] then return (Inr ())
                else PatchUser E username [] (migration_pattern r) (DefineRoleType roleName))))"

fun migrate_mappings :: "'s env \<Rightarrow> role_mapping go_map \<Rightarrow> ('s, go_error + unit) adapter" where
  "migrate_mappings E [] = return (Inr ())"
| "migrate_mappings E ((role, m) # rest) =
     onOk (if relevantForMigration role m then updateUserConfiguration E (hd (rm_Users m)) role else return (Inr ()))
       (\<lambda>_. migrate_mappings E rest)"

definition migrate_users :: "'s env \<Rightarrow> ('s, go_error + unit) adapter" where
  "migrate_users E = do {
     (rolesMapping, err) \<leftarrow> GetRolesMapping E;
     (case err of Some e \<Rightarrow> return (Inl e) | None \<Rightarrow> migrate_mappings E rolesMapping) }"

text \<open>\<^verbatim>\<open>if err != nil { panic(err) }\<close>\<close>

definition or_panic :: "('w, go_error + 'a) state \<Rightarrow> ('a \<Rightarrow> ('w, 'b go) state) \<Rightarrow> ('w, 'b go) state" where
  "or_panic m k = do { r \<leftarrow> m; (case r of Inl e \<Rightarrow> return (Panic (err_text e)) | Inr a \<Rightarrow> k a) }"

text \<open>What comes before the role mappings.\<close>

definition prepare_roles :: "'s env \<Rightarrow> bool \<Rightarrow> ('s, unit go) adapter" where
  "prepare_roles E enhanced =
     or_panic (GetRoleMapping E (role_name AdminRoleType)) (\<lambda>mapping.
     or_panic (CreateRoleWithISMPermissions E enhanced) (\<lambda>_.
     or_panic (CreateRoleWithAdminPermissions E) (\<lambda>_.
     or_panic (CreateRoleWithDMLPermissions E) (\<lambda>_.
     or_panic (CreateRoleWithReadOnlyPermissions E) (\<lambda>_.
     or_panic (case mapping of None \<Rightarrow> migrate_users E | Some _ \<Rightarrow> return (Inr ())) (\<lambda>_.
     return (Ret ())))))))"

fun map_roles :: "'s env \<Rightarrow> string list \<Rightarrow> ('s, unit go) adapter" where
  "map_roles E [] = return (Ret ())"
| "map_roles E (t # ts) = or_panic (CreateOrUpdateRoleMapping E t) (\<lambda>_. map_roles E ts)"

definition createBasicRoles :: "'s env \<Rightarrow> bool \<Rightarrow> ('s, unit go) adapter" where
  "createBasicRoles E enhanced = onRet (prepare_roles E enhanced) (\<lambda>_. map_roles E GetSupportedRoleTypes)"

definition GetIntEnv :: "'s env \<Rightarrow> string \<Rightarrow> int \<Rightarrow> int" where
  "GetIntEnv E key fallback =
     (case LookupEnv E key of
        None \<Rightarrow> fallback
      | Some v \<Rightarrow> (case Atoi v of Some n \<Rightarrow> n | None \<Rightarrow> fallback))"

record config =
  conf_aggregator :: component
  conf_database_id :: string
  conf_host :: string
  conf_port :: int
  conf_protocol :: string
  conf_repo :: string
  conf_repo_root :: string
  conf_enhanced :: bool
  conf_labels :: string
  conf_registration_enabled :: bool

definition server_config :: "'s env \<Rightarrow> config" where
  "server_config E = \<lparr>
     conf_aggregator = \<lparr>
       Address = GetEnv E ''DBAAS_AGGREGATOR_REGISTRATION_ADDRESS'' ''http://dbaas-aggregator.dbaas:8080'',
       cred_Username = GetEnv E ''DBAAS_AGGREGATOR_REGISTRATION_USERNAME'' ''cluster-dba'',
       cred_Password = GetEnv E ''DBAAS_AGGREGATOR_REGISTRATION_PASSWORD'' []\<rparr>,
     conf_database_id = GetEnv E ''DBAAS_AGGREGATOR_PHYSICAL_DATABASE_IDENTIFIER'' ''unknown_opensearch'',
     conf_host = GetEnv E ''OPENSEARCH_HOST'' ''localhost'',
     conf_port = GetIntEnv E ''OPENSEARCH_PORT'' 9200,
     conf_protocol = GetEnv E ''OPENSEARCH_PROTOCOL'' ''http'',
     conf_repo = GetEnv E ''OPENSEARCH_REPO'' ''dbaas-backups-repository'',
     conf_repo_root = GetEnv E ''OPENSEARCH_REPO_ROOT'' ''/usr/share/opensearch/'',
     conf_enhanced = ParseBool (GetEnv E ''ENHANCED_SECURITY_PLUGIN_ENABLED'' ''false''),
     conf_labels = GetEnv E ''LABELS_FILE_LOCATION_DIR'' ''/app/config/'' @
       GetEnv E ''LABELS_FILE_LOCATION_NAME'' ''dbaas.physical_databases.registration.labels.json'',
     conf_registration_enabled = ParseBool (GetEnv E ''REGISTRATION_ENABLED'' ''false'')\<rparr>"

text \<open>
  The state behind the handlers: the providers they share, whether the goroutine that registers
  periodically runs, and the recoveries of users that were started.
\<close>

record app =
  app_adapter :: component
  app_config :: config
  app_base :: base_provider
  app_backup :: backup_provider
  app_registration :: registration_provider
  app_health :: health
  app_registering :: bool
  app_jobs :: "connection_properties list list"

text \<open>The result says whether the goroutine of \<^verbatim>\<open>StartRegistration\<close> is started.\<close>

definition startRegistration ::
  "'s env \<Rightarrow> dao \<Rightarrow> config \<Rightarrow> component \<Rightarrow> base_provider \<Rightarrow>
     ('s, registration_provider \<times> base_provider \<times> bool) adapter" where
  "startRegistration E D c adapter baseProvider = do {
     (rs, bp) \<leftarrow> NewRegistrationProvider E D (conf_aggregator c) (conf_labels c) (conf_database_id c) adapter baseProvider;
     return (rs, bp, conf_registration_enabled c) }"

text \<open>
  \<^verbatim>\<open>Handlers\<close> up to the routes. The client of OpenSearch and its certificates belong to the
  environment, so of \<^verbatim>\<open>NewOpensearch\<close> the first health request is left. \<open>Ret None\<close> is the \<^verbatim>\<open>nil\<close>
  handler with which the server does not start.
\<close>

definition Handlers :: "'s env \<Rightarrow> dao \<Rightarrow> component \<Rightarrow> ('s, app option go) adapter" where
  "Handlers E D adapter =
     (let c = server_config E in
      onRet (GetHealth E) (\<lambda>opensearchHealth. do {
        ensured \<leftarrow> EnsureAggregationIndex E;
        (case ensured of
           Inl _ \<Rightarrow> return (Ret None)
         | Inr _ \<Rightarrow> do {
             (rs, bp, registering) \<leftarrow> startRegistration E D c adapter
               (NewBaseProvider (conf_host c) (conf_port c) (conf_protocol c));
             onRet (createBasicRoles E (conf_enhanced c)) (\<lambda>_.
               return (Ret (Some \<lparr>app_adapter = adapter, app_config = c, app_base = bp,
                 app_backup = NewBackupProvider E (conf_repo_root c), app_registration = rs,
                 app_health = \<lparr>h_Status = ''UP'', OpensearchHealth = opensearchHealth, DbaasAggregatorHealth = Health rs\<rparr>,
                 app_registering = registering, app_jobs = []\<rparr>))) }) }))"

section \<open>Routes\<close>

datatype endpoint =
    E_Health | E_Supports | E_CreateDatabase | E_ListDatabases | E_BulkDrop | E_UpdateMetadata
  | E_CollectBackup | E_RestoreBackup | E_Restoration | E_TrackBackup | E_TrackRestore
  | E_TrackRestoreIndices | E_DeleteBackup | E_PhysicalDatabase | E_ForceRegistration
  | E_CreateUser | E_RecoverUsers | E_RecoveryState

text \<open>A registered route: the HTTP verb, the path template, and the handler, bare or behind the authorizer.\<close>

datatype handler = Bare endpoint | Authorized endpoint

type_synonym route = "string \<times> string \<times> handler"

definition basePath :: "string \<Rightarrow> string" where
  "basePath version = ''/api/'' @ version @ ''/dbaas/adapter/opensearch''"

definition routes :: "string \<Rightarrow> route list" where
  "routes version =
     (let b = basePath version in
      [(''GET'', ''/health'', Bare E_Health),
       (''GET'', b @ ''/supports'', Bare E_Supports),
       (''POST'', b @ ''/databases'', Authorized E_CreateDatabase),
       (''GET'', b @ ''/databases'', Authorized E_ListDatabases),
       (''POST'', b @ ''/resources/bulk-drop'', Authorized E_BulkDrop),
       (''PUT'', b @ ''/databases/{dbName}/metadata'', Authorized E_UpdateMetadata),
       (''POST'', b @ ''/backups/collect'', Authorized E_CollectBackup),
       (''POST'', b @ ''/backups/{backupID}/restore'', Authorized E_RestoreBackup),
       (''POST'', b @ ''/backups/{backupID}/restoration'', Authorized E_Restoration),
       (''GET'', b @ ''/backups/track/backup/{backupID}'', Authorized E_TrackBackup),
       (''GET'', b @ ''/backups/track/restore/{backupID}'', Authorized E_TrackRestore),
       (''GET'', b @ ''/backups/track/restoring/backups/{backupID}/indices/{indices}'', Authorized E_TrackRestoreIndices),
       (''DELETE'', b @ ''/backups/{backupID}'', Authorized E_DeleteBackup),
       (''GET'', b @ ''/physical_database'', Authorized E_PhysicalDatabase),
       (''GET'', ''/api/'' @ version @ ''/dbaas/adapter/physical_database/force_registration'', Authorized E_ForceRegistration),
       (''PUT'', b @ ''/users'', Authorized E_CreateUser),
       (''PUT'', b @ ''/users/{name}'', Authorized E_CreateUser)] @
      (if version = ApiV2 then
         [(''POST'', b @ ''/users/restore-password'', Authorized E_RecoverUsers),
          (''GET'', b @ ''/users/restore-password/state'', Authorized E_RecoveryState)]
       else []))"

text \<open>
  The router (package \<^verbatim>\<open>gorilla/mux\<close>) is a parameter: given the registered routes, the verb and the
  path of a request, it answers the request itself or picks a route and the variables of the path.
  What the server relies on is that a route it picks is registered, for the verb of the request.
\<close>

type_synonym router = "route list \<Rightarrow> string \<Rightarrow> string \<Rightarrow> reply + (route \<times> string go_map)"

definition picks_registered :: "router \<Rightarrow> bool" where
  "picks_registered mux \<longleftrightarrow>
     (\<forall>rs verb path r vars. mux rs verb path = Inr (r, vars) \<longrightarrow> r \<in> set rs \<and> fst r = verb)"

section \<open>Serving a request\<close>

text \<open>The credentials of a request are those of its header, when it has one; both are compared as a whole.\<close>

definition BasicAuthorizer ::
  "string \<Rightarrow> string \<Rightarrow> (string \<times> string) option \<Rightarrow> 'a \<Rightarrow> (reply \<Rightarrow> 'a) \<Rightarrow> 'a" where
  "BasicAuthorizer username password auth h refuse =
     (case auth of
        Some (user, pass) \<Rightarrow> if user = username \<and> pass = password then h else refuse
          (ProcessResponseBody 0 (Text (''Not authorized to use this API, only DBaaS aggregator can use it.'' @ [CHR 0x0A])) 401)
      | None \<Rightarrow> refuse
          (ProcessResponseBody 0 (Text (''Not authorized to use this API, only DBaaS aggregator can use it.'' @ [CHR 0x0A])) 401))"

text \<open>The handler behind an endpoint, with the state it leaves; \<open>None\<close> is a handler that blocks.\<close>

definition lift_reply :: "app \<Rightarrow> ('s, reply) adapter \<Rightarrow> ('s, (reply \<times> app) go option) adapter" where
  "lift_reply a m = do { r \<leftarrow> m; return (Some (Ret (r, a))) }"

definition lift_go :: "app \<Rightarrow> ('s, reply go) adapter \<Rightarrow> ('s, (reply \<times> app) go option) adapter" where
  "lift_go a m = do { r \<leftarrow> m; return (Some (case r of Panic p \<Rightarrow> Panic p | Ret r \<Rightarrow> Ret (r, a))) }"

fun run_endpoint :: "'s env \<Rightarrow> app \<Rightarrow> endpoint \<Rightarrow> incoming \<Rightarrow> ('s, (reply \<times> app) go option) adapter" where
  "run_endpoint E a E_Health r = do {
     x \<leftarrow> HealthHandler E ((app_health a)\<lparr>DbaasAggregatorHealth := Health (app_registration a)\<rparr>) r;
     return (Some (case x of Panic p \<Rightarrow> Panic p | Ret (reply, h) \<Rightarrow> Ret (reply, a\<lparr>app_health := h\<rparr>))) }"
| "run_endpoint E a E_Supports r = lift_reply a (SupportsHandler E r)"
| "run_endpoint E a E_CreateDatabase r = lift_reply a (CreateDatabaseHandler E (app_base a) r)"
| "run_endpoint E a E_ListDatabases r = lift_reply a (ListDatabasesHandler E r)"
| "run_endpoint E a E_BulkDrop r = lift_go a (BulkDropResourceHandler E (app_base a) r)"
| "run_endpoint E a E_UpdateMetadata r = lift_reply a (UpdateMetadataHandler E r)"
| "run_endpoint E a E_CollectBackup r = lift_go a (CollectBackupHandler E (app_backup a) r)"
| "run_endpoint E a E_RestoreBackup r = lift_go a (RestoreBackupHandler E (app_backup a) (conf_repo (app_config a))
     (basePath (rp_ApiVersion (app_registration a))) r)"
| "run_endpoint E a E_Restoration r = lift_go a (RestorationBackupHandler E (app_backup a) r)"
| "run_endpoint E a E_TrackBackup r = lift_reply a (TrackBackupHandler E (app_backup a) r)"
| "run_endpoint E a E_TrackRestore r = lift_reply a (TrackRestoreFromTrackIdHandler E (app_backup a) r)"
| "run_endpoint E a E_TrackRestoreIndices r = lift_reply a (TrackRestoreFromIndicesHandler E (conf_repo (app_config a)) r)"
| "run_endpoint E a E_DeleteBackup r = lift_reply a (DeleteBackupHandler E (app_backup a) r)"
| "run_endpoint E a E_PhysicalDatabase r = lift_reply a (GetPhysicalDatabaseHandler E (app_registration a) r)"
| "run_endpoint E a E_ForceRegistration r = do {
     x \<leftarrow> ForceRegistrationHandler E (app_registration a) r;
     return (map_option (\<lambda>(reply, rs). Ret (reply, a\<lparr>app_registration := rs\<rparr>)) x) }"
| "run_endpoint E a E_CreateUser r = lift_reply a (CreateUserHandler E (app_base a) r)"
| "run_endpoint E a E_RecoverUsers r = do {
     (reply, bp, job) \<leftarrow> RecoverUsersHandler E (app_base a) r;
     return (Some (Ret (reply, a\<lparr>app_base := bp,
       app_jobs := app_jobs a @ (case job of None \<Rightarrow> [] | Some users \<Rightarrow> [users])\<rparr>))) }"
| "run_endpoint E a E_RecoveryState r = return (Some (Ret (GetRecoveryStateHandler (app_base a), a)))"

text \<open>
  \<^verbatim>\<open>JsonContentType\<close> answers for a handler that panics, with the panic's text when its value is a
  Go string. The panics of the handlers are run-time errors and values of type \<^verbatim>\<open>error\<close>, never
  strings, so \<open>serve\<close> recovers them as \<open>ErrorValue\<close>.
\<close>

datatype recovered = StringValue string | ErrorValue string

definition JsonContentType :: "app \<Rightarrow> recovered + (reply \<times> app) \<Rightarrow> reply \<times> app" where
  "JsonContentType a x =
     (case x of
        Inr served \<Rightarrow> served
      | Inl (StringValue strErr) \<Rightarrow> ((400, Text (strErr @ [CHR 0x0A])), a)
      | Inl (ErrorValue _) \<Rightarrow> ((500, Text (''unrecognized error'' @ [CHR 0x0A])), a))"

definition serve_endpoint :: "'s env \<Rightarrow> app \<Rightarrow> endpoint \<Rightarrow> incoming \<Rightarrow> ('s, (reply \<times> app) option) adapter" where
  "serve_endpoint E a endp r = do {
     x \<leftarrow> run_endpoint E a endp r;
     return (map_option (\<lambda>y. JsonContentType a (case y of Panic p \<Rightarrow> Inl (ErrorValue p) | Ret served \<Rightarrow> Inr served)) x) }"

definition serve ::
  "router \<Rightarrow> 's env \<Rightarrow> app \<Rightarrow> string \<Rightarrow> string \<Rightarrow> (string \<times> string) option \<Rightarrow> incoming \<Rightarrow>
     ('s, (reply \<times> app) option) adapter" where
  "serve mux E a verb path auth r =
     (case mux (routes (rp_ApiVersion (app_registration a))) verb path of
        Inl reply \<Rightarrow> return (Some (reply, a))
      | Inr ((_, _, Bare endp), vars) \<Rightarrow> serve_endpoint E a endp (r\<lparr>in_vars := vars\<rparr>)
      | Inr ((_, _, Authorized endp), vars) \<Rightarrow>
          BasicAuthorizer (cred_Username (app_adapter a)) (cred_Password (app_adapter a)) auth
            (serve_endpoint E a endp (r\<lparr>in_vars := vars\<rparr>))
            (\<lambda>reply. return (Some (reply, a))))"

section \<open>Facts\<close>

lemma sends_or_panic [sends_intros]:
  "sends R m \<Longrightarrow> (\<And>a. sends R (k a)) \<Longrightarrow> sends R (or_panic m k)"
  unfolding or_panic_def by (intro sends_bind) (auto intro: sends_return split: sum.splits)

lemma run_or_panic_Ret:
  "run_state (or_panic m k) w = (Ret b, w2) \<Longrightarrow>
     \<exists>a w1. run_state m w = (Inr a, w1) \<and> run_state (k a) w1 = (Ret b, w2)"
  by (auto simp: or_panic_def run_simps split: prod.splits sum.splits)

text \<open>The writes of role mappings: what marks the initialization as done.\<close>

fun writes_mapping :: "event \<Rightarrow> bool" where
  "writes_mapping (OpenSearch (Perform rq)) \<longleftrightarrow> rq_method rq = ''PUT'' \<and> HasPrefix (rq_url rq) (rolesmapping_path @ ''/'')"
| "writes_mapping _ \<longleftrightarrow> False"

lemma writes_mapping_api_http:
  "writes_mapping (OpenSearch (Perform (api_http meth url b o1))) \<longleftrightarrow>
     meth = ''PUT'' \<and> HasPrefix url (rolesmapping_path @ ''/'')"
  by (simp add: api_http_def)

declare writes_mapping.simps [simp del]

lemma roles_path_not_mapping: "\<not> HasPrefix (roles_path @ ''/'' @ s) (rolesmapping_path @ ''/'')"
  by (simp add: roles_path_def rolesmapping_path_def HasPrefix_def)

lemma sends_createRole: "sends (\<lambda>e. \<not> writes_mapping e) (createRole E c i g t)"
  unfolding createRole_def CreateRoleRequest_Do_def Let_def
  by (intro sends_intros) (simp only: writes_mapping_api_http roles_path_not_mapping simp_thms)

lemma sends_PatchUser: "sends (\<lambda>e. \<not> writes_mapping e) (PatchUser E u pw pfx t)"
  unfolding PatchUser_def PatchUserRequest_Do_def Let_def
  by (intro sends_intros) (simp add: writes_mapping_api_http)

lemma sends_updateUserConfiguration: "sends (\<lambda>e. \<not> writes_mapping e) (updateUserConfiguration E u role)"
  unfolding updateUserConfiguration_def GetUser_def GetRole_def GetUserRequest_Do_def GetRoleRequest_Do_def
  by (intro sends_intros sends_PatchUser) (simp_all add: writes_mapping_api_http)

lemma sends_migrate_users: "sends (\<lambda>e. \<not> writes_mapping e) (migrate_users E)"
proof -
  have "sends (\<lambda>e. \<not> writes_mapping e) (migrate_mappings E ms)" for ms
    by (induction E ms rule: migrate_mappings.induct) (auto intro!: sends_intros sends_updateUserConfiguration)
  then show ?thesis
    unfolding migrate_users_def GetRolesMapping_def GetRolesMappingRequest_Do_def
    by (intro sends_intros) (simp_all add: writes_mapping_api_http)
qed

lemmas create_role_defs = CreateRoleWithISMPermissions_def CreateRoleWithAdminPermissions_def
  CreateRoleWithDMLPermissions_def CreateRoleWithReadOnlyPermissions_def

lemma sends_prepare_roles: "sends (\<lambda>e. \<not> writes_mapping e) (prepare_roles E enhanced)"
  unfolding prepare_roles_def GetRoleMapping_def GetRoleMappingRequest_Do_def create_role_defs
  by (intro sends_intros sends_createRole sends_migrate_users) (simp_all add: writes_mapping_api_http)

text \<open>The write of a role is among the requests \<open>es\<close>, and the cluster has accepted it.\<close>

definition role_accepted :: "'s env \<Rightarrow> event list \<Rightarrow> string \<Rightarrow> bool" where
  "role_accepted E es roleType \<longleftrightarrow> (\<exists>rq r s response.
     role_event roleType r = OpenSearch (Perform rq) \<and> OpenSearch (Perform rq) \<in> set es \<and>
     fst (perform E (Perform rq) s) = Inr response \<and> StatusCode response \<in> {200, 201})"

lemma createRole_accepted:
  assumes "url_ok (roles_path @ ''/'' @ role_name t)" and "run_state (createRole E c i g t) w = (Inr u, w1)"
  shows "\<exists>es. trace w1 = trace w @ es \<and> role_accepted E es t"
proof -
  let ?rq = "api_http ''PUT'' (roles_path @ ''/'' @ role_name t) (Some (Doc (enc_role (role_of c i g)))) json_options"
  obtain x s where x: "perform E (Perform ?rq) (srv w) = (x, s)" by (cases "perform E (Perform ?rq) (srv w)")
  have d: "run_state (CreateRoleRequest_Do E (role_name t) (Doc (enc_role (role_of c i g))) json_options) w =
      (x, w\<lparr>srv := s, trace := trace w @ [OpenSearch (Perform ?rq)]\<rparr>)"
    using assms(1) x by (simp add: CreateRoleRequest_Do_def api_Do_def api_http_def run_simps)
  obtain response where r: "x = Inr response" "StatusCode response \<in> {200, 201}"
    using assms(2) d by (auto simp: createRole_def Let_def run_simps split: sum.splits if_splits)
  have "role_accepted E [OpenSearch (Perform ?rq)] t"
    unfolding role_accepted_def
    by (intro exI [of _ ?rq] exI [of _ "role_of c i g"] exI [of _ "srv w"] exI [of _ response] conjI)
      (simp only: role_event_def list.set insertI1 x r fst_conv)+
  moreover have "trace w1 = trace w @ [OpenSearch (Perform ?rq)]"
    using trace_createRole [OF assms(1), of E c i g w] assms(2) by (simp add: role_event_def)
  ultimately show ?thesis by blast
qed

lemma role_accepted_append: "role_accepted E es t \<Longrightarrow> role_accepted E (es' @ es @ es'') t"
  by (fastforce simp: role_accepted_def)

lemma prepare_roles_accepted:
  assumes "run_state (prepare_roles E enhanced) w = (Ret u, w1)"
  shows "\<exists>es. trace w1 = trace w @ es \<and> (\<forall>t \<in> set GetSupportedRoleTypes. role_accepted E es t)"
proof -
  obtain mapping wa where a: "run_state (GetRoleMapping E (role_name AdminRoleType)) w = (Inr mapping, wa)"
    and "\<exists>wb. run_state (CreateRoleWithISMPermissions E enhanced) wa = (Inr (), wb) \<and>
      (\<exists>wc. run_state (CreateRoleWithAdminPermissions E) wb = (Inr (), wc) \<and>
      (\<exists>wd. run_state (CreateRoleWithDMLPermissions E) wc = (Inr (), wd) \<and>
      (\<exists>we. run_state (CreateRoleWithReadOnlyPermissions E) wd = (Inr (), we) \<and>
        run_state (case mapping of None \<Rightarrow> migrate_users E | Some _ \<Rightarrow> return (Inr ())) we = (Inr (), w1))))"
    using assms unfolding prepare_roles_def by (fastforce dest!: run_or_panic_Ret)
  then obtain wb wc wd we where
    b: "run_state (CreateRoleWithISMPermissions E enhanced) wa = (Inr (), wb)" and
    c: "run_state (CreateRoleWithAdminPermissions E) wb = (Inr (), wc)" and
    d: "run_state (CreateRoleWithDMLPermissions E) wc = (Inr (), wd)" and
    e: "run_state (CreateRoleWithReadOnlyPermissions E) wd = (Inr (), we)" and
    f: "run_state (case mapping of None \<Rightarrow> migrate_users E | Some _ \<Rightarrow> return (Inr ())) we = (Inr (), w1)"
    by blast
  have g: "sends (\<lambda>_. True) (GetRoleMapping E (role_name AdminRoleType))"
    unfolding GetRoleMapping_def GetRoleMappingRequest_Do_def by (intro sends_intros) simp
  have h: "sends (\<lambda>e. \<not> writes_mapping e) (case mapping of None \<Rightarrow> migrate_users E | Some _ \<Rightarrow> return (Inr ()))"
    by (intro sends_intros sends_migrate_users)
  obtain es0 es5 where t0: "trace wa = trace w @ es0" and t5: "trace w1 = trace we @ es5"
    using sends_traceD [OF g a] sends_traceD [OF h f] by blast
  obtain es1 es2 es3 es4 where
    t1: "trace wb = trace wa @ es1" "role_accepted E es1 IsmRoleType" and
    t2: "trace wc = trace wb @ es2" "role_accepted E es2 AdminRoleType" and
    t3: "trace wd = trace wc @ es3" "role_accepted E es3 DmlRoleType" and
    t4: "trace we = trace wd @ es4" "role_accepted E es4 ReadOnlyRoleType"
    using createRole_accepted [OF role_paths_ok(4) b [unfolded create_role_defs]]
      createRole_accepted [OF role_paths_ok(3) c [unfolded create_role_defs]]
      createRole_accepted [OF role_paths_ok(2) d [unfolded create_role_defs]]
      createRole_accepted [OF role_paths_ok(1) e [unfolded create_role_defs]] by blast
  have "role_accepted E (es0 @ es1 @ es2 @ es3 @ es4 @ es5) t" if "t \<in> set GetSupportedRoleTypes" for t
    using that role_accepted_append [OF t1(2), of es0 "es2 @ es3 @ es4 @ es5"]
      role_accepted_append [OF t2(2), of "es0 @ es1" "es3 @ es4 @ es5"]
      role_accepted_append [OF t3(2), of "es0 @ es1 @ es2" "es4 @ es5"]
      role_accepted_append [OF t4(2), of "es0 @ es1 @ es2 @ es3" es5]
    by (auto simp: GetSupportedRoleTypes_def)
  then show ?thesis using t0 t1 t2 t3 t4 t5 by (intro exI [of _ "es0 @ es1 @ es2 @ es3 @ es4 @ es5"]) simp
qed

lemma routes_guarded:
  "(verb, template, Bare endp) \<in> set (routes version) \<Longrightarrow>
     verb = ''GET'' \<and> (endp = E_Health \<and> template = ''/health'' \<or> endp = E_Supports \<and> template = basePath version @ ''/supports'')"
  by (auto simp: routes_def Let_def split: if_splits)

section \<open>Properties\<close>

text \<open>
  C5. A request that does not carry the adapter's credentials has no effect unless it is a
  \<^verbatim>\<open>GET\<close> that the router sends to the health or the supports endpoint: whatever the router picks
  otherwise, nothing is sent, the state of the adapter stays as it is, and the answer is 401 or
  the router's own.
\<close>

theorem unauthorized_has_no_effect:
  assumes "picks_registered mux"
    and "auth \<noteq> Some (cred_Username (app_adapter a), cred_Password (app_adapter a))"
  defines "version \<equiv> rp_ApiVersion (app_registration a)"
  shows "(\<exists>reply. run_state (serve mux E a verb path auth r) w = (Some (reply, a), w) \<and>
      (fst reply = 401 \<or> mux (routes version) verb path = Inl reply)) \<or>
    verb = ''GET'' \<and> (\<exists>vars. mux (routes version) verb path \<in>
      {Inr ((''GET'', ''/health'', Bare E_Health), vars),
       Inr ((''GET'', basePath version @ ''/supports'', Bare E_Supports), vars)})"
proof (cases "mux (routes version) verb path")
  case (Inl reply)
  then show ?thesis by (simp add: serve_def version_def)
next
  case (Inr x)
  obtain v template h vars where x: "x = ((v, template, h), vars)" by (cases x) auto
  have reg: "(v, template, h) \<in> set (routes version)" "v = verb"
    using assms(1) Inr x unfolding picks_registered_def by fastforce+
  show ?thesis
  proof (cases h)
    case (Bare endp)
    then show ?thesis using routes_guarded [of v template endp version] reg Inr x by auto
  next
    case (Authorized endp)
    then show ?thesis using Inr x assms(2)
      by (auto simp: serve_def version_def BasicAuthorizer_def ProcessResponseBody_def split: option.splits prod.splits)
  qed
qed

definition exact_mux :: router where
  "exact_mux rs verb path =
     (case find (\<lambda>(v, template, _). v = verb \<and> template = path) rs of
        None \<Rightarrow> Inl (404, Text ''404 page not found'')
      | Some r \<Rightarrow> Inr (r, []))"

lemma exact_mux_picks_registered: "picks_registered exact_mux"
  by (auto simp: picks_registered_def exact_mux_def find_Some_iff split: option.splits) (metis nth_mem)

definition test_app :: app where
  "test_app = \<lparr>app_adapter = test_component, app_config = server_config script_env, app_base = v2_provider,
     app_backup = NewBackupProvider script_env [], app_registration = test_registration,
     app_health = \<lparr>h_Status = ''UP'', OpensearchHealth = ''UP'', DbaasAggregatorHealth = ''UNKNOWN''\<rparr>,
     app_registering = False, app_jobs = []\<rparr>"

definition test_incoming :: incoming where
  "test_incoming = \<lparr>in_id = [], in_vars = [], in_query = [], in_body = Text []\<rparr>"

theorem unauthorized_has_no_effect_witness:
  "\<exists>reply. run_state (serve exact_mux script_env test_app ''POST'' (basePath ApiV2 @ ''/databases'')
      (Some (''u'', ''wrong'')) test_incoming) (answers []) = (Some (reply, test_app), answers []) \<and> fst reply = 401"
proof -
  have "exact_mux (routes (rp_ApiVersion (app_registration test_app))) ''POST'' (basePath ApiV2 @ ''/databases'') =
      Inr ((''POST'', basePath ApiV2 @ ''/databases'', Authorized E_CreateDatabase), [])"
    by code_simp
  then show ?thesis
    using unauthorized_has_no_effect [OF exact_mux_picks_registered, where a = test_app and auth = "Some (''u'', ''wrong'')"
        and verb = "''POST''" and path = "basePath ApiV2 @ ''/databases''" and E = script_env and r = test_incoming
        and w = "answers []"]
    by (simp add: test_app_def test_component_def)
qed

text \<open>
  The initialization can be repeated after a failure. No role mapping is written before the
  cluster has accepted all four roles and the users are migrated; a step that fails before that
  ends the start-up with the mappings untouched, so the next start migrates again.
\<close>

theorem mappings_are_written_last:
  assumes "run_state (prepare_roles E enhanced) w = (x, w1)"
  shows "\<exists>es. trace w1 = trace w @ es \<and> (\<forall>e \<in> set es. \<not> writes_mapping e) \<and>
    (case x of
       Panic p \<Rightarrow> run_state (createBasicRoles E enhanced) w = (Panic p, w1)
     | Ret _ \<Rightarrow> run_state (createBasicRoles E enhanced) w = run_state (map_roles E GetSupportedRoleTypes) w1 \<and>
         (\<forall>t \<in> set GetSupportedRoleTypes. role_accepted E es t))"
proof -
  obtain es where es: "trace w1 = trace w @ es" "\<forall>e \<in> set es. \<not> writes_mapping e"
    using sends_traceD [OF sends_prepare_roles assms] by blast
  have "\<forall>t \<in> set GetSupportedRoleTypes. role_accepted E es t" if "x = Ret u" for u
    using prepare_roles_accepted assms es(1) that by fastforce
  then show ?thesis using es assms
    by (intro exI [of _ es]) (auto simp: createBasicRoles_def onRet_def run_simps split: go.splits)
qed

definition fresh_cluster :: "(script, event) world" where
  "fresh_cluster = answers [status_only 404, status_only 201, status_only 201, status_only 201, status_only 201, status_only 404]"

definition fresh_run :: "unit go \<times> (script, event) world" where
  "fresh_run = run_state (prepare_roles script_env False) fresh_cluster"

theorem mappings_are_written_last_witness:
  "\<exists>es. trace (snd fresh_run) = trace fresh_cluster @ es \<and> (\<forall>e \<in> set es. \<not> writes_mapping e) \<and>
    (\<forall>t \<in> set GetSupportedRoleTypes. role_accepted script_env es t)"
proof -
  have "fst fresh_run = Ret ()" by code_simp
  then have "run_state (prepare_roles script_env False) fresh_cluster = (Ret (), snd fresh_run)"
    by (simp add: fresh_run_def prod_eq_iff)
  from mappings_are_written_last [OF this] show ?thesis by auto
qed

end
