(* ===== verification/Json_Text.thy ===== *)
theory Json_Text
  imports Http
begin

text \<open>
  Reading a JSON document from text, as \<^verbatim>\<open>json.Unmarshal\<close> does before it decodes: used where the sources
  keep a document in a value of a Kubernetes secret. Numbers are integers, as in \<open>Json\<close>: a fraction or an
  exponent is not read. The readers take fuel; \<open>read_value_fuel\<close> shows
  that two units per character and one are enough: with more of it they read the same.
\<close>

section \<open>Characters and strings\<close>

definition is_space :: "char \<Rightarrow> bool" where
  "is_space c \<longleftrightarrow> c \<in> {CHR 32, CHR 9, CHR 10, CHR 13}"

definition skip_space :: "string \<Rightarrow> string" where
  "skip_space s = dropWhile is_space s"

definition hex_value :: "char \<Rightarrow> nat" where
  "hex_value c = (let n = of_char c :: nat in if n \<le> 57 then n - 48 else if n \<le> 70 then n - 55 else n - 87)"

definition code_unit :: "char \<Rightarrow> char \<Rightarrow> char \<Rightarrow> char \<Rightarrow> nat" where
  "code_unit a b c d = ((hex_value a * 16 + hex_value b) * 16 + hex_value c) * 16 + hex_value d"

definition utf8 :: "nat \<Rightarrow> string" where
  "utf8 n =
     (if n < 128 then [char_of n]
      else if n < 2048 then [char_of (192 + n div 64), char_of (128 + n mod 64)]
      else if n < 65536 then [char_of (224 + n div 4096), char_of (128 + n div 64 mod 64), char_of (128 + n mod 64)]
      else [char_of (240 + n div 262144), char_of (128 + n div 4096 mod 64), char_of (128 + n div 64 mod 64), char_of (128 + n mod 64)])"

text \<open>Half of a surrogate pair without the other half reads as U+FFFD.\<close>

definition lone :: "nat \<Rightarrow> nat" where
  "lone n = (if 55296 \<le> n \<and> n < 57344 then 65533 else n)"

definition paired :: "nat \<Rightarrow> nat \<Rightarrow> bool" where
  "paired h l \<longleftrightarrow> 55296 \<le> h \<and> h < 56320 \<and> 56320 \<le> l \<and> l < 57344"

definition simple_escape :: "char \<Rightarrow> char option" where
  "simple_escape e = map_of [(CHR 34, CHR 34), (CHR 92, CHR 92), (CHR ''/'', CHR ''/''), (CHR ''b'', CHR 8), (CHR ''f'', CHR 12),
     (CHR ''n'', CHR 10), (CHR ''r'', CHR 13), (CHR ''t'', CHR 9)] e"

fun hex4 :: "string \<Rightarrow> (nat \<times> string) option" where
  "hex4 (a # b # c # d # rest) = (if list_all is_hex [a, b, c, d] then Some (code_unit a b c d, rest) else None)"
| "hex4 _ = None"

lemma hex4_shorter [dest]: "hex4 s = Some (n, rest) \<Longrightarrow> length rest < length s"
  by (cases s rule: hex4.cases) (auto split: if_splits)

text \<open>The rest of a string after its opening quote.\<close>

function read_string :: "string \<Rightarrow> (string \<times> string) option" where
  "read_string s =
     (case s of
        [] \<Rightarrow> None
      | c # cs \<Rightarrow>
          (if c = CHR 34 then Some ([], cs)
           else if (of_char c :: nat) < 32 then None
           else if c \<noteq> CHR 92 then map_option (apfst ((#) c)) (read_string cs)
           else (case cs of
               [] \<Rightarrow> None
             | e # rest \<Rightarrow>
                 (if e = CHR ''u'' then
                    (case hex4 rest of
                       None \<Rightarrow> None
                     | Some (h, after) \<Rightarrow>
                         (if take 2 after = [CHR 92, CHR ''u''] then
                            (case hex4 (drop 2 after) of
                               None \<Rightarrow> None
                             | Some (l, after2) \<Rightarrow>
                                 (if paired h l then
                                    map_option (apfst ((@) (utf8 (65536 + (h - 55296) * 1024 + (l - 56320))))) (read_string after2)
                                  else map_option (apfst ((@) (utf8 (lone h)))) (read_string after)))
                          else map_option (apfst ((@) (utf8 (lone h)))) (read_string after)))
                  else (case simple_escape e of
                      None \<Rightarrow> None
                    | Some x \<Rightarrow> map_option (apfst ((#) x)) (read_string rest))))))"
  by pat_completeness auto

termination
  by (relation "measure length") (auto dest!: hex4_shorter)

declare read_string.simps [simp del]

section \<open>Values\<close>

definition is_digit :: "char \<Rightarrow> bool" where
  "is_digit c \<longleftrightarrow> (let n = of_char c :: nat in 48 \<le> n \<and> n \<le> 57)"

definition digits_value :: "string \<Rightarrow> int" where
  "digits_value ds = foldl (\<lambda>n c. n * 10 + int (of_char c - 48 :: nat)) 0 ds"

definition read_number :: "string \<Rightarrow> (json \<times> string) option" where
  "read_number s =
     (let negative = (s \<noteq> [] \<and> hd s = CHR ''-''); t = (if negative then tl s else s);
          ds = takeWhile is_digit t; rest = dropWhile is_digit t in
      if ds = [] \<or> (length ds > 1 \<and> hd ds = CHR ''0'') \<or> (rest \<noteq> [] \<and> hd rest \<in> {CHR ''.'', CHR ''e'', CHR ''E''}) then None
      else Some (JNum (if negative then - digits_value ds else digits_value ds), rest))"

definition strip :: "string \<Rightarrow> string \<Rightarrow> string option" where
  "strip word s = (if take (length word) s = word then Some (drop (length word) s) else None)"

definition read_literal :: "string \<Rightarrow> (json \<times> string) option" where
  "read_literal s =
     (case strip ''null'' s of
        Some r \<Rightarrow> Some (JNull, r)
      | None \<Rightarrow>
          (case strip ''true'' s of
             Some r \<Rightarrow> Some (JBool True, r)
           | None \<Rightarrow> (case strip ''false'' s of Some r \<Rightarrow> Some (JBool False, r) | None \<Rightarrow> read_number s)))"

text \<open>The rest after a character, when the text goes on with it.\<close>

definition after_char :: "char \<Rightarrow> string \<Rightarrow> string option" where
  "after_char c s = (case skip_space s of [] \<Rightarrow> None | d # rest \<Rightarrow> if d = c then Some rest else None)"

fun read_value :: "nat \<Rightarrow> string \<Rightarrow> (json \<times> string) option"
  and read_elems :: "nat \<Rightarrow> string \<Rightarrow> (json list \<times> string) option"
  and read_members :: "nat \<Rightarrow> string \<Rightarrow> ((string \<times> json) list \<times> string) option" where
  "read_value 0 s = None"
| "read_value (Suc n) s =
     (case skip_space s of
        [] \<Rightarrow> None
      | c # cs \<Rightarrow>
          (if c = CHR 34 then map_option (apfst JStr) (read_string cs)
           else if c = CHR ''['' then
             (case after_char (CHR '']'') cs of
                Some rest \<Rightarrow> Some (JArr [], rest)
              | None \<Rightarrow> map_option (apfst JArr) (read_elems n cs))
           else if c = CHR ''{'' then
             (case after_char (CHR ''}'') cs of
                Some rest \<Rightarrow> Some (JObj [], rest)
              | None \<Rightarrow> map_option (apfst JObj) (read_members n cs))
           else read_literal (c # cs)))"
| "read_elems 0 s = None"
| "read_elems (Suc n) s =
     (case read_value n s of
        None \<Rightarrow> None
      | Some (j, rest) \<Rightarrow>
          (case after_char (CHR '','') rest of
             Some next \<Rightarrow> map_option (apfst ((#) j)) (read_elems n next)
           | None \<Rightarrow> map_option (Pair [j]) (after_char (CHR '']'') rest)))"
| "read_members 0 s = None"
| "read_members (Suc n) s =
     (case Option.bind (after_char (CHR 34) s) read_string of
        None \<Rightarrow> None
      | Some (k, rest) \<Rightarrow>
          (case Option.bind (after_char (CHR '':'') rest) (read_value n) of
             None \<Rightarrow> None
           | Some (j, rest2) \<Rightarrow>
               (case after_char (CHR '','') rest2 of
                  Some next \<Rightarrow> map_option (apfst ((#) (k, j))) (read_members n next)
                | None \<Rightarrow> map_option (Pair [(k, j)]) (after_char (CHR ''}'') rest2))))"

text \<open>A whole text: one value with nothing but space after it.\<close>

definition text_body :: "string \<Rightarrow> body" where
  "text_body s =
     (case read_value (2 * length s + 1) s of
        Some (j, rest) \<Rightarrow> if skip_space rest = [] then Doc j else Text s
      | None \<Rightarrow> Text s)"

section \<open>The fuel is enough\<close>

lemma skip_space_le: "length (skip_space s) \<le> length s"
  unfolding skip_space_def by (rule length_dropWhile_le)

lemma skip_space_Cons: "skip_space s = c # cs \<Longrightarrow> length cs < length s"
  using skip_space_le [of s] by simp

lemma after_char_shorter: "after_char c s = Some rest \<Longrightarrow> length rest < length s"
  unfolding after_char_def by (auto split: list.splits if_splits dest: skip_space_Cons)

lemma read_string_shorter: "read_string s = Some (t, rest) \<Longrightarrow> length rest < length s"
proof (induction s arbitrary: t rule: measure_induct_rule [of length])
  case (less s)
  have IH: "length s' < length s \<longrightarrow> length rest < length s'" if "read_string s' = Some (t', rest)" for s' t'
    using less.IH that by blast
  show ?case
    using less.prems
    by (subst (asm) read_string.simps)
      (auto split: list.splits if_splits option.splits dest!: hex4_shorter IH, linarith?)
qed

lemma read_number_shorter: "read_number s = Some (j, rest) \<Longrightarrow> length rest < length s"
proof -
  assume a: "read_number s = Some (j, rest)"
  define t where "t = (if s \<noteq> [] \<and> hd s = CHR ''-'' then tl s else s)"
  from a have "takeWhile is_digit t \<noteq> []" and "rest = dropWhile is_digit t"
    unfolding read_number_def t_def [symmetric] Let_def by (simp_all split: if_splits)
  moreover have "length t = length (takeWhile is_digit t) + length (dropWhile is_digit t)"
    by (metis length_append takeWhile_dropWhile_id)
  moreover have "length t \<le> length s" unfolding t_def by simp
  ultimately show ?thesis by (cases "takeWhile is_digit t") auto
qed

lemma strip_shorter: "strip w s = Some rest \<Longrightarrow> w \<noteq> [] \<Longrightarrow> length rest < length s"
  unfolding strip_def by (cases s) (auto split: if_splits)

lemma read_literal_shorter: "read_literal s = Some (j, rest) \<Longrightarrow> length rest < length s"
  unfolding read_literal_def
  by (auto split: option.splits dest: read_number_shorter strip_shorter)

lemmas shorter = after_char_shorter read_string_shorter read_literal_shorter skip_space_Cons

lemma read_shorter:
  "read_value n s = Some (j, rest) \<Longrightarrow> length rest < length s"
  "read_elems n s = Some (js, rest) \<Longrightarrow> length rest < length s"
  "read_members n s = Some (kvs, rest) \<Longrightarrow> length rest < length s"
proof (induction n s and n s and n s arbitrary: j rest and js rest and kvs rest
    rule: read_value_read_elems_read_members.induct)
  case (2 n s)
  then show ?case
    by (fastforce split: list.splits if_splits option.splits dest: shorter dest!: shorter)
next
  case (4 n s)
  then show ?case
    by (fastforce split: option.splits dest: shorter)
next
  case (6 n s)
  then show ?case
    by (fastforce split: option.splits bind_splits dest: shorter)
qed simp_all

lemma read_fuel_Suc:
  "(\<forall>s. 2 * length s < n \<longrightarrow> read_value (Suc n) s = read_value n s) \<and>
   (\<forall>s. 2 * length s + 1 < n \<longrightarrow> read_elems (Suc n) s = read_elems n s) \<and>
   (\<forall>s. 2 * length s + 1 < n \<longrightarrow> read_members (Suc n) s = read_members n s)"
proof (induction n)
  case 0
  then show ?case by simp
next
  case (Suc n)
  have v: "read_value (Suc (Suc n)) s = read_value (Suc n) s" if "2 * length s < Suc n" for s
  proof -
    have "read_elems (Suc n) cs = read_elems n cs \<and> read_members (Suc n) cs = read_members n cs"
      if "skip_space s = c # cs" for c cs
      using Suc skip_space_Cons [OF that] \<open>2 * length s < Suc n\<close> by auto
    then show ?thesis
      by (subst (1 2) read_value.simps(2)) (auto split: list.splits option.splits)
  qed
  have e: "read_elems (Suc (Suc n)) s = read_elems (Suc n) s" if "2 * length s + 1 < Suc n" for s
  proof -
    have "read_value (Suc n) s = read_value n s" using Suc that by auto
    moreover have "read_elems (Suc n) t = read_elems n t"
      if "read_value n s = Some (j, r)" "after_char (CHR '','') r = Some t" for j r t
      using Suc shorter(1) [OF that(2)] read_shorter(1) [OF that(1)] \<open>2 * length s + 1 < Suc n\<close> by auto
    ultimately show ?thesis
      by (subst (1 2) read_elems.simps(2)) (auto split: option.splits)
  qed
  have m: "read_members (Suc (Suc n)) s = read_members (Suc n) s" if "2 * length s + 1 < Suc n" for s
  proof -
    have key: "length r < length s" if "Option.bind (after_char (CHR 34) s) read_string = Some (k, r)" for k r
      using that by (auto simp: bind_eq_Some_conv dest!: shorter)
    have val: "read_value (Suc n) t = read_value n t"
      if "Option.bind (after_char (CHR 34) s) read_string = Some (k, r)" "after_char (CHR '':'') r = Some t" for k r t
      using Suc shorter(1) [OF that(2)] key [OF that(1)] \<open>2 * length s + 1 < Suc n\<close> by auto
    have rec: "read_members (Suc n) u = read_members n u"
      if "Option.bind (after_char (CHR 34) s) read_string = Some (k, r)" "after_char (CHR '':'') r = Some t"
        "read_value n t = Some (j, r2)" "after_char (CHR '','') r2 = Some u" for k r t j r2 u
      using Suc shorter(1) [OF that(2)] shorter(1) [OF that(4)] read_shorter(1) [OF that(3)] key [OF that(1)]
        \<open>2 * length s + 1 < Suc n\<close> by auto
    show ?thesis
      using val rec by (subst (1 2) read_members.simps(2))
        (fastforce split: option.splits simp: bind_eq_Some_conv Option.bind_eq_None_conv)
  qed
  from v e m show ?case by blast
qed

text \<open>More fuel changes nothing, so the reader is the one without a bound.\<close>

lemma read_value_fuel: "2 * length s < n \<Longrightarrow> n \<le> m \<Longrightarrow> read_value m s = read_value n s"
proof (induction m)
  case (Suc m)
  then show ?case using read_fuel_Suc [of m] by (cases "n = Suc m") auto
qed simp

text \<open>What is read with some fuel is read with more.\<close>

definition leq :: "'a option \<Rightarrow> 'a option \<Rightarrow> bool" where
  "leq a b \<longleftrightarrow> a = None \<or> a = b"

lemma leq_intros:
  "leq a a" "leq None b"
  "leq a b \<Longrightarrow> leq (map_option f a) (map_option f b)"
  "leq a b \<Longrightarrow> (\<And>x y. leq (h x y) (k x y)) \<Longrightarrow>
     leq (case a of None \<Rightarrow> None | Some (x, y) \<Rightarrow> h x y) (case b of None \<Rightarrow> None | Some (x, y) \<Rightarrow> k x y)"
  by (auto simp: leq_def split: option.splits)

lemma leq_cases:
  "leq m m' \<Longrightarrow> (\<And>x. leq (u x) (u' x)) \<Longrightarrow>
     leq (case z of None \<Rightarrow> m | Some x \<Rightarrow> u x) (case z of None \<Rightarrow> m' | Some x \<Rightarrow> u' x)"
  "(\<And>x. leq (u x) (u' x)) \<Longrightarrow> leq (Option.bind z u) (Option.bind z u')"
  "leq v v' \<Longrightarrow> leq w w' \<Longrightarrow> leq (if p then v else w) (if p then v' else w')"
  "(\<And>c cs. leq (l c cs) (l' c cs)) \<Longrightarrow>
     leq (case s of [] \<Rightarrow> None | c # cs \<Rightarrow> l c cs) (case s of [] \<Rightarrow> None | c # cs \<Rightarrow> l' c cs)"
  by (cases z; auto simp: leq_def split: option.splits list.splits)+

lemma read_more_Suc:
  "(\<forall>s. leq (read_value n s) (read_value (Suc n) s)) \<and> (\<forall>s. leq (read_elems n s) (read_elems (Suc n) s)) \<and>
   (\<forall>s. leq (read_members n s) (read_members (Suc n) s))"
proof (induction n)
  case 0
  then show ?case by (simp add: leq_def)
next
  case (Suc n)
  then have IH: "leq (read_value n s) (read_value (Suc n) s)" "leq (read_elems n s) (read_elems (Suc n) s)"
    "leq (read_members n s) (read_members (Suc n) s)" for s by blast+
  have "leq (read_value (Suc n) s) (read_value (Suc (Suc n)) s)" for s
    by (subst (1 2) read_value.simps(2)) (intro leq_cases leq_intros IH)
  moreover have "leq (read_elems (Suc n) s) (read_elems (Suc (Suc n)) s)" for s
    by (subst (1 2) read_elems.simps(2)) (intro leq_cases leq_intros IH)
  moreover have "leq (read_members (Suc n) s) (read_members (Suc (Suc n)) s)" for s
    by (subst (1 2) read_members.simps(2)) (intro leq_cases leq_intros IH)
  ultimately show ?case by blast
qed

lemma read_more:
  assumes "read_value n s = Some r" and "n \<le> m"
  shows "read_value m s = Some r"
  using assms(2,1)
proof (induction m rule: dec_induct)
  case (step m)
  then show ?case using read_more_Suc [of m] unfolding leq_def by (metis option.distinct(1))
qed simp

lemma text_body_read: "read_value n s = Some (j, []) \<Longrightarrow> n \<le> 2 * length s + 1 \<Longrightarrow> text_body s = Doc j"
  unfolding text_body_def by (drule read_more, assumption) (simp add: skip_space_def del: read_value.simps)

text \<open>A string without quotes, backslashes and control characters stands for itself.\<close>

definition plain :: "string \<Rightarrow> bool" where
  "plain s \<longleftrightarrow> list_all (\<lambda>c. c \<noteq> CHR 34 \<and> c \<noteq> CHR 92 \<and> 32 \<le> (of_char c :: nat)) s"

lemma read_plain: "plain s \<Longrightarrow> read_string (s @ CHR 34 # rest) = Some (s, rest)"
proof (induction s)
  case Nil
  then show ?case by (subst read_string.simps) simp
next
  case (Cons c s)
  then show ?case by (subst read_string.simps) (simp add: plain_def)
qed

end
