(* ===== verification/Json_Round_Trip.thy ===== *)
theory Json_Round_Trip
  imports Json_Text
begin

text \<open>
  What \<^verbatim>\<open>json.Marshal\<close> prints is what \<^verbatim>\<open>json.Unmarshal\<close> reads: the reader of texts gives back every printed
  document. Strings are compared byte by byte, so this covers every string the printer leaves as it is.
\<close>

section \<open>What is printed is read again\<close>

text \<open>What follows a value: nothing, or a character that ends it.\<close>

definition stops :: "string \<Rightarrow> bool" where
  "stops s \<longleftrightarrow> s = [] \<or> hd s \<in> {CHR '','', CHR '']'', CHR ''}''}"

lemma hex_digits: "a < 16 \<Longrightarrow> is_hex (hex_digit a) \<and> hex_value (hex_digit a) = a"
proof -
  have "\<forall>a \<in> set [0..<16]. is_hex (hex_digit a) \<and> hex_value (hex_digit a) = a" by code_simp
  then show "a < 16 \<Longrightarrow> is_hex (hex_digit a) \<and> hex_value (hex_digit a) = a" by auto
qed

lemma hex4_escape: "n < 256 \<Longrightarrow> hex4 (''00'' @ hex_digit (n div 16) # hex_digit (n mod 16) # t) = Some (n, t)"
proof -
  assume "n < 256"
  then have "n div 16 < 16" by simp
  moreover have "n mod 16 < 16" by simp
  moreover have "is_hex (CHR ''0'')" "hex_value (CHR ''0'') = 0" by code_simp+
  ultimately show "hex4 (''00'' @ hex_digit (n div 16) # hex_digit (n mod 16) # t) = Some (n, t)"
    by (simp add: hex_digits code_unit_def)
qed

text \<open>Reading undoes the escape of one character, whatever follows.\<close>

lemma read_unescaped:
  "c \<noteq> CHR 34 \<Longrightarrow> c \<noteq> CHR 92 \<Longrightarrow> 32 \<le> (of_char c :: nat) \<Longrightarrow>
     read_string (c # t) = map_option (apfst ((#) c)) (read_string t)"
  by (subst read_string.simps) simp

lemma read_simple_escape:
  "simple_escape e = Some x \<Longrightarrow> e \<noteq> CHR ''u'' \<Longrightarrow>
     read_string (CHR 92 # e # t) = map_option (apfst ((#) x)) (read_string t)"
  by (subst read_string.simps) simp

lemma read_string_bad_hex:
  assumes "take 2 t = [CHR 92, CHR ''u'']" and "hex4 (drop 2 t) = None"
  shows "read_string t = None"
proof -
  have "t = CHR 92 # CHR ''u'' # drop 2 t"
    using assms(1) append_take_drop_id [of 2 t] by simp
  then show ?thesis using assms(2) by (subst read_string.simps) (auto split: list.splits)
qed

lemma read_hex_escape:
  assumes "n < 128"
  shows "read_string (CHR 92 # ''u00'' @ hex_digit (n div 16) # hex_digit (n mod 16) # t) =
    map_option (apfst ((#) (char_of n))) (read_string t)"
proof -
  have "hex4 (CHR ''0'' # CHR ''0'' # hex_digit (n div 16) # hex_digit (n mod 16) # t) = Some (n, t)"
    using hex4_escape [of n t] assms by simp
  moreover have "\<not> paired n l" "lone n = n" "utf8 n = [char_of n]" for l
    using assms by (simp_all add: paired_def lone_def utf8_def)
  moreover have "(@) [char_of n] = (#) (char_of n :: char)" by auto
  ultimately show ?thesis
    by (subst read_string.simps)
      (auto split: option.splits dest: read_string_bad_hex simp del: hex4.simps)
qed

lemma read_quote_char: "read_string (quote_char c @ t) = map_option (apfst ((#) c)) (read_string t)"
proof -
  define n where "n = (of_char c :: nat)"
  have c: "c = char_of n" by (simp add: n_def)
  consider "n \<in> {34, 92, 8, 12, 10, 13, 9}" | "n \<notin> {34, 92, 8, 12, 10, 13, 9}" "n < 32 \<or> n \<in> {38, 60, 62}"
    | "n \<notin> {34, 92}" "32 \<le> n" "n \<notin> {38, 60, 62}" by fastforce
  then show ?thesis
  proof cases
    case 1
    have "\<forall>n \<in> set [34, 92, 8, 12, 10, 13, 9 :: nat]. length (quote_char (char_of n)) = 2 \<and>
        hd (quote_char (char_of n)) = CHR 92 \<and> quote_char (char_of n) ! 1 \<noteq> CHR ''u'' \<and>
        simple_escape (quote_char (char_of n) ! 1) = Some (char_of n)" by code_simp
    with 1 obtain e where "quote_char c = [CHR 92, e]" "e \<noteq> CHR ''u''" "simple_escape e = Some c"
      unfolding c by (cases "quote_char (char_of n)") (auto simp: length_Suc_conv simp del: quote_char.simps)
    then show ?thesis by (simp add: read_simple_escape del: quote_char.simps)
  next
    case 2
    then have "quote_char c = CHR 92 # ''u00'' @ [hex_digit (n div 16), hex_digit (n mod 16)]" "n < 128"
      by (auto simp: n_def [symmetric] Let_def)
    then show ?thesis using read_hex_escape [of n t] c by (simp del: quote_char.simps)
  next
    case 3
    then have "quote_char c = [c]" by (auto simp: n_def [symmetric] Let_def)
    moreover have "c \<noteq> CHR 34" "c \<noteq> CHR 92" using 3 by (auto simp: n_def)
    ultimately show ?thesis using 3 by (simp add: read_unescaped n_def [symmetric] del: quote_char.simps)
  qed
qed

lemma read_quoted: "read_string (concat (map quote_char s) @ CHR 34 # rest) = Some (s, rest)"
  by (induction s) (simp_all add: read_quote_char read_string.simps [of "CHR 34 # rest"] del: quote_char.simps)

text \<open>Numbers.\<close>

lemma digits_value_snoc: "digits_value (ds @ [c]) = digits_value ds * 10 + int (of_char c - 48)"
  by (simp add: digits_value_def)

lemma digits_value_show: "digits_value (show_nat n) = int n"
proof (induction n rule: show_nat.induct)
  case (1 n)
  have "int (n div 10) * 10 + int (n mod 10) = int n" by presburger
  with 1 show ?case
    by (subst show_nat.simps) (auto simp: digits_value_snoc digits_value_def [of "[_]"])
qed

lemma show_nat_not_Nil [simp]: "show_nat n \<noteq> []"
  by (subst show_nat.simps) simp

lemma show_nat_first: "0 < n \<Longrightarrow> hd (show_nat n) \<noteq> CHR ''0''"
proof (induction n rule: show_nat.induct)
  case (1 n)
  have "char_of (48 + n) \<noteq> CHR ''0''" if "0 < n" "n < 10"
    using that by (auto dest: arg_cong [where f = "of_char :: char \<Rightarrow> nat"])
  with 1 show ?case
    by (subst show_nat.simps) auto
qed

lemma show_nat_zero: "show_nat 0 = ''0''"
  by code_simp

lemma stops_digits: "stops rest \<Longrightarrow> takeWhile is_digit (show_nat n @ rest) = show_nat n \<and> dropWhile is_digit (show_nat n @ rest) = rest"
proof -
  assume "stops rest"
  moreover have "\<forall>c \<in> set (show_nat n). is_digit c" by (auto simp: is_digit_def dest: show_nat_digits)
  moreover have "\<forall>c \<in> {CHR '','', CHR '']'', CHR ''}''}. \<not> is_digit c" by code_simp
  ultimately show ?thesis
    by (cases rest) (auto simp: stops_def takeWhile_append dropWhile_append)
qed

lemma read_digits:
  assumes "stops rest"
  shows "read_number (show_nat n @ rest) = Some (JNum (int n), rest)"
    and "read_number (CHR ''-'' # show_nat n @ rest) = Some (JNum (- int n), rest)"
proof -
  have "hd (show_nat n @ rest) \<noteq> CHR ''-''"
    using show_nat_digits [of "hd (show_nat n)" n] by auto
  moreover have "rest = [] \<or> hd rest \<notin> {CHR ''.'', CHR ''e'', CHR ''E''}"
    using assms by (auto simp: stops_def)
  moreover have "\<not> (length (show_nat n) > 1 \<and> hd (show_nat n) = CHR ''0'')"
    using show_nat_first [of n] by (cases n) (auto simp: show_nat_zero)
  ultimately show "read_number (show_nat n @ rest) = Some (JNum (int n), rest)"
    and "read_number (CHR ''-'' # show_nat n @ rest) = Some (JNum (- int n), rest)"
    using stops_digits [OF assms, of n] by (auto simp: read_number_def Let_def digits_value_show)
qed

lemma read_shown: "stops rest \<Longrightarrow> read_number (show_int i @ rest) = Some (JNum i, rest)"
  using read_digits [of rest "nat i"] read_digits [of rest "nat (- i)"] by (auto simp: show_int_def)

lemma show_int_first: "\<exists>c cs. show_int i = c # cs \<and> (is_digit c \<or> c = CHR ''-'')"
proof -
  have "is_digit (hd (show_nat (nat i)))"
    using show_nat_digits [of "hd (show_nat (nat i))" "nat i"] by (simp add: is_digit_def)
  then show ?thesis by (cases "show_nat (nat i)") (auto simp: show_int_def)
qed

text \<open>Literals and values.\<close>

lemma not_digit: "is_digit c \<Longrightarrow> c \<notin> {CHR ''n'', CHR ''t'', CHR ''f'', CHR 34, CHR ''['', CHR ''{'', CHR '']'', CHR 32, CHR 9, CHR 10, CHR 13}"
  by (auto simp: is_digit_def)

lemma digit_no_space: "is_digit c \<Longrightarrow> \<not> is_space c \<and> c \<noteq> CHR '']''"
  by (auto simp: is_digit_def is_space_def)

lemma minus_no_space: "\<not> is_space (CHR ''-'') \<and> CHR ''-'' \<noteq> CHR '']''"
  by code_simp

lemma strip_other: "w \<noteq> [] \<Longrightarrow> c \<noteq> hd w \<Longrightarrow> strip w (c # cs) = None"
  by (cases w) (auto simp: strip_def)

lemma strip_append: "strip w (w @ s) = Some s"
  by (simp add: strip_def)

lemma read_literal_number:
  assumes "stops rest"
  shows "read_literal (show_int i @ rest) = Some (JNum i, rest)"
proof -
  obtain c cs where c: "show_int i = c # cs" "is_digit c \<or> c = CHR ''-''" using show_int_first by blast
  then have "strip ''null'' (show_int i @ rest) = None" "strip ''true'' (show_int i @ rest) = None"
    "strip ''false'' (show_int i @ rest) = None"
    by (auto intro!: strip_other dest: not_digit)
  then show ?thesis using read_shown [OF assms] by (simp add: read_literal_def)
qed

lemma read_literal_words:
  "read_literal (''null'' @ rest) = Some (JNull, rest)"
  "read_literal (''true'' @ rest) = Some (JBool True, rest)"
  "read_literal (''false'' @ rest) = Some (JBool False, rest)"
  by (simp_all add: read_literal_def strip_def)

lemma print_first: "\<exists>c cs. json_print j = c # cs \<and> \<not> is_space c \<and> c \<noteq> CHR '']''"
proof (cases j)
  case (JNum i)
  obtain c cs where "show_int i = c # cs" "is_digit c \<or> c = CHR ''-''" using show_int_first by blast
  then show ?thesis using JNum digit_no_space minus_no_space by (metis json_print.simps(3))
qed (simp_all add: is_space_def quote_def)

lemma after_printed: "after_char (CHR '']'') (json_print j @ rest) = None"
  using print_first [of j] by (auto simp: after_char_def skip_space_def)

lemma after_char_Cons: "\<not> is_space c \<Longrightarrow> after_char d (c # s) = (if c = d then Some s else None)"
  by (simp add: after_char_def skip_space_def)

lemma no_spaces:
  "\<not> is_space (CHR '','')" "\<not> is_space (CHR '']'')" "\<not> is_space (CHR ''}'')" "\<not> is_space (CHR '':'')" "\<not> is_space (CHR 34)"
  by code_simp+

abbreviation reads_back :: "json \<Rightarrow> bool" where
  "reads_back j \<equiv> \<forall>n rest. 2 * length (json_print j @ rest) < n \<longrightarrow> stops rest \<longrightarrow>
     read_value n (json_print j @ rest) = Some (j, rest)"

lemma read_elems_printed:
  assumes "js \<noteq> []" and "\<forall>j \<in> set js. reads_back j"
    and "2 * length (join '','' (map json_print js) @ CHR '']'' # rest) + 1 < n"
  shows "read_elems n (join '','' (map json_print js) @ CHR '']'' # rest) = Some (js, rest)"
  using assms
proof (induction js arbitrary: n)
  case (Cons j js)
  obtain m where m: "n = Suc m" using Cons.prems(3) by (cases n) auto
  show ?case
  proof (cases js)
    case Nil
    have "read_value m (json_print j @ CHR '']'' # rest) = Some (j, CHR '']'' # rest)"
      using Cons.prems Nil m by (simp add: stops_def)
    then show ?thesis using Nil m by (simp add: after_char_Cons no_spaces)
  next
    case more_elems: (Cons j2 js2)
    let ?t = "join '','' (map json_print js) @ CHR '']'' # rest"
    have "read_value m (json_print j @ CHR '','' # ?t) = Some (j, CHR '','' # ?t)"
      using Cons.prems more_elems m by (simp add: stops_def)
    moreover have "read_elems m ?t = Some (js, rest)"
      using Cons.prems more_elems m by (intro Cons.IH) auto
    ultimately show ?thesis using more_elems m by (simp add: after_char_Cons no_spaces)
  qed
qed simp

abbreviation print_member :: "string \<times> json \<Rightarrow> string" where
  "print_member kv \<equiv> quote (fst kv) @ '':'' @ json_print (snd kv)"

lemma read_key: "Option.bind (after_char (CHR 34) (quote k @ rest)) read_string = Some (k, rest)"
  using read_quoted [of k rest] by (simp add: quote_def after_char_Cons no_spaces del: quote_char.simps)

lemma read_members_printed:
  assumes "kvs \<noteq> []" and "\<forall>kv \<in> set kvs. reads_back (snd kv)"
    and "2 * length (join '','' (map print_member kvs) @ CHR ''}'' # rest) + 1 < n"
  shows "read_members n (join '','' (map print_member kvs) @ CHR ''}'' # rest) = Some (kvs, rest)"
  using assms
proof (induction kvs arbitrary: n)
  case (Cons kv kvs)
  obtain m where m: "n = Suc m" using Cons.prems(3) by (cases n) auto
  obtain k j where kv: "kv = (k, j)" by (cases kv)
  show ?case
  proof (cases kvs)
    case Nil
    have "read_value m (json_print j @ CHR ''}'' # rest) = Some (j, CHR ''}'' # rest)"
      using Cons.prems Nil m kv by (simp add: stops_def)
    then show ?thesis using Nil m kv read_key by (simp add: after_char_Cons no_spaces)
  next
    case more_members: (Cons kv2 kvs2)
    let ?t = "join '','' (map print_member kvs) @ CHR ''}'' # rest"
    have "read_value m (json_print j @ CHR '','' # ?t) = Some (j, CHR '','' # ?t)"
      using Cons.prems more_members m kv by (simp add: stops_def)
    moreover have "read_members m ?t = Some (kvs, rest)"
      using Cons.prems more_members m by (intro Cons.IH) auto
    ultimately show ?thesis using more_members m kv read_key by (simp add: after_char_Cons no_spaces)
  qed
qed simp

lemma read_value_first:
  "\<not> is_space c \<Longrightarrow> c \<notin> {CHR 34, CHR ''['', CHR ''{''} \<Longrightarrow> read_value (Suc m) (c # cs) = read_literal (c # cs)"
  by (simp add: skip_space_def)

lemma reads_backI:
  "(\<And>m rest. stops rest \<Longrightarrow> 2 * length (json_print j @ rest) \<le> m \<Longrightarrow>
      read_value (Suc m) (json_print j @ rest) = Some (j, rest)) \<Longrightarrow> reads_back j"
  by (metis Suc_le_eq Suc_le_D Suc_le_mono)

lemma read_printed: "reads_back j"
proof (induction j)
  case (JArr js)
  have "read_elems m (join '','' (map json_print js) @ CHR '']'' # rest) = Some (js, rest)"
    if "js \<noteq> []" "2 * length (json_print (JArr js) @ rest) \<le> m" for m rest
    using JArr that by (intro read_elems_printed) auto
  moreover have "after_char (CHR '']'') (join '','' (map json_print js) @ rest) = None" if "js \<noteq> []" for rest
    using that after_printed by (cases js) (auto simp: join_Cons)
  ultimately show ?case
    by (intro reads_backI) (cases "js = []", simp_all add: skip_space_def is_space_def after_char_Cons no_spaces)
next
  case (JObj kvs)
  have "read_members m (join '','' (map print_member kvs) @ CHR ''}'' # rest) = Some (kvs, rest)"
    if "kvs \<noteq> []" "2 * length (json_print (JObj kvs) @ rest) \<le> m" for m rest
    using JObj that by (intro read_members_printed) (auto simp: snds.simps)
  moreover have "after_char (CHR ''}'') (join '','' (map print_member kvs) @ rest) = None" if "kvs \<noteq> []" for rest
    using that by (cases kvs) (simp_all add: join_Cons quote_def after_char_Cons no_spaces)
  ultimately show ?case
    by (intro reads_backI) (cases "kvs = []", simp_all add: skip_space_def is_space_def after_char_Cons no_spaces)
next
  case (JStr s)
  show ?case
    using read_quoted [of s]
    by (intro reads_backI) (simp add: quote_def skip_space_def is_space_def del: quote_char.simps)
next
  case (JNum i)
  obtain c cs where c: "show_int i = c # cs" "is_digit c \<or> c = CHR ''-''" using show_int_first by blast
  then have "\<not> is_space c" "c \<notin> {CHR 34, CHR ''['', CHR ''{''}"
    using digit_no_space minus_no_space not_digit [of c] by auto
  then have "read_value (Suc m) (show_int i @ rest) = read_literal (show_int i @ rest)" for m rest
    unfolding c(1) append_Cons by (intro read_value_first)
  then show ?case by (intro reads_backI) (simp add: read_literal_number)
next
  case (JBool b)
  show ?case
    using read_literal_words
    by (intro reads_backI) (cases b, simp_all add: skip_space_def is_space_def)
next
  case JNull
  show ?case
    using read_literal_words(1) by (intro reads_backI) (simp add: skip_space_def is_space_def)
qed

lemma text_body_printed: "text_body (json_print j) = Doc j"
proof -
  have "read_value (2 * length (json_print j) + 1) (json_print j @ []) = Some (j, [])"
    by (rule read_printed [rule_format]) (simp_all add: stops_def)
  then show ?thesis unfolding text_body_def append_Nil2 by (simp add: skip_space_def del: read_value.simps)
qed

section \<open>Texts made by formatting\<close>

text \<open>Rules that read a text whose quoted strings are concrete or plain.\<close>

lemma read_close: "read_string (CHR 34 # rest) = Some ([], rest)"
  by (subst read_string.simps) simp

lemma spaces: "is_space (CHR 32)" "is_space (CHR 10)" "is_space (CHR 9)" "\<not> is_space (CHR ''['')" "\<not> is_space (CHR ''{'')"
  by code_simp+

lemmas reading = read_close read_unescaped read_plain after_char_def skip_space_def no_spaces spaces

end
