(* ===== verification/Transport.thy ===== *)
theory Transport
  imports Http
begin

text \<open>
  The HTTP clients both programs build at start-up: which certificates they trust, whether they verify
  at all, and which retries and timeouts they have (\<^verbatim>\<open>cluster.go\<close> and \<^verbatim>\<open>client.go\<close> of the adapter,
  \<^verbatim>\<open>opensearchservice_reconciler.go\<close> and \<^verbatim>\<open>replication_checker.go\<close> of the operator).

  Files are read at start-up, so the disk is a value. Parsing a PEM file into certificates is a field of
  it; \<^verbatim>\<open>AppendCertsFromPEM\<close> adds what was parsed and tells whether that was anything. The retrying client is
  a library (\<^verbatim>\<open>go-retryablehttp\<close>): the client it wraps itself into is a parameter.
\<close>

section \<open>Files and certificates\<close>

datatype stat = Found | NotExist | StatFailed

record dir_entry =
  entry_Name :: string
  entry_IsDir :: bool

record 'c disk =
  os_Stat :: "string \<Rightarrow> stat"
  os_ReadFile :: "string \<Rightarrow> go_error + string"
  os_ReadDir :: "string \<Rightarrow> go_error + dir_entry list"
  pem_certs :: "string \<Rightarrow> 'c list"

definition AppendCertsFromPEM :: "'c disk \<Rightarrow> 'c list \<Rightarrow> string \<Rightarrow> 'c list \<times> bool" where
  "AppendCertsFromPEM D pool pem = (pool @ pem_certs D pem, pem_certs D pem \<noteq> [])"

section \<open>Clients\<close>

text \<open>Durations are in seconds; a timeout of 0 is none.\<close>

record retry_client =
  inner_Timeout :: nat
  RetryMax :: nat
  RetryWaitMax :: nat

record 'c tls_config =
  InsecureSkipVerify :: bool
  RootCAs :: "'c list option"

datatype 'c transport = DefaultTransport | Direct "'c tls_config" | Retrying retry_client

record 'c http_client =
  Timeout :: nat
  client_Transport :: "'c transport"

text \<open>Whether a client accepts any certificate, and those it trusts when it has its own.\<close>

definition skips_verification :: "'c transport \<Rightarrow> bool" where
  "skips_verification t \<longleftrightarrow> (case t of Direct c \<Rightarrow> InsecureSkipVerify c | _ \<Rightarrow> False)"

definition own_roots :: "'c list \<Rightarrow> 'c transport" where
  "own_roots pool = Direct \<lparr>InsecureSkipVerify = False, RootCAs = Some pool\<rparr>"

definition insecure :: "'c transport" where
  "insecure = Direct \<lparr>InsecureSkipVerify = True, RootCAs = None\<rparr>"

section \<open>The adapter\<close>

definition IsNotDir :: "dir_entry \<Rightarrow> bool" where
  "IsNotDir info \<longleftrightarrow> \<not> entry_IsDir info \<and> \<not> HasPrefix (entry_Name info) ''..''"

definition trustCertsFolder :: string where
  "trustCertsFolder = ''/trusted-certs''"

text \<open>The loop over the folder: the pool and the number of files that added to it; an unreadable file panics.\<close>

fun trust_files :: "'c disk \<Rightarrow> dir_entry list \<Rightarrow> 'c list \<Rightarrow> nat \<Rightarrow> ('c list \<times> nat) go" where
  "trust_files D [] certs n = Ret (certs, n)"
| "trust_files D (cert # rest) certs n =
     (if IsNotDir cert then
        (case os_ReadFile D (trustCertsFolder @ ''/'' @ entry_Name cert) of
           Inl err \<Rightarrow> Panic (err_text err)
         | Inr pemData \<Rightarrow>
             (case AppendCertsFromPEM D certs pemData of (pool, ok) \<Rightarrow>
                trust_files D rest pool (if ok then Suc n else n)))
      else trust_files D rest certs n)"

text \<open>\<^verbatim>\<open>NewOpensearch\<close> up to the construction of the client: the transport it is given, if any.\<close>

definition opensearch_transport :: "'c disk \<Rightarrow> string \<Rightarrow> 'c transport option go" where
  "opensearch_transport D protocol =
     (if ToLower protocol = ''https'' then
        (case os_ReadDir D trustCertsFolder of
           Inl _ \<Rightarrow> Ret (Some insecure)
         | Inr certsDir \<Rightarrow>
             (if certsDir = [] then Ret (Some insecure)
              else (case trust_files D certsDir [] 0 of
                  Panic p \<Rightarrow> Panic p
                | Ret (certs, n) \<Rightarrow> Ret (Some (if n = 0 then insecure else own_roots certs)))))
      else Ret None)"

definition certificateFilePath_tls :: string where
  "certificateFilePath_tls = ''/tls/ca.crt''"

definition curatorCertificateFilePath :: string where
  "curatorCertificateFilePath = ''/tls/curator/ca.crt''"

fun load_certs :: "'c disk \<Rightarrow> string list \<Rightarrow> 'c list \<Rightarrow> nat \<Rightarrow> 'c list \<times> nat" where
  "load_certs D [] pool n = (pool, n)"
| "load_certs D (certPath # rest) pool n =
     (if os_Stat D certPath \<noteq> NotExist then
        (case os_ReadFile D certPath of
           Inl _ \<Rightarrow> load_certs D rest pool n
         | Inr caCert \<Rightarrow>
             (case AppendCertsFromPEM D pool caCert of (pool', ok) \<Rightarrow>
                load_certs D rest pool' (if ok then Suc n else n)))
      else load_certs D rest pool n)"

definition ConfigureHttpClient :: "'c disk \<Rightarrow> string list \<Rightarrow> 'c http_client" where
  "ConfigureHttpClient D certPaths =
     (case load_certs D certPaths [] 0 of (caCertPool, n) \<Rightarrow>
        \<lparr>Timeout = 0, client_Transport = (if n = 0 then DefaultTransport else own_roots caCertPool)\<rparr>)"

definition ConfigureClient :: "'c disk \<Rightarrow> 'c http_client" where
  "ConfigureClient D = ConfigureHttpClient D [certificateFilePath_tls]"

definition ConfigureCuratorClient :: "'c disk \<Rightarrow> 'c http_client" where
  "ConfigureCuratorClient D = ConfigureHttpClient D [certificateFilePath_tls, curatorCertificateFilePath]"

section \<open>The operator\<close>

text \<open>\<open>standard\<close> is \<^verbatim>\<open>StandardClient\<close> of the retrying client.\<close>

definition createHttpClient :: "(retry_client \<Rightarrow> 'c http_client) \<Rightarrow> 'c http_client" where
  "createHttpClient standard = standard \<lparr>inner_Timeout = 60, RetryMax = 2, RetryWaitMax = 5\<rparr>"

text \<open>The client is returned with the error, and some callers use it in spite of it.\<close>

definition client_with_certificate ::
  "(retry_client \<Rightarrow> 'c http_client) \<Rightarrow> 'c disk \<Rightarrow> string \<Rightarrow> 'c http_client \<times> go_error option" where
  "client_with_certificate standard D certificatePath =
     (let httpClient = createHttpClient standard in
      if os_Stat D certificatePath = NotExist then (httpClient, None)
      else (case os_ReadFile D certificatePath of
          Inl err \<Rightarrow> (httpClient, Some err)
        | Inr caCert \<Rightarrow>
            (httpClient\<lparr>client_Transport := own_roots (fst (AppendCertsFromPEM D [] caCert))\<rparr>, None)))"

text \<open>The client of the replication checker; an unreadable file reads as empty.\<close>

definition checker_client :: "'c disk \<Rightarrow> 'c http_client" where
  "checker_client D =
     (let httpClient = \<lparr>Timeout = 5, client_Transport = DefaultTransport\<rparr> in
      if os_Stat D ''/certs/crt.pem'' = NotExist then httpClient
      else (let caCert = (case os_ReadFile D ''/certs/crt.pem'' of Inl _ \<Rightarrow> [] | Inr pem \<Rightarrow> pem) in
        httpClient\<lparr>client_Transport := own_roots (fst (AppendCertsFromPEM D [] caCert))\<rparr>))"

section \<open>Facts\<close>

text \<open>What the loops compute: the certificates of all files, and whether there was any.\<close>

definition trusted_files :: "dir_entry list \<Rightarrow> string list" where
  "trusted_files es = map (\<lambda>e. trustCertsFolder @ ''/'' @ entry_Name e) (filter IsNotDir es)"

definition trusted_paths :: "'c disk \<Rightarrow> string list" where
  "trusted_paths D = (case os_ReadDir D trustCertsFolder of Inl _ \<Rightarrow> [] | Inr es \<Rightarrow> trusted_files es)"

definition file_certs :: "'c disk \<Rightarrow> string \<Rightarrow> 'c list" where
  "file_certs D path = (case os_ReadFile D path of Inl _ \<Rightarrow> [] | Inr pem \<Rightarrow> pem_certs D pem)"

definition is_readable :: "'c disk \<Rightarrow> string \<Rightarrow> bool" where
  "is_readable D path \<longleftrightarrow> (case os_ReadFile D path of Inl _ \<Rightarrow> False | Inr _ \<Rightarrow> True)"

lemma file_certs_simps [simp]:
  "os_ReadFile D p = Inl e \<Longrightarrow> file_certs D p = []" "os_ReadFile D p = Inr pem \<Longrightarrow> file_certs D p = pem_certs D pem"
  "os_ReadFile D p = Inl e \<Longrightarrow> \<not> is_readable D p" "os_ReadFile D p = Inr pem \<Longrightarrow> is_readable D p"
  by (simp_all add: file_certs_def is_readable_def)

lemma trust_files_ok:
  "trust_files D es certs n =
     (case find (\<lambda>p. \<not> is_readable D p) (trusted_files es) of
        Some p \<Rightarrow> Panic (err_text (projl (os_ReadFile D p)))
      | None \<Rightarrow> Ret (certs @ concat (map (file_certs D) (trusted_files es)),
          n + length (filter (\<lambda>p. file_certs D p \<noteq> []) (trusted_files es))))"
proof (induction es arbitrary: certs n)
  case Nil
  then show ?case by (simp add: trusted_files_def)
next
  case (Cons e es)
  then show ?case
    by (cases "os_ReadFile D (trustCertsFolder @ ''/'' @ entry_Name e)")
      (simp_all add: trusted_files_def AppendCertsFromPEM_def split: option.split)
qed

lemma load_certs_eq:
  "load_certs D ps pool n =
     (let ps' = filter (\<lambda>p. os_Stat D p \<noteq> NotExist) ps in
      (pool @ concat (map (file_certs D) ps'), n + length (filter (\<lambda>p. file_certs D p \<noteq> []) ps')))"
proof (induction ps arbitrary: pool n)
  case Nil
  then show ?case by simp
next
  case (Cons p ps)
  then show ?case
    by (cases "os_ReadFile D p") (simp_all add: AppendCertsFromPEM_def Let_def)
qed

lemma no_certs: "length (filter (\<lambda>p. file_certs D p \<noteq> []) ps) = 0 \<longleftrightarrow> concat (map (file_certs D) ps) = []"
  by (auto simp: filter_empty_conv)

section \<open>Properties\<close>

text \<open>
  C22. The client for OpenSearch accepts any certificate exactly when it is to use HTTPS and the folder of
  trusted certificates has none: it is missing, empty, or its files hold no certificate. Otherwise it
  trusts exactly the certificates of the files of the folder, in their order, and an unreadable file among
  them stops the adapter. Without HTTPS the default transport is used.
\<close>

theorem opensearch_transport_trust:
  "opensearch_transport D protocol =
    (if ToLower protocol \<noteq> ''https'' then Ret None
     else (case find (\<lambda>p. \<not> is_readable D p) (trusted_paths D) of
         Some p \<Rightarrow> Panic (err_text (projl (os_ReadFile D p)))
       | None \<Rightarrow>
           (let certs = concat (map (file_certs D) (trusted_paths D)) in
            Ret (Some (if certs = [] then insecure else own_roots certs)))))"
proof (cases "os_ReadDir D trustCertsFolder")
  case (Inl e)
  then show ?thesis by (simp add: opensearch_transport_def trusted_paths_def)
next
  case (Inr es)
  then have p: "trusted_paths D = trusted_files es" by (simp add: trusted_paths_def)
  have "es = [] \<Longrightarrow> trusted_paths D = []" by (simp add: p trusted_files_def)
  then show ?thesis
    using Inr p no_certs [of D "trusted_paths D"]
    by (cases "find (\<lambda>x. \<not> is_readable D x) (trusted_paths D)") (auto simp: opensearch_transport_def trust_files_ok Let_def)
qed

text \<open>
  With a certificate file the operator talks to OpenSearch without the retries and the timeout it sets
  up: the transport with its own roots replaces the one that retries, and the limit of 60 seconds is a
  field of the client inside that. Without a file, and with one that cannot be read, both stay.
\<close>

theorem certificate_drops_retries:
  assumes "standard = (\<lambda>c. \<lparr>Timeout = 0, client_Transport = Retrying c\<rparr>)"
  shows "client_with_certificate standard D path =
    (let retrying = \<lparr>Timeout = 0, client_Transport = Retrying \<lparr>inner_Timeout = 60, RetryMax = 2, RetryWaitMax = 5\<rparr>\<rparr> in
     if os_Stat D path = NotExist then (retrying, None)
     else (case os_ReadFile D path of
         Inl err \<Rightarrow> (retrying, Some err)
       | Inr pem \<Rightarrow> (\<lparr>Timeout = 0, client_Transport = own_roots (pem_certs D pem)\<rparr>, None)))"
  using assms by (simp add: client_with_certificate_def createHttpClient_def AppendCertsFromPEM_def Let_def split: sum.splits)

definition one_certificate :: "string disk" where
  "one_certificate = \<lparr>os_Stat = (\<lambda>p. if p = ''/certs/crt.pem'' then Found else NotExist),
     os_ReadFile = (\<lambda>p. if p = ''/certs/crt.pem'' then Inr ''PEM'' else Inl (Err ''no such file'')),
     os_ReadDir = (\<lambda>_. Inl (Err ''no such directory'')), pem_certs = (\<lambda>pem. [pem])\<rparr>"

theorem certificate_drops_retries_witness:
  "client_with_certificate (\<lambda>c. \<lparr>Timeout = 0, client_Transport = Retrying c\<rparr>) one_certificate ''/certs/crt.pem'' =
     (\<lparr>Timeout = 0, client_Transport = own_roots [''PEM'']\<rparr>, None)"
  by (subst certificate_drops_retries [OF refl]) (simp add: one_certificate_def)

text \<open>The clients of the adapter for the curator and of its own command line never skip the verification.\<close>

lemma ConfigureHttpClient_trust:
  "client_Transport (ConfigureHttpClient D ps) =
     (let certs = concat (map (file_certs D) (filter (\<lambda>p. os_Stat D p \<noteq> NotExist) ps)) in
      if certs = [] then DefaultTransport else own_roots certs)"
  using no_certs [of D "filter (\<lambda>p. os_Stat D p \<noteq> NotExist) ps"]
  by (simp add: ConfigureHttpClient_def load_certs_eq Let_def)

lemma verifying_clients:
  "\<not> skips_verification (client_Transport (ConfigureClient D))"
  "\<not> skips_verification (client_Transport (ConfigureCuratorClient D))"
  "\<not> skips_verification (client_Transport (checker_client D))"
  by (simp_all add: ConfigureClient_def ConfigureCuratorClient_def ConfigureHttpClient_trust checker_client_def
      skips_verification_def own_roots_def Let_def)

text \<open>A certificate file that cannot be read leaves the replication checker with no root at all, so it trusts nobody.\<close>

lemma checker_trusts_nobody:
  "os_Stat D ''/certs/crt.pem'' \<noteq> NotExist \<Longrightarrow> os_ReadFile D ''/certs/crt.pem'' = Inl e \<Longrightarrow> pem_certs D [] = [] \<Longrightarrow>
     client_Transport (checker_client D) = own_roots []"
  by (simp add: checker_client_def AppendCertsFromPEM_def Let_def)

end
