(* ===== verification/Adapter_Client.thy ===== *)
theory Adapter_Client
  imports Adapter_Server Json_Round_Trip Transport
begin

text \<open>
  The command line of the adapter: its client with the smoke test (\<^verbatim>\<open>client.go\<close>), the program with its
  shell (\<^verbatim>\<open>cmd/main.go\<close>), and the frame of the server (\<^verbatim>\<open>Server\<close> of \<^verbatim>\<open>server.go\<close>). The transport the
  client uses is a parameter; at the end it is the adapter itself, so that both sides of the smoke test
  are the code of this repository.
\<close>

section \<open>The client\<close>

record adapter_client =
  ac_proto :: string
  ac_host :: string
  ac_port :: int
  ac_username :: string
  ac_password :: string

text \<open>\<^verbatim>\<open>http.Get\<close> uses the default client and not the one with the certificates, so the two are told apart.\<close>

datatype client_event = ClientDo http_request | ClientGet http_request | Print string

record 'u client_env =
  client_do :: "http_request \<Rightarrow> 'u \<Rightarrow> (go_error + http_response) \<times> 'u"
  default_do :: "http_request \<Rightarrow> 'u \<Rightarrow> (go_error + http_response) \<times> 'u"
  read_line :: "'u \<Rightarrow> (go_error + string) \<times> 'u"
  BasePath :: string

type_synonym ('u, 'a) client = "('u, client_event, 'a) io"

text \<open>A resource and a database as the client reads them; the slice may be \<^verbatim>\<open>nil\<close>.\<close>

record client_resource =
  cl_Name :: string
  cl_Kind :: string

record created_database =
  created_Name :: string
  created_Resources :: "client_resource list option"

definition dec_client_resource :: "client_resource decoder" where
  "dec_client_resource = dec_struct
     [field ''name'' dec_string cl_Name cl_Name_update, field ''kind'' dec_string cl_Kind cl_Kind_update]"

definition enc_client_resource :: "client_resource \<Rightarrow> json" where
  "enc_client_resource r = JObj [(''name'', JStr (cl_Name r)), (''kind'', JStr (cl_Kind r))]"

definition dec_created :: "created_database decoder" where
  "dec_created = dec_struct
     [field ''name'' dec_string created_Name created_Name_update,
      field ''resources'' (dec_ptr [] (dec_list \<lparr>cl_Name = [], cl_Kind = []\<rparr> dec_client_resource))
        created_Resources created_Resources_update]"

definition zero_created :: created_database where
  "zero_created = \<lparr>created_Name = [], created_Resources = None\<rparr>"

definition client_url :: "adapter_client \<Rightarrow> string \<Rightarrow> string" where
  "client_url client path = ac_proto client @ ''://'' @ ac_host client @ '':'' @ show_int (ac_port client) @ path"

definition client_request :: "adapter_client \<Rightarrow> string \<Rightarrow> body \<Rightarrow> http_request" where
  "client_request client url b =
     \<lparr>rq_method = ''POST'', rq_url = url, rq_query = [], rq_headers = [(''Content-Type'', ''application/json'')],
      rq_auth = Some (ac_username client, ac_password client), rq_body = Some b\<rparr>"

definition nil_dereference :: string where
  "nil_dereference = ''runtime error: invalid memory address or nil pointer dereference''"

definition smoke_text :: string where
  "smoke_text = ''{'' @ nl 4 @ member_text ''namePrefix'' ''smoketest'' @ '','' @ nl 4 @ dquote ''metadata'' @ '': {'' @ nl 5 @
     dquote ''classifier'' @ '': {'' @ nl 6 @ member_text ''microserviceName'' ''smoke-service'' @ nl 5 @ ''}'' @ nl 4 @ ''}'' @
     nl 3 @ ''}'' @ nl 3"

text \<open>The header of the request is set before its error is looked at: a URL that is refused panics.\<close>

definition smoke_createDatabase :: "'u client_env \<Rightarrow> adapter_client \<Rightarrow> ('u, (go_error + created_database) go) client" where
  "smoke_createDatabase C client =
     (let url = client_url client (BasePath C @ ''/databases''); rq = client_request client url (Text smoke_text) in
      if \<not> url_ok url then return (Panic nil_dereference)
      else do {
        x \<leftarrow> request (ClientDo rq) (client_do C rq);
        return (Ret (case x of
          Inl e \<Rightarrow> Inl e
        | Inr response \<Rightarrow> ProcessBody dec_created (Body response) zero_created)) })"

definition smoke_resources :: "created_database \<Rightarrow> json" where
  "smoke_resources db = (case created_Resources db of None \<Rightarrow> JNull | Some rs \<Rightarrow> JArr (map enc_client_resource rs))"

definition smoke_dropDatabase :: "'u client_env \<Rightarrow> adapter_client \<Rightarrow> created_database \<Rightarrow> ('u, (go_error + unit) go) client" where
  "smoke_dropDatabase C client db =
     (let url = client_url client (BasePath C @ ''/resources/bulk-drop'');
          rq = client_request client url (Doc (smoke_resources db)) in
      if \<not> url_ok url then return (Panic nil_dereference)
      else do {
        x \<leftarrow> request (ClientDo rq) (client_do C rq);
        return (Ret (case x of
          Inl e \<Rightarrow> Inl e
        | Inr response \<Rightarrow> (case ReadAll (Body response) of Inl e \<Rightarrow> Inl e | Inr _ \<Rightarrow> Inr ()))) })"

definition DoSmoke :: "'u client_env \<Rightarrow> adapter_client \<Rightarrow> ('u, string go) client" where
  "DoSmoke C client =
     onRet (smoke_createDatabase C client) (\<lambda>created.
       (case created of
          Inl _ \<Rightarrow> return (Ret ''FAIL'')
        | Inr db \<Rightarrow> onRet (smoke_dropDatabase C client db) (\<lambda>dropped.
            return (Ret (case dropped of Inl _ \<Rightarrow> ''FAIL'' | Inr _ \<Rightarrow> ''OK'')))))"

definition component_status :: "string decoder" where
  "component_status j old = map_option fst (dec_struct [field ''status'' dec_string fst (\<lambda>f (a, b). (f a, b))] j (old, ()))"

definition dec_adapter_health :: "(string \<times> string \<times> string option) decoder" where
  "dec_adapter_health = dec_struct
     [field ''status'' dec_string fst (\<lambda>f (a, b). (f a, b)),
      field ''opensearchHealth'' component_status (\<lambda>(a, b, c). b) (\<lambda>f (a, b, c). (a, f b, c)),
      field ''dbaasAggregatorHealth'' (dec_ptr [] component_status) (\<lambda>(a, b, c). c) (\<lambda>f (a, b, c). (a, b, f c))]"

definition ReceiveHealth :: "'u client_env \<Rightarrow> adapter_client \<Rightarrow> ('u, string) client" where
  "ReceiveHealth C client =
     (let address = client_url client ''/health'';
          rq = \<lparr>rq_method = ''GET'', rq_url = address, rq_query = [], rq_headers = [], rq_auth = None, rq_body = None\<rparr> in
      if \<not> url_ok address then return ''PROBLEM''
      else do {
        x \<leftarrow> request (ClientGet rq) (default_do C rq);
        return (case x of
          Inl _ \<Rightarrow> ''PROBLEM''
        | Inr response \<Rightarrow>
            (case ProcessBody dec_adapter_health (Body response) ([], [], None) of
               Inl _ \<Rightarrow> ''PROBLEM''
             | Inr (status, _) \<Rightarrow> status)) })"

text \<open>\<^verbatim>\<open>strings.Fields\<close>: the parts between runs of white space.\<close>

definition white :: "char \<Rightarrow> bool" where
  "white c \<longleftrightarrow> c \<in> {CHR 32, CHR 9, CHR 10, CHR 11, CHR 12, CHR 13}"

function Fields :: "string \<Rightarrow> string list" where
  "Fields s =
     (let t = dropWhile white s in
      if t = [] then [] else takeWhile (\<lambda>c. \<not> white c) t # Fields (dropWhile (\<lambda>c. \<not> white c) t))"
  by pat_completeness auto

termination
proof (relation "measure length", simp)
  fix s t
  assume t: "t = dropWhile white s" "t \<noteq> []"
  then have "\<not> white (hd t)" using hd_dropWhile by blast
  then have "length (dropWhile (\<lambda>c. \<not> white c) t) < length t"
    using t(2) by (cases t) (auto simp: le_imp_less_Suc length_dropWhile_le)
  moreover have "length t \<le> length s" using t by (simp add: length_dropWhile_le)
  ultimately show "(dropWhile (\<lambda>c. \<not> white c) t, s) \<in> measure length" by simp
qed

declare Fields.simps [simp del]

definition print_line :: "string \<Rightarrow> ('u, unit) client" where
  "print_line s = request (Print (s @ [CHR 10])) (\<lambda>u. ((), u))"

definition Exec :: "'u client_env \<Rightarrow> adapter_client \<Rightarrow> string \<Rightarrow> ('u, bool go) client" where
  "Exec C client command =
     (case Fields command of
        [] \<Rightarrow> return (Ret False)
      | arg # _ \<Rightarrow>
          (if arg = ''health'' then do {
             s \<leftarrow> ReceiveHealth C client;
             _ \<leftarrow> print_line s;
             return (Ret True) }
           else if arg = ''smoke'' then
             onRet (DoSmoke C client) (\<lambda>s. do { _ \<leftarrow> print_line s; return (Ret True) })
           else return (Ret False)))"

section \<open>The program\<close>

text \<open>One command of the shell; a panic in it is recovered and printed.\<close>

definition terminal :: "'u client_env \<Rightarrow> adapter_client \<Rightarrow> ('u, unit) client" where
  "terminal C client = do {
     _ \<leftarrow> request (Print ''dbaas_opensearch> '') (\<lambda>u. ((), u));
     line \<leftarrow> silent (read_line C);
     (case line of
        Inl _ \<Rightarrow> return ()
      | Inr line \<Rightarrow> do {
          _ \<leftarrow> print_line line;
          r \<leftarrow> Exec C client line;
          (case r of
             Ret _ \<Rightarrow> return ()
           | Panic p \<Rightarrow> print_line (''Error during command execution: '' @ p)) }) }"

text \<open>
  The loop of the shell. \<^verbatim>\<open>enteredCommand\<close> is a variable of its own that nothing assigns; \<open>None\<close> is a loop
  that is still running when the fuel is used up.
\<close>

fun shell :: "nat \<Rightarrow> 'u client_env \<Rightarrow> adapter_client \<Rightarrow> string \<Rightarrow> ('u, unit option) client" where
  "shell 0 C client enteredCommand = return None"
| "shell (Suc n) C client enteredCommand =
     (if enteredCommand \<noteq> ''exit'' then do { _ \<leftarrow> terminal C client; shell n C client enteredCommand }
      else return (Some ()))"

record flags =
  flag_mode :: string
  flag_interactive :: bool
  flag_command :: string
  arg0 :: string

definition main_client :: "'s env \<Rightarrow> adapter_client" where
  "main_client E =
     (let tlsEnabled = ParseBool (GetEnv E ''TLS_ENABLED'' ''false'') in
      \<lparr>ac_proto = (if tlsEnabled then ''https'' else ''http''), ac_host = [], ac_port = (if tlsEnabled then 8443 else 8080),
       ac_username = GetEnv E ''DBAAS_ADAPTER_USERNAME'' ''dbaas-aggregator'',
       ac_password = GetEnv E ''DBAAS_ADAPTER_PASSWORD'' ''dbaas-aggregator''\<rparr>)"

definition shell_mode :: "flags \<Rightarrow> bool" where
  "shell_mode f \<longleftrightarrow> flag_interactive f \<or> flag_mode f = ''shell'' \<or>
     (flag_mode f = [] \<and> (arg0 f = ''sh'' \<or> HasSuffix (arg0 f) ''/sh''))"

text \<open>What \<^verbatim>\<open>main\<close> does: run a command, run the shell, or serve with the given address and credentials.\<close>

datatype outcome = Commanded | Shell_ended | Shell_running | Serves string string string

definition main :: "nat \<Rightarrow> 's env \<Rightarrow> 'u client_env \<Rightarrow> flags \<Rightarrow> ('u, outcome go) client" where
  "main n E C f =
     (let cl = main_client E in
      onRet (if flag_command f \<noteq> [] then Exec C cl (flag_command f) else return (Ret False)) (\<lambda>executed.
        if executed then return (Ret Commanded)
        else if shell_mode f then do {
          r \<leftarrow> shell n C cl [];
          return (Ret (case r of None \<Rightarrow> Shell_running | Some _ \<Rightarrow> Shell_ended)) }
        else return (Ret (Serves (GetEnv E ''DBAAS_ADAPTER_ADDRESS'' []) (ac_username cl) (ac_password cl)))))"

section \<open>The frame of the server\<close>

text \<open>How the server listens: the address, and the files of its certificate when it uses TLS.\<close>

record listener =
  listen_Addr :: string
  listen_TLS :: "(string \<times> string) option"

definition listener_of :: "string \<Rightarrow> listener" where
  "listener_of adapterAddress =
     \<lparr>listen_Addr = '':8080'',
      listen_TLS = (if Contains adapterAddress ''https'' then Some (''/tls/tls.crt'', ''/tls/tls.key'') else None)\<rparr>"

text \<open>
  The start of the server: the client of OpenSearch is built, which panics on a certificate that cannot be read
  and on a configuration the library refuses (\<open>new_client\<close>), and then the handlers. \<open>Ret None\<close> is a server
  that ends at once.
\<close>

record 'c opensearch_config =
  oc_Addresses :: "string list"
  oc_Username :: string
  oc_Password :: string
  oc_Transport :: "'c transport option"

definition config_for ::
  "'c disk \<Rightarrow> string \<Rightarrow> int \<Rightarrow> string \<Rightarrow> string \<Rightarrow> string \<Rightarrow> 'c opensearch_config go" where
  "config_for D host port protocol username password =
     (case opensearch_transport D protocol of
        Panic p \<Rightarrow> Panic p
      | Ret t \<Rightarrow> Ret \<lparr>oc_Addresses = [protocol @ ''://'' @ host @ '':'' @ show_int port], oc_Username = username,
          oc_Password = password, oc_Transport = t\<rparr>)"

record cluster =
  cl_Host :: string
  cl_Port :: int
  cl_Protocol :: string
  cl_Health :: string

definition new_opensearch_client ::
  "'c disk \<Rightarrow> ('c opensearch_config \<Rightarrow> go_error option) \<Rightarrow> config \<Rightarrow> string \<Rightarrow> string \<Rightarrow> unit go" where
  "new_opensearch_client D new_client c username password =
     (case config_for D (conf_host c) (conf_port c) (conf_protocol c) username password of
        Panic p \<Rightarrow> Panic p
      | Ret oc \<Rightarrow> (case new_client oc of Some err \<Rightarrow> Panic (err_text err) | None \<Rightarrow> Ret ()))"

definition NewOpensearch ::
  "'c disk \<Rightarrow> ('c opensearch_config \<Rightarrow> go_error option) \<Rightarrow> 's env \<Rightarrow> config \<Rightarrow> string \<Rightarrow> string \<Rightarrow> ('s, cluster go) adapter" where
  "NewOpensearch D new_client E c username password =
     onRet (return (new_opensearch_client D new_client c username password)) (\<lambda>_.
     onRet (GetHealth E) (\<lambda>health. return (Ret
       \<lparr>cl_Host = conf_host c, cl_Port = conf_port c, cl_Protocol = conf_protocol c, cl_Health = health\<rparr>)))"

text \<open>\<^const>\<open>Handlers\<close> begins with the health request, so here it follows the construction of the client.\<close>

definition Server ::
  "'c disk \<Rightarrow> ('c opensearch_config \<Rightarrow> go_error option) \<Rightarrow> 's env \<Rightarrow> dao \<Rightarrow> string \<Rightarrow> string \<Rightarrow> string \<Rightarrow>
   ('s, (listener \<times> app) option go) adapter" where
  "Server D new_client E dao adapterAddress adapterUsername adapterPassword =
     onRet (return (new_opensearch_client D new_client (server_config E)
       (GetEnv E ''OPENSEARCH_USERNAME'' ''opensearch'') (GetEnv E ''OPENSEARCH_PASSWORD'' ''change''))) (\<lambda>_.
     onRet (Handlers E dao \<lparr>Address = adapterAddress, cred_Username = adapterUsername, cred_Password = adapterPassword\<rparr>) (\<lambda>hnd.
       return (Ret (map_option (Pair (listener_of adapterAddress)) hnd))))"

text \<open>\<open>rounds\<close> rounds of the goroutine that registers the adapter over and over.\<close>

fun registerPeriodically ::
  "nat \<Rightarrow> nat \<Rightarrow> 's env \<Rightarrow> dao \<Rightarrow> registration_provider \<Rightarrow> base_provider \<Rightarrow> ('s, registration_provider option) adapter" where
  "registerPeriodically 0 n E D rs bp = return (Some rs)"
| "registerPeriodically (Suc rounds) n E D rs bp = do {
     r \<leftarrow> register n E D rs bp;
     (case r of None \<Rightarrow> return None | Some rs' \<Rightarrow> registerPeriodically rounds n E D rs' bp) }"

text \<open>
  A context is done after a number of seconds from now, or never. \<^verbatim>\<open>WithTimeout\<close> gives a context that is
  done when its parent is, at the latest after the given time. \<^verbatim>\<open>Shutdown\<close> of \<^verbatim>\<open>net/http\<close> looks whether all
  connections are idle and waits until they are or the context is done; \<open>busy\<close> is for how long a request
  is still served.
\<close>

datatype go_context = Done_after nat | Never_done

fun WithTimeout :: "go_context \<Rightarrow> nat \<Rightarrow> go_context" where
  "WithTimeout (Done_after t) d = Done_after (min t d)"
| "WithTimeout Never_done d = Done_after d"

fun http_Shutdown :: "go_context \<Rightarrow> nat \<Rightarrow> go_error + unit" where
  "http_Shutdown (Done_after t) busy = (if busy \<le> t then Inr () else Inl (Err ''context canceled''))"
| "http_Shutdown Never_done busy = Inr ()"

text \<open>The end of \<^verbatim>\<open>Server\<close>: it waits for the context, and what is left of the context then is nothing.\<close>

definition wait_done :: "go_context \<Rightarrow> go_context option" where
  "wait_done ctx = (case ctx of Done_after t \<Rightarrow> Some (Done_after 0) | Never_done \<Rightarrow> None)"

definition Server_end :: "go_context \<Rightarrow> nat \<Rightarrow> (go_error + unit) option" where
  "Server_end ctx busy = map_option (\<lambda>ctx. http_Shutdown (WithTimeout ctx 5) busy) (wait_done ctx)"

section \<open>Facts\<close>

text \<open>A certificate that cannot be read keeps the server from starting, before it has sent anything.\<close>

lemma Server_needs_certificates:
  "opensearch_transport D (conf_protocol (server_config E)) = Panic p \<Longrightarrow>
     run_state (Server D new_client E dao address user password) w = (Panic p, w)"
  by (simp add: Server_def new_opensearch_client_def config_for_def onRet_def run_state_bind)

text \<open>The rounds of registration go on from where the last ended.\<close>

lemma registerPeriodically_more:
  "registerPeriodically (j + k) n E D rs bp = do {
     r \<leftarrow> registerPeriodically j n E D rs bp;
     (case r of None \<Rightarrow> return None | Some rs' \<Rightarrow> registerPeriodically k n E D rs' bp) }"
proof (induction j arbitrary: rs)
  case (Suc j)
  show ?case
    by (auto simp: Suc.IH intro!: arg_cong [where f = "State_Monad.bind _"] split: option.splits)
qed simp

lemma shell_running: "fst (run_state (shell n C client []) w) = None"
  by (induction n arbitrary: w) (auto simp: run_simps split: prod.splits)

lemma run_smoke_createDatabase:
  "url_ok (client_url client (BasePath C @ ''/databases'')) \<Longrightarrow>
   run_state (smoke_createDatabase C client) w =
     (let rq = client_request client (client_url client (BasePath C @ ''/databases'')) (Text smoke_text) in
      case client_do C rq (srv w) of (x, u) \<Rightarrow>
        (Ret (case x of Inl e \<Rightarrow> Inl e | Inr response \<Rightarrow> ProcessBody dec_created (Body response) zero_created),
         w\<lparr>srv := u, trace := trace w @ [ClientDo rq]\<rparr>))"
  by (simp add: smoke_createDatabase_def Let_def run_simps split: prod.splits)

lemma run_smoke_dropDatabase:
  "url_ok (client_url client (BasePath C @ ''/resources/bulk-drop'')) \<Longrightarrow>
   run_state (smoke_dropDatabase C client db) w =
     (let rq = client_request client (client_url client (BasePath C @ ''/resources/bulk-drop'')) (Doc (smoke_resources db)) in
      case client_do C rq (srv w) of (x, u) \<Rightarrow>
        (Ret (case x of Inl e \<Rightarrow> Inl e | Inr response \<Rightarrow> (case ReadAll (Body response) of Inl e \<Rightarrow> Inl e | Inr _ \<Rightarrow> Inr ())),
         w\<lparr>srv := u, trace := trace w @ [ClientDo rq]\<rparr>))"
  by (simp add: smoke_dropDatabase_def Let_def run_simps split: prod.splits)

section \<open>The smoke test against the adapter\<close>

text \<open>The document of the first request.\<close>

definition smoke_doc :: json where
  "smoke_doc = JObj [(''namePrefix'', JStr ''smoketest''),
     (''metadata'', JObj [(''classifier'', JObj [(''microserviceName'', JStr ''smoke-service'')])])]"

lemma smoke_text_reads: "text_body smoke_text = Doc smoke_doc"
proof -
  have "read_value 10 smoke_text = Some (smoke_doc, nl 3)"
    by (simp add: smoke_text_def smoke_doc_def member_text_def dquote_def nl_def numeral_eq_Suc reading)
  then have "read_value (2 * length smoke_text + 1) smoke_text = Some (smoke_doc, nl 3)"
    by (rule read_more) (simp add: smoke_text_def member_text_def dquote_def nl_def)
  then show ?thesis by (simp add: text_body_def nl_def skip_space_def spaces numeral_eq_Suc del: read_value.simps)
qed

text \<open>A body as the other side reads it, and the path of a URL with a host.\<close>

fun wire :: "body \<Rightarrow> body" where
  "wire (Text s) = (if s = [] then Text [] else text_body s)"
| "wire b = b"

definition url_path :: "string \<Rightarrow> string" where
  "url_path u = dropWhile (\<lambda>c. c \<noteq> CHR ''/'') (drop 3 (dropWhile (\<lambda>c. c \<noteq> CHR '':'') u))"

text \<open>
  The adapter as what the client talks to: a request is served and its reply handed back. The state is the
  application with its own world; a handler that blocks leaves the client without an answer.
\<close>

definition through_adapter ::
  "router \<Rightarrow> 's env \<Rightarrow> http_request \<Rightarrow> app \<times> ('s, event) world \<Rightarrow> (go_error + http_response) \<times> (app \<times> ('s, event) world)" where
  "through_adapter mux E rq = (\<lambda>(a, w).
     case run_state (serve mux E a (rq_method rq) (url_path (rq_url rq)) (rq_auth rq)
         \<lparr>in_id = [], in_vars = [], in_query = [], in_body = (case rq_body rq of None \<Rightarrow> Text [] | Some b \<Rightarrow> wire b)\<rparr>) w of
       (Some ((status, b), a'), w') \<Rightarrow> (Inr \<lparr>StatusCode = status, Body = wire b\<rparr>, (a', w'))
     | (None, w') \<Rightarrow> (Inl (Err ''no answer''), (a, w')))"

definition refusal :: string where
  "refusal = squote ''resourcePrefix'' @ '' must be set to '' @ squote ''true'' @ '' for v2 version of OpenSearch DBaaS adapter''"

lemma refusals_are_text:
  "wire (Text refusal) = Text refusal"
  "wire (Text (''Not authorized to use this API, only DBaaS aggregator can use it.'' @ [CHR 0x0A])) =
     Text (''Not authorized to use this API, only DBaaS aggregator can use it.'' @ [CHR 0x0A])"
  by code_simp+

lemma smoke_request_refused:
  assumes "ApiVersion bp = ApiV2"
  shows "\<exists>s'. run_state (CreateDatabaseHandler E bp \<lparr>in_id = [], in_vars = vars, in_query = [], in_body = Doc smoke_doc\<rparr>) w =
    ((500, Text refusal), w\<lparr>srv := s'\<rparr>)"
proof -
  let ?req = "zero_create_request\<lparr>NamePrefix := ''smoketest'',
      Metadata := Some [(''classifier'', JObj [(''microserviceName'', JStr ''smoke-service'')])]\<rparr>"
  have req: "unmarshal dec_create_request (Doc smoke_doc) zero_create_request = Inr ?req" "\<not> ResourcePrefix (Settings ?req)"
    by code_simp+
  show ?thesis
    using assms req
    by (auto simp: CreateDatabaseHandler_def PrepareContext_def GenerateUUID_def GetUUID_def createDatabase_def choose_prefix_def
        error_reply_def refusal_def run_simps split: prod.splits)
qed

lemma smoke_served:
  assumes "rp_ApiVersion (app_registration a) = ''v2''" and "ApiVersion (app_base a) = ApiV2"
    and "mux (routes ''v2'') ''POST'' (basePath ''v2'' @ ''/databases'') =
      Inr ((''POST'', basePath ''v2'' @ ''/databases'', Authorized E_CreateDatabase), vars)"
    and "rq_method rq = ''POST''" and "url_path (rq_url rq) = basePath ''v2'' @ ''/databases''" and "rq_body rq = Some (Text smoke_text)"
  shows "\<exists>status t s'. through_adapter mux E rq (a, w) = (Inr \<lparr>StatusCode = status, Body = Text t\<rparr>, (a, w\<lparr>srv := s'\<rparr>)) \<and> t \<noteq> []"
proof -
  have body: "wire (Text smoke_text) = Doc smoke_doc"
    using smoke_text_reads by (simp add: smoke_text_def)
  obtain s' where h: "run_state (CreateDatabaseHandler E (app_base a) \<lparr>in_id = [], in_vars = vars, in_query = [], in_body = Doc smoke_doc\<rparr>) w =
      ((500, Text refusal), w\<lparr>srv := s'\<rparr>)"
    using smoke_request_refused [OF assms(2), of E vars w] by (elim exE)
  have unchanged: "w = w\<lparr>srv := srv w\<rparr>" by simp
  show ?thesis
  proof (cases "rq_auth rq = Some (cred_Username (app_adapter a), cred_Password (app_adapter a))")
    case True
    have "through_adapter mux E rq (a, w) = (Inr \<lparr>StatusCode = 500, Body = Text refusal\<rparr>, (a, w\<lparr>srv := s'\<rparr>))"
      using assms True h
      by (simp add: through_adapter_def serve_def BasicAuthorizer_def serve_endpoint_def lift_reply_def JsonContentType_def
          body refusals_are_text(1) run_simps del: wire.simps)
    moreover have "refusal \<noteq> []" by (simp add: refusal_def squote_def)
    ultimately show ?thesis by blast
  next
    case False
    let ?t = "''Not authorized to use this API, only DBaaS aggregator can use it.'' @ [CHR 0x0A]"
    have "through_adapter mux E rq (a, w) = (Inr \<lparr>StatusCode = 401, Body = Text ?t\<rparr>, (a, w\<lparr>srv := srv w\<rparr>))"
      using assms False refusals_are_text(2)
      by (auto simp: through_adapter_def serve_def BasicAuthorizer_def ProcessResponseBody_def
          simp del: wire.simps split: option.splits)
    moreover have "?t \<noteq> []" by simp
    ultimately show ?thesis by blast
  qed
qed

lemma main_client_urls:
  "url_ok (client_url (main_client E) (basePath ''v2'' @ ''/databases''))"
  "url_path (client_url (main_client E) (basePath ''v2'' @ ''/databases'')) = basePath ''v2'' @ ''/databases''"
proof -
  have "url_ok (''http://:8080'' @ basePath ''v2'' @ ''/databases'')" "url_ok (''https://:8443'' @ basePath ''v2'' @ ''/databases'')"
    "url_path (''http://:8080'' @ basePath ''v2'' @ ''/databases'') = basePath ''v2'' @ ''/databases''"
    "url_path (''https://:8443'' @ basePath ''v2'' @ ''/databases'') = basePath ''v2'' @ ''/databases''"
    by code_simp+
  moreover have "show_int 8080 = ''8080''" "show_int 8443 = ''8443''"
    by (simp_all add: show_int_def show_nat.simps, code_simp+)
  ultimately show "url_ok (client_url (main_client E) (basePath ''v2'' @ ''/databases''))"
    "url_path (client_url (main_client E) (basePath ''v2'' @ ''/databases'')) = basePath ''v2'' @ ''/databases''"
    by (simp_all add: client_url_def main_client_def Let_def)
qed

section \<open>Properties\<close>

text \<open>
  Against an adapter of the second API version, which is the default, the smoke test fails whatever
  the cluster does: its request lacks the resource prefix the version asks for, so nothing reaches
  OpenSearch, the aggregator or the curator, and the adapter stays as it was.
\<close>

theorem smoke_fails_on_v2:
  assumes "rp_ApiVersion (app_registration a) = ''v2''" and "ApiVersion (app_base a) = ''v2''"
    and "mux (routes ''v2'') ''POST'' (basePath ''v2'' @ ''/databases'') =
      Inr ((''POST'', basePath ''v2'' @ ''/databases'', Authorized E_CreateDatabase), vars)"
    and "client_do C = through_adapter mux E" and "BasePath C = basePath ''v2''"
    and "run_state (DoSmoke C (main_client E')) w = (r, w')" and "srv w = (a, aw)"
  shows "r = Ret ''FAIL'' \<and> fst (srv w') = a \<and> trace (snd (srv w')) = trace aw"
proof -
  let ?rq = "client_request (main_client E') (client_url (main_client E') (basePath ''v2'' @ ''/databases'')) (Text smoke_text)"
  obtain status t s' where x: "through_adapter mux E ?rq (a, aw) = (Inr \<lparr>StatusCode = status, Body = Text t\<rparr>, (a, aw\<lparr>srv := s'\<rparr>))" "t \<noteq> []"
    using smoke_served [where a = a and mux = mux and rq = ?rq and E = E and w = aw and vars = vars] assms(1-3) main_client_urls(2) [of E']
    by (simp add: client_request_def ApiV2_def) blast
  have p: "ProcessBody dec_created (Text t) zero_created = Inl (Err ''invalid character in JSON input'')"
    using x(2) by (cases t) simp_all
  have "run_state (smoke_createDatabase C (main_client E')) w =
      (Ret (Inl (Err ''invalid character in JSON input'')), w\<lparr>srv := (a, aw\<lparr>srv := s'\<rparr>), trace := trace w @ [ClientDo ?rq]\<rparr>)"
    using run_smoke_createDatabase [of "main_client E'" C w] main_client_urls(1) [of E'] assms(4,5,7) x p by (simp add: Let_def)
  then show ?thesis using assms(6) by (auto simp: DoSmoke_def run_simps)
qed

definition adapter_env :: "(app \<times> (script, event) world) client_env" where
  "adapter_env = \<lparr>client_do = through_adapter exact_mux script_env, default_do = through_adapter exact_mux script_env,
     read_line = (\<lambda>u. (Inr ''exit'', u)), BasePath = basePath ''v2''\<rparr>"

definition adapter_world :: "(app \<times> (script, event) world, client_event) world" where
  "adapter_world = \<lparr>srv = (test_app, answers []), trace = []\<rparr>"

lemma exact_mux_databases:
  "exact_mux (routes ''v2'') ''POST'' (basePath ''v2'' @ ''/databases'') =
     Inr ((''POST'', basePath ''v2'' @ ''/databases'', Authorized E_CreateDatabase), [])"
  by code_simp

theorem smoke_fails_on_v2_witness:
  "fst (run_state (DoSmoke adapter_env (main_client script_env)) adapter_world) = Ret ''FAIL''"
proof -
  obtain r w' where run: "run_state (DoSmoke adapter_env (main_client script_env)) adapter_world = (r, w')" by fastforce
  have "rp_ApiVersion (app_registration test_app) = ''v2''" "ApiVersion (app_base test_app) = ''v2''" by code_simp+
  moreover have "client_do adapter_env = through_adapter exact_mux script_env" "BasePath adapter_env = basePath ''v2''"
    "srv adapter_world = (test_app, answers [])" by (simp_all add: adapter_env_def adapter_world_def)
  ultimately show ?thesis
    using smoke_fails_on_v2 [where mux = exact_mux, OF _ _ exact_mux_databases _ _ run] run by simp
qed

text \<open>
  The smoke test looks at no status code: it passes when the first answer is empty or a document of a
  database and the second can be read, and the second request drops what the first answer lists.
\<close>

theorem smoke_passes:
  assumes "url_ok (client_url client (BasePath C @ ''/databases''))"
    and "url_ok (client_url client (BasePath C @ ''/resources/bulk-drop''))"
    and "client_do C (client_request client (client_url client (BasePath C @ ''/databases'')) (Text smoke_text)) (srv w) = (Inr first, u1)"
    and "ProcessBody dec_created (Body first) zero_created = Inr db"
    and "client_do C (client_request client (client_url client (BasePath C @ ''/resources/bulk-drop'')) (Doc (smoke_resources db))) u1 = (Inr second, u2)"
    and "ReadAll (Body second) = Inr t"
  shows "run_state (DoSmoke C client) w = (Ret ''OK'', w\<lparr>srv := u2, trace := trace w @
    [ClientDo (client_request client (client_url client (BasePath C @ ''/databases'')) (Text smoke_text)),
     ClientDo (client_request client (client_url client (BasePath C @ ''/resources/bulk-drop'')) (Doc (smoke_resources db)))]\<rparr>)"
  using assms run_smoke_createDatabase [of client C w] by (simp add: DoSmoke_def run_smoke_dropDatabase run_simps Let_def)

definition refusing_env :: "unit client_env" where
  "refusing_env = \<lparr>client_do = (\<lambda>_ u. (status_only 500, u)), default_do = (\<lambda>_ u. (status_only 500, u)),
     read_line = (\<lambda>u. (Inr ''exit'', u)), BasePath = basePath ''v2''\<rparr>"

definition local_client :: adapter_client where
  "local_client = \<lparr>ac_proto = ''http'', ac_host = [], ac_port = 1, ac_username = ''u'', ac_password = ''p''\<rparr>"

theorem smoke_passes_witness:
  "fst (run_state (DoSmoke refusing_env local_client) \<lparr>srv = (), trace = []\<rparr>) = Ret ''OK''"
proof -
  have "url_ok (client_url local_client (BasePath refusing_env @ ''/databases''))"
    "url_ok (client_url local_client (BasePath refusing_env @ ''/resources/bulk-drop''))" by code_simp+
  then show ?thesis
    by (subst smoke_passes [where first = "\<lparr>StatusCode = 500, Body = Text []\<rparr>" and second = "\<lparr>StatusCode = 500, Body = Text []\<rparr>"
          and db = zero_created and ?u1.0 = "()" and ?u2.0 = "()" and t = "[]"])
      (simp_all add: refusing_env_def status_only_def)
qed

text \<open>
  The shell of the adapter never ends: whatever is entered, \<^verbatim>\<open>exit\<close> and the end of the input included,
  after any number of commands it still runs.
\<close>

theorem shell_never_ends:
  assumes "shell_mode f" and "flag_command f = []"
  shows "fst (run_state (main n E C f) w) = Ret Shell_running"
proof -
  obtain w' where "run_state (shell n C (main_client E) []) w = (None, w')"
    using shell_running [of n C "main_client E" w] by (cases "run_state (shell n C (main_client E) []) w") simp
  with assms show ?thesis by (simp add: main_def Let_def run_simps)
qed

theorem shell_never_ends_witness:
  "fst (run_state (main 3 script_env refusing_env \<lparr>flag_mode = ''shell'', flag_interactive = False, flag_command = [], arg0 = ''adapter''\<rparr>)
      \<lparr>srv = (), trace = []\<rparr>) = Ret Shell_running"
  by (rule shell_never_ends) (simp_all add: shell_mode_def)

text \<open>
  The server gives no request in flight the five seconds it means to: the context with the timeout is
  derived from one that is already done, so \<^verbatim>\<open>Shutdown\<close> succeeds only when nothing is being served.
\<close>

theorem shutdown_has_no_grace:
  "Server_end (Done_after t) busy = Some (if busy = 0 then Inr () else Inl (Err ''context canceled''))"
  by (simp add: Server_end_def wait_done_def)

end
