(* ===== verification/Api_Functions.thy ===== *)
theory Api_Functions
  imports Adapter_Common
begin

text \<open>
  The second interface of the package \<^verbatim>\<open>api\<close>: next to the request types, which the adapter uses, every file has a
  constructor of a function that takes options (\<^verbatim>\<open>newCreateUserFunc\<close> and \<^verbatim>\<open>CreateUser.With...\<close>). An option
  changes a request of a given type. The request types have the same fields up to the name and the body, so
  they are one type with a phantom argument, which keeps the options of different requests apart as Go does.
\<close>

section \<open>Requests and options\<close>

record api_fields =
  req_Name :: string
  req_Body :: "body option"
  req_Options :: api_options
  req_ctx :: "string option"

datatype 't api_request = Request (fields: api_fields)

definition modify :: "(api_fields \<Rightarrow> api_fields) \<Rightarrow> 't api_request \<Rightarrow> 't api_request" where
  "modify f r = Request (f (fields r))"

definition new_request :: "string \<Rightarrow> 't api_request" where
  "new_request name = Request \<lparr>req_Name = name, req_Body = None, req_Options = no_options, req_ctx = None\<rparr>"

text \<open>\<^verbatim>\<open>CanonicalMIMEHeaderKey\<close>, and headers with a value per entry: \<^verbatim>\<open>Add\<close> appends one, \<^verbatim>\<open>Set\<close> replaces all of the key.\<close>

definition header_byte :: "char \<Rightarrow> bool" where
  "header_byte c \<longleftrightarrow> (let n = of_char c :: nat in (48 \<le> n \<and> n \<le> 57) \<or> (65 \<le> n \<and> n \<le> 90) \<or> (97 \<le> n \<and> n \<le> 122)) \<or>
     c \<in> set ''!#$%&*+-.^_|~'' \<or> c = CHR 39 \<or> c = CHR 96"

fun canonical_from :: "bool \<Rightarrow> string \<Rightarrow> string" where
  "canonical_from up [] = []"
| "canonical_from up (c # cs) = (if up then upper_char c else lower_char c) # canonical_from (c = CHR ''-'') cs"

definition canonical_key :: "string \<Rightarrow> string" where
  "canonical_key k = (if list_all header_byte k then canonical_from True k else k)"

definition header_Add :: "string \<times> string \<Rightarrow> (string \<times> string) list \<Rightarrow> (string \<times> string) list" where
  "header_Add kv h = h @ [(canonical_key (fst kv), snd kv)]"

definition header_Set :: "string \<Rightarrow> string \<Rightarrow> (string \<times> string) list \<Rightarrow> (string \<times> string) list" where
  "header_Set k v h = filter (\<lambda>(k', _). k' \<noteq> canonical_key k) h @ [(canonical_key k, v)]"

text \<open>The options every request has, and those of requests with a name, with a body, and with both.\<close>

datatype common_option =
    WithContext string | WithPretty | WithHuman | WithErrorTrace
  | WithFilterPath "string list" | WithHeader "string go_map" | WithOpaqueID string

datatype named_option = WithName string | Named common_option
datatype body_option = WithBody "body option" | Bodied common_option
datatype full_option = FullName string | FullBody "body option" | Full common_option

fun common_setter :: "common_option \<Rightarrow> api_fields \<Rightarrow> api_fields" where
  "common_setter (WithContext v) r = r\<lparr>req_ctx := Some v\<rparr>"
| "common_setter WithPretty r = r\<lparr>req_Options := (req_Options r)\<lparr>Pretty := True\<rparr>\<rparr>"
| "common_setter WithHuman r = r\<lparr>req_Options := (req_Options r)\<lparr>Human := True\<rparr>\<rparr>"
| "common_setter WithErrorTrace r = r\<lparr>req_Options := (req_Options r)\<lparr>ErrorTrace := True\<rparr>\<rparr>"
| "common_setter (WithFilterPath v) r = r\<lparr>req_Options := (req_Options r)\<lparr>FilterPath := v\<rparr>\<rparr>"
| "common_setter (WithHeader h) r = r\<lparr>req_Options := (req_Options r)\<lparr>Header := fold header_Add h (Header (req_Options r))\<rparr>\<rparr>"
| "common_setter (WithOpaqueID s) r = r\<lparr>req_Options := (req_Options r)\<lparr>Header := header_Set ''X-Opaque-Id'' s (Header (req_Options r))\<rparr>\<rparr>"

section \<open>The end of a function\<close>

text \<open>The options are applied in order, and the request is done with the context they left.\<close>

definition apply_options :: "('t api_request \<Rightarrow> 't api_request) list \<Rightarrow> 't api_request \<Rightarrow> api_fields" where
  "apply_options os r = fields (fold (\<lambda>f r. f r) os r)"

text \<open>
  The three requests that create close the body of the request, which is \<^verbatim>\<open>nil\<close> when none was set: a panic, before
  anything is sent.
\<close>

definition closing_body ::
  "string \<Rightarrow> body option \<Rightarrow> (body \<Rightarrow> ('s, go_error + http_response) adapter) \<Rightarrow> ('s, (go_error + http_response) go) adapter" where
  "closing_body path b do_request =
     (if \<not> url_ok path then return (Ret (Inl bad_url))
      else (case b of
          None \<Rightarrow> return (Panic ''runtime error: invalid memory address or nil pointer dereference'')
        | Some b \<Rightarrow> no_panic (do_request b)))"

section \<open>Functions and options of each request\<close>

typedecl create_user
typedecl create_role
typedecl create_roles_mapping
typedecl patch_user
typedecl patch_users
typedecl delete_user
typedecl delete_role
typedecl get_user
typedecl get_role
typedecl get_role_mapping
typedecl get_users
typedecl get_roles
typedecl get_roles_mapping

fun CreateUser_With :: "full_option \<Rightarrow> create_user api_request \<Rightarrow> create_user api_request" where
  "CreateUser_With (FullName v) r = modify (\<lambda>q. q\<lparr>req_Name := v\<rparr>) r"
| "CreateUser_With (FullBody v) r = modify (\<lambda>q. q\<lparr>req_Body := v\<rparr>) r"
| "CreateUser_With (Full c) r = modify (common_setter c) r"

definition newCreateUserFunc ::
  "'s env \<Rightarrow> string \<Rightarrow> (create_user api_request \<Rightarrow> create_user api_request) list \<Rightarrow> ('s, (go_error + http_response) go) adapter" where
  "newCreateUserFunc E name os =
     (let r = apply_options os (new_request name) in
      closing_body (users_path @ ''/'' @ req_Name r) (req_Body r) (\<lambda>b. CreateUserRequest_Do E (req_Name r) b (req_Options r)))"

fun CreateRole_With :: "full_option \<Rightarrow> create_role api_request \<Rightarrow> create_role api_request" where
  "CreateRole_With (FullName v) r = modify (\<lambda>q. q\<lparr>req_Name := v\<rparr>) r"
| "CreateRole_With (FullBody v) r = modify (\<lambda>q. q\<lparr>req_Body := v\<rparr>) r"
| "CreateRole_With (Full c) r = modify (common_setter c) r"

definition newCreateRoleFunc ::
  "'s env \<Rightarrow> string \<Rightarrow> (create_role api_request \<Rightarrow> create_role api_request) list \<Rightarrow> ('s, (go_error + http_response) go) adapter" where
  "newCreateRoleFunc E name os =
     (let r = apply_options os (new_request name) in
      closing_body (roles_path @ ''/'' @ req_Name r) (req_Body r) (\<lambda>b. CreateRoleRequest_Do E (req_Name r) b (req_Options r)))"

fun CreateRolesMapping_With :: "full_option \<Rightarrow> create_roles_mapping api_request \<Rightarrow> create_roles_mapping api_request" where
  "CreateRolesMapping_With (FullName v) r = modify (\<lambda>q. q\<lparr>req_Name := v\<rparr>) r"
| "CreateRolesMapping_With (FullBody v) r = modify (\<lambda>q. q\<lparr>req_Body := v\<rparr>) r"
| "CreateRolesMapping_With (Full c) r = modify (common_setter c) r"

definition newCreateRolesMappingFunc ::
  "'s env \<Rightarrow> string \<Rightarrow> (create_roles_mapping api_request \<Rightarrow> create_roles_mapping api_request) list \<Rightarrow> ('s, (go_error + http_response) go) adapter" where
  "newCreateRolesMappingFunc E name os =
     (let r = apply_options os (new_request name) in
      closing_body (rolesmapping_path @ ''/'' @ req_Name r) (req_Body r) (\<lambda>b. CreateRolesMappingRequest_Do E (req_Name r) b (req_Options r)))"

fun PatchUser_With :: "full_option \<Rightarrow> patch_user api_request \<Rightarrow> patch_user api_request" where
  "PatchUser_With (FullName v) r = modify (\<lambda>q. q\<lparr>req_Name := v\<rparr>) r"
| "PatchUser_With (FullBody v) r = modify (\<lambda>q. q\<lparr>req_Body := v\<rparr>) r"
| "PatchUser_With (Full c) r = modify (common_setter c) r"

definition newPatchUserFunc ::
  "'s env \<Rightarrow> string \<Rightarrow> (patch_user api_request \<Rightarrow> patch_user api_request) list \<Rightarrow> ('s, go_error + http_response) adapter" where
  "newPatchUserFunc E name os =
     (let r = apply_options os (new_request name) in
      api_Do E (api_http ''PATCH'' (users_path @ ''/'' @ req_Name r) (req_Body r) (req_Options r)))"

fun PatchUsers_With :: "body_option \<Rightarrow> patch_users api_request \<Rightarrow> patch_users api_request" where
  "PatchUsers_With (WithBody v) r = modify (\<lambda>q. q\<lparr>req_Body := v\<rparr>) r"
| "PatchUsers_With (Bodied c) r = modify (common_setter c) r"

definition newPatchUsersFunc ::
  "'s env \<Rightarrow> (patch_users api_request \<Rightarrow> patch_users api_request) list \<Rightarrow> ('s, go_error + http_response) adapter" where
  "newPatchUsersFunc E os =
     (let r = apply_options os (new_request []) in
      PatchUsersRequest_Do E (req_Body r) (req_Options r))"

fun DeleteUser_With :: "named_option \<Rightarrow> delete_user api_request \<Rightarrow> delete_user api_request" where
  "DeleteUser_With (WithName v) r = modify (\<lambda>q. q\<lparr>req_Name := v\<rparr>) r"
| "DeleteUser_With (Named c) r = modify (common_setter c) r"

definition newDeleteUserFunc ::
  "'s env \<Rightarrow> string \<Rightarrow> (delete_user api_request \<Rightarrow> delete_user api_request) list \<Rightarrow> ('s, go_error + http_response) adapter" where
  "newDeleteUserFunc E name os =
     (let r = apply_options os (new_request name) in
      DeleteUserRequest_Do E (req_Name r) (req_Options r))"

fun DeleteRole_With :: "named_option \<Rightarrow> delete_role api_request \<Rightarrow> delete_role api_request" where
  "DeleteRole_With (WithName v) r = modify (\<lambda>q. q\<lparr>req_Name := v\<rparr>) r"
| "DeleteRole_With (Named c) r = modify (common_setter c) r"

definition newDeleteRoleFunc ::
  "'s env \<Rightarrow> string \<Rightarrow> (delete_role api_request \<Rightarrow> delete_role api_request) list \<Rightarrow> ('s, go_error + http_response) adapter" where
  "newDeleteRoleFunc E name os =
     (let r = apply_options os (new_request name) in
      DeleteRoleRequest_Do E (req_Name r) (req_Options r))"

fun GetUser_With :: "named_option \<Rightarrow> get_user api_request \<Rightarrow> get_user api_request" where
  "GetUser_With (WithName v) r = modify (\<lambda>q. q\<lparr>req_Name := v\<rparr>) r"
| "GetUser_With (Named c) r = modify (common_setter c) r"

definition newGetUserFunc ::
  "'s env \<Rightarrow> string \<Rightarrow> (get_user api_request \<Rightarrow> get_user api_request) list \<Rightarrow> ('s, go_error + http_response) adapter" where
  "newGetUserFunc E name os =
     (let r = apply_options os (new_request name) in
      GetUserRequest_Do E (req_Name r) (req_Options r))"

fun GetRole_With :: "named_option \<Rightarrow> get_role api_request \<Rightarrow> get_role api_request" where
  "GetRole_With (WithName v) r = modify (\<lambda>q. q\<lparr>req_Name := v\<rparr>) r"
| "GetRole_With (Named c) r = modify (common_setter c) r"

definition newGetRoleFunc ::
  "'s env \<Rightarrow> string \<Rightarrow> (get_role api_request \<Rightarrow> get_role api_request) list \<Rightarrow> ('s, go_error + http_response) adapter" where
  "newGetRoleFunc E name os =
     (let r = apply_options os (new_request name) in
      GetRoleRequest_Do E (req_Name r) (req_Options r))"

text \<open>The options in the file of \<^verbatim>\<open>GetRoleMapping\<close> are options of \<^verbatim>\<open>GetRoleRequest\<close>.\<close>

fun GetRoleMapping_With :: "named_option \<Rightarrow> get_role api_request \<Rightarrow> get_role api_request" where
  "GetRoleMapping_With (WithName v) r = modify (\<lambda>q. q\<lparr>req_Name := v\<rparr>) r"
| "GetRoleMapping_With (Named c) r = modify (common_setter c) r"

definition newGetRoleMappingFunc ::
  "'s env \<Rightarrow> string \<Rightarrow> (get_role_mapping api_request \<Rightarrow> get_role_mapping api_request) list \<Rightarrow> ('s, go_error + http_response) adapter" where
  "newGetRoleMappingFunc E name os =
     (let r = apply_options os (new_request name) in
      GetRoleMappingRequest_Do E (req_Name r) (req_Options r))"

fun GetUsers_With :: "common_option \<Rightarrow> get_users api_request \<Rightarrow> get_users api_request" where
  "GetUsers_With c r = modify (common_setter c) r"

definition newGetUsersFunc ::
  "'s env \<Rightarrow> (get_users api_request \<Rightarrow> get_users api_request) list \<Rightarrow> ('s, go_error + http_response) adapter" where
  "newGetUsersFunc E os =
     (let r = apply_options os (new_request []) in
      GetUsersRequest_Do E (req_Options r))"

fun GetRoles_With :: "common_option \<Rightarrow> get_roles api_request \<Rightarrow> get_roles api_request" where
  "GetRoles_With c r = modify (common_setter c) r"

definition newGetRolesFunc ::
  "'s env \<Rightarrow> (get_roles api_request \<Rightarrow> get_roles api_request) list \<Rightarrow> ('s, go_error + http_response) adapter" where
  "newGetRolesFunc E os =
     (let r = apply_options os (new_request []) in
      GetRolesRequest_Do E (req_Options r))"

text \<open>
  The options in the file of \<^verbatim>\<open>GetRolesMapping\<close> are options of \<^verbatim>\<open>CreateRolesMappingRequest\<close>, and its function
  takes the name of a role that it does not use.
\<close>

fun GetRolesMapping_With :: "full_option \<Rightarrow> create_roles_mapping api_request \<Rightarrow> create_roles_mapping api_request" where
  "GetRolesMapping_With (FullName v) r = modify (\<lambda>q. q\<lparr>req_Name := v\<rparr>) r"
| "GetRolesMapping_With (FullBody v) r = modify (\<lambda>q. q\<lparr>req_Body := v\<rparr>) r"
| "GetRolesMapping_With (Full c) r = modify (common_setter c) r"

definition newGetRolesMappingFunc ::
  "'s env \<Rightarrow> string \<Rightarrow> (get_roles_mapping api_request \<Rightarrow> get_roles_mapping api_request) list \<Rightarrow> ('s, go_error + http_response) adapter" where
  "newGetRolesMappingFunc E name os =
     (let r = apply_options os (new_request []) in
      GetRolesMappingRequest_Do E (req_Options r))"

section \<open>Facts\<close>

lemma apply_options_Nil: "apply_options [] r = fields r"
  by (simp add: apply_options_def)

lemma apply_options_Cons: "apply_options (f # os) r = apply_options os (f r)"
  by (simp add: apply_options_def)

lemmas option_simps = apply_options_Nil apply_options_Cons modify_def new_request_def

text \<open>Options that change neither the name nor the body leave both.\<close>

lemma common_setter_keeps [simp]:
  "req_Name (common_setter c r) = req_Name r" "req_Body (common_setter c r) = req_Body r"
  by (cases c; simp)+

lemma fold_common_keeps [simp]:
  "req_Name (fold common_setter cs r) = req_Name r" "req_Body (fold common_setter cs r) = req_Body r"
  by (induction cs arbitrary: r) simp_all

lemma apply_common_options:
  "(\<And>c r. fields (f c r) = common_setter c (fields r)) \<Longrightarrow> apply_options (map f cs) r = fold common_setter cs (fields r)"
  by (induction cs arbitrary: r) (simp_all add: option_simps)

section \<open>Properties\<close>

text \<open>
  The function with options does what the request type does that the adapter uses: with a body and
  any options of the common kind it is the request with these fields, and the content type the adapter
  sends is the one of such an option.
\<close>

theorem newCreateUserFunc_equals_request:
  "url_ok (users_path @ ''/'' @ username) \<Longrightarrow>
   newCreateUserFunc E username (CreateUser_With (FullBody (Some b)) # map (\<lambda>c. CreateUser_With (Full c)) cs) =
     no_panic (CreateUserRequest_Do E username b
       (req_Options (fold common_setter cs (fields (CreateUser_With (FullBody (Some b)) (new_request username))))))"
  using apply_common_options [of "\<lambda>c. CreateUser_With (Full c)" cs "CreateUser_With (FullBody (Some b)) (new_request username)"]
  by (simp add: newCreateUserFunc_def option_simps closing_body_def Let_def)

theorem json_header_option:
  "req_Options (common_setter (WithHeader [(''content-type'', ''application/json'')]) (fields (new_request name :: 't api_request))) = json_options"
  by (simp add: new_request_def json_options_def no_options_def header_Add_def) code_simp

text \<open>
  Without a body the functions that create panic before they send anything, while the function that
  patches sends a request without one.
\<close>

theorem creation_needs_body:
  assumes "url_ok (users_path @ ''/'' @ username)"
  shows "run_state (newCreateUserFunc E username (map (\<lambda>c. CreateUser_With (Full c)) cs)) w =
      (Panic ''runtime error: invalid memory address or nil pointer dereference'', w)"
    and "newPatchUserFunc E username (map (\<lambda>c. PatchUser_With (Full c)) cs) =
      opensearch E (Perform (api_http ''PATCH'' (users_path @ ''/'' @ username) None
        (req_Options (fold common_setter cs (fields (new_request username :: patch_user api_request))))))"
proof -
  show "run_state (newCreateUserFunc E username (map (\<lambda>c. CreateUser_With (Full c)) cs)) w =
      (Panic ''runtime error: invalid memory address or nil pointer dereference'', w)"
    using assms apply_common_options [of "\<lambda>c. CreateUser_With (Full c)" cs "new_request username"]
    by (simp add: newCreateUserFunc_def option_simps closing_body_def Let_def)
  show "newPatchUserFunc E username (map (\<lambda>c. PatchUser_With (Full c)) cs) =
      opensearch E (Perform (api_http ''PATCH'' (users_path @ ''/'' @ username) None
        (req_Options (fold common_setter cs (fields (new_request username :: patch_user api_request))))))"
    using assms apply_common_options [of "\<lambda>c. PatchUser_With (Full c)" cs "new_request username"]
    by (simp add: newPatchUserFunc_def option_simps api_Do_def api_http_def Let_def)
qed

text \<open>The function for all role mappings ignores the role it is given.\<close>

lemma newGetRolesMappingFunc_ignores_role: "newGetRolesMappingFunc E role os = newGetRolesMappingFunc E role' os"
  by (simp add: newGetRolesMappingFunc_def)

end
