(* ===== verification/Client_Stub.thy ===== *)
theory Client_Stub
  imports Adapter_Server Json_Round_Trip
begin

text \<open>
  The rest of the package \<^verbatim>\<open>common\<close>: conversions, log lines, and the test double of the OpenSearch client
  (\<^verbatim>\<open>opensearch_client_stub.go\<close>) with what the adapter does against it. The double is given HTTP requests, so the calls of the library \<^verbatim>\<open>opensearchapi\<close> reach it
  through a parameter \<open>wire\<close>; the requests of the package \<^verbatim>\<open>api\<close> need none. The lemmas at the end run the
  model as the unit tests of the package \<^verbatim>\<open>basic\<close> run the program, and state what those tests assert.
\<close>

section \<open>Strings\<close>

text \<open>\<^verbatim>\<open>strings.ReplaceAll\<close> of a text that is not empty by nothing, and the text after the last slash.\<close>

function remove_all :: "string \<Rightarrow> string \<Rightarrow> string" where
  "remove_all s old =
     (if s = [] \<or> old = [] then s
      else if prefix old s then remove_all (drop (length old) s) old
      else hd s # remove_all (tl s) old)"
  by pat_completeness auto
termination
  by (relation "measure (length \<circ> fst)") auto

declare remove_all.simps [simp del]

definition after_last_slash :: "string \<Rightarrow> string" where
  "after_last_slash s = rev (takeWhile (\<lambda>c. c \<noteq> CHR ''/'') (rev s))"

definition remove_first_slash :: "string \<Rightarrow> string" where
  "remove_first_slash s = takeWhile (\<lambda>c. c \<noteq> CHR ''/'') s @ drop 1 (dropWhile (\<lambda>c. c \<noteq> CHR ''/'') s)"

section \<open>The answers\<close>

definition metadataManipulations :: "string \<Rightarrow> string \<Rightarrow> string" where
  "metadataManipulations index verb =
     (if verb = ''GET'' then ''{\"found\":true,\"_source\":{\"text\": \"check\"}}''
      else if verb = ''DELETE'' then ''{\"result\":\"deleted\"}''
      else if verb = ''PUT'' then ''{\"_index\":\"dbaas_opensearch_metadata\",\"_type\":\"_doc\",\"_id\":\"'' @ index @ ''\",\"_version\":1,\"result\":\"created\",\"_shards\":{\"total\":2,\"successful\":2,\"failed\":0},\"_seq_no\":30,\"_primary_term\":13}''
      else if verb = ''POST'' then ''{\"_index\":\"dbaas_opensearch_metadata\",\"_type\":\"_doc\",\"_id\":\"'' @ index @ ''\",\"_version\":5,\"result\":\"updated\",\"_shards\":{\"total\":2,\"successful\":2,\"failed\":0},\"_seq_no\":8,\"_primary_term\":15}''
      else [])"

definition dml_role_text :: string where
  "dml_role_text = ''{\"dbaas_dml_role\":{\"reserved\":false,\"hidden\":false,\"cluster_permissions\":[\"cluster_composite_ops\",\"CLUSTER_COMPOSITE_OPS\",\"cluster:monitor/state\"],\"index_permissions\":[{\"index_patterns\":[\"${attr.internal.resource_prefix}*\"],\"fls\":[],\"masked_fields\":[],\"allowed_actions\":[\"indices:data/*\",\"INDICES:DATA/*\", \"indices:admin/mapping/put\"]}],\"tenant_permissions\":[],\"static\":false}}''"

definition readonly_role_text :: string where
  "readonly_role_text = ''{\"dbaas_readonly_role\":{\"reserved\":false,\"hidden\":false,\"cluster_permissions\":[\"cluster:monitor/state\"],\"index_permissions\":[{\"index_patterns\":[\"${attr.internal.resource_prefix}*\"],\"fls\":[],\"masked_fields\":[],\"allowed_actions\":[\"indices:data/read/*\",\"INDICES:DATA/READ/*\"]}],\"tenant_permissions\":[],\"static\":false}}''"

definition ism_plugin_role_text :: string where
  "ism_plugin_role_text = ''{\"dbaas_ism_role\":{\"reserved\":false,\"hidden\":false,\"cluster_permissions\":[\"cluster:admin/opendistro/ism/*\",\"cluster:monitor/state\"],\"index_permissions\":[{\"index_patterns\":[\"*\"],\"fls\":[],\"masked_fields\":[],\"allowed_actions\":[\"indices:admin/opensearch/ism/managedindex\"]}],\"tenant_permissions\":[],\"static\":false}}''"

definition ism_role_text :: string where
  "ism_role_text = ''{\"dbaas_ism_role\":{\"reserved\":false,\"hidden\":false,\"cluster_permissions\":[\"cluster:admin/opendistro/ism/*\",\"cluster:monitor/state\"],\"index_permissions\":[{\"index_patterns\":[\"*\"],\"fls\":[],\"masked_fields\":[],\"allowed_actions\":[\"indices:admin/opensearch/ism/managedindex\",\"indices:admin/delete\",\"indices:admin/rollover\",\"indices:monitor/stats\"]}],\"tenant_permissions\":[],\"static\":false}}''"

definition admin_role_text :: string where
  "admin_role_text = ''{\"dbaas_admin_role\":{\"reserved\":false,\"hidden\":false,\"cluster_permissions\":[\"cluster_composite_ops\",\"CLUSTER_COMPOSITE_OPS\",\"cluster_manage_index_templates\",\"indices:admin/template/*\",\"indices:admin/index_template/*\",\"cluster:monitor/state\"],\"index_permissions\":[{\"index_patterns\":[\"${attr.internal.resource_prefix}*\"],\"fls\":[],\"masked_fields\":[],\"allowed_actions\":[\"indices_all\",\"INDICES_ALL\"]},{\"index_patterns\":[\"*\"],\"fls\":[],\"masked_fields\":[],\"allowed_actions\":[\"indices:admin/index_template/*\",\"indices:admin/aliases/get\",\"indices:admin/resize\"]}],\"tenant_permissions\":[],\"static\":false}}''"

definition roleManipulations :: "string \<Rightarrow> string \<Rightarrow> string" where
  "roleManipulations name verb =
     (if verb = ''GET'' then
        (if Contains name ''dml'' then dml_role_text
         else if Contains name ''readonly'' then readonly_role_text
         else if Contains name ''ism_with_plugin'' then ism_plugin_role_text
         else if Contains name ''ism'' then ism_role_text
         else admin_role_text)
      else if verb = ''DELETE'' then ''{\"status\":\"OK\",\"message\":\"'' @ [CHR 39] @ name @ [CHR 39] @ '' deleted.\"}''
      else if verb = ''PUT'' then ''{\"status\":\"CREATED\",\"message\":\"'' @ [CHR 39] @ name @ [CHR 39] @ '' created.\"}''
      else [])"

definition dml_mapping_text :: string where
  "dml_mapping_text = ''{\"dbaas_dml_role\":{\"hosts\":[],\"users\":[],\"reserved\":false,\"hidden\":false,\"backend_roles\":[],\"and_backend_roles\":[]}}''"

definition readonly_mapping_text :: string where
  "readonly_mapping_text = ''{\"dbaas_readonly_role\":{\"hosts\":[],\"users\":[\"41f47f9c-205d-40b3-aac2-aa1facb8bd6c_28e4236ed84147c38451874d4f86425c\"],\"reserved\":false,\"hidden\":false,\"backend_roles\":[],\"and_backend_roles\":[]}}''"

definition admin_mapping_text :: string where
  "admin_mapping_text = ''{\"dbaas_admin_role\":{\"hosts\":[],\"users\":[\"testuser\",\"dbaas_b5bb036119f14412963cc0979631c99f\",\"dbaas_2097cf024d8b41b195c0f80858506ad3\",\"dbaas_2c73c340e5d4474e8164f4b84d3e0050\",\"dbaas_4393bb29f5ae4ac08d5c4ad42e834c14\",\"dbaas_25225bd58e834046ac3d3c9bf5d64ebb\",\"dbaas_125fb5e92a9041129c52a87066b5a30d\",\"dbaas_031e6d181e9043408ff0014d989191f6\",\"dbaas_d62fc944e0774b11bf8dc94b618c22cb\",\"dbaas_0f5425688e244cdcaa0f259cb702e9dc\"],\"reserved\":false,\"hidden\":false,\"backend_roles\":[],\"and_backend_roles\":[]}}''"

definition all_mappings_text :: string where
  "all_mappings_text = ''{\"sreqh_dbaas-index_role\":{\"hosts\":[],\"users\":[\"testuser\"],\"reserved\":false,\"hidden\":false,\"backend_roles\":[],\"and_backend_roles\":[]},\"dbaas_dml_role\":{\"hosts\":[],\"users\":[],\"reserved\":false,\"hidden\":false,\"backend_roles\":[],\"and_backend_roles\":[]},\"dbaas_admin_role\":{\"hosts\":[],\"users\":[\"testuser\",\"dbaas_b5bb036119f14412963cc0979631c99f\",\"dbaas_2097cf024d8b41b195c0f80858506ad3\",\"dbaas_2c73c340e5d4474e8164f4b84d3e0050\",\"dbaas_4393bb29f5ae4ac08d5c4ad42e834c14\",\"dbaas_25225bd58e834046ac3d3c9bf5d64ebb\",\"dbaas_125fb5e92a9041129c52a87066b5a30d\",\"dbaas_031e6d181e9043408ff0014d989191f6\",\"dbaas_d62fc944e0774b11bf8dc94b618c22cb\",\"dbaas_0f5425688e244cdcaa0f259cb702e9dc\"],\"reserved\":false,\"hidden\":false,\"backend_roles\":[],\"and_backend_roles\":[]},\"all_access\":{\"hosts\":[],\"users\":[],\"reserved\":false,\"hidden\":false,\"backend_roles\":[],\"and_backend_roles\":[],\"description\":\"Maps admin to all_access\"},\"dbaas_readonly_role\":{\"hosts\":[],\"users\":[\"41f47f9c-205d-40b3-aac2-aa1facb8bd6c_28e4236ed84147c38451874d4f86425c\"],\"reserved\":false,\"hidden\":false,\"backend_roles\":[],\"and_backend_roles\":[]},\"opensearch_security_anonymous\":{\"hosts\":[],\"users\":[],\"reserved\":false,\"hidden\":false,\"backend_roles\":[\"opensearch_security_anonymous_backendrole\"],\"and_backend_roles\":[]}}''"

definition roleMappingManipulations :: "string \<Rightarrow> string \<Rightarrow> string" where
  "roleMappingManipulations name verb =
     (if verb = ''GET'' then
        (if Contains name ''dml'' then dml_mapping_text
         else if Contains name ''readonly'' then readonly_mapping_text
         else if Contains name ''admin'' then admin_mapping_text
         else all_mappings_text)
      else if verb = ''PUT'' then ''{\"status\":\"OK\",\"message\":\"'' @ [CHR 39] @ name @ [CHR 39] @ '' updated.\"}''
      else [])"

definition userManipulations :: "string \<Rightarrow> string \<Rightarrow> string" where
  "userManipulations name verb =
     (if verb = ''GET'' then
        (if HasPrefix name ''dbaas_'' then ''{\"'' @ name @ ''\":{\"hash\":\"\",\"reserved\":false,\"hidden\":false,\"backend_roles\":[\"'' @ name @ ''\"],\"attributes\":{},\"opendistro_security_roles\":[],\"static\":false}}''
         else (let p = hd (split_on (CHR ''_'') name) in
           ''{\"'' @ name @ ''\":{\"hash\":\"\",\"reserved\":false,\"hidden\":false,\"backend_roles\":[\"'' @ name @ ''\"],\"attributes\":{\"resource_prefix\": \"'' @ p @ ''\"},\"opendistro_security_roles\":[],\"static\":false}}''))
      else if verb = ''DELETE'' then ''{\"status\":\"OK\",\"message\":\"'' @ [CHR 39] @ name @ [CHR 39] @ '' deleted.\"}''
      else if verb = ''PUT'' then ''{\"status\":\"CREATED\",\"message\":\"'' @ [CHR 39] @ name @ [CHR 39] @ '' created.\"}''
      else if verb = ''PATCH'' then ''{\"status\":\"OK\",\"message\":\"Resource updated.\"}''
      else [])"

definition templateManipulations :: "string \<Rightarrow> string \<Rightarrow> string" where
  "templateManipulations name verb =
     (if verb = ''GET'' then ''{\"index_templates\":[{\"name\":\"'' @ name @ ''\",\"index_template\":{\"index_patterns\":[\"test*\"],\"template\":{\"settings\":{\"index\":{\"number_of_shards\":\"3\",\"number_of_replicas\":\"1\"}}},\"composed_of\":[]}}]}''
      else if verb = ''DELETE'' then ''{\"acknowledged\":true}''
      else [])"

definition aliasManipulations :: "string \<Rightarrow> string \<Rightarrow> string" where
  "aliasManipulations name verb =
     (if verb = ''GET'' then ''{\"test-news\":{\"aliases\":{\"'' @ name @ ''\":{}}}}''
      else if verb = ''DELETE'' then ''{\"acknowledged\":true}''
      else [])"

definition indexManipulations :: "string \<Rightarrow> string \<Rightarrow> string" where
  "indexManipulations name verb =
     (if verb = ''GET'' then ''{\"'' @ name @ ''\":{\"aliases\":{\"fewe\":{}},\"mappings\":{},\"settings\":{\"index\":{\"creation_date\":\"1649406295426\",\"number_of_shards\":\"3\",\"number_of_replicas\":\"1\",\"uuid\":\"qYw1NVdlShSfPB9dFs2qIg\",\"version\":{\"created\":\"135238127\"},\"provided_name\":\"'' @ name @ ''\"}}}}''
      else if verb = ''DELETE'' then ''{\"acknowledged\":true}''
      else if verb = ''PUT'' then ''{\"acknowledged\":true,\"shards_acknowledged\":true,\"index\":\"'' @ name @ ''\"}''
      else [])"

definition nodes_text :: string where
  "nodes_text = ''{\"_nodes\":{\"total\":3,\"successful\":3,\"failed\":0},\"cluster_name\":\"opensearch\",\"nodes\":{\"ddfIN7-sT3avYl4DFZfKeg\":{\"name\":\"opensearch-1\"},\"jxL6tjiZTIiSjxmh6wTGvw\":{\"name\":\"opensearch-0\"},\"jxL6tjKlshIiSjLmh6wTGvw\":{\"name\":\"opensearch-2\"}}}''"

definition indices_text :: string where
  "indices_text = join [CHR 10] [''dbaas_metadata'', ''dbaas_opensearch_metadata'', ''testmine'', ''.opendistro_security'', ''test-new'', ''.kibana_1'', ''testme'']"

text \<open>\<^verbatim>\<open>Perform\<close>: the cases of the \<^verbatim>\<open>switch\<close> in their order; the status is always 200.\<close>

definition stub_text :: "string \<Rightarrow> string \<Rightarrow> string option" where
  "stub_text path verb =
     (if HasPrefix path ''/dbaas_opensearch_metadata/_doc''
      then Some (metadataManipulations (remove_all path ''/dbaas_opensearch_metadata/_doc'') verb)
      else if HasPrefix path ''/_plugins/_security/api/roles/''
      then Some (roleManipulations (remove_all path ''/_plugins/_security/api/roles/'') verb)
      else if HasPrefix path ''/_plugins/_security/api/rolesmapping''
      then Some (roleMappingManipulations (remove_all path ''/_plugins/_security/api/rolesmapping'') verb)
      else if HasPrefix path ''/_plugins/_security/api/internalusers''
      then Some (userManipulations (remove_all path ''/_plugins/_security/api/internalusers/'') verb)
      else if HasPrefix path ''/_index_template/''
      then Some (templateManipulations (remove_all path ''/_index_template/'') verb)
      else if HasPrefix path ''/_nodes/reload_secure_settings'' then Some nodes_text
      else if HasPrefix path ''/_alias/'' then Some (aliasManipulations (remove_all path ''/_alias/'') verb)
      else if Contains path ''/_aliases/'' then Some (aliasManipulations (after_last_slash path) verb)
      else if Contains path ''/_snapshot/snapshots/_verify'' then Some ''{\"status\": 200}''
      else if HasPrefix path ''/_cat/indices'' then Some indices_text
      else if HasPrefix path ''/'' then Some (indexManipulations (remove_first_slash path) verb)
      else None)"

definition no_option :: "string \<Rightarrow> go_error" where
  "no_option path = Err (''there is no option for '' @ [CHR 39] @ path @ [CHR 39] @ '' path'')"

definition stub_Perform :: "http_request \<Rightarrow> go_error + http_response" where
  "stub_Perform rq =
     (case stub_text (rq_url rq) (rq_method rq) of
        None \<Rightarrow> Inl (no_option (rq_url rq))
      | Some b \<Rightarrow> Inr \<lparr>StatusCode = 200, Body = text_body b\<rparr>)"

definition RoundTrip :: "http_request \<Rightarrow> go_error + http_response" where
  "RoundTrip rq =
     (if HasSuffix (rq_url rq) ''backup'' then Inr \<lparr>StatusCode = 200, Body = text_body ''20240322T091826''\<rparr>
      else if HasSuffix (rq_url rq) ''restore'' then Inr \<lparr>StatusCode = 200, Body = text_body ''200''\<rparr>
      else Inl (no_option (rq_url rq)))"

text \<open>An adapter whose OpenSearch is the double; generated values count up.\<close>

definition stub_env :: "(os_call \<Rightarrow> http_request) \<Rightarrow> nat env" where
  "stub_env wire = \<lparr>perform = (\<lambda>c s. (stub_Perform (case c of Perform rq \<Rightarrow> rq | _ \<Rightarrow> wire c), s)),
     curator_do = (\<lambda>rq s. (RoundTrip rq, s)), aggregator_do = (\<lambda>rq s. (RoundTrip rq, s)),
     NewV4 = (\<lambda>n. (Inr (''id-'' @ show_nat n), Suc n)), gen_password = (\<lambda>n. (Inr ''secret'', n)),
     PrepareDatabaseName = (\<lambda>ns ms k s. (Inr (ns @ ''_'' @ ms), s)), poll_retries = (\<lambda>s. (1, s)),
     LookupEnv = (\<lambda>_. None), ReadFile = (\<lambda>_ s. (Inl (Err ''no such file''), s))\<rparr>"

definition stub_world :: "(nat, event) world" where
  "stub_world = \<lparr>srv = 0, trace = []\<rparr>"

section \<open>What the double answers about users\<close>

lemma remove_all_none: "CHR ''/'' \<notin> set s \<Longrightarrow> remove_all s (CHR ''/'' # old) = s"
proof (induction s)
  case Nil
  show ?case by (subst remove_all.simps) simp
next
  case (Cons c s)
  then show ?case by (subst remove_all.simps) auto
qed

lemma users_path_rest:
  assumes "CHR ''/'' \<notin> set name"
  shows "remove_all (users_path @ ''/'' @ name) ''/_plugins/_security/api/internalusers/'' = name"
proof -
  have "remove_all (''/_plugins/_security/api/internalusers/'' @ name) ''/_plugins/_security/api/internalusers/'' =
      remove_all name ''/_plugins/_security/api/internalusers/''"
    by (subst remove_all.simps) (simp add: drop_Cons')
  then show ?thesis using assms by (simp add: users_path_def remove_all_none)
qed

lemma stub_users_route:
  assumes "CHR ''/'' \<notin> set name"
  shows "stub_text (users_path @ ''/'' @ name) verb = Some (userManipulations name verb)"
  using users_path_rest [OF assms]
  by (simp add: stub_text_def HasPrefix_def users_path_def)

definition tenant_prefix :: "string \<Rightarrow> string" where
  "tenant_prefix name = hd (split_on (CHR ''_'') name)"

definition stub_user_doc :: "string \<Rightarrow> json" where
  "stub_user_doc name = JObj [(name, JObj [(''hash'', JStr []), (''reserved'', JBool False), (''hidden'', JBool False),
     (''backend_roles'', JArr [JStr name]), (''attributes'', JObj [(''resource_prefix'', JStr (tenant_prefix name))]),
     (''opendistro_security_roles'', JArr []), (''static'', JBool False)])]"

lemma hd_split_on: "hd (split_on c s) = takeWhile (\<lambda>x. x \<noteq> c) s"
proof (induction s)
  case (Cons x s)
  then show ?case by (cases "split_on c s") (use split_on.elims in force)+
qed simp

lemma plain_tenant: "plain name \<Longrightarrow> plain (tenant_prefix name)"
  unfolding tenant_prefix_def hd_split_on plain_def list_all_iff by (blast dest: set_takeWhileD)

lemma stub_user_read:
  assumes "plain name" "\<not> HasPrefix name ''dbaas_''"
  shows "text_body (userManipulations name ''GET'') = Doc (stub_user_doc name)"
  using assms plain_tenant [OF assms(1)]
  by (intro text_body_read [of 20])
    (simp_all add: userManipulations_def Let_def tenant_prefix_def [symmetric] stub_user_doc_def numeral_eq_Suc reading is_space_def read_literal_def strip_def)

lemma stub_call:
  assumes "CHR ''/'' \<notin> set name" "url_ok (users_path @ ''/'' @ name)"
  shows "run_state (api_Do (stub_env wire) (api_http verb (users_path @ ''/'' @ name) b o1)) w =
    (Inr \<lparr>StatusCode = 200, Body = text_body (userManipulations name verb)\<rparr>,
     w\<lparr>trace := trace w @ [OpenSearch (Perform (api_http verb (users_path @ ''/'' @ name) b o1))]\<rparr>)"
  using assms stub_users_route [OF assms(1), of verb]
  by (simp add: api_Do_def api_http_def opensearch_def request_def stub_env_def stub_Perform_def)

definition stub_user :: "string \<Rightarrow> user" where
  "stub_user name = \<lparr>Attributes = [(''resource_prefix'', tenant_prefix name)], Hash = [], Roles = [name]\<rparr>"

lemma stub_user_decoded:
  "dec_map zero_user dec_user (stub_user_doc name) [] = Some [(name, stub_user name)]"
  by (simp add: stub_user_doc_def stub_user_def dec_user_def field_def find_field_def map_put_def zero_user_def ToLower_def)

text \<open>The lookup and the change as events.\<close>

definition user_lookup :: "string \<Rightarrow> event" where
  "user_lookup name = OpenSearch (Perform (api_http ''GET'' (users_path @ ''/'' @ name) None no_options))"

definition password_change :: "string \<Rightarrow> string \<Rightarrow> event" where
  "password_change name password = OpenSearch (Perform (api_http ''PATCH'' (users_path @ ''/'' @ name)
     (Some (Doc (JArr [enc_change \<lparr>Operation = ''add'', Path = ''/password'', Value = JStr password\<rparr>]))) json_options))"

lemma stub_GetUser:
  assumes "plain name" "\<not> HasPrefix name ''dbaas_''" "CHR ''/'' \<notin> set name" "url_ok (users_path @ ''/'' @ name)"
  shows "run_state (GetUser (stub_env wire) name) w =
    (Inr (Some (stub_user name)),
     w\<lparr>trace := trace w @ [user_lookup name]\<rparr>)"
  unfolding GetUser_def GetUserRequest_Do_def user_lookup_def
  using stub_call [OF assms(3,4)] stub_user_read [OF assms(1,2)]
  by (simp add: run_state_bind stub_user_decoded first_entry_def)

lemma stub_patched:
  "text_body (userManipulations name ''PATCH'') = Doc (JObj [(''status'', JStr ''OK''), (''message'', JStr ''Resource updated.'')])"
proof -
  have "userManipulations name ''PATCH'' = userManipulations [] ''PATCH''" by (simp add: userManipulations_def)
  moreover have "text_body (userManipulations [] ''PATCH'') = Doc (JObj [(''status'', JStr ''OK''), (''message'', JStr ''Resource updated.'')])"
    by code_simp
  ultimately show ?thesis by simp
qed

lemma stub_PatchUser:
  assumes "CHR ''/'' \<notin> set name" "url_ok (users_path @ ''/'' @ name)" "password \<noteq> []"
  shows "run_state (PatchUser (stub_env wire) name password [] role) w =
    (Inr (), w\<lparr>trace := trace w @ [password_change name password]\<rparr>)"
proof -
  have retries: "poll_retries (stub_env wire) n = (1, n)" for n by (simp add: stub_env_def)
  have run: "run_state (PatchUserRequest_Do (stub_env wire) name b o1) w =
    (Inr \<lparr>StatusCode = 200, Body = text_body (userManipulations name ''PATCH'')\<rparr>,
     w\<lparr>trace := trace w @ [OpenSearch (Perform (api_http ''PATCH'' (users_path @ ''/'' @ name) (Some b) o1))]\<rparr>)" for b o1 w
    unfolding PatchUserRequest_Do_def by (rule stub_call [OF assms(1,2)])
  show ?thesis
    using assms(3)
    by (simp add: PatchUser_def run_state_bind silent_def retries poll_immediate_def run stub_patched user_written_def
        attempt_body_def user_changes_def password_change_def Let_def)
qed

section \<open>The unit tests, for every name\<close>

text \<open>
  The password of a user of a tenant is changed without moving the user. Run against the double,
  for every user name and password it can be asked for, \<^verbatim>\<open>ensureUser\<close> answers with the name and the password
  it was given, the resource prefix the user already has, and the user as its only resource. It sends
  a lookup, the change and a lookup. The tests \<^verbatim>\<open>TestUpdateUserWithPassword\<close>, \<^verbatim>\<open>TestUpdateDmlUserWithPassword\<close> and
  \<^verbatim>\<open>TestUpdateMultiUserPassword\<close> are the instances of it the repository checks.
\<close>

theorem stub_ensureUser:
  assumes "plain name" "\<not> HasPrefix name ''dbaas_''" "CHR ''/'' \<notin> set name" "url_ok (users_path @ ''/'' @ name)"
    and "name \<noteq> []" "password \<noteq> []" "tenant_prefix name \<noteq> []"
  shows "\<exists>u w'. run_state (ensureUser (stub_env wire) bp name
      \<lparr>ucr_DbName = [], ucr_Password = password, ucr_Role = role\<rparr>) w = (Inr u, w') \<and>
    cp_Username (cu_ConnectionProperties u) = name \<and> cp_Password (cu_ConnectionProperties u) = password \<and>
    cp_ResourcePrefix (cu_ConnectionProperties u) = tenant_prefix name \<and>
    cp_Role (cu_ConnectionProperties u) = (if role = [] then AdminRoleType else role) \<and>
    cu_Name u = [] \<and> cu_Resources u = [resource UserKind name] \<and>
    trace w' = trace w @ [user_lookup name, password_change name password, user_lookup name]"
proof -
  note get = stub_GetUser [OF assms(1-4)] and patch = stub_PatchUser [OF assms(3,4,6)]
  have role: "AdminRoleType \<noteq> []" by (simp add: AdminRoleType_def)
  show ?thesis
    using assms(5-7) role
    by (simp add: ensureUser_def createOrUpdateUser_def onOk_def run_state_bind get patch Let_def
        GetExtendedConnectionProperties_def getConnectionProperties_def stub_user_def map_get_def
        resourcePrefixAttributeName_def)
qed

theorem stub_ensureUser_witness:
  "\<exists>u w'. run_state (ensureUser (stub_env (\<lambda>_. api_http ''GET'' ''/'' None no_options))
       \<lparr>os_Host = ''localhost'', os_Port = 9200, os_Protocol = ''http'', ApiVersion = ''v2'', recoveryState = ''idle''\<rparr>
       ''7a6f314a-66ee-4999-a841-064b138e163e_5b891494edba4aa5a17568726690c3f2''
       \<lparr>ucr_DbName = [], ucr_Password = ''eX5l#RqbdQ'', ucr_Role = []\<rparr>) stub_world = (Inr u, w') \<and>
     cp_ResourcePrefix (cu_ConnectionProperties u) = ''7a6f314a-66ee-4999-a841-064b138e163e'' \<and>
     cp_Password (cu_ConnectionProperties u) = ''eX5l#RqbdQ'' \<and>
     cu_Resources u = [resource UserKind ''7a6f314a-66ee-4999-a841-064b138e163e_5b891494edba4aa5a17568726690c3f2'']"
proof -
  let ?name = "''7a6f314a-66ee-4999-a841-064b138e163e_5b891494edba4aa5a17568726690c3f2''"
  have h: "plain ?name" "\<not> HasPrefix ?name ''dbaas_''" "CHR ''/'' \<notin> set ?name" "url_ok (users_path @ ''/'' @ ?name)"
      "?name \<noteq> []" "''eX5l#RqbdQ'' \<noteq> []"
    by code_simp+
  have p: "tenant_prefix ?name = ''7a6f314a-66ee-4999-a841-064b138e163e''" by code_simp
  then have q: "tenant_prefix ?name \<noteq> []" by simp
  show ?thesis
    using stub_ensureUser [OF h q, of "\<lambda>_. api_http ''GET'' ''/'' None no_options"
        "\<lparr>os_Host = ''localhost'', os_Port = 9200, os_Protocol = ''http'', ApiVersion = ''v2'', recoveryState = ''idle''\<rparr>"
        "[]" stub_world] p by fastforce
qed

text \<open>The test of the read-only role, and the deletion of a user, which the double always confirms.\<close>

lemma TestGetRoleWithReadOnlyPermission:
  "fst (run_state (GetRole (stub_env wire) (role_name ReadOnlyRoleType)) stub_world) =
     Inr (Some \<lparr>ClusterPermissions = [''cluster:monitor/state''],
       IndexPermissions = [\<lparr>IndexPatterns = [AttributeResourcePrefix],
         AllowedActions = [''indices:data/read/*'', ToUpper ''indices:data/read/*'']\<rparr>]\<rparr>)"
  by code_simp

lemma TestDeleteUser:
  assumes "CHR ''/'' \<notin> set name" "url_ok (users_path @ ''/'' @ name)"
  shows "fst (run_state (deleteUser (stub_env wire) name) w) = Inr ()"
  unfolding deleteUser_def DeleteUserRequest_Do_def onOk_def using stub_call [OF assms] by (simp add: run_state_bind)

text \<open>The double knows every path that starts with a slash, so only a relative one is refused.\<close>

lemma stub_refuses: "stub_Perform rq = Inl e \<Longrightarrow> \<not> HasPrefix (rq_url rq) ''/''"
  by (auto simp: stub_Perform_def stub_text_def split: option.splits if_splits)

section \<open>Conversions and log lines\<close>

text \<open>
  \<^verbatim>\<open>ConvertStructToMap\<close> as it is written: the struct is printed and the text read back as a map; \<open>enc\<close> is the encoder
  of the struct. Numbers become floats in Go; here they stay integers.
\<close>

definition marshal_to_map :: "('a \<Rightarrow> json) \<Rightarrow> 'a \<Rightarrow> go_error + json go_map" where
  "marshal_to_map enc structure = unmarshal (dec_map JNull dec_any) (text_body (json_print (enc structure))) []"

definition Max :: "int \<Rightarrow> int \<Rightarrow> int" where
  "Max x y = (if x > y then x else y)"

text \<open>A context is what it holds for each key.\<close>

definition GetCtxStringValue :: "(string \<Rightarrow> json option) \<Rightarrow> string \<Rightarrow> string" where
  "GetCtxStringValue ctx key = (case ctx key of None \<Rightarrow> [] | Some v \<Rightarrow> ConvertAnyToString v)"

text \<open>The line that the log handler prints for a record: time, level, identifier of the request, message.\<close>

definition log_line :: "string \<Rightarrow> string \<Rightarrow> string option \<Rightarrow> string \<Rightarrow> string" where
  "log_line timeStr level requestId msg =
     timeStr @ '' ['' @ level @ ''] [request_id='' @ (case requestId of None \<Rightarrow> '' '' | Some i \<Rightarrow> i) @
     ''] [tenant_id= ] [thread= ] [class= ] '' @ msg @ [CHR 10]"

lemma dec_entries_any:
  assumes "distinct (map fst (m @ kvs))"
  shows "dec_entries z dec_any kvs m = Some (m @ kvs)"
  using assms
proof (induction kvs arbitrary: m)
  case (Cons kv kvs)
  obtain k v where kv: "kv = (k, v)" by (cases kv)
  have "map_put k v m = m @ [(k, v)]"
    using Cons.prems kv by (induction m) (auto simp: map_put_def)
  then show ?case using Cons.IH [of "m @ [(k, v)]"] Cons.prems kv by simp
qed simp

lemma marshal_to_map_members:
  assumes "enc x = JObj members" "distinct (map fst members)"
  shows "marshal_to_map enc x = Inr members"
  using assms dec_entries_any [of "[]" members JNull] unfolding marshal_to_map_def text_body_printed by simp

text \<open>
  Turning the connection properties into a map loses nothing: printing them as JSON and reading the text
  back, as the code does, gives exactly the members that are sent to the aggregator, whatever
  characters the names and passwords hold.
\<close>

theorem connection_survives_printing:
  "marshal_to_map enc_connection c = Inr (ConvertStructToMap c)"
proof -
  have "enc_connection c = JObj (ConvertStructToMap c)"
    by (simp add: ConvertStructToMap_def enc_connection_def)
  moreover have "distinct (map fst (ConvertStructToMap c))"
    by (auto simp: ConvertStructToMap_def enc_connection_def omit_empty_def)
  ultimately show ?thesis by (rule marshal_to_map_members)
qed

end
