(* ===== verification/Operator_Base.thy ===== *)
theory Operator_Base
  imports Http "HOL-Library.List_Lexorder" "HOL-Library.Char_ord"
begin

text \<open>
  The base of the operator: the custom resource (\<^verbatim>\<open>api/v1\<close>), the REST client and the helpers of the
  package \<^verbatim>\<open>util\<close>, and the operations on Kubernetes objects that all reconcilers share
  (\<^verbatim>\<open>opensearchservice_reconciler.go\<close>, \<^verbatim>\<open>condition.go\<close>).

  The Kubernetes client, the HTTP transport, SHA-256, YAML and regular expressions are fields of
  the record \<open>op_env\<close>, functions on an abstract outside state. A Kubernetes object is a record of the
  fields the operator reads or writes; the API server fills in the number of replicas of a
  deployment or stateful set, so it is a number and not a pointer. What the process keeps in memory,
  such as the copy of the custom resource the reconcilers share, extends the world.
\<close>

section \<open>The custom resource\<close>

record s3 =
  s3_Enabled :: bool
  s3_PathStyleAccess :: bool
  s3_Url :: string
  s3_Bucket :: string
  s3_BasePath :: string
  s3_Region :: string
  s3_SecretName :: string
  s3_GcsEnabled :: bool

record snapshots =
  RepositoryName :: string
  snapshots_S3 :: "s3 option"

record opensearch_spec =
  DedicatedClientPod :: bool
  DedicatedDataPod :: bool
  Snapshots :: "snapshots option"
  SecurityConfigurationName :: string
  CompatibilityModeEnabled :: bool
  RollingUpdate :: bool
  StatefulSetNames :: string
  ReadinessTimeout :: string
  DisabledRestCategories :: "string list option"

record external_opensearch =
  ext_Config :: "string go_map option"
  ext_Url :: string

record dashboards =
  dashboards_Name :: string
  dashboards_SecretName :: string

record slow_queries =
  IndicesPattern :: string
  MinSeconds :: int

record monitoring =
  monitoring_Name :: string
  monitoring_SecretName :: string
  SlowQueries :: "slow_queries option"

record dbaas_adapter =
  AdapterAddress :: string
  AggregatorAddress :: string
  dbaas_Name :: string
  PhysicalDatabaseIdentifier :: string
  dbaas_SecretName :: string

record elasticsearch_dbaas_adapter =
  elasticsearch_Name :: string
  elasticsearch_SecretName :: string

record curator_spec =
  curator_Name :: string
  curator_SecretName :: string

record disaster_recovery =
  dr_Mode :: string
  NoWait :: bool
  ConfigMapName :: string
  ReplicationWatcherEnabled :: bool
  ReplicationWatcherInterval :: int

record service_spec =
  OpenSearch_spec :: "opensearch_spec option"
  ExternalOpenSearch :: "external_opensearch option"
  Dashboards :: "dashboards option"
  Monitoring :: "monitoring option"
  DbaasAdapter :: "dbaas_adapter option"
  ElasticsearchDbaasAdapter :: "elasticsearch_dbaas_adapter option"
  Curator_spec :: "curator_spec option"
  DisasterRecovery :: "disaster_recovery option"

record disaster_recovery_status =
  drs_Mode :: string
  drs_Status :: string
  drs_Comment :: string
  drs_Message :: string
  UsersRecoveryState :: string

record stateful_set_status =
  sss_Name :: string
  LastStatefulSetGeneration :: int
  UpdatedReplicas :: "int list"

record rolling_update_status =
  rus_Status :: string
  StatefulSetStatuses :: "stateful_set_status list"

record status_condition =
  cond_Type :: string
  cond_Status :: string
  cond_Reason :: string
  cond_Message :: string
  LastTransitionTime :: string

record service_status =
  DisasterRecoveryStatus :: disaster_recovery_status
  Conditions :: "status_condition list"
  RollingUpdateStatus :: rolling_update_status

record opensearch_service =
  cr_APIVersion :: string
  cr_Kind :: string
  cr_Name :: string
  cr_Namespace :: string
  cr_Spec :: service_spec
  cr_Status :: service_status

section \<open>Kubernetes objects\<close>

record owner_reference =
  ref_Name :: string
  ref_APIVersion :: string
  ref_Kind :: string
  ref_Controller :: bool

record secret =
  secret_Name :: string
  secret_Owners :: "owner_reference list"
  secret_Data :: "string go_map"
  StringData :: "string go_map"

record config_map =
  cm_Name :: string
  cm_Owners :: "owner_reference list"
  cm_Data :: "string go_map"

text \<open>The annotations of a pod template and the selector of a service may be \<^verbatim>\<open>nil\<close>.\<close>

record deployment =
  deployment_Name :: string
  template_Annotations :: "string go_map option"
  deployment_Replicas :: int
  ReadyReplicas :: int
  deployment_UpdatedReplicas :: int

record k8s_service =
  service_Name :: string
  Selector :: "string go_map option"

record stateful_set =
  sts_Name :: string
  sts_Owners :: "owner_reference list"
  sts_Generation :: int
  UpdateStrategy :: string
  sts_Replicas :: int
  sts_UpdatedReplicas :: int

record pod =
  pod_Name :: string
  containers_ready :: "bool list"

definition zero_config_map :: config_map where
  "zero_config_map = \<lparr>cm_Name = [], cm_Owners = [], cm_Data = []\<rparr>"

section \<open>The outside and the memory of the operator\<close>

datatype k8s_kind = K_Secret | K_ConfigMap | K_Deployment | K_Service | K_StatefulSet | K_Pod | K_OpenSearchService

datatype goroutine = WatchReplication int | WatchSlowLog string int

datatype op_event =
    Rest http_request
  | GetObject k8s_kind string
  | UpdateSecret secret
  | UpdateConfigMap config_map
  | UpdateDeployment deployment
  | UpdateService k8s_service
  | UpdateStatefulSet stateful_set
  | DeletePod string
  | UpdateStatus opensearch_service
  | ExecInPod string string "string list"
  | Go goroutine

text \<open>
  An update answers with the object as the API server has stored it. \<open>reader_rest\<close> is what a reader
  of the given text still gives once a request has used it: how much was read is up to the transport.
\<close>

record 's op_env =
  http_do :: "http_request \<Rightarrow> 's \<Rightarrow> (go_error + http_response) \<times> 's"
  get_secret :: "string \<Rightarrow> string \<Rightarrow> 's \<Rightarrow> (go_error + secret) \<times> 's"
  put_secret :: "secret \<Rightarrow> 's \<Rightarrow> (go_error + secret) \<times> 's"
  get_config_map :: "string \<Rightarrow> string \<Rightarrow> 's \<Rightarrow> (go_error + config_map) \<times> 's"
  put_config_map :: "config_map \<Rightarrow> 's \<Rightarrow> (go_error + config_map) \<times> 's"
  get_deployment :: "string \<Rightarrow> string \<Rightarrow> 's \<Rightarrow> (go_error + deployment) \<times> 's"
  put_deployment :: "deployment \<Rightarrow> 's \<Rightarrow> (go_error + deployment) \<times> 's"
  get_service :: "string \<Rightarrow> string \<Rightarrow> 's \<Rightarrow> (go_error + k8s_service) \<times> 's"
  put_service :: "k8s_service \<Rightarrow> 's \<Rightarrow> (go_error + k8s_service) \<times> 's"
  get_stateful_set :: "string \<Rightarrow> string \<Rightarrow> 's \<Rightarrow> (go_error + stateful_set) \<times> 's"
  put_stateful_set :: "stateful_set \<Rightarrow> 's \<Rightarrow> (go_error + stateful_set) \<times> 's"
  get_pod :: "string \<Rightarrow> string \<Rightarrow> 's \<Rightarrow> (go_error + pod) \<times> 's"
  delete_pod :: "pod \<Rightarrow> 's \<Rightarrow> (go_error + unit) \<times> 's"
  get_cr :: "string \<Rightarrow> string \<Rightarrow> 's \<Rightarrow> (go_error + opensearch_service) \<times> 's"
  put_status :: "opensearch_service \<Rightarrow> 's \<Rightarrow> (go_error + unit) \<times> 's"
  NewForConfig :: "go_error option"
  NewSPDYExecutor :: "string \<Rightarrow> string \<Rightarrow> string \<Rightarrow> string list \<Rightarrow> go_error option"
  exec_stream :: "string \<Rightarrow> string \<Rightarrow> string \<Rightarrow> string list \<Rightarrow> 's \<Rightarrow> (go_error option \<times> string \<times> string) \<times> 's"
  attempts_left :: "'s \<Rightarrow> nat \<times> 's"
  now :: "'s \<Rightarrow> string \<times> 's"
  IsConflict :: "go_error \<Rightarrow> bool"
  IsNotFound :: "go_error \<Rightarrow> bool"
  GetControllerOf :: "owner_reference list \<Rightarrow> owner_reference option"
  SetControllerReference :: "opensearch_service \<Rightarrow> owner_reference list \<Rightarrow> go_error + owner_reference list"
  ParseGroupVersion :: "string \<Rightarrow> go_error + string"
  sha256 :: "string \<Rightarrow> string"
  yaml_Unmarshal :: "string \<Rightarrow> go_error + json"
  regexp_Compile :: "string \<Rightarrow> go_error + (string \<Rightarrow> bool)"
  Getenv :: "string \<Rightarrow> string"
  file_exists :: "string \<Rightarrow> bool"
  unreadable :: "string \<Rightarrow> go_error option"
  reader_rest :: "string \<Rightarrow> 's \<Rightarrow> string \<times> 's"

text \<open>
  The memory: the fields of \<^verbatim>\<open>OpenSearchServiceReconciler\<close> (the hashes and the states of the two
  watchers), the package variable \<^verbatim>\<open>opensearchSecretHash\<close>, and the instance of the custom resource
  that the reconcilers of one cycle share by reference.
\<close>

record 's op_world = "('s, op_event) world" +
  ResourceHashes :: "string go_map"
  watcher_state :: string
  slowlog_state :: string
  opensearchSecretHash :: string
  the_cr :: opensearch_service

type_synonym ('s, 'a) operator = "('s op_world, 'a) state"

definition try_times :: "'s op_env \<Rightarrow> ('s, nat) operator" where
  "try_times E = silent (attempts_left E)"

section \<open>The package util\<close>

record credentials =
  cr_Username :: string
  cr_Password :: string

definition zero_credentials :: credentials where
  "zero_credentials = \<lparr>cr_Username = [], cr_Password = []\<rparr>"

record rest_client =
  rc_url :: string
  rc_credentials :: credentials

definition NewRestClient :: "string \<Rightarrow> credentials \<Rightarrow> rest_client" where
  "NewRestClient url c = \<lparr>rc_url = url, rc_credentials = c\<rparr>"

text \<open>
  The results of \<^verbatim>\<open>SendBasicRequest\<close>: status code, body and error. Without a response the status is
  0 and the body empty; a body that cannot be read leaves the status and an error.
\<close>

type_synonym rest_result = "int \<times> body \<times> go_error option"

definition rest_request :: "rest_client \<Rightarrow> string \<Rightarrow> string \<Rightarrow> body option \<Rightarrow> bool \<Rightarrow> http_request" where
  "rest_request rc verb path b useHeaders =
     \<lparr>rq_method = verb, rq_url = rc_url rc @ ''/'' @ path, rq_query = [],
      rq_headers = (if useHeaders then [(''Accept'', ''application/json''), (''Content-Type'', ''application/json'')] else []),
      rq_auth = (if cr_Username (rc_credentials rc) \<noteq> [] \<and> cr_Password (rc_credentials rc) \<noteq> []
                 then Some (cr_Username (rc_credentials rc), cr_Password (rc_credentials rc)) else None),
      rq_body = b\<rparr>"

definition rest_outcome :: "go_error + http_response \<Rightarrow> rest_result" where
  "rest_outcome x =
     (case x of
        Inl e \<Rightarrow> (0, Text [], Some e)
      | Inr response \<Rightarrow>
          (case Body response of
             Unreadable e \<Rightarrow> (StatusCode response, Text [], Some e)
           | b \<Rightarrow> (StatusCode response, b, None)))"

definition SendBasicRequest ::
  "'s op_env \<Rightarrow> rest_client \<Rightarrow> string \<Rightarrow> string \<Rightarrow> body option \<Rightarrow> bool \<Rightarrow> ('s, rest_result) operator" where
  "SendBasicRequest E rc verb path b useHeaders =
     (let rq = rest_request rc verb path b useHeaders in
      if url_ok (rq_url rq) then do { x \<leftarrow> request (Rest rq) (http_do E rq); return (rest_outcome x) }
      else return (0, Text [], Some bad_url))"

definition SendRequest :: "'s op_env \<Rightarrow> rest_client \<Rightarrow> string \<Rightarrow> string \<Rightarrow> body option \<Rightarrow> ('s, rest_result) operator" where
  "SendRequest E rc verb path b = SendBasicRequest E rc verb path b True"

text \<open>A body as the verb \<^verbatim>\<open>%s\<close> prints it.\<close>

definition body_text :: "body \<Rightarrow> string" where
  "body_text b = (case ReadAll b of Inl _ \<Rightarrow> [] | Inr s \<Rightarrow> s)"

definition SendRequestWithStatusCodeCheck ::
  "'s op_env \<Rightarrow> rest_client \<Rightarrow> string \<Rightarrow> string \<Rightarrow> body option \<Rightarrow> ('s, go_error + body) operator" where
  "SendRequestWithStatusCodeCheck E rc verb path b = do {
     (statusCode, responseBody, err) \<leftarrow> SendRequest E rc verb path b;
     return (if statusCode \<ge> 400 then
         Inl (Err (verb @ '' request to '' @ rc_url rc @ ''/'' @ path @ '' returned ['' @ show_int statusCode @ ''] status code: '' @ body_text responseBody))
       else (case err of Some e \<Rightarrow> Inl e | None \<Rightarrow> Inr responseBody)) }"

text \<open>The filter of \<^verbatim>\<open>GetArrayData\<close> may send requests of its own.\<close>

fun filter_data :: "('a \<Rightarrow> ('w, bool) state) \<Rightarrow> 'a list \<Rightarrow> ('w, 'a list) state" where
  "filter_data flt [] = return []"
| "filter_data flt (x # xs) = do {
     keep \<leftarrow> flt x;
     rest \<leftarrow> filter_data flt xs;
     return (if keep then x # rest else rest) }"

definition GetArrayData ::
  "'s op_env \<Rightarrow> rest_client \<Rightarrow> string \<Rightarrow> string \<Rightarrow> (string \<Rightarrow> ('s, bool) operator) \<Rightarrow> ('s, go_error + string list) operator" where
  "GetArrayData E rc path key flt = do {
     (_, b, err) \<leftarrow> SendRequest E rc ''GET'' path None;
     (case err of
        Some e \<Rightarrow> return (Inl e)
      | None \<Rightarrow>
          (case unmarshal (dec_list [] (dec_map [] dec_string)) b [] of
             Inl e \<Rightarrow> return (Inl e)
           | Inr slice \<Rightarrow> do {
               items \<leftarrow> filter_data flt (map (\<lambda>d. map_get [] d key) slice);
               return (Inr items) })) }"

definition FilterSlice :: "string list \<Rightarrow> (string \<Rightarrow> bool) \<Rightarrow> string list" where
  "FilterSlice xs f = filter f xs"

fun ArrayContains :: "int list \<Rightarrow> int \<Rightarrow> bool" where
  "ArrayContains [] x = False"
| "ArrayContains (y # ys) x = (if y = x then True else ArrayContains ys x)"

definition Min32 :: "int \<Rightarrow> int \<Rightarrow> int" where
  "Min32 a b = (if a < b then a else b)"

definition GetIntEnvironmentVariable :: "'s op_env \<Rightarrow> string \<Rightarrow> int \<Rightarrow> int \<times> go_error option" where
  "GetIntEnvironmentVariable E varName defaultValue =
     (case Atoi (Getenv E varName) of
        None \<Rightarrow> (defaultValue, Some (Err (''unable to parse variable '' @ varName @ '' with value: '' @ Getenv E varName)))
      | Some n \<Rightarrow> (n, None))"

text \<open>\<^verbatim>\<open>Hash\<close> and what it is applied to: maps print with sorted keys, bytes as base64.\<close>

definition Hash :: "'s op_env \<Rightarrow> json \<Rightarrow> string" where
  "Hash E j = sha256 E (json_print j)"

definition base64_digit :: "nat \<Rightarrow> char" where
  "base64_digit n = ''ABCDEFGHIJKLMNOPQRSTUVWXYZabcdefghijklmnopqrstuvwxyz0123456789+/'' ! n"

fun base64 :: "string \<Rightarrow> string" where
  "base64 [] = []"
| "base64 [a] = (let n = of_char a * 16 in [base64_digit (n div 64), base64_digit (n mod 64)] @ ''=='')"
| "base64 [a, b] = (let n = (of_char a * 256 + of_char b) * 4 in
     [base64_digit (n div 4096), base64_digit (n div 64 mod 64), base64_digit (n mod 64)] @ ''='')"
| "base64 (a # b # c # rest) = (let n = (of_char a * 256 + of_char b) * 256 + of_char c in
     [base64_digit (n div 262144), base64_digit (n div 4096 mod 64), base64_digit (n div 64 mod 64), base64_digit (n mod 64)] @
     base64 rest)"

definition enc_bytes_map :: "string go_map \<Rightarrow> json" where
  "enc_bytes_map m = (if m = [] then JNull else JObj (map (\<lambda>(k, v). (k, JStr (base64 v))) (sort_key fst m)))"

definition enc_sorted_map :: "string go_map \<Rightarrow> json" where
  "enc_sorted_map m = (if m = [] then JNull else JObj (map (\<lambda>(k, v). (k, JStr v)) (sort_key fst m)))"

text \<open>
  \<^verbatim>\<open>UpdateStatusWithRetry\<close>: every attempt reads the instance, changes it and writes its status. The
  library function \<^verbatim>\<open>RetryOnConflict\<close> repeats an attempt that ends in a conflict; how often is left
  to the outside.
\<close>

definition update_status_once ::
  "'s op_env \<Rightarrow> (opensearch_service \<Rightarrow> ('s, opensearch_service) operator) \<Rightarrow> ('s, go_error + unit) operator" where
  "update_status_once E f = do {
     c \<leftarrow> recall the_cr;
     onOk (request (GetObject K_OpenSearchService (cr_Name c)) (get_cr E (cr_Name c) (cr_Namespace c))) (\<lambda>instance. do {
       changed \<leftarrow> f instance;
       request (UpdateStatus changed) (put_status E changed) }) }"

fun retry_on_conflict :: "nat \<Rightarrow> 's op_env \<Rightarrow> ('s, go_error + unit) operator \<Rightarrow> ('s, go_error + unit) operator" where
  "retry_on_conflict 0 E m = m"
| "retry_on_conflict (Suc n) E m = do {
     r \<leftarrow> m;
     (case r of
        Inl e \<Rightarrow> if IsConflict E e then retry_on_conflict n E m else return (Inl e)
      | Inr u \<Rightarrow> return (Inr u)) }"

definition UpdateStatusWithRetry ::
  "'s op_env \<Rightarrow> (opensearch_service \<Rightarrow> ('s, opensearch_service) operator) \<Rightarrow> ('s, go_error + unit) operator" where
  "UpdateStatusWithRetry E f = do { n \<leftarrow> try_times E; retry_on_conflict n E (update_status_once E f) }"

section \<open>Operations on Kubernetes objects\<close>

definition findSecret :: "'s op_env \<Rightarrow> string \<Rightarrow> string \<Rightarrow> ('s, go_error + secret) operator" where
  "findSecret E name namespace = request (GetObject K_Secret name) (get_secret E name namespace)"

definition updateSecret :: "'s op_env \<Rightarrow> secret \<Rightarrow> ('s, go_error + secret) operator" where
  "updateSecret E s = request (UpdateSecret s) (put_secret E s)"

definition referSameObject ::
  "'s op_env \<Rightarrow> string \<Rightarrow> string \<Rightarrow> string \<Rightarrow> string \<Rightarrow> string \<Rightarrow> string \<Rightarrow> bool" where
  "referSameObject E aName aGroup aKind bName bGroup bKind \<longleftrightarrow>
     (case ParseGroupVersion E aGroup of
        Inl _ \<Rightarrow> False
      | Inr a \<Rightarrow>
          (case ParseGroupVersion E bGroup of
             Inl _ \<Rightarrow> False
           | Inr b \<Rightarrow> a = b \<and> aKind = bKind \<and> aName = bName))"

text \<open>
  The part the three \<^verbatim>\<open>watch\<close> operations share: another controller's references are dropped, and the
  custom resource becomes the controller.
\<close>

definition take_ownership :: "'s op_env \<Rightarrow> opensearch_service \<Rightarrow> owner_reference list \<Rightarrow> go_error + owner_reference list" where
  "take_ownership E c owners =
     SetControllerReference E c
       (case GetControllerOf E owners of
          Some existing \<Rightarrow>
            (if \<not> referSameObject E (ref_Name existing) (ref_APIVersion existing) (ref_Kind existing)
                   (cr_Name c) (cr_APIVersion c) (cr_Kind c) then [] else owners)
        | None \<Rightarrow> owners)"

definition watchSecret :: "'s op_env \<Rightarrow> string \<Rightarrow> ('s, go_error + secret) operator" where
  "watchSecret E secretName = do {
     c \<leftarrow> recall the_cr;
     onOk (findSecret E secretName (cr_Namespace c)) (\<lambda>s.
       (case take_ownership E c (secret_Owners s) of
          Inl e \<Rightarrow> return (Inl e)
        | Inr owners \<Rightarrow> updateSecret E (s\<lparr>secret_Owners := owners\<rparr>))) }"

definition updateSecretWithCredentials :: "'s op_env \<Rightarrow> string \<Rightarrow> string \<Rightarrow> credentials \<Rightarrow> ('s, go_error + unit) operator" where
  "updateSecretWithCredentials E name namespace c =
     onOk (findSecret E name namespace) (\<lambda>s.
     onOk (updateSecret E (s\<lparr>StringData := [(''username'', cr_Username c), (''password'', cr_Password c)]\<rparr>)) (\<lambda>_.
     return (Inr ())))"

definition calculateSecretDataHash :: "'s op_env \<Rightarrow> string \<Rightarrow> string \<Rightarrow> ('s, go_error + string) operator" where
  "calculateSecretDataHash E secretName hashName = do {
     c \<leftarrow> recall the_cr;
     hashes \<leftarrow> recall ResourceHashes;
     onOk (if map_get [] hashes hashName = [] then watchSecret E secretName
           else findSecret E secretName (cr_Namespace c)) (\<lambda>s.
     return (Inr (Hash E (enc_bytes_map (secret_Data s))))) }"

definition parseSecretCredentialsByKeys ::
  "'s op_env \<Rightarrow> string \<Rightarrow> string \<Rightarrow> string \<Rightarrow> string \<Rightarrow> ('s, credentials) operator" where
  "parseSecretCredentialsByKeys E name namespace usernameKey passwordKey = do {
     r \<leftarrow> findSecret E name namespace;
     return (case r of
       Inl _ \<Rightarrow> zero_credentials
     | Inr s \<Rightarrow>
         (let username = map_get [] (secret_Data s) usernameKey; password = map_get [] (secret_Data s) passwordKey in
          if username \<noteq> [] \<and> password \<noteq> [] then \<lparr>cr_Username = username, cr_Password = password\<rparr>
          else zero_credentials)) }"

definition parseSecretCredentials :: "'s op_env \<Rightarrow> string \<Rightarrow> string \<Rightarrow> ('s, credentials) operator" where
  "parseSecretCredentials E name namespace = parseSecretCredentialsByKeys E name namespace ''username'' ''password''"

definition secret_name :: "opensearch_service \<Rightarrow> string" where
  "secret_name c = cr_Name c @ ''-secret''"

definition old_secret_name :: "opensearch_service \<Rightarrow> string" where
  "old_secret_name c = cr_Name c @ ''-secret-old''"

definition parseOpenSearchCredentials :: "'s op_env \<Rightarrow> ('s, credentials) operator" where
  "parseOpenSearchCredentials E = do {
     c \<leftarrow> recall the_cr;
     (if ExternalOpenSearch (cr_Spec c) \<noteq> None then parseSecretCredentials E (secret_name c) (cr_Namespace c)
      else parseSecretCredentials E (old_secret_name c) (cr_Namespace c)) }"

definition findConfigMap :: "'s op_env \<Rightarrow> string \<Rightarrow> string \<Rightarrow> ('s, go_error + config_map) operator" where
  "findConfigMap E name namespace = request (GetObject K_ConfigMap name) (get_config_map E name namespace)"

definition updateConfigMap :: "'s op_env \<Rightarrow> config_map \<Rightarrow> ('s, go_error + config_map) operator" where
  "updateConfigMap E m = request (UpdateConfigMap m) (put_config_map E m)"

definition watchConfigMap :: "'s op_env \<Rightarrow> string \<Rightarrow> ('s, go_error + config_map) operator" where
  "watchConfigMap E cmName = do {
     c \<leftarrow> recall the_cr;
     onOk (findConfigMap E cmName (cr_Namespace c)) (\<lambda>m.
       (case take_ownership E c (cm_Owners m) of
          Inl e \<Rightarrow> return (Inl e)
        | Inr owners \<Rightarrow> updateConfigMap E (m\<lparr>cm_Owners := owners\<rparr>))) }"

definition calculateConfigDataHash :: "'s op_env \<Rightarrow> string \<Rightarrow> string \<Rightarrow> ('s, go_error + string) operator" where
  "calculateConfigDataHash E cmName hashName = do {
     c \<leftarrow> recall the_cr;
     hashes \<leftarrow> recall ResourceHashes;
     onOk (if map_get [] hashes hashName = [] then watchConfigMap E cmName
           else findConfigMap E cmName (cr_Namespace c)) (\<lambda>m.
     return (Inr (Hash E (enc_sorted_map (cm_Data m))))) }"

text \<open>
  The command is streamed to the pod; \<open>exec_stream\<close> gives the error of the stream and what the command
  wrote to its two outputs. The configuration of the cluster is the one the process was started with.
\<close>

definition runCommandInPod :: "'s op_env \<Rightarrow> string \<Rightarrow> string \<Rightarrow> string \<Rightarrow> string list \<Rightarrow> ('s, go_error + unit) operator" where
  "runCommandInPod E podName container namespace command =
     (case NewForConfig E of
        Some err \<Rightarrow> return (Inl err)
      | None \<Rightarrow>
          (case NewSPDYExecutor E podName container namespace command of
             Some err \<Rightarrow> return (Inl (Err (''unable execute command via SPDY: '' @ err_text err)))
           | None \<Rightarrow> do {
               (err, execOut, execErr) \<leftarrow>
                 request (ExecInPod podName container command) (exec_stream E podName container namespace command);
               return (case err of
                   Some e \<Rightarrow>
                     (if Contains (err_text e) ''command terminated with exit code 127''
                      then Inl (Err (''the command ['' @ join '' '' command @ ''] is not found in '' @ [CHR 39] @ podName @
                             [CHR 39] @ '' pod''))
                      else Inl (Err (''there is a problem during command execution: '' @ err_text e)))
                 | None \<Rightarrow>
                     (if execErr \<noteq> [] then Inl (Err (''there is a problem during command execution: '' @ execErr))
                      else Inr ())) }))"

definition findDeployment :: "'s op_env \<Rightarrow> string \<Rightarrow> string \<Rightarrow> ('s, go_error + deployment) operator" where
  "findDeployment E name namespace = request (GetObject K_Deployment name) (get_deployment E name namespace)"

definition updateDeployment :: "'s op_env \<Rightarrow> deployment \<Rightarrow> ('s, go_error + deployment) operator" where
  "updateDeployment E d = request (UpdateDeployment d) (put_deployment E d)"

definition addAnnotationsToDeployment ::
  "'s op_env \<Rightarrow> string \<Rightarrow> string \<Rightarrow> string go_map \<Rightarrow> ('s, go_error + unit) operator" where
  "addAnnotationsToDeployment E name namespace annotations =
     onOk (findDeployment E name namespace) (\<lambda>d.
     onOk (updateDeployment E (d\<lparr>template_Annotations := Some (case template_Annotations d of
              None \<Rightarrow> annotations
            | Some present \<Rightarrow> fold (\<lambda>(key, v). map_put key v) annotations present)\<rparr>)) (\<lambda>_.
     return (Inr ())))"

definition findService :: "'s op_env \<Rightarrow> string \<Rightarrow> string \<Rightarrow> ('s, go_error + k8s_service) operator" where
  "findService E name namespace = request (GetObject K_Service name) (get_service E name namespace)"

definition updateService :: "'s op_env \<Rightarrow> k8s_service \<Rightarrow> ('s, go_error + unit) operator" where
  "updateService E s = onOk (request (UpdateService s) (put_service E s)) (\<lambda>_. return (Inr ()))"

definition scaleDeployment :: "'s op_env \<Rightarrow> string \<Rightarrow> string \<Rightarrow> int \<Rightarrow> ('s, go_error + unit) operator" where
  "scaleDeployment E name namespace replicas =
     onOk (findDeployment E name namespace) (\<lambda>d.
     onOk (updateDeployment E (d\<lparr>deployment_Replicas := replicas\<rparr>)) (\<lambda>_.
     return (Inr ())))"

definition isDeploymentReady :: "'s op_env \<Rightarrow> string \<Rightarrow> string \<Rightarrow> ('s, bool) operator" where
  "isDeploymentReady E name namespace = do {
     r \<leftarrow> findDeployment E name namespace;
     return (case r of
       Inl _ \<Rightarrow> False
     | Inr d \<Rightarrow> deployment_Replicas d = Min32 (ReadyReplicas d) (deployment_UpdatedReplicas d)) }"

definition scaleDeploymentWithCheck :: "'s op_env \<Rightarrow> string \<Rightarrow> string \<Rightarrow> int \<Rightarrow> ('s, go_error + unit) operator" where
  "scaleDeploymentWithCheck E name namespace replicas =
     onOk (scaleDeployment E name namespace replicas) (\<lambda>_. do {
       n \<leftarrow> try_times E;
       poll n (\<lambda>_. do { ready \<leftarrow> isDeploymentReady E name namespace; return (Inr ready) }) })"

definition scaleDeploymentForNoWait :: "'s op_env \<Rightarrow> string \<Rightarrow> string \<Rightarrow> int \<Rightarrow> bool \<Rightarrow> ('s, go_error + unit) operator" where
  "scaleDeploymentForNoWait E name namespace replicas noWait =
     (if noWait then scaleDeployment E name namespace replicas
      else scaleDeploymentWithCheck E name namespace replicas)"

definition scaleDeploymentForDR :: "'s op_env \<Rightarrow> string \<Rightarrow> ('s, go_error + unit) operator" where
  "scaleDeploymentForDR E name = do {
     c \<leftarrow> recall the_cr;
     (case DisasterRecovery (cr_Spec c) of
        None \<Rightarrow> return (Inr ())
      | Some dr \<Rightarrow>
          (if drs_Mode (DisasterRecoveryStatus (cr_Status c)) = [] then return (Inr ())
           else if ToLower (dr_Mode dr) = ''active'' then scaleDeploymentForNoWait E name (cr_Namespace c) 1 (NoWait dr)
           else if ToLower (dr_Mode dr) = ''standby'' \<or> ToLower (dr_Mode dr) = ''disable''
             then scaleDeploymentForNoWait E name (cr_Namespace c) 0 (NoWait dr)
           else return (Inr ()))) }"

text \<open>The write to the selector panics when it is \<^verbatim>\<open>nil\<close>; deleting a key does not.\<close>

definition disableClientService :: "'s op_env \<Rightarrow> string \<Rightarrow> string \<Rightarrow> ('s, (go_error + unit) go) operator" where
  "disableClientService E name namespace =
     onDone (no_panic (findService E name namespace)) (\<lambda>s.
       (case Selector s of
          None \<Rightarrow> return (Panic ''assignment to entry in nil map'')
        | Some sel \<Rightarrow> no_panic (updateService E (s\<lparr>Selector := Some (map_put ''none'' ''true'' sel)\<rparr>))))"

definition enableClientService :: "'s op_env \<Rightarrow> string \<Rightarrow> string \<Rightarrow> ('s, go_error + unit) operator" where
  "enableClientService E name namespace =
     onOk (findService E name namespace) (\<lambda>s.
       updateService E (s\<lparr>Selector := map_option (map_del ''none'') (Selector s)\<rparr>))"

definition certificateFilePath :: string where
  "certificateFilePath = ''/certs/crt.pem''"

definition createUrl :: "'s op_env \<Rightarrow> string \<Rightarrow> int \<Rightarrow> string" where
  "createUrl E host port =
     (if Getenv E ''OPENSEARCH_HOST'' \<noteq> [] then Getenv E ''OPENSEARCH_HOST''
      else (if file_exists E certificateFilePath then ''https'' else ''http'') @ ''://'' @ host @ ''-internal:'' @ show_int port)"

text \<open>Of the HTTP client only the error that reading the certificate may give is left.\<close>

definition configureClientWithCertificate :: "'s op_env \<Rightarrow> string \<Rightarrow> go_error option" where
  "configureClientWithCertificate E path = (if file_exists E path then unreadable E path else None)"

definition configureClient :: "'s op_env \<Rightarrow> go_error option" where
  "configureClient E = configureClientWithCertificate E certificateFilePath"

definition findStatefulSet :: "'s op_env \<Rightarrow> string \<Rightarrow> string \<Rightarrow> ('s, go_error + stateful_set) operator" where
  "findStatefulSet E name namespace = request (GetObject K_StatefulSet name) (get_stateful_set E name namespace)"

definition updateStatefulSet :: "'s op_env \<Rightarrow> stateful_set \<Rightarrow> ('s, go_error + stateful_set) operator" where
  "updateStatefulSet E s = request (UpdateStatefulSet s) (put_stateful_set E s)"

definition watchStatefulSet :: "'s op_env \<Rightarrow> string \<Rightarrow> ('s, go_error + stateful_set) operator" where
  "watchStatefulSet E setName = do {
     c \<leftarrow> recall the_cr;
     onOk (findStatefulSet E setName (cr_Namespace c)) (\<lambda>s.
       (case take_ownership E c (sts_Owners s) of
          Inl e \<Rightarrow> return (Inl e)
        | Inr owners \<Rightarrow> updateStatefulSet E (s\<lparr>sts_Owners := owners\<rparr>))) }"

definition findPod :: "'s op_env \<Rightarrow> string \<Rightarrow> string \<Rightarrow> ('s, go_error + pod) operator" where
  "findPod E name namespace = request (GetObject K_Pod name) (get_pod E name namespace)"

definition deletePodByName :: "'s op_env \<Rightarrow> string \<Rightarrow> string \<Rightarrow> ('s, go_error + unit) operator" where
  "deletePodByName E podName namespace =
     onOk (findPod E podName namespace) (\<lambda>p. request (DeletePod podName) (delete_pod E p))"

section \<open>Conditions\<close>

definition NewCondition :: "string \<Rightarrow> string \<Rightarrow> string \<Rightarrow> string \<Rightarrow> status_condition" where
  "NewCondition conditionStatus conditionType conditionReason conditionMessage =
     \<lparr>cond_Type = conditionType, cond_Status = conditionStatus, cond_Reason = conditionReason,
      cond_Message = conditionMessage, LastTransitionTime = []\<rparr>"

fun addCondition :: "status_condition list \<Rightarrow> status_condition \<Rightarrow> status_condition list" where
  "addCondition [] condition = [condition]"
| "addCondition (current # rest) condition =
     (if cond_Reason current = cond_Reason condition then
        (if cond_Type current \<noteq> cond_Type condition \<or> cond_Status current \<noteq> cond_Status condition \<or>
            cond_Message current \<noteq> cond_Message condition then condition # rest else current # rest)
      else current # addCondition rest condition)"

definition updateConditions :: "'s op_env \<Rightarrow> status_condition \<Rightarrow> ('s, go_error + unit) operator" where
  "updateConditions E condition =
     UpdateStatusWithRetry E (\<lambda>instance. do {
       t \<leftarrow> silent (now E);
       return (instance\<lparr>cr_Status := (cr_Status instance)\<lparr>Conditions :=
         addCondition (Conditions (cr_Status instance)) (condition\<lparr>LastTransitionTime := t\<rparr>)\<rparr>\<rparr>) })"

section \<open>Facts\<close>

lemma sends_try_times [sends_intros]: "sends R (try_times E)"
  unfolding try_times_def by (intro sends_intros)

lemma sends_SendBasicRequest [sends_intros]:
  "R (Rest (rest_request rc verb path b h)) \<Longrightarrow> sends R (SendBasicRequest E rc verb path b h)"
  unfolding SendBasicRequest_def Let_def by (intro sends_intros)

lemma sends_SendRequest [sends_intros]:
  "R (Rest (rest_request rc verb path b True)) \<Longrightarrow> sends R (SendRequest E rc verb path b)"
  unfolding SendRequest_def by (intro sends_intros)

lemma sends_SendRequestWithStatusCodeCheck [sends_intros]:
  "R (Rest (rest_request rc verb path b True)) \<Longrightarrow> sends R (SendRequestWithStatusCodeCheck E rc verb path b)"
  unfolding SendRequestWithStatusCodeCheck_def by (intro sends_intros)

lemma sends_filter_data [sends_intros]: "(\<And>x. sends R (flt x)) \<Longrightarrow> sends R (filter_data flt xs)"
  by (induction xs) (auto intro!: sends_intros)

lemma sends_GetArrayData [sends_intros]:
  "R (Rest (rest_request rc ''GET'' path None True)) \<Longrightarrow> (\<And>x. sends R (flt x)) \<Longrightarrow> sends R (GetArrayData E rc path key flt)"
  unfolding GetArrayData_def by (intro sends_intros)

lemma sends_retry_on_conflict: "sends R m \<Longrightarrow> sends R (retry_on_conflict n E m)"
  by (induction n) (auto intro!: sends_intros)

lemma sends_UpdateStatusWithRetry [sends_intros]:
  assumes "\<And>name. R (GetObject K_OpenSearchService name)" and "\<And>c. sends R (f c)" and "\<And>c. R (UpdateStatus c)"
  shows "sends R (UpdateStatusWithRetry E f)"
  unfolding UpdateStatusWithRetry_def update_status_once_def
  by (intro sends_intros sends_retry_on_conflict assms)

lemma sends_updateConditions [sends_intros]:
  "(\<And>name. R (GetObject K_OpenSearchService name)) \<Longrightarrow> (\<And>c. R (UpdateStatus c)) \<Longrightarrow> sends R (updateConditions E c)"
  unfolding updateConditions_def by (intro sends_intros)

lemma sends_findSecret [sends_intros]: "R (GetObject K_Secret name) \<Longrightarrow> sends R (findSecret E name ns)"
  unfolding findSecret_def by (intro sends_intros)

lemma sends_findConfigMap [sends_intros]: "R (GetObject K_ConfigMap name) \<Longrightarrow> sends R (findConfigMap E name ns)"
  unfolding findConfigMap_def by (intro sends_intros)

lemma sends_findDeployment [sends_intros]: "R (GetObject K_Deployment name) \<Longrightarrow> sends R (findDeployment E name ns)"
  unfolding findDeployment_def by (intro sends_intros)

lemma sends_findService [sends_intros]: "R (GetObject K_Service name) \<Longrightarrow> sends R (findService E name ns)"
  unfolding findService_def by (intro sends_intros)

lemma sends_findStatefulSet [sends_intros]: "R (GetObject K_StatefulSet name) \<Longrightarrow> sends R (findStatefulSet E name ns)"
  unfolding findStatefulSet_def by (intro sends_intros)

lemma sends_findPod [sends_intros]: "R (GetObject K_Pod name) \<Longrightarrow> sends R (findPod E name ns)"
  unfolding findPod_def by (intro sends_intros)

lemma sends_updates [sends_intros]:
  "R (UpdateSecret s) \<Longrightarrow> sends R (updateSecret E s)"
  "R (UpdateConfigMap m) \<Longrightarrow> sends R (updateConfigMap E m)"
  "R (UpdateDeployment d) \<Longrightarrow> sends R (updateDeployment E d)"
  "R (UpdateStatefulSet t) \<Longrightarrow> sends R (updateStatefulSet E t)"
  "R (UpdateService v) \<Longrightarrow> sends R (updateService E v)"
  unfolding updateSecret_def updateConfigMap_def updateDeployment_def updateStatefulSet_def updateService_def
  by (intro sends_intros; assumption)+

lemma sends_parse [sends_intros]:
  "R (GetObject K_Secret name) \<Longrightarrow> sends R (parseSecretCredentialsByKeys E name ns k1 k2)"
  "R (GetObject K_Secret name) \<Longrightarrow> sends R (parseSecretCredentials E name ns)"
  unfolding parseSecretCredentials_def parseSecretCredentialsByKeys_def by (intro sends_intros; assumption)+

lemma sends_parseOpenSearchCredentials [sends_intros]:
  "(\<And>name. R (GetObject K_Secret name)) \<Longrightarrow> sends R (parseOpenSearchCredentials E)"
  unfolding parseOpenSearchCredentials_def by (intro sends_intros)

text \<open>Reads of objects, writes of custody, and the status: what the hash computations and scaling send.\<close>

lemma sends_calculateSecretDataHash [sends_intros]:
  "R (GetObject K_Secret name) \<Longrightarrow> (\<And>s. R (UpdateSecret s)) \<Longrightarrow> sends R (calculateSecretDataHash E name h)"
  unfolding calculateSecretDataHash_def watchSecret_def by (intro sends_intros)

lemma sends_calculateConfigDataHash [sends_intros]:
  "R (GetObject K_ConfigMap name) \<Longrightarrow> (\<And>m. R (UpdateConfigMap m)) \<Longrightarrow> sends R (calculateConfigDataHash E name h)"
  unfolding calculateConfigDataHash_def watchConfigMap_def by (intro sends_intros)

lemma sends_scale [sends_intros]:
  "R (GetObject K_Deployment name) \<Longrightarrow> (\<And>d. R (UpdateDeployment d)) \<Longrightarrow> sends R (scaleDeploymentForNoWait E name ns k nw)"
  unfolding scaleDeploymentForNoWait_def scaleDeploymentWithCheck_def scaleDeployment_def isDeploymentReady_def
  by (intro sends_intros)

lemma sends_services [sends_intros]:
  "R (GetObject K_Service name) \<Longrightarrow> (\<And>s. R (UpdateService s)) \<Longrightarrow> sends R (enableClientService E name ns)"
  "R (GetObject K_Service name) \<Longrightarrow> (\<And>s. R (UpdateService s)) \<Longrightarrow> sends R (disableClientService E name ns)"
  unfolding enableClientService_def disableClientService_def by (intro sends_intros; assumption)+

lemma ArrayContains_iff [simp]: "ArrayContains xs x \<longleftrightarrow> x \<in> set xs"
  by (induction xs) auto

lemma retry_on_conflict_ok:
  "run_state (retry_on_conflict n E m) w = (Inr (), w') \<Longrightarrow> \<exists>w1. run_state m w1 = (Inr (), w')"
proof (induction n arbitrary: w)
  case 0
  then show ?case by auto
next
  case (Suc n)
  obtain r w1 where m: "run_state m w = (r, w1)" by (cases "run_state m w")
  show ?case
  proof (cases r)
    case (Inl e)
    then have "run_state (retry_on_conflict n E m) w1 = (Inr (), w')"
      using Suc.prems m by (cases "IsConflict E e") auto
    then show ?thesis by (rule Suc.IH)
  next
    case (Inr u)
    then show ?thesis using Suc.prems m by auto
  qed
qed

lemma map_put_del_lookup: "wf_map m \<Longrightarrow> map_of (map_del k (map_put k v m)) = (map_of m)(k := None)"
  by (rule ext) (simp add: gomap.find_del gomap.invar_put gomap.find_put)

section \<open>A concrete outside\<close>

text \<open>
  For evaluating operations on concrete inputs: HTTP answers come from a script, every object
  exists, and every write is accepted.
\<close>

definition test_spec :: service_spec where
  "test_spec = \<lparr>OpenSearch_spec = None, ExternalOpenSearch = None, Dashboards = None, Monitoring = None,
     DbaasAdapter = None, ElasticsearchDbaasAdapter = None, Curator_spec = None, DisasterRecovery = None\<rparr>"

definition test_status :: service_status where
  "test_status = \<lparr>DisasterRecoveryStatus = \<lparr>drs_Mode = [], drs_Status = [], drs_Comment = [], drs_Message = [], UsersRecoveryState = []\<rparr>,
     Conditions = [], RollingUpdateStatus = \<lparr>rus_Status = [], StatefulSetStatuses = []\<rparr>\<rparr>"

definition test_cr :: opensearch_service where
  "test_cr = \<lparr>cr_APIVersion = ''v1'', cr_Kind = ''OpenSearchService'', cr_Name = ''opensearch'', cr_Namespace = ''ns'',
     cr_Spec = test_spec, cr_Status = test_status\<rparr>"

definition test_op_env :: "script op_env" where
  "test_op_env = \<lparr>http_do = (\<lambda>_. next_answer),
     get_secret = (\<lambda>name _ s. (Inr \<lparr>secret_Name = name, secret_Owners = [],
       secret_Data = [(''username'', ''admin''), (''password'', ''secret'')], StringData = []\<rparr>, s)),
     put_secret = (\<lambda>x s. (Inr x, s)),
     get_config_map = (\<lambda>name _ s. (Inr \<lparr>cm_Name = name, cm_Owners = [],
       cm_Data = [(''remoteCluster'', ''other:9300''), (''indicesPattern'', ''app-*'')]\<rparr>, s)),
     put_config_map = (\<lambda>x s. (Inr x, s)),
     get_deployment = (\<lambda>name _ s. (Inr \<lparr>deployment_Name = name, template_Annotations = None, deployment_Replicas = 1,
       ReadyReplicas = 1, deployment_UpdatedReplicas = 1\<rparr>, s)),
     put_deployment = (\<lambda>x s. (Inr x, s)),
     get_service = (\<lambda>name _ s. (Inr \<lparr>service_Name = name, Selector = Some [(''app'', name)]\<rparr>, s)),
     put_service = (\<lambda>x s. (Inr x, s)),
     get_stateful_set = (\<lambda>name _ s. (Inr \<lparr>sts_Name = name, sts_Owners = [], sts_Generation = 2, UpdateStrategy = ''OnDelete'',
       sts_Replicas = 3, sts_UpdatedReplicas = 0\<rparr>, s)),
     put_stateful_set = (\<lambda>x s. (Inr x, s)),
     get_pod = (\<lambda>name _ s. (Inr \<lparr>pod_Name = name, containers_ready = [True]\<rparr>, s)),
     delete_pod = (\<lambda>_ s. (Inr (), s)),
     get_cr = (\<lambda>_ _ s. (Inr test_cr, s)),
     put_status = (\<lambda>_ s. (Inr (), s)),
     NewForConfig = None, NewSPDYExecutor = (\<lambda>_ _ _ _. None),
     exec_stream = (\<lambda>_ _ _ _ s. ((None, [], []), s)),
     attempts_left = (\<lambda>s. (3, s)),
     now = (\<lambda>s. (''now'', s)),
     IsConflict = (\<lambda>e. e = Err ''conflict''), IsNotFound = (\<lambda>e. e = Err ''not found''),
     GetControllerOf = find ref_Controller,
     SetControllerReference = (\<lambda>c refs. Inr (refs @ [\<lparr>ref_Name = cr_Name c, ref_APIVersion = cr_APIVersion c,
       ref_Kind = cr_Kind c, ref_Controller = True\<rparr>])),
     ParseGroupVersion = Inr, sha256 = id, yaml_Unmarshal = (\<lambda>_. Inr JNull),
     regexp_Compile = (\<lambda>_. Inr (\<lambda>_. True)), Getenv = (\<lambda>_. []), file_exists = (\<lambda>_. False), unreadable = (\<lambda>_. None),
     reader_rest = (\<lambda>_ s. ([], s))\<rparr>"

definition op_world_of :: "opensearch_service \<Rightarrow> (go_error + http_response) list \<Rightarrow> script op_world" where
  "op_world_of c as = \<lparr>srv = (as, 0), trace = [], ResourceHashes = [], watcher_state = ''paused'', slowlog_state = ''stopped'',
     opensearchSecretHash = [], the_cr = c\<rparr>"

section \<open>Properties\<close>

text \<open>
  A status update that succeeds is based on what the API server held: its last two requests
  read the custom resource and write the result of the change function on exactly the instance that
  was read, and the write was accepted.
\<close>

theorem UpdateStatusWithRetry_fresh:
  assumes "run_state (UpdateStatusWithRetry E f) w = (Inr (), w')"
  shows "\<exists>w1 instance s w2 changed w3. get_cr E (cr_Name (the_cr w1)) (cr_Namespace (the_cr w1)) (srv w1) = (Inr instance, s) \<and>
    w2 = w1\<lparr>srv := s, trace := trace w1 @ [GetObject K_OpenSearchService (cr_Name (the_cr w1))]\<rparr> \<and>
    run_state (f instance) w2 = (changed, w3) \<and>
    put_status E changed (srv w3) = (Inr (), srv w') \<and> trace w' = trace w3 @ [UpdateStatus changed]"
proof -
  obtain w1 where w1: "run_state (update_status_once E f) w1 = (Inr (), w')"
    using assms retry_on_conflict_ok by (fastforce simp: UpdateStatusWithRetry_def split: prod.splits)
  then show ?thesis
    by (intro exI [of _ w1])
      (auto simp: update_status_once_def run_simps split: prod.splits sum.splits)
qed

definition status_run :: "(go_error + unit) \<times> script op_world" where
  "status_run = run_state (UpdateStatusWithRetry test_op_env (\<lambda>c. return (c\<lparr>cr_Kind := ''X''\<rparr>))) (op_world_of test_cr [])"

theorem UpdateStatusWithRetry_fresh_witness:
  "last (trace (snd status_run)) = UpdateStatus (test_cr\<lparr>cr_Kind := ''X''\<rparr>)"
proof -
  have "fst status_run = Inr ()" by code_simp
  then have "run_state (UpdateStatusWithRetry test_op_env (\<lambda>c. return (c\<lparr>cr_Kind := ''X''\<rparr>))) (op_world_of test_cr []) =
      (Inr (), snd status_run)"
    by (simp add: status_run_def prod_eq_iff)
  from UpdateStatusWithRetry_fresh [OF this] show ?thesis
    by (auto simp: test_op_env_def)
qed

text \<open>
  The conditions of the custom resource hold at most one entry per reason: adding a condition
  keeps this, leaves the conditions with other reasons as they are and in order, and afterwards the
  entry with the reason of the new condition has its type, status and message.
\<close>

theorem addCondition_spec:
  assumes "distinct (map cond_Reason cs)"
  shows "distinct (map cond_Reason (addCondition cs c)) \<and>
    filter (\<lambda>d. cond_Reason d \<noteq> cond_Reason c) (addCondition cs c) = filter (\<lambda>d. cond_Reason d \<noteq> cond_Reason c) cs \<and>
    (\<exists>d. filter (\<lambda>d. cond_Reason d = cond_Reason c) (addCondition cs c) = [d] \<and>
      cond_Type d = cond_Type c \<and> cond_Status d = cond_Status c \<and> cond_Message d = cond_Message c)"
proof -
  have reasons: "set (map cond_Reason (addCondition xs c)) = insert (cond_Reason c) (set (map cond_Reason xs))" for xs
    by (induction xs) auto
  have none: "filter (\<lambda>d. cond_Reason d = cond_Reason c) xs = []" if "cond_Reason c \<notin> cond_Reason ` set xs" for xs
    using that by (induction xs) auto
  show ?thesis using assms
  proof (induction cs)
    case Nil
    then show ?case by simp
  next
    case (Cons current rest)
    then show ?case using reasons [of rest] none [of rest]
      by (cases "cond_Reason current = cond_Reason c") auto
  qed
qed

theorem addCondition_spec_witness:
  "distinct (map cond_Reason (addCondition [NewCondition ''False'' ''In progress'' ''a'' [], NewCondition ''True'' ''Ready'' ''b'' []]
     (NewCondition ''True'' ''Successful'' ''a'' [])))"
  using addCondition_spec [of "[NewCondition ''False'' ''In progress'' ''a'' [], NewCondition ''True'' ''Ready'' ''b'' []]"
      "NewCondition ''True'' ''Successful'' ''a'' []"]
  by (simp add: NewCondition_def)

end
