(* ===== verification/Deep_Copy.thy ===== *)
theory Deep_Copy
  imports Operator_Base
begin

text \<open>
  The deep copies of the custom resource, \<^verbatim>\<open>api/v1/zz_generated.deepcopy.go\<close>. Here structs are as
  memory has them: a pointer, a slice and a map are addresses, \<^verbatim>\<open>nil\<close> being \<^const>\<open>None\<close>, and the heap
  is the list of the cells allocated so far. A cell is what one allocation holds: a struct, the
  elements of a slice or the entries of a map. \<^verbatim>\<open>DeepCopyInto\<close> takes the struct its receiver points
  to and gives the struct it writes to \<^verbatim>\<open>out\<close>; \<^verbatim>\<open>DeepCopy\<close> takes and gives a pointer. A slice is the
  whole of the cell it points to. Where Go allocates the cell before it fills it, the model
  allocates it filled; a program cannot see the difference, addresses having no order.

  The locale \<open>copying\<close> is the contract: the copy has the value of the original, everything the copy
  reaches is newly allocated, and nothing that was there before is written. Its lemmas say that the
  two are then independent: writing what one reaches leaves the value of the other. The contract
  is shown once for every way a struct is built (a scalar, a pointer, two fields, a slice of
  structs), and the locale is interpreted on every type of the resource. Metadata is of another
  module: its copy is a parameter with the same contract.
\<close>

section \<open>The contract of a deep copy\<close>

locale copying =
  fixes cp :: "'c \<Rightarrow> ('cell list, 'c) state"
    and val :: "'cell list \<Rightarrow> 'c \<Rightarrow> 'v option"
    and reach :: "'cell list \<Rightarrow> 'c \<Rightarrow> nat set"
  assumes reach_bound: "val h x = Some v \<Longrightarrow> reach h x \<subseteq> {..<length h}"
    and frame: "val h x = Some v \<Longrightarrow> length h \<le> length h' \<Longrightarrow> \<forall>a\<in>reach h x. h' ! a = h ! a \<Longrightarrow>
      val h' x = Some v \<and> reach h' x = reach h x"
    and copies: "val h x = Some v \<Longrightarrow> run_state (cp x) h = (y, h') \<Longrightarrow>
      (\<exists>cs. h' = h @ cs) \<and> val h' y = Some v \<and> reach h' y \<subseteq> {length h..<length h'}"
begin

lemma append_keeps: "val h x = Some v \<Longrightarrow> val (h @ cs) x = Some v \<and> reach (h @ cs) x = reach h x"
  using reach_bound [of h x v] by (intro frame) (auto simp: nth_append)

lemma original_kept:
  assumes "val h x = Some v" "run_state (cp x) h = (y, h')"
  shows "val h' x = Some v" "reach h' x \<subseteq> {..<length h}"
  using copies [OF assms] append_keeps [OF assms(1)] reach_bound [OF assms(1)] by auto

lemma apart:
  assumes "val h x = Some v" "run_state (cp x) h = (y, h')"
  shows "reach h' x \<inter> reach h' y = {}"
proof -
  have "reach h' y \<subseteq> {length h..<length h'}" using copies [OF assms] by blast
  moreover have "reach h' x \<subseteq> {..<length h}" by (rule original_kept [OF assms])
  moreover have "{..<length h} \<inter> {length h..<length h'} = {}" by auto
  ultimately show ?thesis by blast
qed

lemma write_elsewhere: "val h x = Some v \<Longrightarrow> a \<notin> reach h x \<Longrightarrow> val (h[a := c]) x = Some v"
  using frame [of h x v "h[a := c]"] by (metis length_list_update nth_list_update_neq order_refl)

lemma write_copy:
  assumes "val h x = Some v" "run_state (cp x) h = (y, h')" "a \<in> reach h' y"
  shows "val (h'[a := c]) x = Some v"
  using assms apart [OF assms(1,2)] copies [OF assms(1,2)] original_kept [OF assms(1,2)]
  by (intro write_elsewhere) blast+

lemma write_original:
  assumes "val h x = Some v" "run_state (cp x) h = (y, h')" "a \<in> reach h' x"
  shows "val (h'[a := c]) y = Some v"
  using assms apart [OF assms(1,2)] copies [OF assms(1,2)] original_kept [OF assms(1,2)]
  by (intro write_elsewhere) blast+

end

section \<open>The ways a struct is built\<close>

subsection \<open>Scalars\<close>

definition scalar_val :: "'cell list \<Rightarrow> 'c \<Rightarrow> 'c option" where
  "scalar_val h x = Some x"

definition scalar_reach :: "'cell list \<Rightarrow> 'c \<Rightarrow> nat set" where
  "scalar_reach h x = {}"

lemma copying_scalar: "copying State_Monad.return scalar_val scalar_reach"
  by unfold_locales (auto simp: scalar_val_def scalar_reach_def State_Monad.return_def)

subsection \<open>Pointers\<close>

text \<open>The struct at an address; \<open>un\<close> says which cells hold a struct of the type.\<close>

definition load :: "('cell \<Rightarrow> 'c option) \<Rightarrow> 'cell list \<Rightarrow> nat \<Rightarrow> 'c option" where
  "load un h a = (if a < length h then un (h ! a) else None)"

definition new :: "'cell \<Rightarrow> ('cell list, nat) state" where
  "new c = State (\<lambda>h. (length h, h @ [c]))"

text \<open>\<^verbatim>\<open>if in.F != nil { *out = new(T); (*in).DeepCopyInto(*out) }\<close>\<close>

definition copy_pointer ::
  "('cell \<Rightarrow> 'c option) \<Rightarrow> ('c \<Rightarrow> 'cell) \<Rightarrow> ('c \<Rightarrow> ('cell list, 'c) state) \<Rightarrow> nat option \<Rightarrow>
   ('cell list, nat option) state" where
  "copy_pointer un wr cp p =
     (case p of
        None \<Rightarrow> State_Monad.return None
      | Some a \<Rightarrow> do {
          h \<leftarrow> State_Monad.get;
          case load un h a of
            None \<Rightarrow> State_Monad.return None
          | Some x \<Rightarrow> do { y \<leftarrow> cp x; b \<leftarrow> new (wr y); State_Monad.return (Some b) } })"

definition pointer_val ::
  "('cell \<Rightarrow> 'c option) \<Rightarrow> ('cell list \<Rightarrow> 'c \<Rightarrow> 'v option) \<Rightarrow> 'cell list \<Rightarrow> nat option \<Rightarrow> 'v option option" where
  "pointer_val un val h p =
     (case p of
        None \<Rightarrow> Some None
      | Some a \<Rightarrow> (case load un h a of None \<Rightarrow> None | Some x \<Rightarrow> map_option Some (val h x)))"

definition pointer_reach ::
  "('cell \<Rightarrow> 'c option) \<Rightarrow> ('cell list \<Rightarrow> 'c \<Rightarrow> nat set) \<Rightarrow> 'cell list \<Rightarrow> nat option \<Rightarrow> nat set" where
  "pointer_reach un reach h p =
     (case p of
        None \<Rightarrow> {}
      | Some a \<Rightarrow> insert a (case load un h a of None \<Rightarrow> {} | Some x \<Rightarrow> reach h x))"

lemma pointer_val_Some:
  "pointer_val un val h (Some a) = Some v \<longleftrightarrow>
     (\<exists>x w. load un h a = Some x \<and> val h x = Some w \<and> v = Some w)"
  by (auto simp: pointer_val_def split: option.splits)

lemma load_bound: "load un h a = Some x \<Longrightarrow> a < length h"
  by (auto simp: load_def split: if_splits)

lemma load_same: "load un h a = Some x \<Longrightarrow> length h \<le> length h' \<Longrightarrow> h' ! a = h ! a \<Longrightarrow> load un h' a = Some x"
  by (auto simp: load_def split: if_splits)

lemma load_new: "un (wr y) = Some y \<Longrightarrow> load un (h @ [wr y]) (length h) = Some y"
  by (simp add: load_def)

lemma copying_pointer:
  assumes "copying cp val reach" and un: "\<And>y. un (wr y) = Some y"
  shows "copying (copy_pointer un wr cp) (pointer_val un val) (pointer_reach un reach)"
proof -
  note c = copying.copies [OF assms(1)] and f = copying.frame [OF assms(1)]
    and b = copying.reach_bound [OF assms(1)] and k = copying.append_keeps [OF assms(1)]
  show ?thesis
  proof (unfold_locales, goal_cases)
    case (1 h p v)
    then show ?case
      using b by (cases p) (fastforce simp: pointer_reach_def pointer_val_Some dest: load_bound)+
  next
    case (2 h p v h')
    then show ?case
    proof (cases p)
      case (Some a)
      with 2(1) obtain x w where x: "load un h a = Some x" "val h x = Some w" "v = Some w"
        by (auto simp: pointer_val_Some)
      with 2 Some have "load un h' a = Some x"
        by (auto simp: pointer_reach_def intro: load_same)
      moreover have "val h' x = Some w \<and> reach h' x = reach h x"
        using 2 Some x by (intro f) (auto simp: pointer_reach_def)
      ultimately show ?thesis
        using Some x by (simp add: pointer_val_def pointer_reach_def)
    qed (simp add: pointer_val_def pointer_reach_def)
  next
    case (3 h p v q h')
    then show ?case
    proof (cases p)
      case (Some a)
      with 3(1) obtain x w where x: "load un h a = Some x" "val h x = Some w" "v = Some w"
        by (auto simp: pointer_val_Some)
      obtain y h1 where y: "run_state (cp x) h = (y, h1)" by (cases "run_state (cp x) h")
      with 3(2) Some x have q: "q = Some (length h1)" "h' = h1 @ [wr y]"
        by (auto simp: copy_pointer_def new_def run_state_bind State_Monad.get_def State_Monad.return_def)
      obtain cs where cs: "h1 = h @ cs" "val h1 y = Some w" "reach h1 y \<subseteq> {length h..<length h1}"
        using c [OF x(2) y] by auto
      then have "val h' y = Some w" "reach h' y = reach h1 y"
        using k [OF cs(2), of "[wr y]"] q(2) by auto
      then show ?thesis
        using q cs x(3) load_new [of un wr y h1, OF un]
        by (auto simp: pointer_val_def pointer_reach_def)
    qed (auto simp: copy_pointer_def pointer_val_def pointer_reach_def State_Monad.return_def)
  qed
qed

subsection \<open>Two fields\<close>

definition copy_pair ::
  "('a \<Rightarrow> ('cell list, 'a) state) \<Rightarrow> ('b \<Rightarrow> ('cell list, 'b) state) \<Rightarrow> 'a \<times> 'b \<Rightarrow> ('cell list, 'a \<times> 'b) state" where
  "copy_pair f g x = do { a \<leftarrow> f (fst x); b \<leftarrow> g (snd x); State_Monad.return (a, b) }"

definition pair_val ::
  "('cell list \<Rightarrow> 'a \<Rightarrow> 'v option) \<Rightarrow> ('cell list \<Rightarrow> 'b \<Rightarrow> 'w option) \<Rightarrow> 'cell list \<Rightarrow> 'a \<times> 'b \<Rightarrow> ('v \<times> 'w) option" where
  "pair_val f g h x = Option.bind (f h (fst x)) (\<lambda>a. map_option (Pair a) (g h (snd x)))"

definition pair_reach ::
  "('cell list \<Rightarrow> 'a \<Rightarrow> nat set) \<Rightarrow> ('cell list \<Rightarrow> 'b \<Rightarrow> nat set) \<Rightarrow> 'cell list \<Rightarrow> 'a \<times> 'b \<Rightarrow> nat set" where
  "pair_reach f g h x = f h (fst x) \<union> g h (snd x)"

lemma pair_val_Some:
  "pair_val f g h x = Some v \<longleftrightarrow> f h (fst x) = Some (fst v) \<and> g h (snd x) = Some (snd v)"
  by (cases v) (auto simp: pair_val_def bind_eq_Some_conv)

lemma copying_pair:
  assumes "copying f fv fr" and "copying g gv gr"
  shows "copying (copy_pair f g) (pair_val fv gv) (pair_reach fr gr)"
proof -
  note f = copying.copies [OF assms(1)] copying.frame [OF assms(1)] copying.reach_bound [OF assms(1)]
    copying.append_keeps [OF assms(1)]
  note g = copying.copies [OF assms(2)] copying.frame [OF assms(2)] copying.reach_bound [OF assms(2)]
    copying.append_keeps [OF assms(2)]
  show ?thesis
  proof (unfold_locales, goal_cases)
    case (1 h x v)
    then show ?case using f(3) g(3) by (auto simp: pair_val_Some pair_reach_def)
  next
    case (2 h x v h')
    then have "fv h' (fst x) = Some (fst v) \<and> fr h' (fst x) = fr h (fst x)"
      by (intro f(2)) (auto simp: pair_val_Some pair_reach_def)
    moreover have "gv h' (snd x) = Some (snd v) \<and> gr h' (snd x) = gr h (snd x)"
      using 2 by (intro g(2)) (auto simp: pair_val_Some pair_reach_def)
    ultimately show ?case by (simp add: pair_val_Some pair_reach_def)
  next
    case (3 h x v y h')
    have v: "fv h (fst x) = Some (fst v)" "gv h (snd x) = Some (snd v)"
      using 3(1) by (auto simp: pair_val_Some)
    obtain a h1 where a: "run_state (f (fst x)) h = (a, h1)" by (cases "run_state (f (fst x)) h")
    obtain b h2 where b: "run_state (g (snd x)) h1 = (b, h2)" by (cases "run_state (g (snd x)) h1")
    have y: "y = (a, b)" "h' = h2"
      using 3(2) a b by (auto simp: copy_pair_def run_state_bind State_Monad.return_def)
    obtain cs where c: "h1 = h @ cs" "fv h1 a = Some (fst v)" "fr h1 a \<subseteq> {length h..<length h1}"
      using f(1) [OF v(1) a] by auto
    then have "gv h1 (snd x) = Some (snd v)" using g(4) v(2) by auto
    then obtain ds where d: "h2 = h1 @ ds" "gv h2 b = Some (snd v)" "gr h2 b \<subseteq> {length h1..<length h2}"
      using g(1) b by blast
    then show ?case using c y f(4) [OF c(2), of ds] by (auto simp: pair_val_Some pair_reach_def)
  qed
qed

subsection \<open>Slices of structs\<close>

text \<open>\<^verbatim>\<open>for i := range *in { (*in)[i].DeepCopyInto(&(*out)[i]) }\<close>\<close>

fun copy_elements :: "('a \<Rightarrow> ('cell list, 'a) state) \<Rightarrow> 'a list \<Rightarrow> ('cell list, 'a list) state" where
  "copy_elements f [] = State_Monad.return []"
| "copy_elements f (x # xs) = do { y \<leftarrow> f x; ys \<leftarrow> copy_elements f xs; State_Monad.return (y # ys) }"

fun elements_val :: "('cell list \<Rightarrow> 'a \<Rightarrow> 'v option) \<Rightarrow> 'cell list \<Rightarrow> 'a list \<Rightarrow> 'v list option" where
  "elements_val f h [] = Some []"
| "elements_val f h (x # xs) = Option.bind (f h x) (\<lambda>v. map_option ((#) v) (elements_val f h xs))"

definition elements_reach :: "('cell list \<Rightarrow> 'a \<Rightarrow> nat set) \<Rightarrow> 'cell list \<Rightarrow> 'a list \<Rightarrow> nat set" where
  "elements_reach f h xs = (\<Union>x\<in>set xs. f h x)"

lemma elements_reach_simps [simp]:
  "elements_reach f h [] = {}"
  "elements_reach f h (x # xs) = f h x \<union> elements_reach f h xs"
  by (simp_all add: elements_reach_def)

lemma elements_val_Cons:
  "elements_val f h (x # xs) = Some v \<longleftrightarrow>
     (\<exists>w ws. v = w # ws \<and> f h x = Some w \<and> elements_val f h xs = Some ws)"
  by (auto simp: bind_eq_Some_conv)

lemma elements_copies:
  assumes "copying f fv fr"
  shows "elements_val fv h xs = Some v \<Longrightarrow> run_state (copy_elements f xs) h = (ys, h') \<Longrightarrow>
    (\<exists>cs. h' = h @ cs) \<and> elements_val fv h' ys = Some v \<and>
    elements_reach fr h' ys \<subseteq> {length h..<length h'}"
proof (induction xs arbitrary: h v ys)
  case (Cons x xs)
  note f = copying.copies [OF assms] copying.append_keeps [OF assms]
  obtain w ws where v: "v = w # ws" "fv h x = Some w" "elements_val fv h xs = Some ws"
    using Cons.prems(1) by (auto simp only: elements_val_Cons)
  obtain y h1 where y: "run_state (f x) h = (y, h1)" by (cases "run_state (f x) h")
  obtain zs h2 where z: "run_state (copy_elements f xs) h1 = (zs, h2)"
    by (cases "run_state (copy_elements f xs) h1")
  have ys: "ys = y # zs" "h' = h2"
    using Cons.prems(2) y z by (auto simp: run_state_bind State_Monad.return_def)
  obtain cs where c: "h1 = h @ cs" "fv h1 y = Some w" "fr h1 y \<subseteq> {length h..<length h1}"
    using f(1) [OF v(2) y] by auto
  have "elements_val fv (h @ cs) xs = Some ws"
    using v(3) by (induction xs arbitrary: ws) (auto simp: bind_eq_Some_conv f(2))
  then obtain ds where d: "h2 = h1 @ ds" "elements_val fv h2 zs = Some ws"
      "elements_reach fr h2 zs \<subseteq> {length h1..<length h2}"
    using Cons.IH [of h1 ws zs] z c(1) ys(2) by auto
  then show ?case using c ys v f(2) [OF c(2), of ds] by auto
qed (auto simp: State_Monad.return_def)

lemma copying_elements:
  assumes "copying f fv fr"
  shows "copying (copy_elements f) (elements_val fv) (elements_reach fr)"
proof (unfold_locales, goal_cases)
  case (1 h xs v)
  then show ?case
    by (induction xs arbitrary: v)
      (auto simp: bind_eq_Some_conv dest!: copying.reach_bound [OF assms])
next
  case (2 h xs v h')
  then show ?case
  proof (induction xs arbitrary: v)
    case (Cons x xs)
    then obtain w ws where v: "v = w # ws" "fv h x = Some w" "elements_val fv h xs = Some ws"
      by (auto simp only: elements_val_Cons)
    then show ?case
      using Cons copying.frame [OF assms v(2) Cons.prems(2)] by simp
  qed simp
next
  case (3 h xs v ys h')
  then show ?case by (rule elements_copies [OF assms])
qed

subsection \<open>Structs\<close>

text \<open>A struct is copied by copying the fields \<open>get\<close> selects; \<open>put\<close> writes them to the shallow copy.\<close>

lemma copying_struct:
  assumes val_eq: "\<And>h x. val h x = map_option (build x) (fv h (get x))"
    and reach_eq: "\<And>h x. reach h x = fr h (get x)"
    and fields: "copying f fv fr"
    and cp_eq: "\<And>x. cp x = do { t \<leftarrow> f (get x); State_Monad.return (put t x) }"
    and put_get: "\<And>t x. get (put t x) = t" "\<And>t x. build (put t x) = build x"
  shows "copying cp val reach"
proof -
  have val: "val h x = Some v \<longleftrightarrow> (\<exists>w. fv h (get x) = Some w \<and> v = build x w)" for h x v
    unfolding val_eq by auto
  show ?thesis
  proof (unfold_locales, goal_cases)
    case (1 h x v)
    then obtain w where "fv h (get x) = Some w" unfolding val by blast
    then show ?case unfolding reach_eq by (rule copying.reach_bound [OF fields])
  next
    case (2 h x v h')
    then obtain w where w: "fv h (get x) = Some w" "v = build x w" unfolding val by blast
    have "fv h' (get x) = Some w \<and> fr h' (get x) = fr h (get x)"
      using copying.frame [OF fields w(1) 2(2)] 2(3) unfolding reach_eq by blast
    then show ?case unfolding val reach_eq using w(2) by blast
  next
    case (3 h x v y h')
    then obtain w where w: "fv h (get x) = Some w" "v = build x w" unfolding val by blast
    obtain t h1 where t: "run_state (f (get x)) h = (t, h1)" by (cases "run_state (f (get x)) h")
    have y: "y = put t x" "h1 = h'"
      using 3(2) t unfolding cp_eq by (auto simp: run_state_bind State_Monad.return_def)
    show ?case
      using copying.copies [OF fields w(1) t] w(2) unfolding val reach_eq y put_get by blast
  qed
qed

section \<open>The structs in memory\<close>

text \<open>The structs without a pointer, slice or map are those of the model of the resource.\<close>

record snapshots_mem =
  sm_RepositoryName :: string
  sm_S3 :: "nat option"

record opensearch_mem =
  om_DedicatedClientPod :: bool
  om_DedicatedDataPod :: bool
  om_Snapshots :: "nat option"
  om_SecurityConfigurationName :: string
  om_CompatibilityModeEnabled :: bool
  om_RollingUpdate :: bool
  om_StatefulSetNames :: string
  om_ReadinessTimeout :: string
  om_DisabledRestCategories :: "nat option"

record external_mem =
  em_Config :: "nat option"
  em_Url :: string

record monitoring_mem =
  mm_Name :: string
  mm_SecretName :: string
  mm_SlowQueries :: "nat option"

record spec_mem =
  pm_OpenSearch :: "nat option"
  pm_ExternalOpenSearch :: "nat option"
  pm_Dashboards :: "nat option"
  pm_Monitoring :: "nat option"
  pm_DbaasAdapter :: "nat option"
  pm_ElasticsearchDbaasAdapter :: "nat option"
  pm_Curator :: "nat option"
  pm_DisasterRecovery :: "nat option"

record set_status_mem =
  tm_Name :: string
  tm_LastStatefulSetGeneration :: int
  tm_UpdatedReplicas :: "nat option"

record rolling_mem =
  rm_Status :: string
  rm_StatefulSetStatuses :: "nat option"

record status_mem =
  um_DisasterRecoveryStatus :: disaster_recovery_status
  um_Conditions :: "nat option"
  um_RollingUpdateStatus :: rolling_mem

text \<open>\<open>'m\<close> and \<open>'l\<close> are \<^verbatim>\<open>ObjectMeta\<close> and \<^verbatim>\<open>ListMeta\<close>, and \<open>'x\<close> what they point to.\<close>

record 'm service_mem =
  vm_APIVersion :: string
  vm_Kind :: string
  vm_ObjectMeta :: 'm
  vm_Spec :: spec_mem
  vm_Status :: status_mem

record 'l list_mem =
  lm_APIVersion :: string
  lm_Kind :: string
  lm_ListMeta :: 'l
  lm_Items :: "nat option"

datatype ('m, 'l, 'x) cell =
    C_S3 "s3"
  | C_SlowQueries "slow_queries"
  | C_Dashboards "dashboards"
  | C_DbaasAdapter "dbaas_adapter"
  | C_ElasticsearchDbaasAdapter "elasticsearch_dbaas_adapter"
  | C_Curator "curator_spec"
  | C_DisasterRecovery "disaster_recovery"
  | C_DisasterRecoveryStatus "disaster_recovery_status"
  | C_StatusCondition "status_condition"
  | C_Strings "string list"
  | C_Config "string go_map"
  | C_Replicas "int list"
  | C_Conditions "status_condition list"
  | C_Snapshots "snapshots_mem"
  | C_Monitoring "monitoring_mem"
  | C_ExternalOpenSearch "external_mem"
  | C_OpenSearch "opensearch_mem"
  | C_OpenSearchServiceSpec "spec_mem"
  | C_StatefulSetStatus "set_status_mem"
  | C_StatefulSetStatuses "set_status_mem list"
  | C_RollingUpdateStatus "rolling_mem"
  | C_OpenSearchServiceStatus "status_mem"
  | C_OpenSearchService "'m service_mem"
  | C_Items "'m service_mem list"
  | C_OpenSearchServiceList "'l list_mem"
  | C_Meta "'x"

text \<open>The struct a cell holds, if it is one of the type.\<close>

definition un_S3 :: "('m, 'l, 'x) cell \<Rightarrow> (s3) option" where
  "un_S3 c = (case c of C_S3 x \<Rightarrow> Some x | _ \<Rightarrow> None)"

definition un_SlowQueries :: "('m, 'l, 'x) cell \<Rightarrow> (slow_queries) option" where
  "un_SlowQueries c = (case c of C_SlowQueries x \<Rightarrow> Some x | _ \<Rightarrow> None)"

definition un_Dashboards :: "('m, 'l, 'x) cell \<Rightarrow> (dashboards) option" where
  "un_Dashboards c = (case c of C_Dashboards x \<Rightarrow> Some x | _ \<Rightarrow> None)"

definition un_DbaasAdapter :: "('m, 'l, 'x) cell \<Rightarrow> (dbaas_adapter) option" where
  "un_DbaasAdapter c = (case c of C_DbaasAdapter x \<Rightarrow> Some x | _ \<Rightarrow> None)"

definition un_ElasticsearchDbaasAdapter :: "('m, 'l, 'x) cell \<Rightarrow> (elasticsearch_dbaas_adapter) option" where
  "un_ElasticsearchDbaasAdapter c = (case c of C_ElasticsearchDbaasAdapter x \<Rightarrow> Some x | _ \<Rightarrow> None)"

definition un_Curator :: "('m, 'l, 'x) cell \<Rightarrow> (curator_spec) option" where
  "un_Curator c = (case c of C_Curator x \<Rightarrow> Some x | _ \<Rightarrow> None)"

definition un_DisasterRecovery :: "('m, 'l, 'x) cell \<Rightarrow> (disaster_recovery) option" where
  "un_DisasterRecovery c = (case c of C_DisasterRecovery x \<Rightarrow> Some x | _ \<Rightarrow> None)"

definition un_DisasterRecoveryStatus :: "('m, 'l, 'x) cell \<Rightarrow> (disaster_recovery_status) option" where
  "un_DisasterRecoveryStatus c = (case c of C_DisasterRecoveryStatus x \<Rightarrow> Some x | _ \<Rightarrow> None)"

definition un_StatusCondition :: "('m, 'l, 'x) cell \<Rightarrow> (status_condition) option" where
  "un_StatusCondition c = (case c of C_StatusCondition x \<Rightarrow> Some x | _ \<Rightarrow> None)"

definition un_Strings :: "('m, 'l, 'x) cell \<Rightarrow> (string list) option" where
  "un_Strings c = (case c of C_Strings x \<Rightarrow> Some x | _ \<Rightarrow> None)"

definition un_Config :: "('m, 'l, 'x) cell \<Rightarrow> (string go_map) option" where
  "un_Config c = (case c of C_Config x \<Rightarrow> Some x | _ \<Rightarrow> None)"

definition un_Replicas :: "('m, 'l, 'x) cell \<Rightarrow> (int list) option" where
  "un_Replicas c = (case c of C_Replicas x \<Rightarrow> Some x | _ \<Rightarrow> None)"

definition un_Conditions :: "('m, 'l, 'x) cell \<Rightarrow> (status_condition list) option" where
  "un_Conditions c = (case c of C_Conditions x \<Rightarrow> Some x | _ \<Rightarrow> None)"

definition un_Snapshots :: "('m, 'l, 'x) cell \<Rightarrow> (snapshots_mem) option" where
  "un_Snapshots c = (case c of C_Snapshots x \<Rightarrow> Some x | _ \<Rightarrow> None)"

definition un_Monitoring :: "('m, 'l, 'x) cell \<Rightarrow> (monitoring_mem) option" where
  "un_Monitoring c = (case c of C_Monitoring x \<Rightarrow> Some x | _ \<Rightarrow> None)"

definition un_ExternalOpenSearch :: "('m, 'l, 'x) cell \<Rightarrow> (external_mem) option" where
  "un_ExternalOpenSearch c = (case c of C_ExternalOpenSearch x \<Rightarrow> Some x | _ \<Rightarrow> None)"

definition un_OpenSearch :: "('m, 'l, 'x) cell \<Rightarrow> (opensearch_mem) option" where
  "un_OpenSearch c = (case c of C_OpenSearch x \<Rightarrow> Some x | _ \<Rightarrow> None)"

definition un_OpenSearchServiceSpec :: "('m, 'l, 'x) cell \<Rightarrow> (spec_mem) option" where
  "un_OpenSearchServiceSpec c = (case c of C_OpenSearchServiceSpec x \<Rightarrow> Some x | _ \<Rightarrow> None)"

definition un_StatefulSetStatus :: "('m, 'l, 'x) cell \<Rightarrow> (set_status_mem) option" where
  "un_StatefulSetStatus c = (case c of C_StatefulSetStatus x \<Rightarrow> Some x | _ \<Rightarrow> None)"

definition un_StatefulSetStatuses :: "('m, 'l, 'x) cell \<Rightarrow> (set_status_mem list) option" where
  "un_StatefulSetStatuses c = (case c of C_StatefulSetStatuses x \<Rightarrow> Some x | _ \<Rightarrow> None)"

definition un_RollingUpdateStatus :: "('m, 'l, 'x) cell \<Rightarrow> (rolling_mem) option" where
  "un_RollingUpdateStatus c = (case c of C_RollingUpdateStatus x \<Rightarrow> Some x | _ \<Rightarrow> None)"

definition un_OpenSearchServiceStatus :: "('m, 'l, 'x) cell \<Rightarrow> (status_mem) option" where
  "un_OpenSearchServiceStatus c = (case c of C_OpenSearchServiceStatus x \<Rightarrow> Some x | _ \<Rightarrow> None)"

definition un_OpenSearchService :: "('m, 'l, 'x) cell \<Rightarrow> ('m service_mem) option" where
  "un_OpenSearchService c = (case c of C_OpenSearchService x \<Rightarrow> Some x | _ \<Rightarrow> None)"

definition un_Items :: "('m, 'l, 'x) cell \<Rightarrow> ('m service_mem list) option" where
  "un_Items c = (case c of C_Items x \<Rightarrow> Some x | _ \<Rightarrow> None)"

definition un_OpenSearchServiceList :: "('m, 'l, 'x) cell \<Rightarrow> ('l list_mem) option" where
  "un_OpenSearchServiceList c = (case c of C_OpenSearchServiceList x \<Rightarrow> Some x | _ \<Rightarrow> None)"

lemmas un_defs = un_S3_def
  un_SlowQueries_def
  un_Dashboards_def
  un_DbaasAdapter_def
  un_ElasticsearchDbaasAdapter_def
  un_Curator_def
  un_DisasterRecovery_def
  un_DisasterRecoveryStatus_def
  un_StatusCondition_def
  un_Strings_def
  un_Config_def
  un_Replicas_def
  un_Conditions_def
  un_Snapshots_def
  un_Monitoring_def
  un_ExternalOpenSearch_def
  un_OpenSearch_def
  un_OpenSearchServiceSpec_def
  un_StatefulSetStatus_def
  un_StatefulSetStatuses_def
  un_RollingUpdateStatus_def
  un_OpenSearchServiceStatus_def
  un_OpenSearchService_def
  un_Items_def
  un_OpenSearchServiceList_def

section \<open>The copies\<close>

text \<open>Structs of scalars: \<^verbatim>\<open>*out = *in\<close>.\<close>

definition S3_DeepCopyInto :: "s3 \<Rightarrow> (('m, 'l, 'x) cell list, s3) state" where
  "S3_DeepCopyInto inn = State_Monad.return inn"

definition S3_DeepCopy :: "nat option \<Rightarrow> (('m, 'l, 'x) cell list, nat option) state" where
  "S3_DeepCopy = copy_pointer un_S3 C_S3 S3_DeepCopyInto"

definition SlowQueries_DeepCopyInto :: "slow_queries \<Rightarrow> (('m, 'l, 'x) cell list, slow_queries) state" where
  "SlowQueries_DeepCopyInto inn = State_Monad.return inn"

definition SlowQueries_DeepCopy :: "nat option \<Rightarrow> (('m, 'l, 'x) cell list, nat option) state" where
  "SlowQueries_DeepCopy = copy_pointer un_SlowQueries C_SlowQueries SlowQueries_DeepCopyInto"

definition Dashboards_DeepCopyInto :: "dashboards \<Rightarrow> (('m, 'l, 'x) cell list, dashboards) state" where
  "Dashboards_DeepCopyInto inn = State_Monad.return inn"

definition Dashboards_DeepCopy :: "nat option \<Rightarrow> (('m, 'l, 'x) cell list, nat option) state" where
  "Dashboards_DeepCopy = copy_pointer un_Dashboards C_Dashboards Dashboards_DeepCopyInto"

definition DbaasAdapter_DeepCopyInto :: "dbaas_adapter \<Rightarrow> (('m, 'l, 'x) cell list, dbaas_adapter) state" where
  "DbaasAdapter_DeepCopyInto inn = State_Monad.return inn"

definition DbaasAdapter_DeepCopy :: "nat option \<Rightarrow> (('m, 'l, 'x) cell list, nat option) state" where
  "DbaasAdapter_DeepCopy = copy_pointer un_DbaasAdapter C_DbaasAdapter DbaasAdapter_DeepCopyInto"

definition ElasticsearchDbaasAdapter_DeepCopyInto :: "elasticsearch_dbaas_adapter \<Rightarrow> (('m, 'l, 'x) cell list, elasticsearch_dbaas_adapter) state" where
  "ElasticsearchDbaasAdapter_DeepCopyInto inn = State_Monad.return inn"

definition ElasticsearchDbaasAdapter_DeepCopy :: "nat option \<Rightarrow> (('m, 'l, 'x) cell list, nat option) state" where
  "ElasticsearchDbaasAdapter_DeepCopy = copy_pointer un_ElasticsearchDbaasAdapter C_ElasticsearchDbaasAdapter ElasticsearchDbaasAdapter_DeepCopyInto"

definition Curator_DeepCopyInto :: "curator_spec \<Rightarrow> (('m, 'l, 'x) cell list, curator_spec) state" where
  "Curator_DeepCopyInto inn = State_Monad.return inn"

definition Curator_DeepCopy :: "nat option \<Rightarrow> (('m, 'l, 'x) cell list, nat option) state" where
  "Curator_DeepCopy = copy_pointer un_Curator C_Curator Curator_DeepCopyInto"

definition DisasterRecovery_DeepCopyInto :: "disaster_recovery \<Rightarrow> (('m, 'l, 'x) cell list, disaster_recovery) state" where
  "DisasterRecovery_DeepCopyInto inn = State_Monad.return inn"

definition DisasterRecovery_DeepCopy :: "nat option \<Rightarrow> (('m, 'l, 'x) cell list, nat option) state" where
  "DisasterRecovery_DeepCopy = copy_pointer un_DisasterRecovery C_DisasterRecovery DisasterRecovery_DeepCopyInto"

definition DisasterRecoveryStatus_DeepCopyInto :: "disaster_recovery_status \<Rightarrow> (('m, 'l, 'x) cell list, disaster_recovery_status) state" where
  "DisasterRecoveryStatus_DeepCopyInto inn = State_Monad.return inn"

definition DisasterRecoveryStatus_DeepCopy :: "nat option \<Rightarrow> (('m, 'l, 'x) cell list, nat option) state" where
  "DisasterRecoveryStatus_DeepCopy = copy_pointer un_DisasterRecoveryStatus C_DisasterRecoveryStatus DisasterRecoveryStatus_DeepCopyInto"

definition StatusCondition_DeepCopyInto :: "status_condition \<Rightarrow> (('m, 'l, 'x) cell list, status_condition) state" where
  "StatusCondition_DeepCopyInto inn = State_Monad.return inn"

definition StatusCondition_DeepCopy :: "nat option \<Rightarrow> (('m, 'l, 'x) cell list, nat option) state" where
  "StatusCondition_DeepCopy = copy_pointer un_StatusCondition C_StatusCondition StatusCondition_DeepCopyInto"

text \<open>
  A slice of scalars is copied by \<^verbatim>\<open>make\<close> and \<^verbatim>\<open>copy\<close>, a map by putting its entries in a new one.
\<close>

definition copy_config :: "string go_map \<Rightarrow> (('m, 'l, 'x) cell list, string go_map) state" where
  "copy_config m = State_Monad.return (foldl (\<lambda>out (key, v). map_put key v out) [] m)"

definition ExternalOpenSearch_DeepCopyInto :: "external_mem \<Rightarrow> (('m, 'l, 'x) cell list, external_mem) state" where
  "ExternalOpenSearch_DeepCopyInto inn = do {
     p \<leftarrow> copy_pointer un_Config C_Config copy_config (em_Config inn);
     State_Monad.return (inn\<lparr>em_Config := p\<rparr>) }"

definition ExternalOpenSearch_DeepCopy :: "nat option \<Rightarrow> (('m, 'l, 'x) cell list, nat option) state" where
  "ExternalOpenSearch_DeepCopy = copy_pointer un_ExternalOpenSearch C_ExternalOpenSearch ExternalOpenSearch_DeepCopyInto"

definition Monitoring_DeepCopyInto :: "monitoring_mem \<Rightarrow> (('m, 'l, 'x) cell list, monitoring_mem) state" where
  "Monitoring_DeepCopyInto inn = do {
     p \<leftarrow> copy_pointer un_SlowQueries C_SlowQueries State_Monad.return (mm_SlowQueries inn);
     State_Monad.return (inn\<lparr>mm_SlowQueries := p\<rparr>) }"

definition Monitoring_DeepCopy :: "nat option \<Rightarrow> (('m, 'l, 'x) cell list, nat option) state" where
  "Monitoring_DeepCopy = copy_pointer un_Monitoring C_Monitoring Monitoring_DeepCopyInto"

definition Snapshots_DeepCopyInto :: "snapshots_mem \<Rightarrow> (('m, 'l, 'x) cell list, snapshots_mem) state" where
  "Snapshots_DeepCopyInto inn = do {
     p \<leftarrow> copy_pointer un_S3 C_S3 State_Monad.return (sm_S3 inn);
     State_Monad.return (inn\<lparr>sm_S3 := p\<rparr>) }"

definition Snapshots_DeepCopy :: "nat option \<Rightarrow> (('m, 'l, 'x) cell list, nat option) state" where
  "Snapshots_DeepCopy = copy_pointer un_Snapshots C_Snapshots Snapshots_DeepCopyInto"

definition OpenSearch_DeepCopyInto :: "opensearch_mem \<Rightarrow> (('m, 'l, 'x) cell list, opensearch_mem) state" where
  "OpenSearch_DeepCopyInto inn = do {
     p \<leftarrow> copy_pointer un_Snapshots C_Snapshots Snapshots_DeepCopyInto (om_Snapshots inn);
     q \<leftarrow> copy_pointer un_Strings C_Strings State_Monad.return (om_DisabledRestCategories inn);
     State_Monad.return (inn\<lparr>om_Snapshots := p, om_DisabledRestCategories := q\<rparr>) }"

definition OpenSearch_DeepCopy :: "nat option \<Rightarrow> (('m, 'l, 'x) cell list, nat option) state" where
  "OpenSearch_DeepCopy = copy_pointer un_OpenSearch C_OpenSearch OpenSearch_DeepCopyInto"

definition OpenSearchServiceSpec_DeepCopyInto :: "spec_mem \<Rightarrow> (('m, 'l, 'x) cell list, spec_mem) state" where
  "OpenSearchServiceSpec_DeepCopyInto inn = do {
     p1 \<leftarrow> copy_pointer un_OpenSearch C_OpenSearch OpenSearch_DeepCopyInto (pm_OpenSearch inn);
     p2 \<leftarrow> copy_pointer un_ExternalOpenSearch C_ExternalOpenSearch ExternalOpenSearch_DeepCopyInto
             (pm_ExternalOpenSearch inn);
     p3 \<leftarrow> copy_pointer un_Dashboards C_Dashboards State_Monad.return (pm_Dashboards inn);
     p4 \<leftarrow> copy_pointer un_Monitoring C_Monitoring Monitoring_DeepCopyInto (pm_Monitoring inn);
     p5 \<leftarrow> copy_pointer un_DbaasAdapter C_DbaasAdapter State_Monad.return (pm_DbaasAdapter inn);
     p6 \<leftarrow> copy_pointer un_ElasticsearchDbaasAdapter C_ElasticsearchDbaasAdapter State_Monad.return
             (pm_ElasticsearchDbaasAdapter inn);
     p7 \<leftarrow> copy_pointer un_Curator C_Curator State_Monad.return (pm_Curator inn);
     p8 \<leftarrow> copy_pointer un_DisasterRecovery C_DisasterRecovery State_Monad.return (pm_DisasterRecovery inn);
     State_Monad.return (inn\<lparr>pm_OpenSearch := p1, pm_ExternalOpenSearch := p2, pm_Dashboards := p3,
       pm_Monitoring := p4, pm_DbaasAdapter := p5, pm_ElasticsearchDbaasAdapter := p6,
       pm_Curator := p7, pm_DisasterRecovery := p8\<rparr>) }"

definition OpenSearchServiceSpec_DeepCopy :: "nat option \<Rightarrow> (('m, 'l, 'x) cell list, nat option) state" where
  "OpenSearchServiceSpec_DeepCopy = copy_pointer un_OpenSearchServiceSpec C_OpenSearchServiceSpec OpenSearchServiceSpec_DeepCopyInto"

definition StatefulSetStatus_DeepCopyInto :: "set_status_mem \<Rightarrow> (('m, 'l, 'x) cell list, set_status_mem) state" where
  "StatefulSetStatus_DeepCopyInto inn = do {
     p \<leftarrow> copy_pointer un_Replicas C_Replicas State_Monad.return (tm_UpdatedReplicas inn);
     State_Monad.return (inn\<lparr>tm_UpdatedReplicas := p\<rparr>) }"

definition StatefulSetStatus_DeepCopy :: "nat option \<Rightarrow> (('m, 'l, 'x) cell list, nat option) state" where
  "StatefulSetStatus_DeepCopy = copy_pointer un_StatefulSetStatus C_StatefulSetStatus StatefulSetStatus_DeepCopyInto"

definition RollingUpdateStatus_DeepCopyInto :: "rolling_mem \<Rightarrow> (('m, 'l, 'x) cell list, rolling_mem) state" where
  "RollingUpdateStatus_DeepCopyInto inn = do {
     p \<leftarrow> copy_pointer un_StatefulSetStatuses C_StatefulSetStatuses
            (copy_elements StatefulSetStatus_DeepCopyInto) (rm_StatefulSetStatuses inn);
     State_Monad.return (inn\<lparr>rm_StatefulSetStatuses := p\<rparr>) }"

definition RollingUpdateStatus_DeepCopy :: "nat option \<Rightarrow> (('m, 'l, 'x) cell list, nat option) state" where
  "RollingUpdateStatus_DeepCopy = copy_pointer un_RollingUpdateStatus C_RollingUpdateStatus RollingUpdateStatus_DeepCopyInto"

definition OpenSearchServiceStatus_DeepCopyInto :: "status_mem \<Rightarrow> (('m, 'l, 'x) cell list, status_mem) state" where
  "OpenSearchServiceStatus_DeepCopyInto inn = do {
     p \<leftarrow> copy_pointer un_Conditions C_Conditions State_Monad.return (um_Conditions inn);
     r \<leftarrow> RollingUpdateStatus_DeepCopyInto (um_RollingUpdateStatus inn);
     State_Monad.return (inn\<lparr>um_Conditions := p, um_RollingUpdateStatus := r\<rparr>) }"

definition OpenSearchServiceStatus_DeepCopy :: "nat option \<Rightarrow> (('m, 'l, 'x) cell list, nat option) state" where
  "OpenSearchServiceStatus_DeepCopy = copy_pointer un_OpenSearchServiceStatus C_OpenSearchServiceStatus OpenSearchServiceStatus_DeepCopyInto"

text \<open>\<open>om\<close> and \<open>lm\<close> copy the metadata of an object and of a list.\<close>

definition OpenSearchService_DeepCopyInto ::
  "('m \<Rightarrow> (('m, 'l, 'x) cell list, 'm) state) \<Rightarrow> 'm service_mem \<Rightarrow> (('m, 'l, 'x) cell list, 'm service_mem) state" where
  "OpenSearchService_DeepCopyInto om inn = do {
     m \<leftarrow> om (vm_ObjectMeta inn);
     s \<leftarrow> OpenSearchServiceSpec_DeepCopyInto (vm_Spec inn);
     t \<leftarrow> OpenSearchServiceStatus_DeepCopyInto (vm_Status inn);
     State_Monad.return (inn\<lparr>vm_ObjectMeta := m, vm_Spec := s, vm_Status := t\<rparr>) }"

definition OpenSearchService_DeepCopy :: "('m \<Rightarrow> (('m, 'l, 'x) cell list, 'm) state) \<Rightarrow> nat option \<Rightarrow> (('m, 'l, 'x) cell list, nat option) state" where
  "OpenSearchService_DeepCopy om = copy_pointer un_OpenSearchService C_OpenSearchService (OpenSearchService_DeepCopyInto om)"

text \<open>An interface that is \<^verbatim>\<open>nil\<close>, and not one that holds a \<^verbatim>\<open>nil\<close> pointer.\<close>

datatype runtime_object = Nil_Interface | Object nat

definition OpenSearchService_DeepCopyObject ::
  "('m \<Rightarrow> (('m, 'l, 'x) cell list, 'm) state) \<Rightarrow> nat option \<Rightarrow> (('m, 'l, 'x) cell list, runtime_object) state" where
  "OpenSearchService_DeepCopyObject om inn = do {
     c \<leftarrow> OpenSearchService_DeepCopy om inn;
     State_Monad.return (case c of Some a \<Rightarrow> Object a | None \<Rightarrow> Nil_Interface) }"

definition OpenSearchServiceList_DeepCopyInto ::
  "('m \<Rightarrow> (('m, 'l, 'x) cell list, 'm) state) \<Rightarrow> ('l \<Rightarrow> (('m, 'l, 'x) cell list, 'l) state) \<Rightarrow>
   'l list_mem \<Rightarrow> (('m, 'l, 'x) cell list, 'l list_mem) state" where
  "OpenSearchServiceList_DeepCopyInto om lm inn = do {
     l \<leftarrow> lm (lm_ListMeta inn);
     p \<leftarrow> copy_pointer un_Items C_Items (copy_elements (OpenSearchService_DeepCopyInto om)) (lm_Items inn);
     State_Monad.return (inn\<lparr>lm_ListMeta := l, lm_Items := p\<rparr>) }"

definition OpenSearchServiceList_DeepCopy :: "('m \<Rightarrow> (('m, 'l, 'x) cell list, 'm) state) \<Rightarrow> ('l \<Rightarrow> (('m, 'l, 'x) cell list, 'l) state) \<Rightarrow> nat option \<Rightarrow> (('m, 'l, 'x) cell list, nat option) state" where
  "OpenSearchServiceList_DeepCopy om lm = copy_pointer un_OpenSearchServiceList C_OpenSearchServiceList (OpenSearchServiceList_DeepCopyInto om lm)"

definition OpenSearchServiceList_DeepCopyObject ::
  "('m \<Rightarrow> (('m, 'l, 'x) cell list, 'm) state) \<Rightarrow> ('l \<Rightarrow> (('m, 'l, 'x) cell list, 'l) state) \<Rightarrow>
   nat option \<Rightarrow> (('m, 'l, 'x) cell list, runtime_object) state" where
  "OpenSearchServiceList_DeepCopyObject om lm inn = do {
     c \<leftarrow> OpenSearchServiceList_DeepCopy om lm inn;
     State_Monad.return (case c of Some a \<Rightarrow> Object a | None \<Rightarrow> Nil_Interface) }"

section \<open>The values the structs stand for\<close>

text \<open>
  The value is the resource as the rest of the model has it; there is none where an address
  points to no cell of its type, which Go excludes. The records of the resource do not tell an empty
  status slice from \<^verbatim>\<open>nil\<close>.
\<close>

definition elements :: "'a list option \<Rightarrow> 'a list" where
  "elements s = (case s of None \<Rightarrow> [] | Some xs \<Rightarrow> xs)"

definition config_val :: "('m, 'l, 'x) cell list \<Rightarrow> string go_map \<Rightarrow> string go_map option" where
  "config_val h m = (if wf_map m then Some m else None)"

definition external_val :: "('m, 'l, 'x) cell list \<Rightarrow> external_mem \<Rightarrow> external_opensearch option" where
  "external_val h x =
     map_option (\<lambda>c. \<lparr>ext_Config = c, ext_Url = em_Url x\<rparr>) (pointer_val un_Config config_val h (em_Config x))"

definition external_reach :: "('m, 'l, 'x) cell list \<Rightarrow> external_mem \<Rightarrow> nat set" where
  "external_reach h x = pointer_reach un_Config scalar_reach h (em_Config x)"

definition monitoring_val :: "('m, 'l, 'x) cell list \<Rightarrow> monitoring_mem \<Rightarrow> monitoring option" where
  "monitoring_val h x =
     map_option (\<lambda>q. \<lparr>monitoring_Name = mm_Name x, monitoring_SecretName = mm_SecretName x, SlowQueries = q\<rparr>)
       (pointer_val un_SlowQueries scalar_val h (mm_SlowQueries x))"

definition monitoring_reach :: "('m, 'l, 'x) cell list \<Rightarrow> monitoring_mem \<Rightarrow> nat set" where
  "monitoring_reach h x = pointer_reach un_SlowQueries scalar_reach h (mm_SlowQueries x)"

definition snapshots_val :: "('m, 'l, 'x) cell list \<Rightarrow> snapshots_mem \<Rightarrow> snapshots option" where
  "snapshots_val h x =
     map_option (\<lambda>s. \<lparr>RepositoryName = sm_RepositoryName x, snapshots_S3 = s\<rparr>)
       (pointer_val un_S3 scalar_val h (sm_S3 x))"

definition snapshots_reach :: "('m, 'l, 'x) cell list \<Rightarrow> snapshots_mem \<Rightarrow> nat set" where
  "snapshots_reach h x = pointer_reach un_S3 scalar_reach h (sm_S3 x)"

definition opensearch_val :: "('m, 'l, 'x) cell list \<Rightarrow> opensearch_mem \<Rightarrow> opensearch_spec option" where
  "opensearch_val h x =
     map_option (\<lambda>(s, c). \<lparr>DedicatedClientPod = om_DedicatedClientPod x, DedicatedDataPod = om_DedicatedDataPod x,
         Snapshots = s, SecurityConfigurationName = om_SecurityConfigurationName x,
         CompatibilityModeEnabled = om_CompatibilityModeEnabled x, RollingUpdate = om_RollingUpdate x,
         StatefulSetNames = om_StatefulSetNames x, ReadinessTimeout = om_ReadinessTimeout x,
         DisabledRestCategories = c\<rparr>)
       (pair_val (pointer_val un_Snapshots snapshots_val) (pointer_val un_Strings scalar_val) h
         (om_Snapshots x, om_DisabledRestCategories x))"

definition opensearch_reach :: "('m, 'l, 'x) cell list \<Rightarrow> opensearch_mem \<Rightarrow> nat set" where
  "opensearch_reach h x =
     pair_reach (pointer_reach un_Snapshots snapshots_reach) (pointer_reach un_Strings scalar_reach) h
       (om_Snapshots x, om_DisabledRestCategories x)"

definition spec_fields ::
  "spec_mem \<Rightarrow> nat option \<times> nat option \<times> nat option \<times> nat option \<times> nat option \<times> nat option \<times> nat option \<times> nat option" where
  "spec_fields x = (pm_OpenSearch x, pm_ExternalOpenSearch x, pm_Dashboards x, pm_Monitoring x,
     pm_DbaasAdapter x, pm_ElasticsearchDbaasAdapter x, pm_Curator x, pm_DisasterRecovery x)"

definition spec_val :: "('m, 'l, 'x) cell list \<Rightarrow> spec_mem \<Rightarrow> service_spec option" where
  "spec_val h x =
     map_option (\<lambda>(o', e, d, m, a, l, c, r). \<lparr>OpenSearch_spec = o', ExternalOpenSearch = e, Dashboards = d,
         Monitoring = m, DbaasAdapter = a, ElasticsearchDbaasAdapter = l, Curator_spec = c, DisasterRecovery = r\<rparr>)
       (pair_val (pointer_val un_OpenSearch opensearch_val)
        (pair_val (pointer_val un_ExternalOpenSearch external_val)
        (pair_val (pointer_val un_Dashboards scalar_val)
        (pair_val (pointer_val un_Monitoring monitoring_val)
        (pair_val (pointer_val un_DbaasAdapter scalar_val)
        (pair_val (pointer_val un_ElasticsearchDbaasAdapter scalar_val)
        (pair_val (pointer_val un_Curator scalar_val) (pointer_val un_DisasterRecovery scalar_val))))))) h
         (spec_fields x))"

definition spec_reach :: "('m, 'l, 'x) cell list \<Rightarrow> spec_mem \<Rightarrow> nat set" where
  "spec_reach h x =
     pair_reach (pointer_reach un_OpenSearch opensearch_reach)
      (pair_reach (pointer_reach un_ExternalOpenSearch external_reach)
      (pair_reach (pointer_reach un_Dashboards scalar_reach)
      (pair_reach (pointer_reach un_Monitoring monitoring_reach)
      (pair_reach (pointer_reach un_DbaasAdapter scalar_reach)
      (pair_reach (pointer_reach un_ElasticsearchDbaasAdapter scalar_reach)
      (pair_reach (pointer_reach un_Curator scalar_reach) (pointer_reach un_DisasterRecovery scalar_reach))))))) h
       (spec_fields x)"

definition set_status_val :: "('m, 'l, 'x) cell list \<Rightarrow> set_status_mem \<Rightarrow> stateful_set_status option" where
  "set_status_val h x =
     map_option (\<lambda>u. \<lparr>sss_Name = tm_Name x, LastStatefulSetGeneration = tm_LastStatefulSetGeneration x,
         UpdatedReplicas = elements u\<rparr>)
       (pointer_val un_Replicas scalar_val h (tm_UpdatedReplicas x))"

definition set_status_reach :: "('m, 'l, 'x) cell list \<Rightarrow> set_status_mem \<Rightarrow> nat set" where
  "set_status_reach h x = pointer_reach un_Replicas scalar_reach h (tm_UpdatedReplicas x)"

definition rolling_val :: "('m, 'l, 'x) cell list \<Rightarrow> rolling_mem \<Rightarrow> rolling_update_status option" where
  "rolling_val h x =
     map_option (\<lambda>s. \<lparr>rus_Status = rm_Status x, StatefulSetStatuses = elements s\<rparr>)
       (pointer_val un_StatefulSetStatuses (elements_val set_status_val) h (rm_StatefulSetStatuses x))"

definition rolling_reach :: "('m, 'l, 'x) cell list \<Rightarrow> rolling_mem \<Rightarrow> nat set" where
  "rolling_reach h x =
     pointer_reach un_StatefulSetStatuses (elements_reach set_status_reach) h (rm_StatefulSetStatuses x)"

definition status_val :: "('m, 'l, 'x) cell list \<Rightarrow> status_mem \<Rightarrow> service_status option" where
  "status_val h x =
     map_option (\<lambda>(c, r). \<lparr>DisasterRecoveryStatus = um_DisasterRecoveryStatus x, Conditions = elements c,
         RollingUpdateStatus = r\<rparr>)
       (pair_val (pointer_val un_Conditions scalar_val) rolling_val h (um_Conditions x, um_RollingUpdateStatus x))"

definition status_reach :: "('m, 'l, 'x) cell list \<Rightarrow> status_mem \<Rightarrow> nat set" where
  "status_reach h x =
     pair_reach (pointer_reach un_Conditions scalar_reach) rolling_reach h
       (um_Conditions x, um_RollingUpdateStatus x)"

text \<open>The value of an object: its kind, the value of its metadata, the specification and the status.\<close>

type_synonym 'v service_value = "(string \<times> string) \<times> 'v \<times> service_spec \<times> service_status"

definition service_val ::
  "(('m, 'l, 'x) cell list \<Rightarrow> 'm \<Rightarrow> 'v option) \<Rightarrow> ('m, 'l, 'x) cell list \<Rightarrow> 'm service_mem \<Rightarrow> 'v service_value option" where
  "service_val ov h x =
     map_option (Pair (vm_APIVersion x, vm_Kind x))
       (pair_val ov (pair_val spec_val status_val) h (vm_ObjectMeta x, vm_Spec x, vm_Status x))"

definition service_reach ::
  "(('m, 'l, 'x) cell list \<Rightarrow> 'm \<Rightarrow> nat set) \<Rightarrow> ('m, 'l, 'x) cell list \<Rightarrow> 'm service_mem \<Rightarrow> nat set" where
  "service_reach orch h x =
     pair_reach orch (pair_reach spec_reach status_reach) h (vm_ObjectMeta x, vm_Spec x, vm_Status x)"

definition list_val ::
  "(('m, 'l, 'x) cell list \<Rightarrow> 'm \<Rightarrow> 'v option) \<Rightarrow> (('m, 'l, 'x) cell list \<Rightarrow> 'l \<Rightarrow> 'w option) \<Rightarrow>
   ('m, 'l, 'x) cell list \<Rightarrow> 'l list_mem \<Rightarrow> ((string \<times> string) \<times> 'w \<times> 'v service_value list option) option" where
  "list_val ov lv h x =
     map_option (Pair (lm_APIVersion x, lm_Kind x))
       (pair_val lv (pointer_val un_Items (elements_val (service_val ov))) h (lm_ListMeta x, lm_Items x))"

definition list_reach ::
  "(('m, 'l, 'x) cell list \<Rightarrow> 'm \<Rightarrow> nat set) \<Rightarrow> (('m, 'l, 'x) cell list \<Rightarrow> 'l \<Rightarrow> nat set) \<Rightarrow>
   ('m, 'l, 'x) cell list \<Rightarrow> 'l list_mem \<Rightarrow> nat set" where
  "list_reach orch lrch h x =
     pair_reach lrch (pointer_reach un_Items (elements_reach (service_reach orch))) h (lm_ListMeta x, lm_Items x)"

section \<open>Every copy keeps the contract\<close>

lemma copied_config:
  fixes m :: "'a go_map"
  assumes "wf_map m"
  shows "foldl (\<lambda>out (key, v). map_put key v out) [] m = m"
proof -
  have "distinct (map fst (acc @ m)) \<Longrightarrow> foldl (\<lambda>out (key, v). map_put key v out) acc m = acc @ m"
    for acc :: "(string \<times> 'a) list"
  proof (induction m arbitrary: acc)
    case (Cons kv m)
    obtain k v where "kv = (k, v)" by (cases kv)
    moreover have "k \<notin> fst ` set acc \<Longrightarrow> AList.update k v acc = acc @ [(k, v)]" for v
      by (induction acc) auto
    ultimately show ?case using Cons.IH [of "acc @ [kv]"] Cons.prems by (auto simp: map_put_def)
  qed simp
  then show ?thesis using assms by (simp add: wf_map_def)
qed

lemma copying_config: "copying copy_config config_val scalar_reach"
  by unfold_locales
    (auto simp: copy_config_def config_val_def scalar_reach_def State_Monad.return_def copied_config
      split: if_splits)

lemma un_simps [simp]:
  "un_S3 (C_S3 x1) = Some x1"
  "un_SlowQueries (C_SlowQueries x2) = Some x2"
  "un_Dashboards (C_Dashboards x3) = Some x3"
  "un_DbaasAdapter (C_DbaasAdapter x4) = Some x4"
  "un_ElasticsearchDbaasAdapter (C_ElasticsearchDbaasAdapter x5) = Some x5"
  "un_Curator (C_Curator x6) = Some x6"
  "un_DisasterRecovery (C_DisasterRecovery x7) = Some x7"
  "un_DisasterRecoveryStatus (C_DisasterRecoveryStatus x8) = Some x8"
  "un_StatusCondition (C_StatusCondition x9) = Some x9"
  "un_Strings (C_Strings x10) = Some x10"
  "un_Config (C_Config x11) = Some x11"
  "un_Replicas (C_Replicas x12) = Some x12"
  "un_Conditions (C_Conditions x13) = Some x13"
  "un_Snapshots (C_Snapshots x14) = Some x14"
  "un_Monitoring (C_Monitoring x15) = Some x15"
  "un_ExternalOpenSearch (C_ExternalOpenSearch x16) = Some x16"
  "un_OpenSearch (C_OpenSearch x17) = Some x17"
  "un_OpenSearchServiceSpec (C_OpenSearchServiceSpec x18) = Some x18"
  "un_StatefulSetStatus (C_StatefulSetStatus x19) = Some x19"
  "un_StatefulSetStatuses (C_StatefulSetStatuses x20) = Some x20"
  "un_RollingUpdateStatus (C_RollingUpdateStatus x21) = Some x21"
  "un_OpenSearchServiceStatus (C_OpenSearchServiceStatus x22) = Some x22"
  "un_OpenSearchService (C_OpenSearchService x23) = Some x23"
  "un_Items (C_Items x24) = Some x24"
  "un_OpenSearchServiceList (C_OpenSearchServiceList x25) = Some x25"
  by (simp_all add: un_defs)

lemmas copying_intros = copying_scalar copying_config copying_pointer copying_pair copying_elements un_simps

interpretation external_copy: copying ExternalOpenSearch_DeepCopyInto external_val external_reach
  by (rule copying_struct [where get = "em_Config" and put = "\<lambda>t x. x\<lparr>em_Config := t\<rparr>"], rule external_val_def,
      rule external_reach_def, (rule copying_intros)+, auto simp: ExternalOpenSearch_DeepCopyInto_def copy_pair_def)

interpretation monitoring_copy: copying Monitoring_DeepCopyInto monitoring_val monitoring_reach
  by (rule copying_struct [where get = "mm_SlowQueries" and put = "\<lambda>t x. x\<lparr>mm_SlowQueries := t\<rparr>"], rule monitoring_val_def,
      rule monitoring_reach_def, (rule copying_intros)+, auto simp: Monitoring_DeepCopyInto_def copy_pair_def)

interpretation snapshots_copy: copying Snapshots_DeepCopyInto snapshots_val snapshots_reach
  by (rule copying_struct [where get = "sm_S3" and put = "\<lambda>t x. x\<lparr>sm_S3 := t\<rparr>"], rule snapshots_val_def,
      rule snapshots_reach_def, (rule copying_intros)+, auto simp: Snapshots_DeepCopyInto_def copy_pair_def)

interpretation opensearch_copy: copying OpenSearch_DeepCopyInto opensearch_val opensearch_reach
  by (rule copying_struct [where get = "\<lambda>x. (om_Snapshots x, om_DisabledRestCategories x)" and put = "\<lambda>t x. x\<lparr>om_Snapshots := fst t, om_DisabledRestCategories := snd t\<rparr>"], rule opensearch_val_def,
      rule opensearch_reach_def, (rule copying_intros snapshots_copy.copying_axioms)+, auto simp: OpenSearch_DeepCopyInto_def copy_pair_def)

interpretation spec_copy: copying OpenSearchServiceSpec_DeepCopyInto spec_val spec_reach
  by (rule copying_struct [where get = "spec_fields" and put = "\<lambda>(a, b, c, d, e, f, g, i) x. x\<lparr>pm_OpenSearch := a,
        pm_ExternalOpenSearch := b, pm_Dashboards := c, pm_Monitoring := d, pm_DbaasAdapter := e,
        pm_ElasticsearchDbaasAdapter := f, pm_Curator := g, pm_DisasterRecovery := i\<rparr>"], rule spec_val_def,
      rule spec_reach_def, (rule copying_intros
        opensearch_copy.copying_axioms external_copy.copying_axioms monitoring_copy.copying_axioms)+, auto simp: OpenSearchServiceSpec_DeepCopyInto_def copy_pair_def spec_fields_def)

interpretation set_status_copy: copying StatefulSetStatus_DeepCopyInto set_status_val set_status_reach
  by (rule copying_struct [where get = "tm_UpdatedReplicas" and put = "\<lambda>t x. x\<lparr>tm_UpdatedReplicas := t\<rparr>"], rule set_status_val_def,
      rule set_status_reach_def, (rule copying_intros)+, auto simp: StatefulSetStatus_DeepCopyInto_def copy_pair_def)

interpretation rolling_copy: copying RollingUpdateStatus_DeepCopyInto rolling_val rolling_reach
  by (rule copying_struct [where get = "rm_StatefulSetStatuses" and put = "\<lambda>t x. x\<lparr>rm_StatefulSetStatuses := t\<rparr>"], rule rolling_val_def,
      rule rolling_reach_def, (rule copying_intros set_status_copy.copying_axioms)+, auto simp: RollingUpdateStatus_DeepCopyInto_def copy_pair_def)

interpretation status_copy: copying OpenSearchServiceStatus_DeepCopyInto status_val status_reach
  by (rule copying_struct [where get = "\<lambda>x. (um_Conditions x, um_RollingUpdateStatus x)" and put = "\<lambda>t x. x\<lparr>um_Conditions := fst t, um_RollingUpdateStatus := snd t\<rparr>"], rule status_val_def,
      rule status_reach_def, (rule copying_intros rolling_copy.copying_axioms)+, auto simp: OpenSearchServiceStatus_DeepCopyInto_def copy_pair_def)

lemma copying_service:
  assumes "copying om ov orch"
  shows "copying (OpenSearchService_DeepCopyInto om) (service_val ov) (service_reach orch)"
  by (rule copying_struct [where get = "\<lambda>x. (vm_ObjectMeta x, vm_Spec x, vm_Status x)"
        and put = "\<lambda>(m, s, t) x. x\<lparr>vm_ObjectMeta := m, vm_Spec := s, vm_Status := t\<rparr>"], rule service_val_def,
      rule service_reach_def, (rule copying_pair assms spec_copy.copying_axioms status_copy.copying_axioms)+,
      auto simp: OpenSearchService_DeepCopyInto_def copy_pair_def)

lemma copying_list:
  assumes "copying om ov orch" and "copying lm lv lrch"
  shows "copying (OpenSearchServiceList_DeepCopyInto om lm) (list_val ov lv) (list_reach orch lrch)"
  by (rule copying_struct [where get = "\<lambda>x. (lm_ListMeta x, lm_Items x)"
        and put = "\<lambda>t x. x\<lparr>lm_ListMeta := fst t, lm_Items := snd t\<rparr>"], rule list_val_def,
      rule list_reach_def,
      (rule copying_pair copying_pointer copying_elements copying_service assms un_simps)+,
      auto simp: OpenSearchServiceList_DeepCopyInto_def copy_pair_def)

lemma scalar_copies:
  "copying S3_DeepCopyInto scalar_val scalar_reach"
  "copying SlowQueries_DeepCopyInto scalar_val scalar_reach"
  "copying Dashboards_DeepCopyInto scalar_val scalar_reach"
  "copying DbaasAdapter_DeepCopyInto scalar_val scalar_reach"
  "copying ElasticsearchDbaasAdapter_DeepCopyInto scalar_val scalar_reach"
  "copying Curator_DeepCopyInto scalar_val scalar_reach"
  "copying DisasterRecovery_DeepCopyInto scalar_val scalar_reach"
  "copying DisasterRecoveryStatus_DeepCopyInto scalar_val scalar_reach"
  "copying StatusCondition_DeepCopyInto scalar_val scalar_reach"
  unfolding S3_DeepCopyInto_def SlowQueries_DeepCopyInto_def Dashboards_DeepCopyInto_def
    DbaasAdapter_DeepCopyInto_def ElasticsearchDbaasAdapter_DeepCopyInto_def Curator_DeepCopyInto_def
    DisasterRecovery_DeepCopyInto_def DisasterRecoveryStatus_DeepCopyInto_def StatusCondition_DeepCopyInto_def
  by (rule copying_scalar)+

text \<open>The contract of a pointer to an object and of a pointer to a list.\<close>

abbreviation object_val ::
  "(('m, 'l, 'x) cell list \<Rightarrow> 'm \<Rightarrow> 'v option) \<Rightarrow> ('m, 'l, 'x) cell list \<Rightarrow> nat option \<Rightarrow> 'v service_value option option" where
  "object_val ov \<equiv> pointer_val un_OpenSearchService (service_val ov)"

abbreviation object_reach ::
  "(('m, 'l, 'x) cell list \<Rightarrow> 'm \<Rightarrow> nat set) \<Rightarrow> ('m, 'l, 'x) cell list \<Rightarrow> nat option \<Rightarrow> nat set" where
  "object_reach orch \<equiv> pointer_reach un_OpenSearchService (service_reach orch)"

lemma copying_object:
  assumes "copying om ov orch"
  shows "copying (OpenSearchService_DeepCopy om) (object_val ov) (object_reach orch)"
  unfolding OpenSearchService_DeepCopy_def by (intro copying_pointer copying_service assms un_simps)

lemma copying_list_pointer:
  assumes "copying om ov orch" and "copying lm lv lrch"
  shows "copying (OpenSearchServiceList_DeepCopy om lm)
    (pointer_val un_OpenSearchServiceList (list_val ov lv)) (pointer_reach un_OpenSearchServiceList (list_reach orch lrch))"
  unfolding OpenSearchServiceList_DeepCopy_def by (intro copying_pointer copying_list assms un_simps)

text \<open>\<^verbatim>\<open>DeepCopyObject\<close> of a \<^verbatim>\<open>nil\<close> object is the \<^verbatim>\<open>nil\<close> interface, and otherwise holds what \<^verbatim>\<open>DeepCopy\<close> gives.\<close>

lemma DeepCopyObject_nil: "run_state (OpenSearchService_DeepCopyObject om None) h = (Nil_Interface, h)"
  by (simp add: OpenSearchService_DeepCopyObject_def OpenSearchService_DeepCopy_def copy_pointer_def)

lemma DeepCopyObject_some:
  assumes "copying om ov orch" and "object_val ov h (Some a) = Some v"
  shows "\<exists>b h'. run_state (OpenSearchService_DeepCopyObject om (Some a)) h = (Object b, h') \<and>
    run_state (OpenSearchService_DeepCopy om (Some a)) h = (Some b, h')"
proof -
  obtain q h' where q: "run_state (OpenSearchService_DeepCopy om (Some a)) h = (q, h')"
    by (cases "run_state (OpenSearchService_DeepCopy om (Some a)) h")
  have "object_val ov h' q = Some v"
    using copying.copies [OF copying_object [OF assms(1)] assms(2) q] by blast
  moreover obtain w where "v = Some w" using assms(2) by (auto simp: pointer_val_Some)
  ultimately obtain b where "q = Some b" by (cases q) (auto simp: pointer_val_def)
  then show ?thesis using q by (simp add: OpenSearchService_DeepCopyObject_def run_state_bind)
qed

section \<open>The resource and its copy are independent\<close>

text \<open>
  C14. A deep copy of a custom resource has the value of the original, and the original keeps its
  value. Afterwards the two share no memory: whatever is written to a cell that one of them
  reaches, however deep below it, the other keeps its value. That the copy of the metadata does so is
  assumed.
\<close>

theorem DeepCopy_independent:
  assumes "copying om ov orch"
    and "object_val ov h p = Some v"
    and "run_state (OpenSearchService_DeepCopy om p) h = (q, h')"
  shows "object_val ov h' q = Some v \<and> object_val ov h' p = Some v \<and>
    (\<forall>a c. a \<in> object_reach orch h' q \<longrightarrow> object_val ov (h'[a := c]) p = Some v) \<and>
    (\<forall>a c. a \<in> object_reach orch h' p \<longrightarrow> object_val ov (h'[a := c]) q = Some v)"
proof -
  note c = copying_object [OF assms(1)] and r = assms(2,3)
  show ?thesis
    using copying.copies [OF c r] copying.original_kept(1) [OF c r] copying.write_copy [OF c r]
      copying.write_original [OF c r] by blast
qed

definition demo_heap :: "(string, unit, unit) cell list" where
  "demo_heap =
     [C_S3 \<lparr>s3_Enabled = True, s3_PathStyleAccess = True, s3_Url = ''http://minio'', s3_Bucket = ''backup'',
        s3_BasePath = [], s3_Region = [], s3_SecretName = ''s3'', s3_GcsEnabled = False\<rparr>,
      C_Snapshots \<lparr>sm_RepositoryName = ''snapshots'', sm_S3 = Some 0\<rparr>,
      C_Strings [''AUDIT''],
      C_OpenSearch \<lparr>om_DedicatedClientPod = False, om_DedicatedDataPod = False, om_Snapshots = Some 1,
        om_SecurityConfigurationName = ''security'', om_CompatibilityModeEnabled = False,
        om_RollingUpdate = True, om_StatefulSetNames = ''opensearch'', om_ReadinessTimeout = ''800s'',
        om_DisabledRestCategories = Some 2\<rparr>,
      C_OpenSearchService \<lparr>vm_APIVersion = ''v1'', vm_Kind = ''OpenSearchService'', vm_ObjectMeta = ''opensearch'',
        vm_Spec = \<lparr>pm_OpenSearch = Some 3, pm_ExternalOpenSearch = None, pm_Dashboards = None, pm_Monitoring = None,
          pm_DbaasAdapter = None, pm_ElasticsearchDbaasAdapter = None, pm_Curator = None, pm_DisasterRecovery = None\<rparr>,
        vm_Status = \<lparr>um_DisasterRecoveryStatus = \<lparr>drs_Mode = [], drs_Status = [], drs_Comment = [],
            drs_Message = [], UsersRecoveryState = []\<rparr>, um_Conditions = None,
          um_RollingUpdateStatus = \<lparr>rm_Status = [], rm_StatefulSetStatuses = None\<rparr>\<rparr>\<rparr>]"

lemma demo_values:
  "object_val scalar_val demo_heap (Some 4) \<noteq> None"
  "fst (run_state (OpenSearchService_DeepCopy State_Monad.return (Some 4)) demo_heap) = Some 9"
  "5 \<in> object_reach scalar_reach (snd (run_state (OpenSearchService_DeepCopy State_Monad.return (Some 4)) demo_heap)) (Some 9)"
  by code_simp+

theorem DeepCopy_independent_witness:
  "\<exists>v h'. object_val scalar_val demo_heap (Some 4) = Some v \<and>
     run_state (OpenSearchService_DeepCopy State_Monad.return (Some 4)) demo_heap = (Some 9, h') \<and>
     object_val scalar_val h' (Some 9) = Some v \<and>
     object_val scalar_val (h'[5 := C_Strings []]) (Some 4) = Some v"
proof -
  obtain v where v: "object_val scalar_val demo_heap (Some 4) = Some v" using demo_values(1) by blast
  obtain h' where h': "run_state (OpenSearchService_DeepCopy State_Monad.return (Some 4)) demo_heap = (Some 9, h')"
    using demo_values(2) by (metis prod.collapse)
  then have "5 \<in> object_reach scalar_reach h' (Some 9)" using demo_values(3) by simp
  then show ?thesis using v h' DeepCopy_independent [OF copying_scalar v h'] by blast
qed

end
