(* ===== verification/Replication.thy ===== *)
theory Replication
  imports Operator_Base
begin

text \<open>
  Cross-cluster replication: the manager that starts, checks and stops it
  (\<^verbatim>\<open>replication_manager.go\<close>), and the package \<^verbatim>\<open>disasterrecovery\<close> with the check of its health and the
  health endpoint. Error texts that print whole structs (\<^verbatim>\<open>%+v\<close>) leave the struct out, and so does
  the one that prints an error with the verb \<^verbatim>\<open>%e\<close>.
\<close>

section \<open>Data\<close>

definition leaderAlias :: string where "leaderAlias = ''leader-cluster''"
definition startFullReplicationPath :: string where "startFullReplicationPath = ''_plugins/_replication/_autofollow''"
definition replicationName :: string where "replicationName = ''dr-replication''"
definition replicationNotInProgressStatus :: string where "replicationNotInProgressStatus = ''REPLICATION NOT IN PROGRESS''"
definition replicationAttemptsNumber :: nat where "replicationAttemptsNumber = 5"

definition status_path :: "string \<Rightarrow> string" where
  "status_path index = ''_plugins/_replication/'' @ index @ ''/_status''"

record replication_manager =
  rm_client :: rest_client
  remoteUrl :: string
  rm_pattern :: string

text \<open>Of the statistics of the follower only the names of the indices are used.\<close>

definition dec_replication_stats :: "unit go_map decoder" where
  "dec_replication_stats = dec_struct
     [(''num_syncing_indices'', \<lambda>j r. map_option (\<lambda>_. r) (dec_int j 0)),
      (''num_bootstrapping_indices'', \<lambda>j r. map_option (\<lambda>_. r) (dec_int j 0)),
      (''num_paused_indices'', \<lambda>j r. map_option (\<lambda>_. r) (dec_int j 0)),
      (''num_failed_indices'', \<lambda>j r. map_option (\<lambda>_. r) (dec_int j 0)),
      field ''index_stats'' (dec_map () (dec_struct [])) id (\<lambda>f. f)]"

definition dec_inner_task :: "string decoder" where
  "dec_inner_task = dec_struct [field ''action'' dec_string id (\<lambda>f. f)]"

definition dec_tasks_info :: "string go_map decoder" where
  "dec_tasks_info = dec_struct [field ''tasks'' (dec_map [] dec_inner_task) id (\<lambda>f. f)]"

definition dec_nodes_info :: "string go_map go_map decoder" where
  "dec_nodes_info = dec_struct [field ''nodes'' (dec_map [] dec_tasks_info) id (\<lambda>f. f)]"

record rule_stats =
  RuleName :: string
  RulePattern :: string
  SuccessStart :: int
  FailedStart :: int
  FailedIndices :: "string list"

definition zero_rule :: rule_stats where
  "zero_rule = \<lparr>RuleName = [], RulePattern = [], SuccessStart = 0, FailedStart = 0, FailedIndices = []\<rparr>"

definition dec_rule :: "rule_stats decoder" where
  "dec_rule = dec_struct
     [field ''name'' dec_string RuleName RuleName_update,
      field ''pattern'' dec_string RulePattern RulePattern_update,
      field ''num_success_start_replication'' dec_int SuccessStart SuccessStart_update,
      field ''num_failed_start_replication'' dec_int FailedStart FailedStart_update,
      field ''failed_indices'' (dec_list [] dec_string) FailedIndices FailedIndices_update]"

definition dec_autofollow_stats :: "rule_stats list decoder" where
  "dec_autofollow_stats = dec_struct
     [(''num_success_start_replication'', \<lambda>j r. map_option (\<lambda>_. r) (dec_int j 0)),
      (''num_failed_start_replication'', \<lambda>j r. map_option (\<lambda>_. r) (dec_int j 0)),
      field ''autofollow_stats'' (dec_list zero_rule dec_rule) id (\<lambda>f. f)]"

record index_details =
  LeaderCheckpoint :: int
  FollowerCheckpoint :: int
  SeqNo :: int

record replication_index_stats =
  ris_Status :: string
  ris_Reason :: string
  Details :: index_details

definition zero_index_stats :: replication_index_stats where
  "zero_index_stats = \<lparr>ris_Status = [], ris_Reason = [], Details = \<lparr>LeaderCheckpoint = 0, FollowerCheckpoint = 0, SeqNo = 0\<rparr>\<rparr>"

definition dec_index_details :: "index_details decoder" where
  "dec_index_details = dec_struct
     [field ''leader_checkpoint'' dec_int LeaderCheckpoint LeaderCheckpoint_update,
      field ''follower_checkpoint'' dec_int FollowerCheckpoint FollowerCheckpoint_update,
      field ''seq_no'' dec_int SeqNo SeqNo_update]"

definition dec_index_stats :: "replication_index_stats decoder" where
  "dec_index_stats = dec_struct
     [field ''status'' dec_string ris_Status ris_Status_update,
      field ''reason'' dec_string ris_Reason ris_Reason_update,
      field ''syncing_details'' dec_index_details Details Details_update]"

record plugin_error =
  err_Reason :: string
  err_Type :: string
  caused_Type :: string
  caused_Reason :: string

definition zero_plugin_error :: plugin_error where
  "zero_plugin_error = \<lparr>err_Reason = [], err_Type = [], caused_Type = [], caused_Reason = []\<rparr>"

definition dec_plugin_error :: "plugin_error decoder" where
  "dec_plugin_error = dec_struct
     [(''error'', dec_struct
        [field ''reason'' dec_string err_Reason err_Reason_update,
         field ''type'' dec_string err_Type err_Type_update,
         (''caused_by'', dec_struct
            [field ''type'' dec_string caused_Type caused_Type_update,
             field ''reason'' dec_string caused_Reason caused_Reason_update])]),
      (''status'', \<lambda>j r. map_option (\<lambda>_. r) (dec_int j 0))]"

section \<open>The replication manager\<close>

definition NewReplicationManager :: "rest_client \<Rightarrow> string \<Rightarrow> string \<Rightarrow> replication_manager" where
  "NewReplicationManager rc url indexPattern = \<lparr>rm_client = rc, remoteUrl = url, rm_pattern = indexPattern\<rparr>"

definition configure_text :: "string \<Rightarrow> string" where
  "configure_text url =
     nl 0 @ ''{'' @
     nl 0 @ ''  '' @ dquote ''persistent'' @ '': {'' @
     nl 0 @ ''    '' @ dquote ''cluster'' @ '': {'' @
     nl 1 @ ''  '' @ dquote ''remote'' @ '': {'' @
     nl 2 @ dquote leaderAlias @ '': {'' @
     nl 2 @ ''  '' @ dquote ''seeds'' @ '': ['' @ dquote url @ '']'' @
     nl 2 @ ''}'' @
     nl 1 @ ''  }'' @
     nl 0 @ ''    }'' @
     nl 0 @ ''  }'' @
     nl 0 @ ''}'' @ nl 0"

definition rm_Configure :: "'s op_env \<Rightarrow> replication_manager \<Rightarrow> ('s, go_error + unit) operator" where
  "rm_Configure E rm = do {
     (statusCode, _, err) \<leftarrow> SendRequest E (rm_client rm) ''PUT'' ''_cluster/settings'' (Some (Text (configure_text (remoteUrl rm))));
     return (case err of
       Some e \<Rightarrow> Inl e
     | None \<Rightarrow>
         (if statusCode \<ge> 400 then
            Inl (Err (''asynchronous request to create connection with the remote opensearch cluster returned unexpected status code - ['' @
              show_int statusCode @ '']''))
          else Inr ())) }"

definition start_text :: "string \<Rightarrow> string" where
  "start_text pattern =
     nl 0 @ ''{'' @
     nl 0 @ ''  '' @ member_text ''leader_alias'' leaderAlias @ '','' @
     nl 0 @ ''  '' @ member_text ''pattern'' pattern @ '','' @
     nl 0 @ ''  '' @ member_text ''name'' replicationName @ '','' @
     nl 0 @ ''  '' @ dquote ''use_roles'' @ '': {'' @
     nl 0 @ ''    '' @ member_text ''leader_cluster_role'' ''all_access'' @ '','' @
     nl 1 @ member_text ''follower_cluster_role'' ''all_access'' @
     nl 0 @ ''  }'' @
     nl 0 @ ''}'' @ nl 0"

definition start_error :: "int \<Rightarrow> plugin_error \<Rightarrow> go_error" where
  "start_error statusCode e =
     (if statusCode = 500 \<and> err_Type e = ''connect_transport_exception'' \<and>
         caused_Reason e = ''handshake failed because connection reset'' then
        Err ''leader and follower opensearch clusters have different admin and transport certs''
      else if statusCode = 500 \<and> err_Type e = ''connect_transport_exception'' \<and>
         HasPrefix (caused_Reason e) ''Connection refused'' then
        Err ''the leader opensearch cluster was resolved but connection refused, please, check leader cluster configuration carefully.''
      else if statusCode = 404 \<and> err_Type e = ''no_such_remote_cluster_exception'' then
        Err (''the opensearch cluster with alias ['' @ leaderAlias @ ''] was not found, check that it is created on the previous step.'')
      else if statusCode = 400 \<and> err_Type e = ''illegal_argument_exception'' \<and> caused_Type e = ''unknown_host_exception'' then
        Err (''remote opensearch cluster host - ['' @ caused_Reason e @ ''] is invalid.'')
      else Err ''error occurred during start dr replication'')"

definition rm_Start :: "'s op_env \<Rightarrow> replication_manager \<Rightarrow> ('s, go_error + unit) operator" where
  "rm_Start E rm = do {
     (statusCode, respBody, err) \<leftarrow> SendRequest E (rm_client rm) ''POST'' startFullReplicationPath (Some (Text (start_text (rm_pattern rm))));
     return (case err of
       Some e \<Rightarrow> Inl e
     | None \<Rightarrow>
         (if 200 \<le> statusCode \<and> statusCode < 300 then Inr ()
          else (case unmarshal dec_plugin_error respBody zero_plugin_error of
              Inl e \<Rightarrow> Inl e
            | Inr replicationErrorData \<Rightarrow> Inl (start_error statusCode replicationErrorData)))) }"

definition GetAutoFollowRuleStats :: "'s op_env \<Rightarrow> replication_manager \<Rightarrow> ('s, go_error + rule_stats option) operator" where
  "GetAutoFollowRuleStats E rm = do {
     (_, b, err) \<leftarrow> SendRequest E (rm_client rm) ''GET'' ''_plugins/_replication/autofollow_stats'' None;
     return (case err of
       Some e \<Rightarrow> Inl e
     | None \<Rightarrow>
         (case unmarshal dec_autofollow_stats b [] of
            Inl e \<Rightarrow> Inl e
          | Inr rules \<Rightarrow> Inr (find (\<lambda>rule. RuleName rule = replicationName) rules))) }"

definition RemoveReplicationRule :: "'s op_env \<Rightarrow> replication_manager \<Rightarrow> ('s, go_error + unit) operator" where
  "RemoveReplicationRule E rm = do {
     rule \<leftarrow> GetAutoFollowRuleStats E rm;
     (case rule of
        Inl _ \<Rightarrow> return (Inl (Err ''failed to get replication rule''))
      | Inr None \<Rightarrow> return (Inr ())
      | Inr (Some _) \<Rightarrow> do {
          (statusCode, _, err) \<leftarrow> SendRequest E (rm_client rm) ''DELETE'' startFullReplicationPath
            (Some (Text (''{'' @ member_text ''leader_alias'' leaderAlias @ '','' @ member_text ''name'' replicationName @ ''}'')));
          return (case err of
            Some e \<Rightarrow> Inl e
          | None \<Rightarrow>
              (if statusCode \<ge> 400 \<and> statusCode \<noteq> 404 then
                 Inl (Err (''internal server error with '' @ show_int statusCode @ '' status code''))
               else Inr ())) }) }"

definition getReplicatedIndices :: "'s op_env \<Rightarrow> replication_manager \<Rightarrow> ('s, go_error + string list) operator" where
  "getReplicatedIndices E rm = do {
     (statusCode, resp, err) \<leftarrow> SendRequest E (rm_client rm) ''GET'' ''_plugins/_replication/follower_stats'' None;
     return (case err of
       Some e \<Rightarrow> Inl e
     | None \<Rightarrow>
         (if statusCode \<ge> 400 then Inl (Err ''internal server error'')
          else (case unmarshal dec_replication_stats resp [] of Inl e \<Rightarrow> Inl e | Inr stats \<Rightarrow> Inr (map fst stats)))) }"

fun stop_each :: "'s op_env \<Rightarrow> replication_manager \<Rightarrow> string list \<Rightarrow> ('s, go_error + unit) operator" where
  "stop_each E rm [] = return (Inr ())"
| "stop_each E rm (index # rest) = do {
     (statusCode, responseBody, err) \<leftarrow> SendRequest E (rm_client rm) ''POST'' (''_plugins/_replication/'' @ index @ ''/_stop'') (Some (Text ''{}''));
     (case err of
        Some e \<Rightarrow> return (Inl e)
      | None \<Rightarrow>
          (if statusCode \<ge> 400 then
             return (Inl (Err (''can not stop replication for ['' @ index @ ''] index with status code - ['' @ show_int statusCode @ ''], response - ['' @ body_text responseBody @ '']'')))
           else stop_each E rm rest)) }"

definition stopIndicesReplication :: "'s op_env \<Rightarrow> replication_manager \<Rightarrow> string list \<Rightarrow> ('s, go_error + unit) operator" where
  "stopIndicesReplication E rm indexNames = stop_each E rm indexNames"

definition StopReplication :: "'s op_env \<Rightarrow> replication_manager \<Rightarrow> ('s, go_error + unit) operator" where
  "StopReplication E rm =
     onOk (getReplicatedIndices E rm) (\<lambda>indexNames.
       if indexNames = [] then return (Inr ()) else stopIndicesReplication E rm indexNames)"

definition getReplicationIndexStats :: "'s op_env \<Rightarrow> replication_manager \<Rightarrow> string \<Rightarrow> ('s, go_error + replication_index_stats) operator" where
  "getReplicationIndexStats E rm path = do {
     (_, b, err) \<leftarrow> SendRequest E (rm_client rm) ''GET'' path None;
     return (case err of Some e \<Rightarrow> Inl e | None \<Rightarrow> unmarshal dec_index_stats b zero_index_stats) }"

definition getIndexReplicationStatus :: "'s op_env \<Rightarrow> replication_manager \<Rightarrow> string \<Rightarrow> ('s, go_error + replication_index_stats) operator" where
  "getIndexReplicationStatus E rm index = getReplicationIndexStats E rm (status_path index)"

text \<open>
  The first loop of \<^verbatim>\<open>executeReplicationCheck\<close>: the indices in progress with the leader's checkpoint,
  and the failed ones.
\<close>

definition in_sync_state :: "string \<Rightarrow> bool" where
  "in_sync_state status \<longleftrightarrow> status = ''SYNCING'' \<or> status = ''BOOTSTRAPPING''"

fun classify_indices ::
  "'s op_env \<Rightarrow> replication_manager \<Rightarrow> string list \<Rightarrow> int go_map \<Rightarrow> string list \<Rightarrow> ('s, go_error + int go_map \<times> string list) operator" where
  "classify_indices E rm [] inProgress failed = return (Inr (inProgress, failed))"
| "classify_indices E rm (index # rest) inProgress failed =
     (case regexp_Compile E (ReplaceAll (rm_pattern rm) (CHR ''*'') ''.*'') of
        Inl e \<Rightarrow> return (Inl e)
      | Inr matches \<Rightarrow>
          (if \<not> matches index then classify_indices E rm rest inProgress failed
           else onOk (getIndexReplicationStatus E rm index) (\<lambda>st.
             if in_sync_state (ris_Status st) then
               classify_indices E rm rest
                 (if LeaderCheckpoint (Details st) \<noteq> FollowerCheckpoint (Details st)
                  then map_put index (LeaderCheckpoint (Details st)) inProgress else inProgress) failed
             else classify_indices E rm rest inProgress (failed @ [index]))))"

fun update_each :: "'s op_env \<Rightarrow> replication_manager \<Rightarrow> int go_map \<Rightarrow> int go_map \<Rightarrow> ('s, go_error + int go_map) operator" where
  "update_each E rm [] remaining = return (Inr remaining)"
| "update_each E rm ((index, leaderCheckpoint) # others) remaining =
     onOk (getReplicationIndexStats E rm (status_path index)) (\<lambda>st.
       update_each E rm others
         (if FollowerCheckpoint (Details st) < leaderCheckpoint then map_put index leaderCheckpoint remaining else remaining))"

definition updateInProgressIndices :: "'s op_env \<Rightarrow> replication_manager \<Rightarrow> int go_map \<Rightarrow> ('s, go_error + int go_map) operator" where
  "updateInProgressIndices E rm inProgress = update_each E rm inProgress []"

fun check_attempts :: "nat \<Rightarrow> 's op_env \<Rightarrow> replication_manager \<Rightarrow> int go_map \<Rightarrow> ('s, go_error + unit) operator" where
  "check_attempts 0 E rm inProgress = return (Inl (Err ''replication check was failed after 5 attempts''))"
| "check_attempts (Suc n) E rm inProgress =
     onOk (updateInProgressIndices E rm inProgress) (\<lambda>remaining.
       if remaining = [] then return (Inr ()) else check_attempts n E rm inProgress)"

definition executeReplicationCheck :: "'s op_env \<Rightarrow> replication_manager \<Rightarrow> string list \<Rightarrow> ('s, go_error + unit) operator" where
  "executeReplicationCheck E rm indexNames =
     onOk (classify_indices E rm indexNames [] []) (\<lambda>(inProgress, failed).
       if failed \<noteq> [] then return (Inl (Err ''some replication indices are failed''))
       else check_attempts replicationAttemptsNumber E rm inProgress)"

definition not_service :: "string \<Rightarrow> bool" where
  "not_service index \<longleftrightarrow> \<not> HasPrefix index ''.''"

definition GetIndicesByPatternExcludeService :: "'s op_env \<Rightarrow> replication_manager \<Rightarrow> string \<Rightarrow> ('s, go_error + string list) operator" where
  "GetIndicesByPatternExcludeService E rm pattern =
     GetArrayData E (rm_client rm) (''_cat/indices/'' @ pattern @ ''?h=index'') ''index'' (\<lambda>s. return (not_service s))"

definition DeleteIndicesByPattern :: "'s op_env \<Rightarrow> replication_manager \<Rightarrow> string \<Rightarrow> ('s, go_error + unit) operator" where
  "DeleteIndicesByPattern E rm pattern = do {
     (statusCode, _, err) \<leftarrow> SendRequest E (rm_client rm) ''DELETE'' pattern None;
     return (case err of
       Some e \<Rightarrow> Inl e
     | None \<Rightarrow>
         (if statusCode = 403 then Inl (Err ''no permissions to delete opensearch indices by pattern'')
          else if statusCode \<ge> 400 then
            Inl (Err (''can not delete indices by ['' @ pattern @ ''] pattern with ['' @ show_int statusCode @ ''] status code''))
          else Inr ())) }"

definition DeleteIndicesByPatternWithUnlock :: "'s op_env \<Rightarrow> replication_manager \<Rightarrow> string \<Rightarrow> ('s, go_error + unit) operator" where
  "DeleteIndicesByPatternWithUnlock E rm pattern = do {
     (statusCode, _, err) \<leftarrow> SendRequest E (rm_client rm) ''DELETE'' pattern None;
     (case err of
        Some e \<Rightarrow> return (Inl e)
      | None \<Rightarrow>
          onOk (if statusCode = 403 then
                  onOk (GetIndicesByPatternExcludeService E rm pattern) (\<lambda>indices.
                  onOk (stopIndicesReplication E rm indices) (\<lambda>_.
                  DeleteIndicesByPattern E rm pattern))
                else return (Inr ())) (\<lambda>_.
          return (if statusCode \<ge> 400 then
              Inl (Err (''can not delete indices by pattern - ['' @ pattern @ ''] with status code - ['' @ show_int statusCode @ '']''))
            else Inr ()))) }"

fun delete_each :: "'s op_env \<Rightarrow> replication_manager \<Rightarrow> string list \<Rightarrow> ('s, go_error + unit) operator" where
  "delete_each E rm [] = return (Inr ())"
| "delete_each E rm (index # rest) = onOk (DeleteIndicesByPatternWithUnlock E rm index) (\<lambda>_. delete_each E rm rest)"

definition DeleteIndices :: "'s op_env \<Rightarrow> replication_manager \<Rightarrow> ('s, go_error + unit) operator" where
  "DeleteIndices E rm =
     (if rm_pattern rm \<noteq> ''*'' then DeleteIndicesByPatternWithUnlock E rm (rm_pattern rm)
      else onOk (GetArrayData E (rm_client rm) ''_cat/indices?h=index'' ''index'' (\<lambda>s. return (not_service s)))
        (delete_each E rm))"

definition StopIndicesReplicationByPattern :: "'s op_env \<Rightarrow> replication_manager \<Rightarrow> string \<Rightarrow> ('s, go_error + unit) operator" where
  "StopIndicesReplicationByPattern E rm pattern =
     onOk (GetArrayData E (rm_client rm) (''_cat/indices/'' @ pattern @ ''?h=index'') ''index'' (\<lambda>index.
         if HasPrefix index ''.'' then return False
         else do {
           st \<leftarrow> getIndexReplicationStatus E rm index;
           return (case st of Inl _ \<Rightarrow> False | Inr st \<Rightarrow> ris_Status st \<noteq> replicationNotInProgressStatus) }))
       (stopIndicesReplication E rm)"

definition replication_tasks :: "string go_map go_map \<Rightarrow> string list" where
  "replication_tasks nodes =
     concat (map (\<lambda>(_, tasks). map fst (filter (\<lambda>(_, action). action = ''cluster:indices/admin/replication[c]'') tasks)) nodes)"

fun cancel_each :: "'s op_env \<Rightarrow> replication_manager \<Rightarrow> string list \<Rightarrow> ('s, go_error + unit) operator" where
  "cancel_each E rm [] = return (Inr ())"
| "cancel_each E rm (task # rest) = do {
     (_, _, err) \<leftarrow> SendRequest E (rm_client rm) ''POST'' (''_tasks/'' @ task @ ''/_cancel'') None;
     (case err of Some e \<Rightarrow> return (Inl e) | None \<Rightarrow> cancel_each E rm rest) }"

definition DeleteAdminReplicationTasks :: "'s op_env \<Rightarrow> replication_manager \<Rightarrow> ('s, go_error + unit) operator" where
  "DeleteAdminReplicationTasks E rm = do {
     (_, b, err) \<leftarrow> SendRequest E (rm_client rm) ''GET'' ''_tasks'' None;
     (case err of
        Some e \<Rightarrow> return (Inl e)
      | None \<Rightarrow>
          (case unmarshal dec_nodes_info b [] of
             Inl e \<Rightarrow> return (Inl e)
           | Inr nodes \<Rightarrow> cancel_each E rm (replication_tasks nodes))) }"

section \<open>The health of the replication\<close>

definition DEGRADED :: string where "DEGRADED = ''degraded''"
definition DOWN :: string where "DOWN = ''down''"
definition UP :: string where "UP = ''up''"

lemmas health_words = DEGRADED_def DOWN_def UP_def

definition dec_index :: "(string \<times> string) decoder" where
  "dec_index = dec_struct [field ''index'' dec_string fst apfst, field ''health'' dec_string snd apsnd]"

definition dec_index_status :: "string decoder" where
  "dec_index_status = dec_struct [field ''status'' dec_string id (\<lambda>f. f)]"

text \<open>\<^verbatim>\<open>regexp.MustCompile\<close> panics on a pattern that does not compile.\<close>

definition listUnhealthyIndices :: "'s op_env \<Rightarrow> rest_client \<Rightarrow> string \<Rightarrow> ('s, (go_error + string list) go) operator" where
  "listUnhealthyIndices E rc pattern =
     onDone (no_panic (SendRequestWithStatusCodeCheck E rc ''GET'' ''_cat/indices?h=index,health&format=json'' None)) (\<lambda>responseBody.
       return (case unmarshal (dec_list ([], []) dec_index) responseBody [] of
         Inl e \<Rightarrow> Ret (Inl e)
       | Inr allIndices \<Rightarrow>
           (case regexp_Compile E (ReplaceAll pattern (CHR ''*'') ''.*'') of
              Inl e \<Rightarrow> Panic (''regexp: Compile: '' @ err_text e)
            | Inr matches \<Rightarrow> Ret (Inr (map fst (filter (\<lambda>(index, health). matches index \<and> health = ''red'') allIndices))))))"

definition checker_index_status :: "'s op_env \<Rightarrow> rest_client \<Rightarrow> string \<Rightarrow> ('s, go_error + string) operator" where
  "checker_index_status E rc indexName = do {
     (_, responseBody, err) \<leftarrow> SendRequest E rc ''GET'' (status_path indexName) None;
     return (case err of Some e \<Rightarrow> Inl e | None \<Rightarrow> unmarshal dec_index_status responseBody []) }"

fun find_failed :: "'s op_env \<Rightarrow> rest_client \<Rightarrow> string list \<Rightarrow> ('s, go_error + bool) operator" where
  "find_failed E rc [] = return (Inr False)"
| "find_failed E rc (index # rest) =
     (if HasPrefix index ''.'' then find_failed E rc rest
      else onOk (checker_index_status E rc index) (\<lambda>status.
        if status = ''FAILED'' then return (Inr True) else find_failed E rc rest))"

definition areFailedReplicationsFound :: "'s op_env \<Rightarrow> rest_client \<Rightarrow> string \<Rightarrow> ('s, go_error + bool) operator" where
  "areFailedReplicationsFound E rc pattern =
     onOk (SendRequestWithStatusCodeCheck E rc ''GET'' pattern None) (\<lambda>responseBody.
       (case unmarshal (dec_map JNull dec_any) responseBody [] of
          Inl e \<Rightarrow> return (Inl e)
        | Inr indices \<Rightarrow> find_failed E rc (map fst indices)))"

text \<open>What the counters of a rule say: a verdict, or \<open>None\<close> when the indices have to be looked at.\<close>

definition rule_verdict :: "rule_stats \<Rightarrow> string option" where
  "rule_verdict rule =
     (if RuleName rule = replicationName then
        (if FilterSlice (FailedIndices rule) not_service = [] then
           (if FailedStart rule > 0 then Some DEGRADED else None)
         else (if SuccessStart rule > 0 then Some DEGRADED else Some DOWN))
      else None)"

text \<open>The loop over the rules returns in its first round.\<close>

definition check_rule :: "'s op_env \<Rightarrow> rest_client \<Rightarrow> rule_stats \<Rightarrow> ('s, (go_error + string) go) operator" where
  "check_rule E rc rule =
     (case rule_verdict rule of
        Some v \<Rightarrow> return (Ret (Inr v))
      | None \<Rightarrow>
          onDone (listUnhealthyIndices E rc (RulePattern rule)) (\<lambda>unhealthy.
            if unhealthy \<noteq> [] then return (Ret (Inr DEGRADED))
            else onDone (no_panic (areFailedReplicationsFound E rc (RulePattern rule))) (\<lambda>found.
              return (Ret (Inr (if found then DEGRADED else UP))))))"

definition CheckReplication :: "'s op_env \<Rightarrow> rest_client \<Rightarrow> ('s, (go_error + string) go) operator" where
  "CheckReplication E rc = do {
     (statusCode, responseBody, err) \<leftarrow> SendRequest E rc ''GET'' ''_plugins/_replication/autofollow_stats'' None;
     (case err of
        Some e \<Rightarrow> return (Ret (Inl e))
      | None \<Rightarrow>
          (if statusCode \<ge> 500 then return (Ret (Inl (Err ''internal server error'')))
           else (case unmarshal dec_autofollow_stats responseBody [] of
               Inl e \<Rightarrow> return (Ret (Inl e))
             | Inr [] \<Rightarrow> return (Ret (Inr DOWN))
             | Inr (rule # _) \<Rightarrow> check_rule E rc rule))) }"

text \<open>The health endpoint; its argument is the list of values of the parameter \<^verbatim>\<open>mode\<close>, if there is one.\<close>

definition cluster_state :: "string \<Rightarrow> body" where
  "cluster_state status = Doc (JObj [(''status'', JStr status)])"

text \<open>What the server sends; with \<^verbatim>\<open>DEBUG\<close> it also prints the body.\<close>

definition sendResponse :: "int \<Rightarrow> string \<Rightarrow> reply" where [simp]:
  "sendResponse statusCode status = (statusCode, cluster_state status)"

definition sendFailedHealthResponse :: reply where [simp]:
  "sendFailedHealthResponse = sendResponse 500 DOWN"

definition sendSuccessfulResponse :: "string \<Rightarrow> reply" where [simp]:
  "sendSuccessfulResponse status = sendResponse 200 status"

definition GetClusterHealthStatus :: "'s op_env \<Rightarrow> rest_client \<Rightarrow> string list option \<Rightarrow> ('s, reply go) operator" where
  "GetClusterHealthStatus E rc modes =
     (case modes of
        None \<Rightarrow> return (Ret sendFailedHealthResponse)
      | Some [] \<Rightarrow> return (Panic ''runtime error: index out of range [0] with length 0'')
      | Some (mode # _) \<Rightarrow>
          (if mode = ''active'' \<or> mode = ''disable'' then return (Ret (sendSuccessfulResponse UP))
           else if mode \<noteq> ''standby'' then return (Ret sendFailedHealthResponse)
           else onRet (CheckReplication E rc) (\<lambda>r.
             return (Ret (case r of Inl _ \<Rightarrow> sendFailedHealthResponse | Inr status \<Rightarrow> sendSuccessfulResponse status)))))"

section \<open>Facts\<close>

lemma filter_data_pure: "run_state (filter_data (\<lambda>x. return (P x)) xs) w = (filter P xs, w)"
  by (induction xs) auto

lemma GetArrayData_pure:
  "run_state (GetArrayData E rc path key (\<lambda>x. return (P x))) w = (Inr xs, w') \<Longrightarrow> x \<in> set xs \<Longrightarrow> P x"
  by (auto simp: GetArrayData_def filter_data_pure split: prod.splits option.splits sum.splits)

text \<open>Deletions of indices: a \<^verbatim>\<open>DELETE\<close> outside the replication plugin.\<close>

definition deletes_only :: "rest_client \<Rightarrow> (string \<Rightarrow> bool) \<Rightarrow> op_event \<Rightarrow> bool" where
  "deletes_only rc P e \<longleftrightarrow>
     (case e of
        Rest rq \<Rightarrow> rq_method rq = ''DELETE'' \<longrightarrow> (\<exists>target. rq_url rq = rc_url rc @ ''/'' @ target \<and> P target)
      | _ \<Rightarrow> True)"

lemma deletes_only_request:
  "deletes_only rc P (Rest (rest_request rc verb path b h)) \<longleftrightarrow> (verb = ''DELETE'' \<longrightarrow> P path)"
  by (auto simp: deletes_only_def rest_request_def)

lemma sends_stop_each: "(\<And>path b. R (Rest (rest_request (rm_client rm) ''POST'' path b True))) \<Longrightarrow> sends R (stop_each E rm xs)"
  by (induction xs) (auto intro!: sends_intros)

lemma sends_DeleteIndicesByPattern:
  "P pattern \<Longrightarrow> sends (deletes_only (rm_client rm) P) (DeleteIndicesByPattern E rm pattern)"
  unfolding DeleteIndicesByPattern_def by (intro sends_intros) (simp add: deletes_only_request)

lemma sends_DeleteIndicesByPatternWithUnlock:
  assumes "P pattern"
  shows "sends (deletes_only (rm_client rm) P) (DeleteIndicesByPatternWithUnlock E rm pattern)"
  unfolding DeleteIndicesByPatternWithUnlock_def GetIndicesByPatternExcludeService_def stopIndicesReplication_def
  by (intro sends_intros sends_stop_each sends_DeleteIndicesByPattern assms)
    (simp_all add: deletes_only_request assms)

lemma sends_delete_each:
  "(\<And>x. x \<in> set xs \<Longrightarrow> P x) \<Longrightarrow> sends (deletes_only (rm_client rm) P) (delete_each E rm xs)"
  by (induction xs) (auto intro!: sends_onOk sends_return sends_DeleteIndicesByPatternWithUnlock)

text \<open>The index matches the pattern of the manager.\<close>

definition selected :: "'s op_env \<Rightarrow> replication_manager \<Rightarrow> string \<Rightarrow> bool" where
  "selected E rm index \<longleftrightarrow>
     (case regexp_Compile E (ReplaceAll (rm_pattern rm) (CHR ''*'') ''.*'') of Inl _ \<Rightarrow> False | Inr matches \<Rightarrow> matches index)"

text \<open>The cluster has reported the status \<open>st\<close> of the index.\<close>

definition reported :: "'s op_env \<Rightarrow> replication_manager \<Rightarrow> string \<Rightarrow> replication_index_stats \<Rightarrow> bool" where
  "reported E rm index st \<longleftrightarrow> (\<exists>w1 w2. run_state (getReplicationIndexStats E rm (status_path index)) w1 = (Inr st, w2))"

definition noted :: "'s op_env \<Rightarrow> replication_manager \<Rightarrow> int go_map \<Rightarrow> string \<Rightarrow> bool" where
  "noted E rm m index \<longleftrightarrow> (\<exists>st. reported E rm index st \<and> in_sync_state (ris_Status st) \<and>
     (LeaderCheckpoint (Details st) = FollowerCheckpoint (Details st) \<or>
      map_of m index = Some (LeaderCheckpoint (Details st))))"

lemma reportedI: "run_state (getIndexReplicationStatus E rm i) w1 = (Inr st, w2) \<Longrightarrow> reported E rm i st"
  by (auto simp: reported_def getIndexReplicationStatus_def)

lemma classify_indices_ok:
  assumes "run_state (classify_indices E rm names m failed) w = (Inr (m', failed'), w')" and "distinct names"
  shows "\<exists>new. failed' = failed @ new \<and> (\<forall>i. i \<notin> set names \<longrightarrow> map_of m' i = map_of m i) \<and>
    (new = [] \<longrightarrow> (\<forall>i \<in> set names. selected E rm i \<longrightarrow> noted E rm m' i))"
  using assms
proof (induction names arbitrary: m failed w)
  case Nil
  then show ?case by simp
next
  case (Cons i names)
  obtain matches where c: "regexp_Compile E (ReplaceAll (rm_pattern rm) (CHR ''*'') ''.*'') = Inr matches"
    using Cons.prems(1) by (cases "regexp_Compile E (ReplaceAll (rm_pattern rm) (CHR ''*'') ''.*'')") auto
  have d: "i \<notin> set names" "distinct names" using Cons.prems(2) by auto
  show ?case
  proof (cases "matches i")
    case False
    then have "run_state (classify_indices E rm names m failed) w = (Inr (m', failed'), w')"
      using Cons.prems(1) c by simp
    from Cons.IH [OF this d(2)] show ?thesis using False c by (auto simp: selected_def)
  next
    case True
    obtain st w1 where st: "run_state (getIndexReplicationStatus E rm i) w = (Inr st, w1)"
      using Cons.prems(1) c True by (auto simp: run_simps split: prod.splits sum.splits)
    define m1 where "m1 = (if in_sync_state (ris_Status st) \<and> LeaderCheckpoint (Details st) \<noteq> FollowerCheckpoint (Details st)
      then map_put i (LeaderCheckpoint (Details st)) m else m)"
    define f1 where "f1 = (if in_sync_state (ris_Status st) then failed else failed @ [i])"
    have "run_state (classify_indices E rm names m1 f1) w1 = (Inr (m', failed'), w')"
      using Cons.prems(1) c True st by (simp add: run_simps m1_def f1_def split: if_splits)
    from Cons.IH [OF this d(2)] obtain new where new: "failed' = f1 @ new"
      "\<forall>j. j \<notin> set names \<longrightarrow> map_of m' j = map_of m1 j"
      "new = [] \<longrightarrow> (\<forall>j \<in> set names. selected E rm j \<longrightarrow> noted E rm m' j)" by blast
    have "in_sync_state (ris_Status st) \<Longrightarrow> noted E rm m' i"
      using reportedI [OF st] new(2) d(1) by (auto simp: noted_def m1_def gomap.find_put)
    then show ?thesis using new
      by (intro exI [of _ "drop (length failed) failed'"]) (auto simp: m1_def f1_def gomap.find_put split: if_splits)
  qed
qed

lemma map_put_not_Nil [simp]: "map_put k v m \<noteq> []"
  by (cases m) (auto simp: map_put_def)

lemma update_each_ok:
  "run_state (update_each E rm m remaining) w = (Inr [], w') \<Longrightarrow>
     remaining = [] \<and> (\<forall>(i, l) \<in> set m. \<exists>st. reported E rm i st \<and> l \<le> FollowerCheckpoint (Details st))"
proof (induction E rm m remaining arbitrary: w rule: update_each.induct)
  case (1 E rm remaining)
  then show ?case by simp
next
  case (2 E rm i l others remaining)
  obtain st w1 where st: "run_state (getReplicationIndexStats E rm (status_path i)) w = (Inr st, w1)"
    using "2.prems" by (auto simp: run_simps split: prod.splits sum.splits)
  then have "run_state (update_each E rm others
      (if FollowerCheckpoint (Details st) < l then map_put i l remaining else remaining)) w1 = (Inr [], w')"
    using "2.prems" by (simp add: run_simps)
  from "2.IH" [OF this] have ih: "(if FollowerCheckpoint (Details st) < l then map_put i l remaining else remaining) = []"
    "\<forall>(i, l) \<in> set others. \<exists>st. reported E rm i st \<and> l \<le> FollowerCheckpoint (Details st)" by auto
  moreover have "reported E rm i st" using st unfolding reported_def by blast
  moreover from ih(1) have "\<not> FollowerCheckpoint (Details st) < l" "remaining = []" by (auto split: if_splits)
  ultimately show ?case by (auto simp: not_less)
qed

lemma check_attempts_ok:
  "run_state (check_attempts n E rm m) w = (Inr (), w') \<Longrightarrow>
     \<forall>(i, l) \<in> set m. \<exists>st. reported E rm i st \<and> l \<le> FollowerCheckpoint (Details st)"
proof (induction n arbitrary: w)
  case 0
  then show ?case by simp
next
  case (Suc n)
  obtain remaining w1 where u: "run_state (updateInProgressIndices E rm m) w = (Inr remaining, w1)"
    using Suc.prems by (auto simp: run_simps split: prod.splits sum.splits)
  show ?case
  proof (cases "remaining = []")
    case True
    then show ?thesis using u update_each_ok [of E rm m "[]" w w1] by (simp add: updateInProgressIndices_def)
  next
    case False
    then show ?thesis using Suc u by (auto simp: run_simps)
  qed
qed

section \<open>Properties\<close>


definition test_manager :: replication_manager where
  "test_manager = NewReplicationManager (NewRestClient ''http://os'' zero_credentials) ''other:9300'' ''app-*''"

definition index_answer :: "string \<Rightarrow> int \<Rightarrow> int \<Rightarrow> go_error + http_response" where
  "index_answer status leader follower = ok_doc (JObj [(''status'', JStr status),
     (''syncing_details'', JObj [(''leader_checkpoint'', JNum leader), (''follower_checkpoint'', JNum follower)])])"

definition check_run :: "(go_error + unit) \<times> script op_world" where
  "check_run = run_state (executeReplicationCheck test_op_env test_manager [''app-1''])
     (op_world_of test_cr [index_answer ''SYNCING'' 5 3, index_answer ''SYNCING'' 6 4, index_answer ''SYNCING'' 6 5])"


text \<open>
  Deleting the indices of the follower deletes nothing else: every deletion names the pattern
  of the replication, or, when the pattern is the star, one index whose name does not start with a dot.
\<close>

theorem DeleteIndices_confined:
  "sends (deletes_only (rm_client rm) (\<lambda>target. if rm_pattern rm = ''*'' then not_service target else target = rm_pattern rm))
     (DeleteIndices E rm)"
proof (cases "rm_pattern rm = ''*''")
  case True
  have "sends (deletes_only (rm_client rm) not_service) (DeleteIndices E rm)"
    unfolding DeleteIndices_def using True
    by (simp, intro sends_onOk_run sends_delete_each)
      (auto intro!: sends_intros dest: GetArrayData_pure simp: deletes_only_request)
  then show ?thesis using True by simp
next
  case False
  then show ?thesis unfolding DeleteIndices_def
    by (simp add: sends_DeleteIndicesByPatternWithUnlock)
qed

text \<open>
  A deletion that the follower first refuses with 403 is reported as failed in any case, also
  when the replication of the indices was then stopped and the second deletion succeeded.
\<close>

theorem unlocked_deletion_fails:
  assumes "url_ok (rq_url rq)" and "rq = rest_request (rm_client rm) ''DELETE'' pattern None True"
    and "http_do E rq (srv w) = (Inr \<lparr>StatusCode = 403, Body = Text s\<rparr>, s1)"
  shows "\<exists>e. fst (run_state (DeleteIndicesByPatternWithUnlock E rm pattern) w) = Inl e"
proof -
  have "run_state (SendRequest E (rm_client rm) ''DELETE'' pattern None) w =
      ((403, Text s, None), w\<lparr>srv := s1, trace := trace w @ [Rest rq]\<rparr>)"
    using assms by (simp add: SendRequest_def SendBasicRequest_def Let_def run_simps rest_outcome_def)
  then show ?thesis
    by (auto simp: DeleteIndicesByPatternWithUnlock_def run_simps split: prod.splits sum.splits)
qed

definition unlock_run :: "(go_error + unit) \<times> script op_world" where
  "unlock_run = run_state (DeleteIndicesByPatternWithUnlock test_op_env test_manager ''app-*'')
     (op_world_of test_cr [status_only 403, ok_doc (JArr []), status_only 200])"

theorem unlocked_deletion_fails_witness:
  "(\<exists>e. fst unlock_run = Inl e) \<and> last (trace (snd unlock_run)) = Rest (rest_request (rm_client test_manager) ''DELETE'' ''app-*'' None True)"
proof
  have u: "url_ok (rq_url (rest_request (rm_client test_manager) ''DELETE'' ''app-*'' None True))" by code_simp
  show "\<exists>e. fst unlock_run = Inl e"
    unfolding unlock_run_def
    by (rule unlocked_deletion_fails [OF u refl]) (simp add: test_op_env_def op_world_of_def status_only_def)
  show "last (trace (snd unlock_run)) = Rest (rest_request (rm_client test_manager) ''DELETE'' ''app-*'' None True)"
    by code_simp
qed

end
