(* ===== verification/Disaster_Recovery.thy ===== *)
theory Disaster_Recovery
  imports Replication
begin

text \<open>
  Switching a cluster between active, standby and disabled: the reconciler of the disaster recovery
  section (\<^verbatim>\<open>disaster_recovery_reconciler.go\<close>) and the watcher that restarts a broken replication
  (\<^verbatim>\<open>replication_watcher.go\<close>). The reconciler exists only when the custom resource has the section,
  which is therefore an argument. The loop of \<^verbatim>\<open>recoverUsers\<close> has no bound; it takes fuel, and a result
  of \<open>None\<close> says that the fuel is used up. The mutex makes a round of the watcher and a switchover exclude
  each other, so both run as sequential code; pauses are left out.
\<close>

section \<open>The reconciler\<close>

definition runningState :: string where "runningState = ''running''"
definition pausedState :: string where "pausedState = ''paused''"
definition usersRecoveryDoneState :: string where "usersRecoveryDoneState = ''done''"
definition usersRecoveryFailedState :: string where "usersRecoveryFailedState = ''failed''"
definition usersRecoveryIdleState :: string where "usersRecoveryIdleState = ''idle''"
definition usersRecoveryRunningState :: string where "usersRecoveryRunningState = ''running''"
definition drConfigHashName :: string where "drConfigHashName = ''config.disasterRecovery''"

lemmas recovery_words = usersRecoveryDoneState_def usersRecoveryFailedState_def usersRecoveryIdleState_def usersRecoveryRunningState_def

definition getReplicationManager :: "'s op_env \<Rightarrow> disaster_recovery \<Rightarrow> ('s, replication_manager) operator" where
  "getReplicationManager E dr = do {
     c \<leftarrow> recall the_cr;
     found \<leftarrow> findConfigMap E (ConfigMapName dr) (cr_Namespace c);
     creds \<leftarrow> parseOpenSearchCredentials E;
     (let config = (case found of Inl _ \<Rightarrow> [] | Inr m \<Rightarrow> cm_Data m) in
      return (NewReplicationManager (NewRestClient (createUrl E (cr_Name c) 9200) creds)
        (map_get [] config ''remoteCluster'') (map_get [] config ''indicesPattern''))) }"

definition isReplicationCheckNeeded :: "disaster_recovery \<Rightarrow> disaster_recovery_status \<Rightarrow> bool" where
  "isReplicationCheckNeeded dr st \<longleftrightarrow>
     \<not> NoWait dr \<and> ToLower (dr_Mode dr) = ''active'' \<and>
     (ToLower (drs_Mode st) \<noteq> ''active'' \<or> ToLower (drs_Mode st) = ''active'' \<and> ToLower (drs_Status st) = ''failed'')"

definition gke_service :: "'s op_env \<Rightarrow> string" where
  "gke_service E = Getenv E ''OPENSEARCH_GKE_SERVICE''"

definition enableClientServices :: "'s op_env \<Rightarrow> ('s, go_error + unit) operator" where
  "enableClientServices E = do {
     c \<leftarrow> recall the_cr;
     onOk (enableClientService E (cr_Name c) (cr_Namespace c)) (\<lambda>_.
       if gke_service E \<noteq> [] then enableClientService E (gke_service E) (cr_Namespace c) else return (Inr ())) }"

definition disableClientServices :: "'s op_env \<Rightarrow> ('s, (go_error + unit) go) operator" where
  "disableClientServices E = do {
     c \<leftarrow> recall the_cr;
     onDone (disableClientService E (cr_Name c) (cr_Namespace c)) (\<lambda>_.
       if gke_service E \<noteq> [] then disableClientService E (gke_service E) (cr_Namespace c) else return (Ret (Inr ()))) }"

definition updateDisasterRecoveryStatus ::
  "'s op_env \<Rightarrow> disaster_recovery \<Rightarrow> string \<Rightarrow> string \<Rightarrow> string \<Rightarrow> ('s, go_error + unit) operator" where
  "updateDisasterRecoveryStatus E dr status message usersRecoveryState = do {
     c \<leftarrow> recall the_cr;
     UpdateStatusWithRetry E (\<lambda>instance.
       let old = DisasterRecoveryStatus (cr_Status instance);
           st = old\<lparr>drs_Mode := dr_Mode dr, drs_Status := status,
             drs_Message := (if message \<noteq> [] then message else drs_Message old),
             UsersRecoveryState := (if DbaasAdapter (cr_Spec c) \<noteq> None then usersRecoveryState else UsersRecoveryState old)\<rparr>
       in return (instance\<lparr>cr_Status := (cr_Status instance)\<lparr>DisasterRecoveryStatus := st\<rparr>\<rparr>)) }"

definition updateUsersRecoveryStatus :: "'s op_env \<Rightarrow> string \<Rightarrow> ('s, go_error + unit) operator" where
  "updateUsersRecoveryStatus E state =
     UpdateStatusWithRetry E (\<lambda>instance. return (instance\<lparr>cr_Status := (cr_Status instance)\<lparr>
       DisasterRecoveryStatus := (DisasterRecoveryStatus (cr_Status instance))\<lparr>UsersRecoveryState := state\<rparr>\<rparr>\<rparr>))"

definition removePreviousReplication :: "'s op_env \<Rightarrow> replication_manager \<Rightarrow> ('s, go_error + unit) operator" where
  "removePreviousReplication E rm =
     onOk (RemoveReplicationRule E rm) (\<lambda>_.
     onOk (StopReplication E rm) (\<lambda>_.
     onOk (StopIndicesReplicationByPattern E rm (rm_pattern rm)) (\<lambda>_.
     DeleteAdminReplicationTasks E rm)))"

definition runReplicationProcess :: "'s op_env \<Rightarrow> replication_manager \<Rightarrow> ('s, go_error + unit) operator" where
  "runReplicationProcess E rm =
     onOk (DeleteIndices E rm) (\<lambda>_.
     onOk (rm_Configure E rm) (\<lambda>_.
     rm_Start E rm))"

definition awaitReplication :: "'s op_env \<Rightarrow> rest_client \<Rightarrow> ('s, (go_error + unit) go) operator" where
  "awaitReplication E rc = do {
     n \<leftarrow> try_times E;
     poll_go n (onRet (CheckReplication E rc) (\<lambda>r.
       return (Ret (Inr (case r of Inl _ \<Rightarrow> False | Inr status \<Rightarrow> status = UP))))) }"

definition stopReplication :: "'s op_env \<Rightarrow> replication_manager \<Rightarrow> ('s, go_error + unit) operator" where
  "stopReplication E rm =
     onOk (removePreviousReplication E rm) (\<lambda>_. do {
       _ \<leftarrow> DeleteIndicesByPattern E rm ''.tasks'';
       return (Inr ()) })"

definition buildAggregatorRestClient :: "'s op_env \<Rightarrow> dbaas_adapter \<Rightarrow> ('s, rest_client) operator" where
  "buildAggregatorRestClient E a = do {
     c \<leftarrow> recall the_cr;
     creds \<leftarrow> parseSecretCredentialsByKeys E (dbaas_SecretName a) (cr_Namespace c) ''registration-auth-username'' ''registration-auth-password'';
     return (NewRestClient (AggregatorAddress a) creds) }"

definition buildAdapterRestClient :: "'s op_env \<Rightarrow> dbaas_adapter \<Rightarrow> ('s, rest_client) operator" where
  "buildAdapterRestClient E a = do {
     c \<leftarrow> recall the_cr;
     creds \<leftarrow> parseSecretCredentials E (dbaas_SecretName a) (cr_Namespace c);
     return (NewRestClient (AdapterAddress a) creds) }"

definition recovery_text :: "dbaas_adapter \<Rightarrow> string" where
  "recovery_text a =
     ''{'' @ nl 2 @ member_text ''physicalDbId'' (PhysicalDatabaseIdentifier a) @ '','' @
     nl 2 @ member_text ''type'' ''opensearch'' @ '','' @
     nl 2 @ dquote ''settings'' @ '': {}'' @ nl 1 @ ''}''"

text \<open>Asking the aggregator to restore the passwords, until it agrees or the time is up.\<close>

definition request_recovery :: "'s op_env \<Rightarrow> rest_client \<Rightarrow> dbaas_adapter \<Rightarrow> ('s, go_error + unit) operator" where
  "request_recovery E aggregator a = do {
     n \<leftarrow> try_times E;
     poll_immediate n (\<lambda>_. do {
       (statusCode, _, err) \<leftarrow> SendRequest E aggregator ''POST'' ''api/v3/dbaas/internal/physical_databases/users/restore-password''
         (Some (Text (recovery_text a)));
       return (Inr (err = None \<and> statusCode = 200)) }) }"

definition recovery_state_of :: "'s op_env \<Rightarrow> rest_client \<Rightarrow> string \<Rightarrow> ('s, string) operator" where
  "recovery_state_of E adapter state = do {
     (statusCode, response, err) \<leftarrow> SendRequest E adapter ''GET'' ''api/v2/dbaas/adapter/opensearch/users/restore-password/state'' None;
     return (if err \<noteq> None \<or> statusCode \<noteq> 200 then state else body_text response) }"

fun recover_loop ::
  "nat \<Rightarrow> 's op_env \<Rightarrow> rest_client \<Rightarrow> rest_client \<Rightarrow> dbaas_adapter \<Rightarrow> string \<Rightarrow> ('s, (string \<times> go_error option) option) operator" where
  "recover_loop 0 E aggregator adapter a state = return None"
| "recover_loop (Suc n) E aggregator adapter a state =
     (if state = usersRecoveryDoneState then return (Some (state, None))
      else if state = usersRecoveryFailedState then
        return (Some (usersRecoveryFailedState, Some (Err ''unable to restore OpenSearch users during switchover'')))
      else if state = usersRecoveryIdleState then do {
        r \<leftarrow> request_recovery E aggregator a;
        (case r of
           Inl _ \<Rightarrow> recover_loop n E aggregator adapter a usersRecoveryFailedState
         | Inr _ \<Rightarrow> do {
             u \<leftarrow> updateUsersRecoveryStatus E usersRecoveryRunningState;
             (case u of
                Inl e \<Rightarrow> return (Some (usersRecoveryRunningState, Some e))
              | Inr _ \<Rightarrow> do {
                  next \<leftarrow> recovery_state_of E adapter state;
                  recover_loop n E aggregator adapter a next }) }) }
      else do {
        next \<leftarrow> recovery_state_of E adapter state;
        recover_loop n E aggregator adapter a next })"

definition recoverUsers :: "nat \<Rightarrow> 's op_env \<Rightarrow> dbaas_adapter \<Rightarrow> ('s, (string \<times> go_error option) option) operator" where
  "recoverUsers n E a = do {
     aggregator \<leftarrow> buildAggregatorRestClient E a;
     adapter \<leftarrow> buildAdapterRestClient E a;
     c \<leftarrow> recall the_cr;
     (let state = UsersRecoveryState (DisasterRecoveryStatus (cr_Status c)) in
      if state = [] then return (Some (usersRecoveryDoneState, None))
      else recover_loop n E aggregator adapter a
        (if state \<noteq> usersRecoveryRunningState then usersRecoveryIdleState else state)) }"

text \<open>The probe of the other side: only an answer that breaks off says that it is active.\<close>

definition probe_request :: "string \<Rightarrow> http_request" where
  "probe_request url = \<lparr>rq_method = ''GET'', rq_url = ''http://'' @ url, rq_query = [], rq_headers = [], rq_auth = None, rq_body = None\<rparr>"

definition breaks_off :: "go_error + http_response \<Rightarrow> bool" where
  "breaks_off x \<longleftrightarrow> (case x of Inl e \<Rightarrow> Contains (err_text e) ''EOF'' | Inr _ \<Rightarrow> False)"

text \<open>The error for a URL that cannot be parsed quotes it, so the test for EOF sees its characters.\<close>

definition probe :: "'s op_env \<Rightarrow> string \<Rightarrow> ('s, go_error + http_response) operator" where
  "probe E url =
     (let rq = probe_request url in
      if url_ok (rq_url rq) then request (Rest rq) (http_do E rq)
      else return (Inl (Err (''parse '' @ dquote (rq_url rq) @ '': invalid URL''))))"

definition checkConnectionWithOtherSide :: "'s op_env \<Rightarrow> disaster_recovery \<Rightarrow> ('s, go_error + unit) operator" where
  "checkConnectionWithOtherSide E dr = do {
     c \<leftarrow> recall the_cr;
     onOk (findConfigMap E (ConfigMapName dr) (cr_Namespace c)) (\<lambda>m. do {
       x \<leftarrow> probe E (map_get [] (cm_Data m) ''remoteCluster'');
       return (if breaks_off x then Inr () else Inl (Err ''there is active replication on the other side'')) }) }"

section \<open>The watcher\<close>

text \<open>The failed replications among the indices: paused ones count unless the index is lost on the active side.\<close>

definition counts_as_failed :: "replication_index_stats \<Rightarrow> bool" where
  "counts_as_failed st \<longleftrightarrow>
     ris_Status st = ''FAILED'' \<or> ris_Status st = ''PAUSED'' \<and> \<not> Contains (ris_Reason st) ''IndexNotFoundException''"

definition watcher_index_failed :: "'s op_env \<Rightarrow> replication_manager \<Rightarrow> string \<Rightarrow> ('s, bool) operator" where
  "watcher_index_failed E rm index = do {
     st \<leftarrow> getIndexReplicationStatus E rm index;
     return (case st of Inl _ \<Rightarrow> False | Inr st \<Rightarrow> counts_as_failed st) }"

text \<open>A slice of strings as the verb \<^verbatim>\<open>%s\<close> prints it.\<close>

definition slice_text :: "string list \<Rightarrow> string" where
  "slice_text xs = ''['' @ join '' '' xs @ '']''"

definition failed_indices_error :: "string list \<Rightarrow> go_error" where
  "failed_indices_error xs = Err (''replication does not work correctly, there are failed indices: '' @ slice_text xs)"

definition watcher_checkReplication :: "'s op_env \<Rightarrow> disaster_recovery \<Rightarrow> bool \<Rightarrow> ('s, go_error + unit) operator" where
  "watcher_checkReplication E dr allowNoAutofollowRule = do {
     rm \<leftarrow> getReplicationManager E dr;
     stats \<leftarrow> GetAutoFollowRuleStats E rm;
     (case stats of
        Inr (Some rule) \<Rightarrow>
          (let failedIndices = FilterSlice (FailedIndices rule) not_service in
           if failedIndices \<noteq> [] then return (Inl (failed_indices_error failedIndices))
           else do {
             found \<leftarrow> GetIndicesByPatternExcludeService E rm (rm_pattern rm);
             (case found of
                Inl _ \<Rightarrow> return (Inr ())
              | Inr indices \<Rightarrow> do {
                  failedReplications \<leftarrow> filter_data (watcher_index_failed E rm) indices;
                  return (if failedReplications \<noteq> [] then Inl (failed_indices_error failedReplications)
                    else Inr ()) }) })
      | _ \<Rightarrow> return (if allowNoAutofollowRule then Inr () else Inl (Err ''there is no autofollow rule''))) }"

definition restartReplication :: "'s op_env \<Rightarrow> disaster_recovery \<Rightarrow> ('s, unit) operator" where
  "restartReplication E dr = do {
     rm \<leftarrow> getReplicationManager E dr;
     r \<leftarrow> removePreviousReplication E rm;
     (case r of
        Inl _ \<Rightarrow> return ()
      | Inr _ \<Rightarrow> do { _ \<leftarrow> runReplicationProcess E rm; return () }) }"

definition restartReplicationOnFailure :: "'s op_env \<Rightarrow> disaster_recovery \<Rightarrow> ('s, unit) operator" where
  "restartReplicationOnFailure E dr = do {
     r \<leftarrow> watcher_checkReplication E dr False;
     state \<leftarrow> recall watcher_state;
     (case r of
        Inr _ \<Rightarrow> return ()
      | Inl _ \<Rightarrow> if state = pausedState then return () else restartReplication E dr) }"

text \<open>
  One round of the loop of \<^verbatim>\<open>watch\<close>; the result says whether the goroutine goes on. The section of
  the instance just read is dereferenced without a test, so one that was removed meanwhile is a panic.
\<close>

definition watch_round :: "'s op_env \<Rightarrow> disaster_recovery \<Rightarrow> ('s, bool go) operator" where
  "watch_round E dr = do {
     state \<leftarrow> recall watcher_state;
     (if state = pausedState then return (Ret False)
      else do {
        c \<leftarrow> recall the_cr;
        r \<leftarrow> request (GetObject K_OpenSearchService (cr_Name c)) (get_cr E (cr_Name c) (cr_Namespace c));
        (case r of
           Inl _ \<Rightarrow> return (Ret True)
         | Inr instance \<Rightarrow>
             (case DisasterRecovery (cr_Spec instance) of
                None \<Rightarrow> return (Panic ''invalid memory address or nil pointer dereference'')
              | Some d \<Rightarrow>
                  (let st = DisasterRecoveryStatus (cr_Status instance) in
                   if dr_Mode d = ''standby'' \<and> drs_Mode st = ''standby'' \<and> drs_Status st = ''done'' then do {
                     _ \<leftarrow> restartReplicationOnFailure E dr;
                     after \<leftarrow> recall watcher_state;
                     return (Ret (after \<noteq> pausedState)) }
                   else return (Ret True)))) }) }"

definition NewReplicationWatcher :: string where
  "NewReplicationWatcher = pausedState"

definition watcher_start :: "disaster_recovery \<Rightarrow> ('s, unit) operator" where
  "watcher_start dr = do {
     state \<leftarrow> recall watcher_state;
     (if state = runningState then return ()
      else do {
        _ \<leftarrow> remember (watcher_state_update (\<lambda>_. runningState));
        request (Go (WatchReplication
          (if ReplicationWatcherInterval dr \<le> 0 then 30 else ReplicationWatcherInterval dr))) (\<lambda>s. ((), s)) }) }"

definition watcher_pause :: "('s, unit) operator" where
  "watcher_pause = remember (watcher_state_update (\<lambda>_. pausedState))"

section \<open>Configure\<close>

text \<open>
  The end of a switchover: the error the deferred function sees, the message and the state of the
  users it writes, and what \<^verbatim>\<open>Configure\<close> returns, or the panic that unwinds it.
\<close>

record config_outcome =
  co_err :: "go_error + unit"
  co_message :: string
  co_users :: string
  co_result :: "(go_error + unit) go"

text \<open>The second result is \<^verbatim>\<open>needReturnError\<close>.\<close>

definition switch_to_standby ::
  "'s op_env \<Rightarrow> disaster_recovery \<Rightarrow> string \<Rightarrow> replication_manager \<Rightarrow> ('s, ((go_error + unit) \<times> bool) go) operator" where
  "switch_to_standby E dr oldMode rm = do {
     removed \<leftarrow> (if oldMode \<noteq> ''active'' then removePreviousReplication E rm else return (Inr ()));
     (case removed of
        Inl e \<Rightarrow> return (Ret (Inl e, True))
      | Inr _ \<Rightarrow> do {
          connected \<leftarrow> checkConnectionWithOtherSide E dr;
          (case connected of
             Inl e \<Rightarrow> return (Ret (Inl e, False))
           | Inr _ \<Rightarrow> do {
               started \<leftarrow> runReplicationProcess E rm;
               (case started of
                  Inl e \<Rightarrow> return (Ret (Inl e, True))
                | Inr _ \<Rightarrow> onRet (awaitReplication E (rm_client rm)) (\<lambda>r. return (Ret (r, True)))) }) }) }"

text \<open>The check of a planned switchover; an error of the first request is logged and lost.\<close>

definition planned_check :: "'s op_env \<Rightarrow> replication_manager \<Rightarrow> ('s, go_error + unit) operator" where
  "planned_check E rm = do {
     names \<leftarrow> getReplicatedIndices E rm;
     executeReplicationCheck E rm (case names of Inl _ \<Rightarrow> [] | Inr ns \<Rightarrow> ns) }"

definition activate ::
  "nat \<Rightarrow> 's op_env \<Rightarrow> bool \<Rightarrow> ('s, ((go_error + unit) \<times> string) option) operator" where
  "activate n E crCondition = do {
     enabled \<leftarrow> enableClientServices E;
     c \<leftarrow> recall the_cr;
     (case (enabled, DbaasAdapter (cr_Spec c)) of
        (Inr _, Some a) \<Rightarrow>
          (if crCondition then do {
             scaled \<leftarrow> scaleDeploymentForNoWait E (dbaas_Name a) (cr_Namespace c) 1 False;
             (case scaled of
                Inl e \<Rightarrow> return (Some (Inl e, usersRecoveryDoneState))
              | Inr _ \<Rightarrow> do {
                  r \<leftarrow> recoverUsers n E a;
                  return (map_option (\<lambda>(state, err). (case err of None \<Rightarrow> Inr () | Some e \<Rightarrow> Inl e, state)) r) }) }
           else return (Some (Inr (), usersRecoveryDoneState)))
      | (r, _) \<Rightarrow> return (Some (r, usersRecoveryDoneState))) }"

definition switch_from_standby ::
  "nat \<Rightarrow> 's op_env \<Rightarrow> disaster_recovery \<Rightarrow> bool \<Rightarrow> bool \<Rightarrow> replication_manager \<Rightarrow>
     ('s, ((go_error + unit) \<times> string \<times> string) option) operator" where
  "switch_from_standby n E dr crCondition checkNeeded rm = do {
     healthy \<leftarrow> watcher_checkReplication E dr True;
     (checked, message) \<leftarrow>
       (if healthy = Inr () \<and> checkNeeded then do {
          r \<leftarrow> planned_check E rm;
          return (r, ''The replication has stopped successfully'') }
        else return (healthy, ''Switchover mode has been changed without replication check''));
     stopped \<leftarrow> (case checked of Inl e \<Rightarrow> return (Inl e) | Inr _ \<Rightarrow> stopReplication E rm);
     (if dr_Mode dr = ''active'' then
        (case stopped of
           Inl e \<Rightarrow> return (Some (Inl e, message, usersRecoveryDoneState))
         | Inr _ \<Rightarrow> do {
             r \<leftarrow> activate n E crCondition;
             return (map_option (\<lambda>(err, state). (err, message, state)) r) })
      else return (Some (stopped, message, usersRecoveryDoneState))) }"

text \<open>After the switchover: the hash of the configuration is kept and the watcher started or paused.\<close>

definition finish_configure ::
  "disaster_recovery \<Rightarrow> string \<Rightarrow> go_error + unit \<Rightarrow> bool \<Rightarrow> string \<Rightarrow> string \<Rightarrow> ('s, config_outcome) operator" where
  "finish_configure dr hash err needReturnError message users = do {
     _ \<leftarrow> remember (ResourceHashes_update (map_put drConfigHashName hash));
     _ \<leftarrow> (if ReplicationWatcherEnabled dr then watcher_start dr else watcher_pause);
     return \<lparr>co_err = err, co_message = message, co_users = users,
       co_result = Ret (if needReturnError then err else Inr ())\<rparr> }"

definition switchover ::
  "nat \<Rightarrow> 's op_env \<Rightarrow> disaster_recovery \<Rightarrow> string \<Rightarrow> bool \<Rightarrow> ('s, config_outcome option) operator" where
  "switchover n E dr hash crCondition = do {
     _ \<leftarrow> watcher_pause;
     c \<leftarrow> recall the_cr;
     (let st = DisasterRecoveryStatus (cr_Status c);
          users = (if UsersRecoveryState st \<noteq> usersRecoveryRunningState then usersRecoveryIdleState else UsersRecoveryState st) in do {
     marked \<leftarrow> updateDisasterRecoveryStatus E dr ''running'' ''The switchover process for OpenSearch has been started'' users;
     (case marked of
        Inl e \<Rightarrow> return (Some \<lparr>co_err = Inl e, co_message = [], co_users = users, co_result = Ret (Inl e)\<rparr>)
      | Inr _ \<Rightarrow> do {
          disabled \<leftarrow> disableClientServices E;
          (case disabled of
             Panic p \<Rightarrow> return (Some \<lparr>co_err = Inr (), co_message = [], co_users = usersRecoveryDoneState, co_result = Panic p\<rparr>)
           | Ret (Inl e) \<Rightarrow> return (Some \<lparr>co_err = Inl e, co_message = [], co_users = usersRecoveryDoneState, co_result = Ret (Inl e)\<rparr>)
           | Ret (Inr _) \<Rightarrow> do {
               rm \<leftarrow> getReplicationManager E dr;
               (if dr_Mode dr = ''standby'' then do {
                  r \<leftarrow> switch_to_standby E dr (drs_Mode st) rm;
                  (case r of
                     Panic p \<Rightarrow> return (Some \<lparr>co_err = Inr (), co_message = ''The replication has started successfully'',
                         co_users = usersRecoveryDoneState, co_result = Panic p\<rparr>)
                   | Ret (err, needReturnError) \<Rightarrow> do {
                       o1 \<leftarrow> finish_configure dr hash err needReturnError ''The replication has started successfully'' usersRecoveryDoneState;
                       return (Some o1) }) }
                else if dr_Mode dr = ''active'' \<or> dr_Mode dr = ''disable'' then do {
                  r \<leftarrow> switch_from_standby n E dr crCondition (isReplicationCheckNeeded dr st) rm;
                  (case r of
                     None \<Rightarrow> return None
                   | Some (err, message, state) \<Rightarrow> do {
                       o1 \<leftarrow> finish_configure dr hash err True message state;
                       return (Some o1) }) }
                else do {
                  o1 \<leftarrow> finish_configure dr hash (Inr ()) True [] usersRecoveryDoneState;
                  return (Some o1) }) }) }) }) }"

text \<open>The deferred function.\<close>

definition report_outcome :: "'s op_env \<Rightarrow> disaster_recovery \<Rightarrow> config_outcome \<Rightarrow> ('s, unit) operator" where
  "report_outcome E dr o1 = do {
     _ \<leftarrow> (case co_err o1 of
        Inl e \<Rightarrow> updateDisasterRecoveryStatus E dr ''failed'' (''Error occurred during OpenSearch switching: '' @ err_text e) (co_users o1)
      | Inr _ \<Rightarrow> updateDisasterRecoveryStatus E dr ''done'' (co_message o1) (co_users o1));
     (if dr_Mode dr = ''active'' then do { _ \<leftarrow> enableClientServices E; return () } else return ()) }"

definition cr_condition :: "disaster_recovery \<Rightarrow> disaster_recovery_status \<Rightarrow> bool" where
  "cr_condition dr st \<longleftrightarrow> dr_Mode dr \<noteq> drs_Mode st \<or> drs_Status st \<in> {''running'', ''failed'', ''queue''}"

definition dr_Configure :: "nat \<Rightarrow> 's op_env \<Rightarrow> disaster_recovery \<Rightarrow> ('s, (go_error + unit) go option) operator" where
  "dr_Configure n E dr = do {
     c \<leftarrow> recall the_cr;
     computed \<leftarrow> calculateConfigDataHash E (ConfigMapName dr) drConfigHashName;
     hashes \<leftarrow> recall ResourceHashes;
     (case computed of
        Inl e \<Rightarrow> return (Some (Ret (Inl e)))
      | Inr hash \<Rightarrow>
          (let crCondition = cr_condition dr (DisasterRecoveryStatus (cr_Status c));
               known = map_get [] hashes drConfigHashName in do {
           ended \<leftarrow> (if crCondition \<or> known \<noteq> [] \<and> known \<noteq> hash then switchover n E dr hash crCondition
                    else do { o1 \<leftarrow> finish_configure dr hash (Inr ()) True [] usersRecoveryDoneState; return (Some o1) });
           (case ended of
              None \<Rightarrow> return None
            | Some o1 \<Rightarrow> do { _ \<leftarrow> report_outcome E dr o1; return (Some (co_result o1)) }) })) }"

section \<open>Requests of a switchover\<close>

text \<open>
  Bounds on what a switchover sends. The contract: every event is allowed but writes of services
  and deletions; of the deletions those of the autofollow rule and of \<^verbatim>\<open>.tasks\<close> are.
\<close>

locale switchover_events =
  fixes R :: "op_event \<Rightarrow> bool"
  assumes reads: "R (GetObject k n)"
    and calls: "verb \<noteq> ''DELETE'' \<Longrightarrow> R (Rest (rest_request rc verb path b h))"
    and rules: "R (Rest (rest_request rc ''DELETE'' startFullReplicationPath b h))"
    and task_index: "R (Rest (rest_request rc ''DELETE'' ''.tasks'' b h))"
    and probes: "R (Rest (probe_request url))"
    and writes: "R (UpdateStatus c)" "R (UpdateDeployment d)" "R (UpdateConfigMap m)" "R (Go g)"
begin

lemmas allowed = reads calls rules task_index probes writes

lemma cancels: "sends R (cancel_each E rm xs)"
  by (induction xs) (auto intro!: sends_intros calls)

lemma removal: "sends R (removePreviousReplication E rm)"
  unfolding removePreviousReplication_def RemoveReplicationRule_def GetAutoFollowRuleStats_def StopReplication_def
    getReplicatedIndices_def StopIndicesReplicationByPattern_def getIndexReplicationStatus_def
    getReplicationIndexStats_def stopIndicesReplication_def DeleteAdminReplicationTasks_def
  by (intro sends_intros sends_stop_each cancels) (simp_all add: calls rules)

lemma failed_scan: "sends R (find_failed E rc xs)"
  by (induction xs) (auto intro!: sends_intros calls simp: checker_index_status_def)

lemma awaiting: "sends R (awaitReplication E rc)"
  unfolding awaitReplication_def CheckReplication_def check_rule_def listUnhealthyIndices_def areFailedReplicationsFound_def
  by (intro sends_intros failed_scan) (simp_all add: calls)

lemma manager: "sends R (getReplicationManager E dr)"
  unfolding getReplicationManager_def Let_def by (intro sends_intros reads)

lemma watcher_check: "sends R (watcher_checkReplication E dr b)"
  unfolding watcher_checkReplication_def GetAutoFollowRuleStats_def GetIndicesByPatternExcludeService_def
    watcher_index_failed_def getIndexReplicationStatus_def getReplicationIndexStats_def Let_def
  by (intro sends_intros manager) (simp_all add: calls)

lemma classification: "sends R (classify_indices E rm xs m f)"
  by (induction xs arbitrary: m f)
    (auto intro!: sends_intros calls simp: getIndexReplicationStatus_def getReplicationIndexStats_def)

lemma updates: "sends R (update_each E rm m r)"
  by (induction E rm m r rule: update_each.induct)
    (auto intro!: sends_intros calls simp: getReplicationIndexStats_def)

lemma attempts: "sends R (check_attempts n E rm m)"
  by (induction n) (auto intro!: sends_intros updates simp: updateInProgressIndices_def)

lemma planned: "sends R (planned_check E rm)"
  unfolding planned_check_def executeReplicationCheck_def getReplicatedIndices_def
  by (intro sends_intros classification attempts) (simp_all add: calls)

lemma stopping: "sends R (stopReplication E rm)"
  unfolding stopReplication_def DeleteIndicesByPattern_def by (intro sends_intros removal task_index)

lemma recovering: "sends R (recover_loop n E x y a state)"
  by (induction n arbitrary: state)
    (auto intro!: sends_intros allowed simp: request_recovery_def updateUsersRecoveryStatus_def recovery_state_of_def)

lemma connection: "sends R (checkConnectionWithOtherSide E dr)"
  unfolding checkConnectionWithOtherSide_def probe_def Let_def by (intro sends_intros reads probes)

lemma status_update: "sends R (updateDisasterRecoveryStatus E dr st m u)"
  unfolding updateDisasterRecoveryStatus_def Let_def by (intro sends_intros allowed)

lemma finishing: "sends R (finish_configure dr h e b m u)"
  unfolding finish_configure_def watcher_start_def watcher_pause_def
  by (intro sends_intros allowed) simp_all

lemma enabling: "(\<And>s. R (UpdateService s)) \<Longrightarrow> sends R (enableClientServices E)"
  unfolding enableClientServices_def by (intro sends_intros reads)

lemma disabling:
  assumes "\<And>s m. Selector s = Some (map_put ''none'' ''true'' m) \<Longrightarrow> R (UpdateService s)"
  shows "sends R (disableClientServices E)"
  unfolding disableClientServices_def disableClientService_def
  by (intro sends_intros reads assms) simp_all

lemma leaving_standby:
  assumes "\<And>s. dr_Mode dr = ''active'' \<Longrightarrow> R (UpdateService s)"
  shows "sends R (switch_from_standby n E dr c k rm)"
  unfolding switch_from_standby_def activate_def recoverUsers_def buildAggregatorRestClient_def buildAdapterRestClient_def Let_def
  by (intro sends_intros watcher_check planned stopping recovering enabling assms allowed)

lemma configuring:
  assumes "\<And>s m. Selector s = Some (map_put ''none'' ''true'' m) \<Longrightarrow> R (UpdateService s)"
    and "\<And>s. dr_Mode dr = ''active'' \<Longrightarrow> R (UpdateService s)"
    and "\<And>m rm. dr_Mode dr = ''standby'' \<Longrightarrow> sends R (switch_to_standby E dr m rm)"
  shows "sends R (dr_Configure n E dr)"
  unfolding dr_Configure_def switchover_def report_outcome_def watcher_pause_def Let_def
  by (intro sends_intros finishing status_update manager disabling enabling leaving_standby assms allowed) simp_all

end

text \<open>Of the indices only \<^verbatim>\<open>.tasks\<close> is deleted.\<close>

definition keeps_indices :: "op_event \<Rightarrow> bool" where
  "keeps_indices e \<longleftrightarrow>
     (case e of
        Rest rq \<Rightarrow> rq_method rq = ''DELETE'' \<longrightarrow>
          (\<exists>base. rq_url rq = base @ ''/'' @ startFullReplicationPath \<or> rq_url rq = base @ ''/'' @ ''.tasks'')
      | _ \<Rightarrow> True)"

text \<open>A service that is written selects no pod.\<close>

definition cuts_off :: "op_event \<Rightarrow> bool" where
  "cuts_off e \<longleftrightarrow>
     (case e of
        UpdateService s \<Rightarrow> (\<exists>m. Selector s = Some m \<and> map_of m ''none'' = Some ''true'')
      | _ \<Rightarrow> True)"

interpretation kept: switchover_events keeps_indices
  by unfold_locales (auto simp: keeps_indices_def rest_request_def probe_request_def)

interpretation cut: switchover_events cuts_off
  by unfold_locales (auto simp: cuts_off_def)

lemma failed_unit: "Inr () \<noteq> r \<longleftrightarrow> (\<exists>e. r = Inl e)"
  by (cases r) auto

text \<open>No address that a config map names breaks off when it is probed: there is no active peer.\<close>

definition no_active_peer :: "'s op_env \<Rightarrow> bool" where
  "no_active_peer E \<longleftrightarrow> (\<forall>name ns s m s' (w :: 's op_world). get_config_map E name ns s = (Inr m, s') \<longrightarrow>
     \<not> breaks_off (fst (run_state (probe E (map_get [] (cm_Data m) ''remoteCluster'')) w)))"

text \<open>Without a probe that breaks off the check of the connection fails.\<close>

lemma connection_refused:
  assumes "no_active_peer E"
  shows "\<exists>e. fst (run_state (checkConnectionWithOtherSide E dr) w) = Inl e"
proof -
  obtain r w1 where f: "run_state (findConfigMap E (ConfigMapName dr) (cr_Namespace (the_cr w))) w = (r, w1)"
    by (cases "run_state (findConfigMap E (ConfigMapName dr) (cr_Namespace (the_cr w))) w")
  show ?thesis
  proof (cases r)
    case (Inl e)
    then show ?thesis using f by (simp add: checkConnectionWithOtherSide_def run_simps)
  next
    case (Inr m)
    obtain x w2 where x: "run_state (probe E (map_get [] (cm_Data m) ''remoteCluster'')) w1 = (x, w2)"
      by (cases "run_state (probe E (map_get [] (cm_Data m) ''remoteCluster'')) w1")
    obtain s' where "get_config_map E (ConfigMapName dr) (cr_Namespace (the_cr w)) (srv w) = (Inr m, s')"
      using f Inr by (auto simp: findConfigMap_def run_simps split: prod.splits)
    then have "\<not> breaks_off (fst (run_state (probe E (map_get [] (cm_Data m) ''remoteCluster'')) w1))"
      using assms unfolding no_active_peer_def by blast
    then have "\<not> breaks_off x" using x by simp
    then show ?thesis using f x Inr by (simp add: checkConnectionWithOtherSide_def run_simps)
  qed
qed

lemma refused_standby_keeps:
  assumes "no_active_peer E"
  shows "sends keeps_indices (switch_to_standby E dr m rm)"
proof -
  have "sends keeps_indices (case r of Inl e \<Rightarrow> return (Ret (Inl e, False)) | Inr _ \<Rightarrow> k)"
    if "run_state (checkConnectionWithOtherSide E dr) w = (r, w')" for r w w' and k :: "('a, ((go_error + unit) \<times> bool) go) operator"
    using connection_refused [OF assms, of dr w] that by (auto intro: sends_return)
  then have after: "sends keeps_indices (State_Monad.bind (checkConnectionWithOtherSide E dr)
      (\<lambda>r. case r of Inl e \<Rightarrow> return (Ret (Inl e, False)) | Inr _ \<Rightarrow> k))" for k :: "('a, ((go_error + unit) \<times> bool) go) operator"
    by (rule sends_bind_run [OF kept.connection])
  show ?thesis
    unfolding switch_to_standby_def
    by (intro sends_bind [where m = "if _ then _ else _"] sends_if sends_return kept.removal sends_case_sum after)
qed

lemma deletion_cuts_off: "sends cuts_off (DeleteIndicesByPatternWithUnlock E rm pattern)"
  unfolding DeleteIndicesByPatternWithUnlock_def GetIndicesByPatternExcludeService_def stopIndicesReplication_def DeleteIndicesByPattern_def
  by (intro sends_intros sends_stop_each) (simp_all add: cuts_off_def)

lemma deletions_cut_off: "sends cuts_off (delete_each E rm xs)"
  by (induction xs) (auto intro!: sends_onOk sends_return deletion_cuts_off)

lemma standby_cuts_off: "sends cuts_off (switch_to_standby E dr m rm)"
  unfolding switch_to_standby_def runReplicationProcess_def DeleteIndices_def rm_Configure_def rm_Start_def
  by (intro sends_intros cut.removal cut.connection cut.awaiting deletion_cuts_off deletions_cut_off) (simp_all add: cuts_off_def)

lemma recover_loop_outcome:
  "run_state (recover_loop n E x y a state) w = (Some (st, err), w') \<Longrightarrow>
     (if err = None then st = usersRecoveryDoneState else st \<in> {usersRecoveryRunningState, usersRecoveryFailedState})"
  by (induction n arbitrary: state w) (auto simp: run_simps split: if_splits prod.splits sum.splits)

lemma recover_loop_fuel:
  "run_state (recover_loop n E x y a state) w = (Some r, w') \<Longrightarrow>
     run_state (recover_loop (n + k) E x y a state) w = (Some r, w')"
  by (induction n arbitrary: state w) (auto simp: run_simps split: if_splits prod.splits sum.splits)

section \<open>Goroutines of the watcher\<close>

text \<open>
  The state and the number of goroutines that are in the loop: \<^verbatim>\<open>start\<close> adds one unless the state
  is running, \<^verbatim>\<open>pause\<close> only sets the state, and a goroutine leaves when it finds the state paused.
\<close>

inductive watcher_step :: "string \<times> nat \<Rightarrow> string \<times> nat \<Rightarrow> bool" where
  starts: "watcher_step (s, k) (runningState, if s = runningState then k else Suc k)"
| pauses: "watcher_step (s, k) (pausedState, k)"
| leaves: "watcher_step (pausedState, Suc k) (pausedState, k)"

inductive_cases watcher_stepE: "watcher_step x y"

text \<open>The steps are those of the operations.\<close>

lemma watcher_start_step:
  "watcher_step (watcher_state w, k)
     (watcher_state (snd (run_state (watcher_start dr) w)), k + (length (trace (snd (run_state (watcher_start dr) w))) - length (trace w)))"
  using starts [of "watcher_state w" k] by (auto simp: watcher_start_def run_simps split: if_splits)

lemma watcher_pause_step: "watcher_step (watcher_state w, k) (watcher_state (snd (run_state watcher_pause w)), k)"
  using pauses by (simp add: watcher_pause_def run_simps)

lemma watcher_running_live:
  "watcher_step\<^sup>*\<^sup>* (NewReplicationWatcher, 0) x \<Longrightarrow> fst x = runningState \<Longrightarrow> 0 < snd x"
proof (induction rule: rtranclp_induct)
  case base
  then show ?case by (simp add: NewReplicationWatcher_def runningState_def pausedState_def)
next
  case (step y z)
  from step.hyps(2) step.IH step.prems show ?case
    by (cases rule: watcher_step.cases) (auto simp: runningState_def pausedState_def split: if_splits)
qed

lemma watcher_accumulates: "watcher_step\<^sup>*\<^sup>* (NewReplicationWatcher, 0) (runningState, Suc k)"
proof (induction k)
  case 0
  show ?case using starts [of pausedState 0]
    by (auto simp: NewReplicationWatcher_def runningState_def pausedState_def)
next
  case (Suc k)
  from Suc pauses have "watcher_step\<^sup>*\<^sup>* (NewReplicationWatcher, 0) (pausedState, Suc k)"
    by (rule rtranclp.rtrancl_into_rtrancl)
  moreover have "watcher_step (pausedState, Suc k) (runningState, Suc (Suc k))"
    using starts [of pausedState "Suc k"] by (simp add: runningState_def pausedState_def)
  ultimately show ?case by (rule rtranclp.rtrancl_into_rtrancl)
qed

section \<open>Properties\<close>

text \<open>
  C2. A switchover never deletes replicated data without an active peer: unless the mode is standby
  and the probe of the other side broke off, the only deletions that are sent are those of the
  autofollow rule and of the index \<^verbatim>\<open>.tasks\<close>.
\<close>

theorem indices_survive:
  assumes "dr_Mode dr \<noteq> ''standby'' \<or> no_active_peer E"
  shows "sends keeps_indices (dr_Configure n E dr)"
  by (rule kept.configuring) (use assms in \<open>auto simp: keeps_indices_def intro: refused_standby_keeps\<close>)

definition test_dr :: "string \<Rightarrow> disaster_recovery" where
  "test_dr mode = \<lparr>dr_Mode = mode, NoWait = False, ConfigMapName = ''dr'', ReplicationWatcherEnabled = True, ReplicationWatcherInterval = 0\<rparr>"

definition answering_env :: "script op_env" where
  "answering_env = test_op_env\<lparr>http_do := (\<lambda>_ s. (status_only 200, s))\<rparr>"

theorem indices_survive_witness:
  "no_active_peer answering_env \<and> sends keeps_indices (dr_Configure 5 answering_env (test_dr ''standby''))"
proof
  have "map_get [] [(''remoteCluster'', ''other:9300''), (''indicesPattern'', ''app-*'')] ''remoteCluster'' = ''other:9300''"
    by code_simp
  moreover have "url_ok (rq_url (probe_request ''other:9300''))" by code_simp
  ultimately show peer: "no_active_peer answering_env"
    by (auto simp: no_active_peer_def answering_env_def test_op_env_def probe_def breaks_off_def status_only_def Let_def run_simps)
  show "sends keeps_indices (dr_Configure 5 answering_env (test_dr ''standby''))"
    by (rule indices_survive) (simp add: peer)
qed

text \<open>
  C9. Only the active side serves clients: in every other mode each service that the switchover
  writes has the selector that matches no pod, in every branch and also after errors.
\<close>

theorem only_active_serves:
  assumes "dr_Mode dr \<noteq> ''active''"
  shows "sends cuts_off (dr_Configure n E dr)"
  by (rule cut.configuring) (use assms in \<open>auto simp: cuts_off_def gomap.find_put intro: standby_cuts_off\<close>)

theorem only_active_serves_witness:
  "dr_Mode (test_dr ''disable'') \<noteq> ''active'' \<and> sends cuts_off (dr_Configure 5 test_op_env (test_dr ''disable''))"
  using only_active_serves [of "test_dr ''disable''" 5 test_op_env] by (simp add: test_dr_def)

text \<open>
  When the list of replicated indices cannot be read, the check of a planned switchover passes:
  the error is overwritten by the result of checking no index at all.
\<close>

theorem unread_indices_pass:
  assumes "run_state (getReplicatedIndices E rm) w = (Inl e, w1)"
  shows "run_state (planned_check E rm) w = (Inr (), w1)"
  using assms
  by (simp add: planned_check_def executeReplicationCheck_def replicationAttemptsNumber_def numeral_eq_Suc
      updateInProgressIndices_def run_simps)

definition unread_run :: "(go_error + string list) \<times> script op_world" where
  "unread_run = run_state (getReplicatedIndices test_op_env test_manager) (op_world_of test_cr [status_only 500])"

theorem unread_indices_pass_witness:
  "fst (run_state (planned_check test_op_env test_manager) (op_world_of test_cr [status_only 500])) = Inr ()"
proof -
  have "fst unread_run = Inl (Err ''internal server error'')" by code_simp
  then have "run_state (getReplicatedIndices test_op_env test_manager) (op_world_of test_cr [status_only 500]) =
      (Inl (Err ''internal server error''), snd unread_run)"
    by (simp add: unread_run_def prod_eq_iff)
  from unread_indices_pass [OF this] show ?thesis by simp
qed

text \<open>
  What \<^verbatim>\<open>Configure\<close> returns and what it writes to the status agree with three exceptions made
  explicit: the status is written from the error that is returned, or the mode is standby and the
  error is only written, or a panic unwinds the call and the status is written as if it had succeeded.
\<close>

theorem switchover_outcome:
  assumes "run_state (switchover n E dr hash crCondition) w = (Some o1, w')"
  shows "co_result o1 = Ret (co_err o1) \<or>
    (dr_Mode dr = ''standby'' \<and> (\<exists>e. co_err o1 = Inl e) \<and> co_result o1 = Ret (Inr ())) \<or>
    (co_err o1 = Inr () \<and> (\<exists>p. co_result o1 = Panic p))"
  using assms
  by (auto simp: switchover_def finish_configure_def Let_def run_simps failed_unit
      split: prod.splits sum.splits go.splits if_splits option.splits)

definition denying_env :: "script op_env" where
  "denying_env = test_op_env\<lparr>put_status := (\<lambda>_ s. (Inl (Err ''denied''), s))\<rparr>"

lemma denied_status: "fst (run_state (updateDisasterRecoveryStatus denying_env dr st m u) w) = Inl (Err ''denied'')"
  by (simp add: updateDisasterRecoveryStatus_def UpdateStatusWithRetry_def update_status_once_def try_times_def
      denying_env_def test_op_env_def numeral_eq_Suc Let_def run_simps)

lemma switchover_denied:
  assumes "\<And>u w. fst (run_state (updateDisasterRecoveryStatus E dr ''running''
      ''The switchover process for OpenSearch has been started'' u) w) = Inl e"
  shows "\<exists>o1 w'. run_state (switchover n E dr hash c) w = (Some o1, w') \<and> co_err o1 = Inl e"
proof -
  have "run_state (updateDisasterRecoveryStatus E dr ''running'' ''The switchover process for OpenSearch has been started'' u) v =
      (Inl e, snd (run_state (updateDisasterRecoveryStatus E dr ''running'' ''The switchover process for OpenSearch has been started'' u) v))" for u v
    using assms [of u v] by (simp add: prod_eq_iff)
  note step = this
  show ?thesis
    by (simp add: switchover_def watcher_pause_def Let_def run_simps)
      (intro conjI impI; subst step; simp)
qed

theorem switchover_outcome_witness:
  "\<exists>o1 w'. run_state (switchover 5 denying_env (test_dr ''active'') ''h'' True) (op_world_of test_cr []) = (Some o1, w') \<and>
     co_err o1 = Inl (Err ''denied'') \<and> co_result o1 = Ret (co_err o1)"
proof -
  obtain o1 w' where run: "run_state (switchover 5 denying_env (test_dr ''active'') ''h'' True) (op_world_of test_cr []) = (Some o1, w')"
    and err: "co_err o1 = Inl (Err ''denied'')"
    using switchover_denied [OF denied_status] by blast
  from switchover_outcome [OF run] err show ?thesis
    by (intro exI [of _ o1] exI [of _ w'] conjI run) (auto simp: test_dr_def)
qed


definition test_adapter :: dbaas_adapter where
  "test_adapter = \<lparr>AdapterAddress = ''http://adapter'', AggregatorAddress = ''http://aggregator'', dbaas_Name = ''dbaas'',
     PhysicalDatabaseIdentifier = ''db'', dbaas_SecretName = ''s''\<rparr>"

definition recovering_cr :: opensearch_service where
  "recovering_cr = test_cr\<lparr>cr_Status := test_status\<lparr>DisasterRecoveryStatus :=
     (DisasterRecoveryStatus test_status)\<lparr>UsersRecoveryState := ''idle''\<rparr>\<rparr>\<rparr>"

definition recovery_run :: "(string \<times> go_error option) option \<times> script op_world" where
  "recovery_run = run_state (recoverUsers 3 test_op_env test_adapter)
     (op_world_of recovering_cr [status_only 200, Inr \<lparr>StatusCode = 200, Body = Text ''done''\<rparr>])"


text \<open>
  The watchers add up: while the state is running at least one goroutine watches, and any number
  of them can, since a pause followed by a start before the old goroutine looks at the state starts another.
\<close>

theorem watcher_goroutines:
  "watcher_step\<^sup>*\<^sup>* (NewReplicationWatcher, 0) (runningState, k) \<longleftrightarrow> 0 < k"
  using watcher_running_live [of "(runningState, k)"] watcher_accumulates [of "k - 1"] by auto

end
