(* ===== verification/Rolling_Update.thy ===== *)
theory Rolling_Update
  imports Operator_Base
begin

text \<open>
  The rolling update of the OpenSearch pods: \<^verbatim>\<open>OpenSearchReconciler.Reconcile\<close> and what it calls
  (\<^verbatim>\<open>opensearch_reconciler.go\<close>, first half). The reconciler exists only when the custom resource has the
  section \<^verbatim>\<open>opensearch\<close>, which is an argument. A pointer to a status of a stateful set points into the
  list of the shared custom resource, so it is an index of that list.
\<close>

section \<open>Data\<close>

definition rollingUpdateDoneStatus :: string where "rollingUpdateDoneStatus = ''done''"
definition rollingUpdateRunningStatus :: string where "rollingUpdateRunningStatus = ''running''"

definition dec_health :: "string decoder" where
  "dec_health = dec_struct [field ''status'' dec_string id (\<lambda>f. f)]"

record flush_shards =
  flush_Total :: int
  flush_Successful :: int
  flush_Failed :: int

definition dec_flush_result :: "flush_shards decoder" where
  "dec_flush_result = dec_struct [field ''_shards'' (dec_struct
     [field ''total'' dec_int flush_Total flush_Total_update,
      field ''successful'' dec_int flush_Successful flush_Successful_update,
      field ''failed'' dec_int flush_Failed flush_Failed_update]) id (\<lambda>f. f)]"

text \<open>Of the settings only \<^verbatim>\<open>persistent.cluster.routing.allocation.enable\<close>, which may be \<^verbatim>\<open>nil\<close>.\<close>

definition nested :: "string \<Rightarrow> 'a decoder \<Rightarrow> 'a decoder" where
  "nested name d = dec_struct [field name d id (\<lambda>f. f)]"

definition dec_allocation :: "string option decoder" where
  "dec_allocation = nested ''persistent'' (nested ''cluster'' (nested ''routing'' (nested ''allocation'' (nested ''enable'' (dec_ptr [] dec_string)))))"

definition enc_allocation :: "string option \<Rightarrow> json" where
  "enc_allocation enable = JObj [(''persistent'', JObj [(''cluster'', JObj [(''routing'', JObj [(''allocation'',
     JObj [(''enable'', case enable of None \<Rightarrow> JNull | Some v \<Rightarrow> JStr v)])])])])]"

section \<open>Health and settings of the cluster\<close>

definition createRestClientWithOldCreds :: "'s op_env \<Rightarrow> ('s, go_error + rest_client) operator" where
  "createRestClientWithOldCreds E = do {
     c \<leftarrow> recall the_cr;
     (case configureClient E of
        Some e \<Rightarrow> return (Inl e)
      | None \<Rightarrow> do {
          oldCredentials \<leftarrow> parseSecretCredentials E (old_secret_name c) (cr_Namespace c);
          return (Inr (NewRestClient (createUrl E (cr_Name c) 9200) oldCredentials)) }) }"

definition isOpenSearchHealthy :: "'s op_env \<Rightarrow> rest_client \<Rightarrow> ('s, go_error + bool) operator" where
  "isOpenSearchHealthy E rc =
     onOk (SendRequestWithStatusCodeCheck E rc ''GET'' ''_cluster/health'' None) (\<lambda>responseBody.
       return (case unmarshal dec_health responseBody [] of Inl e \<Rightarrow> Inl e | Inr status \<Rightarrow> Inr (status = ''green'')))"

definition checkOpenSearchHealth :: "'s op_env \<Rightarrow> rest_client \<Rightarrow> ('s, go_error + unit) operator" where
  "checkOpenSearchHealth E rc = do {
     n \<leftarrow> try_times E;
     poll_immediate n (\<lambda>_. do {
       r \<leftarrow> isOpenSearchHealthy E rc;
       return (Inr (case r of Inl _ \<Rightarrow> False | Inr isHealthy \<Rightarrow> isHealthy)) }) }"

definition makeOpenSearchSettings :: "bool \<Rightarrow> string option" where
  "makeOpenSearchSettings allocationEnabled = (if allocationEnabled then None else Some ''primaries'')"

definition getSettings :: "'s op_env \<Rightarrow> rest_client \<Rightarrow> ('s, go_error + string option) operator" where
  "getSettings E rc =
     onOk (SendRequestWithStatusCodeCheck E rc ''GET'' ''_cluster/settings'' None) (\<lambda>responseBody.
       return (unmarshal dec_allocation responseBody None))"

definition updateSettings :: "'s op_env \<Rightarrow> rest_client \<Rightarrow> body \<Rightarrow> ('s, go_error + unit) operator" where
  "updateSettings E rc b = onOk (SendRequestWithStatusCodeCheck E rc ''PUT'' ''_cluster/settings'' (Some b)) (\<lambda>_. return (Inr ()))"

text \<open>All attempts share one reader: only the first is sure to send the whole text.\<close>

definition allocation_body :: "'s op_env \<Rightarrow> json \<Rightarrow> nat \<Rightarrow> ('s, body) operator" where
  "allocation_body E settings k =
     (if k = 0 then return (Doc settings)
      else do { rest \<leftarrow> silent (reader_rest E (json_print settings)); return (Text rest) })"

definition changeAllocationSetting :: "'s op_env \<Rightarrow> bool \<Rightarrow> rest_client \<Rightarrow> ('s, go_error + unit) operator" where
  "changeAllocationSetting E enableAllocation rc = do {
     n \<leftarrow> try_times E;
     onOk (poll_immediate n (\<lambda>k. do {
         b \<leftarrow> allocation_body E (enc_allocation (makeOpenSearchSettings enableAllocation)) k;
         r \<leftarrow> updateSettings E rc b;
         return (Inr (case r of Inl _ \<Rightarrow> False | Inr _ \<Rightarrow> True)) })) (\<lambda>_.
     onOk (getSettings E rc) (\<lambda>_. return (Inr ()))) }"

definition enableAllocationIfNecessary :: "'s op_env \<Rightarrow> rest_client \<Rightarrow> ('s, go_error + unit) operator" where
  "enableAllocationIfNecessary E rc =
     onOk (getSettings E rc) (\<lambda>enable.
       if enable = None \<or> enable = Some ''all'' then return (Inr ()) else changeAllocationSetting E True rc)"

definition execFlushProcedure :: "'s op_env \<Rightarrow> rest_client \<Rightarrow> ('s, go_error + unit) operator" where
  "execFlushProcedure E rc =
     onOk (SendRequestWithStatusCodeCheck E rc ''POST'' ''_flush'' None) (\<lambda>responseBody.
       return (case unmarshal dec_flush_result responseBody \<lparr>flush_Total = 0, flush_Successful = 0, flush_Failed = 0\<rparr> of
         Inl e \<Rightarrow> Inl e
       | Inr result \<Rightarrow>
           (if flush_Failed result \<noteq> 0 then
              Inl (Err (''flush procedure finished with '' @ show_int (flush_Failed result) @ '' failed shards''))
            else Inr ())))"

section \<open>The status of the update\<close>

definition sts_statuses :: "opensearch_service \<Rightarrow> stateful_set_status list" where
  "sts_statuses c = StatefulSetStatuses (RollingUpdateStatus (cr_Status c))"

definition set_statuses :: "stateful_set_status list \<Rightarrow> opensearch_service \<Rightarrow> opensearch_service" where
  "set_statuses xs c = c\<lparr>cr_Status := (cr_Status c)\<lparr>RollingUpdateStatus := (RollingUpdateStatus (cr_Status c))\<lparr>StatefulSetStatuses := xs\<rparr>\<rparr>\<rparr>"

definition set_rolling :: "string \<Rightarrow> opensearch_service \<Rightarrow> opensearch_service" where
  "set_rolling status c = c\<lparr>cr_Status := (cr_Status c)\<lparr>RollingUpdateStatus := (RollingUpdateStatus (cr_Status c))\<lparr>rus_Status := status\<rparr>\<rparr>\<rparr>"

definition updateRollingUpdateStatus :: "'s op_env \<Rightarrow> string \<Rightarrow> ('s, go_error + unit) operator" where
  "updateRollingUpdateStatus E status = do {
     r \<leftarrow> UpdateStatusWithRetry E (\<lambda>instance. return (set_rolling status instance));
     _ \<leftarrow> remember (the_cr_update (set_rolling status));
     return r }"

definition updateStatefulSetStatuses :: "'s op_env \<Rightarrow> ('s, go_error + unit) operator" where
  "updateStatefulSetStatuses E = UpdateStatusWithRetry E (\<lambda>instance. do {
     c \<leftarrow> recall the_cr;
     return (set_statuses (sts_statuses c) instance) })"

text \<open>Writing through the pointer to the status with index \<open>i\<close>.\<close>

definition change_status :: "nat \<Rightarrow> (stateful_set_status \<Rightarrow> stateful_set_status) \<Rightarrow> ('s, unit) operator" where
  "change_status i f = remember (the_cr_update (\<lambda>c. set_statuses ((sts_statuses c)[i := f (sts_statuses c ! i)]) c))"

definition uploadUpdatedReplicasSlice :: "'s op_env \<Rightarrow> int list \<Rightarrow> nat \<Rightarrow> ('s, go_error + unit) operator" where
  "uploadUpdatedReplicasSlice E updated i = do {
     _ \<leftarrow> change_status i (UpdatedReplicas_update (\<lambda>_. updated));
     updateStatefulSetStatuses E }"

fun index_of_status :: "string \<Rightarrow> stateful_set_status list \<Rightarrow> nat option" where
  "index_of_status name [] = None"
| "index_of_status name (st # rest) = (if sss_Name st = name then Some 0 else map_option Suc (index_of_status name rest))"

definition findStatefulSetStatus :: "'s op_env \<Rightarrow> stateful_set \<Rightarrow> ('s, go_error + nat) operator" where
  "findStatefulSetStatus E sts = do {
     c \<leftarrow> recall the_cr;
     (case index_of_status (sts_Name sts) (sts_statuses c) of
        Some i \<Rightarrow> return (Inr i)
      | None \<Rightarrow> do {
          _ \<leftarrow> remember (the_cr_update (\<lambda>c. set_statuses (sts_statuses c @
            [\<lparr>sss_Name = sts_Name sts, LastStatefulSetGeneration = sts_Generation sts, UpdatedReplicas = []\<rparr>]) c));
          onOk (updateStatefulSetStatuses E) (\<lambda>_. do {
            after \<leftarrow> recall the_cr;
            return (Inr (length (sts_statuses after) - 1)) }) }) }"

definition getUpdatedReplicasSlice :: "'s op_env \<Rightarrow> stateful_set \<Rightarrow> nat \<Rightarrow> ('s, go_error + int list) operator" where
  "getUpdatedReplicasSlice E sts i = do {
     c \<leftarrow> recall the_cr;
     (if sts_Generation sts \<noteq> LastStatefulSetGeneration (sts_statuses c ! i) then do {
        _ \<leftarrow> change_status i (\<lambda>st. st\<lparr>UpdatedReplicas := [], LastStatefulSetGeneration := sts_Generation sts\<rparr>);
        onOk (updateStatefulSetStatuses E) (\<lambda>_. return (Inr [])) }
      else return (Inr (UpdatedReplicas (sts_statuses c ! i)))) }"

section \<open>Restarting the pods\<close>

definition pod_name :: "stateful_set \<Rightarrow> int \<Rightarrow> string" where
  "pod_name sts replica = sts_Name sts @ ''-'' @ show_int replica"

definition first_container_ready :: "pod \<Rightarrow> bool" where
  "first_container_ready p = (case containers_ready p of [] \<Rightarrow> False | ready # _ \<Rightarrow> ready)"

definition waitUntilOpenSearchPodIsReady :: "'s op_env \<Rightarrow> string \<Rightarrow> ('s, go_error + unit) operator" where
  "waitUntilOpenSearchPodIsReady E podName = do {
     c \<leftarrow> recall the_cr;
     n \<leftarrow> try_times E;
     poll n (\<lambda>_. do {
       r \<leftarrow> findPod E podName (cr_Namespace c);
       return (Inr (case r of Inl _ \<Rightarrow> False | Inr p \<Rightarrow> first_container_ready p)) }) }"

definition restart_replica :: "'s op_env \<Rightarrow> stateful_set \<Rightarrow> nat \<Rightarrow> int \<Rightarrow> int list \<Rightarrow> ('s, go_error + unit) operator" where
  "restart_replica E sts i replica updated = do {
     c \<leftarrow> recall the_cr;
     onOk (deletePodByName E (pod_name sts replica) (cr_Namespace c)) (\<lambda>_.
     onOk (waitUntilOpenSearchPodIsReady E (pod_name sts replica)) (\<lambda>_.
     uploadUpdatedReplicasSlice E (updated @ [replica]) i)) }"

text \<open>The loop from replica \<open>k - 1\<close> down to 0.\<close>

fun restart_each :: "'s op_env \<Rightarrow> stateful_set \<Rightarrow> nat \<Rightarrow> nat \<Rightarrow> int list \<Rightarrow> ('s, go_error + unit) operator" where
  "restart_each E sts i 0 updated = return (Inr ())"
| "restart_each E sts i (Suc k) updated =
     (if ArrayContains updated (int k) then restart_each E sts i k updated
      else onOk (restart_replica E sts i (int k) updated) (\<lambda>_. restart_each E sts i k (updated @ [int k])))"

definition restartOpenSearchPod :: "'s op_env \<Rightarrow> stateful_set \<Rightarrow> nat \<Rightarrow> ('s, go_error + unit) operator" where
  "restartOpenSearchPod E sts i =
     onOk (getUpdatedReplicasSlice E sts i) (restart_each E sts i (nat (sts_Replicas sts)))"

definition clear_status :: "'s op_env \<Rightarrow> nat \<Rightarrow> ('s, go_error + unit) operator" where
  "clear_status E i = do {
     c \<leftarrow> recall the_cr;
     (if UpdatedReplicas (sts_statuses c ! i) \<noteq> [] then uploadUpdatedReplicasSlice E [] i else return (Inr ())) }"

fun restartOpenSearchPods :: "'s op_env \<Rightarrow> stateful_set list \<Rightarrow> ('s, go_error + unit) operator" where
  "restartOpenSearchPods E [] = return (Inr ())"
| "restartOpenSearchPods E (sts # rest) =
     onOk (findStatefulSetStatus E sts) (\<lambda>i.
     onOk (if sts_Replicas sts \<noteq> sts_UpdatedReplicas sts then restartOpenSearchPod E sts i else return (Inr ())) (\<lambda>_.
     onOk (clear_status E i) (\<lambda>_.
     restartOpenSearchPods E rest)))"

section \<open>Reconcile\<close>

fun watch_sets :: "'s op_env \<Rightarrow> string list \<Rightarrow> ('s, go_error + stateful_set list) operator" where
  "watch_sets E [] = return (Inr [])"
| "watch_sets E (name # rest) =
     onOk (watchStatefulSet E name) (\<lambda>sts. onOk (watch_sets E rest) (\<lambda>others. return (Inr (sts # others))))"

definition getStatefulSets :: "'s op_env \<Rightarrow> opensearch_spec \<Rightarrow> ('s, go_error + stateful_set list) operator" where
  "getStatefulSets E os =
     (if StatefulSetNames os = [] then return (Inr []) else watch_sets E (split_on (CHR '','') (StatefulSetNames os)))"

definition needToPerformRollingUpdate :: "'s op_env \<Rightarrow> rest_client \<Rightarrow> stateful_set list \<Rightarrow> ('s, go_error + bool) operator" where
  "needToPerformRollingUpdate E rc sets = do {
     c \<leftarrow> recall the_cr;
     (if list_ex (\<lambda>sts. UpdateStrategy sts \<noteq> ''OnDelete'') sets then return (Inr False)
      else if rus_Status (RollingUpdateStatus (cr_Status c)) = rollingUpdateRunningStatus then return (Inr True)
      else if list_all (\<lambda>sts. sts_Replicas sts = sts_UpdatedReplicas sts) sets then return (Inr False)
      else onOk (checkOpenSearchHealth E rc) (\<lambda>_. return (Inr True))) }"

text \<open>Up to the restart of the last pod; after it the deferred function has nothing to do.\<close>

definition prepare_and_restart :: "'s op_env \<Rightarrow> rest_client \<Rightarrow> stateful_set list \<Rightarrow> ('s, go_error + unit) operator" where
  "prepare_and_restart E rc sets = do {
     c \<leftarrow> recall the_cr;
     onOk (if rus_Status (RollingUpdateStatus (cr_Status c)) \<noteq> rollingUpdateRunningStatus then
             onOk (changeAllocationSetting E False rc) (\<lambda>_.
             onOk (execFlushProcedure E rc) (\<lambda>_.
             updateRollingUpdateStatus E rollingUpdateRunningStatus))
           else return (Inr ())) (\<lambda>_.
     restartOpenSearchPods E sets) }"

definition runRollingUpdate :: "'s op_env \<Rightarrow> rest_client \<Rightarrow> stateful_set list \<Rightarrow> ('s, go_error + unit) operator" where
  "runRollingUpdate E rc sets = do {
     r \<leftarrow> prepare_and_restart E rc sets;
     (case r of
        Inl e \<Rightarrow> do { _ \<leftarrow> changeAllocationSetting E True rc; return (Inl e) }
      | Inr _ \<Rightarrow>
          onOk (changeAllocationSetting E True rc) (\<lambda>_.
          onOk (checkOpenSearchHealth E rc) (\<lambda>_.
          updateRollingUpdateStatus E rollingUpdateDoneStatus))) }"

definition opensearch_Reconcile :: "'s op_env \<Rightarrow> opensearch_spec \<Rightarrow> ('s, go_error + unit) operator" where
  "opensearch_Reconcile E os =
     (if \<not> RollingUpdate os then return (Inr ())
      else
        onOk (createRestClientWithOldCreds E) (\<lambda>rc.
        onOk (getStatefulSets E os) (\<lambda>sets.
        if sets = [] then return (Inr ())
        else onOk (needToPerformRollingUpdate E rc sets) (\<lambda>perform.
          if \<not> perform then
            onOk (updateRollingUpdateStatus E rollingUpdateDoneStatus) (\<lambda>_. enableAllocationIfNecessary E rc)
          else runRollingUpdate E rc sets))))"

section \<open>What an operation keeps\<close>

named_theorems keeps_intros \<open>operations that leave a part of the world as it is\<close>

definition keeps_cr :: "('s, 'a) operator \<Rightarrow> bool" where
  "keeps_cr m \<longleftrightarrow> (\<forall>w. the_cr (snd (run_state m w)) = the_cr w)"

lemma keeps_crD: "keeps_cr m \<Longrightarrow> run_state m w = (a, w') \<Longrightarrow> the_cr w' = the_cr w"
  unfolding keeps_cr_def by (metis snd_conv)

lemma keeps_basic [keeps_intros]:
  "keeps_cr (return a)" "keeps_cr (recall f)" "keeps_cr (silent g)" "keeps_cr (request e g)"
  by (auto simp: keeps_cr_def run_simps split: prod.splits)

lemma keeps_bind [keeps_intros]: "keeps_cr m \<Longrightarrow> (\<And>a. keeps_cr (k a)) \<Longrightarrow> keeps_cr (State_Monad.bind m k)"
  by (auto simp: keeps_cr_def split: prod.splits) (metis snd_conv)

lemma keeps_case [keeps_intros]:
  "(\<And>e. keeps_cr (f e)) \<Longrightarrow> (\<And>a. keeps_cr (g a)) \<Longrightarrow> keeps_cr (case x of Inl e \<Rightarrow> f e | Inr a \<Rightarrow> g a)"
  by (cases x) auto

lemma keeps_if [keeps_intros]: "keeps_cr m \<Longrightarrow> keeps_cr n \<Longrightarrow> keeps_cr (if b then m else n)"
  by simp

lemma keeps_onOk [keeps_intros]: "keeps_cr m \<Longrightarrow> (\<And>a. keeps_cr (k a)) \<Longrightarrow> keeps_cr (onOk m k)"
  unfolding onOk_def by (intro keeps_intros)

lemma keeps_poll_from: "(\<And>k. keeps_cr (c k)) \<Longrightarrow> keeps_cr (poll_from k n c)"
proof (induction n arbitrary: k)
  case 0
  show ?case by (simp add: keeps_intros)
next
  case (Suc n)
  have "keeps_cr (case r of Inl e \<Rightarrow> return (Inl e) | Inr True \<Rightarrow> return (Inr ()) | Inr False \<Rightarrow> poll_from (Suc k) n c)" for r
    using Suc by (auto intro: keeps_intros split: sum.splits bool.splits)
  then show ?case using Suc.prems by (simp add: keeps_bind)
qed

lemma keeps_retry: "keeps_cr m \<Longrightarrow> keeps_cr (retry_on_conflict n E m)"
  by (induction n) (auto intro!: keeps_intros)

lemma keeps_wait: "keeps_cr (waitUntilOpenSearchPodIsReady E p)"
  unfolding waitUntilOpenSearchPodIsReady_def poll_def findPod_def try_times_def
  by (intro keeps_intros keeps_poll_from)

lemma keeps_delete: "keeps_cr (deletePodByName E p ns)"
  unfolding deletePodByName_def findPod_def by (intro keeps_intros)

lemma keeps_statuses: "keeps_cr (updateStatefulSetStatuses E)"
  unfolding updateStatefulSetStatuses_def UpdateStatusWithRetry_def update_status_once_def try_times_def
  by (intro keeps_intros keeps_retry)

lemma sts_statuses_set [simp]: "sts_statuses (set_statuses xs c) = xs"
  by (simp add: sts_statuses_def set_statuses_def)

section \<open>Pods that are deleted\<close>

fun deleted_pod :: "op_event \<Rightarrow> string list" where
  "deleted_pod (DeletePod p) = [p]"
| "deleted_pod e = []"

definition deleted_pods :: "op_event list \<Rightarrow> string list" where
  "deleted_pods es = concat (map deleted_pod es)"

lemma deleted_pods_simps [simp]:
  "deleted_pods [] = []" "deleted_pods (e # es) = deleted_pod e @ deleted_pods es"
  "deleted_pods (es @ fs) = deleted_pods es @ deleted_pods fs"
  by (simp_all add: deleted_pods_def)

definition spares_pods :: "op_event \<Rightarrow> bool" where
  "spares_pods e \<longleftrightarrow> deleted_pod e = []"

lemma spares_pods_none: "\<forall>e \<in> set es. spares_pods e \<Longrightarrow> deleted_pods es = []"
  by (induction es) (auto simp: spares_pods_def)

lemma sends_wait: "sends spares_pods (waitUntilOpenSearchPodIsReady E p)"
  unfolding waitUntilOpenSearchPodIsReady_def by (intro sends_intros) (simp add: spares_pods_def)

lemma sends_upload: "sends spares_pods (uploadUpdatedReplicasSlice E u i)"
  unfolding uploadUpdatedReplicasSlice_def change_status_def updateStatefulSetStatuses_def
  by (intro sends_intros) (simp_all add: spares_pods_def)

lemma delete_run:
  assumes "run_state (deletePodByName E p ns) w = (r, w')"
  shows "\<exists>es. trace w' = trace w @ es \<and> (deleted_pods es = [p] \<or> deleted_pods es = [] \<and> r \<noteq> Inr ())"
  using assms by (auto simp: deletePodByName_def findPod_def run_simps split: prod.splits sum.splits)

text \<open>The pod has been seen with its first container ready.\<close>

definition seen_ready :: "'s op_env \<Rightarrow> string \<Rightarrow> bool" where
  "seen_ready E name \<longleftrightarrow> (\<exists>ns s p s'. get_pod E name ns s = (Inr p, s') \<and> first_container_ready p)"

lemma wait_run:
  assumes "run_state (waitUntilOpenSearchPodIsReady E name) w = (Inr (), w')"
  shows "seen_ready E name"
proof -
  obtain j w1 where "run_state (do {
      r \<leftarrow> findPod E name (cr_Namespace (the_cr w));
      return (Inr (case r of Inl _ \<Rightarrow> False | Inr p \<Rightarrow> first_container_ready p)) }) w1 = ((Inr True :: go_error + bool), w')"
    using assms by (auto simp: waitUntilOpenSearchPodIsReady_def poll_def run_simps split: prod.splits dest!: poll_from_ok)
  then show ?thesis
    unfolding seen_ready_def findPod_def by (auto simp: run_simps split: prod.splits sum.splits)
qed

lemma upload_run:
  assumes "run_state (uploadUpdatedReplicasSlice E u i) w = (r, w')" and "i < length (sts_statuses (the_cr w))"
  shows "UpdatedReplicas (sts_statuses (the_cr w') ! i) = u \<and> length (sts_statuses (the_cr w')) = length (sts_statuses (the_cr w))"
  using assms keeps_crD [OF keeps_statuses]
  by (fastforce simp: uploadUpdatedReplicasSlice_def change_status_def run_simps)

text \<open>The abstract view: the replicas that are still to be restarted, in the order of the restarts.\<close>

definition pending_replicas :: "nat \<Rightarrow> int list \<Rightarrow> int list" where
  "pending_replicas k updated = filter (\<lambda>r. r \<notin> set updated) (rev (map int [0..<k]))"

lemma pending_0 [simp]: "pending_replicas 0 u = []"
  by (simp add: pending_replicas_def)

lemma pending_Suc [simp]: "pending_replicas (Suc k) u = (if int k \<in> set u then pending_replicas k u else int k # pending_replicas k u)"
  by (simp add: pending_replicas_def)

lemma pending_done [simp]: "pending_replicas k (u @ [int k]) = pending_replicas k u"
  unfolding pending_replicas_def by (rule filter_cong) auto

text \<open>A restart of one replica deletes at most its pod; it is recorded only once the pod was seen ready.\<close>

lemma restart_replica_run:
  assumes "run_state (restart_replica E sts i x u) w = (r, w')" and "i < length (sts_statuses (the_cr w))"
    and "UpdatedReplicas (sts_statuses (the_cr w) ! i) = u"
  obtains es where "trace w' = trace w @ es" and "i < length (sts_statuses (the_cr w'))"
    and "deleted_pods es = [pod_name sts x] \<and> UpdatedReplicas (sts_statuses (the_cr w') ! i) = u @ [x] \<and> seen_ready E (pod_name sts x) \<or>
      (deleted_pods es = [pod_name sts x] \<or> deleted_pods es = []) \<and> UpdatedReplicas (sts_statuses (the_cr w') ! i) = u \<and> r \<noteq> Inr ()"
proof -
  obtain r1 w1 where d: "run_state (deletePodByName E (pod_name sts x) (cr_Namespace (the_cr w))) w = (r1, w1)" by fastforce
  obtain es1 where es1: "trace w1 = trace w @ es1" "deleted_pods es1 = [pod_name sts x] \<or> deleted_pods es1 = [] \<and> r1 \<noteq> Inr ()"
    using delete_run [OF d] by blast
  have c1: "the_cr w1 = the_cr w" by (rule keeps_crD [OF keeps_delete d])
  obtain r2 w2 where wt: "run_state (waitUntilOpenSearchPodIsReady E (pod_name sts x)) w1 = (r2, w2)" by fastforce
  obtain es2 where es2: "trace w2 = trace w1 @ es2" "deleted_pods es2 = []"
    using sends_traceD [OF sends_wait wt] spares_pods_none by blast
  have c2: "the_cr w2 = the_cr w" using keeps_crD [OF keeps_wait wt] c1 by simp
  obtain r3 w3 where up: "run_state (uploadUpdatedReplicasSlice E (u @ [x]) i) w2 = (r3, w3)" by fastforce
  obtain es3 where es3: "trace w3 = trace w2 @ es3" "deleted_pods es3 = []"
    using sends_traceD [OF sends_upload up] spares_pods_none by blast
  note u3 = upload_run [OF up, unfolded c2, OF assms(2)]
  consider e where "r1 = Inl e" | e where "r1 = Inr ()" "r2 = Inl e" | "r1 = Inr ()" "r2 = Inr ()" by (cases r1; cases r2) auto
  then show thesis
  proof cases
    case 1
    then have "w' = w1" "r \<noteq> Inr ()" using assms(1) d by (auto simp: restart_replica_def run_simps)
    then show thesis using that [of es1] es1 c1 assms(2,3) by auto
  next
    case 2
    then have "w' = w2" "r \<noteq> Inr ()" using assms(1) d wt by (auto simp: restart_replica_def run_simps)
    then show thesis using that [of "es1 @ es2"] es1 es2 c2 assms(2,3) 2 by auto
  next
    case 3
    then have "w' = w3" using assms(1) d wt up by (auto simp: restart_replica_def run_simps)
    moreover have "seen_ready E (pod_name sts x)" using wait_run wt 3 by simp
    ultimately show thesis using that [of "es1 @ es2 @ es3"] es1 es2 es3 u3 assms(2) 3 by auto
  qed
qed

text \<open>
  One run of the restarts refines the abstract view: \<open>m\<close> replicas are recorded as updated, \<open>d\<close> pods
  are deleted.
\<close>

definition progressed ::
  "'s op_env \<Rightarrow> stateful_set \<Rightarrow> nat \<Rightarrow> nat \<Rightarrow> int list \<Rightarrow> 's op_world \<Rightarrow> go_error + unit \<Rightarrow> 's op_world \<Rightarrow> nat \<Rightarrow> nat \<Rightarrow> bool" where
  "progressed E sts i k u w r w' m d \<longleftrightarrow>
     (\<exists>es. trace w' = trace w @ es \<and> deleted_pods es = map (pod_name sts) (take d (pending_replicas k u))) \<and>
     UpdatedReplicas (sts_statuses (the_cr w') ! i) = u @ take m (pending_replicas k u) \<and>
     (\<forall>x \<in> set (take m (pending_replicas k u)). seen_ready E (pod_name sts x)) \<and>
     m \<le> d \<and> d \<le> Suc m \<and> (r = Inr () \<longrightarrow> m = length (pending_replicas k u))"

lemma progressed_first:
  assumes "progressed E sts i k (u @ [int k]) w1 r w' m d" and "int k \<notin> set u" and "seen_ready E (pod_name sts (int k))"
    and "trace w1 = trace w @ es" and "deleted_pods es = [pod_name sts (int k)]"
  shows "progressed E sts i (Suc k) u w r w' (Suc m) (Suc d)"
proof -
  obtain fs where fs: "trace w' = trace w1 @ fs" "deleted_pods fs = map (pod_name sts) (take d (pending_replicas k u))"
    using assms(1) by (auto simp: progressed_def)
  then have "trace w' = trace w @ es @ fs \<and> deleted_pods (es @ fs) = map (pod_name sts) (take (Suc d) (pending_replicas (Suc k) u))"
    using assms by simp
  then show ?thesis using assms(1-3) unfolding progressed_def by auto
qed

lemma restart_each_progressed:
  assumes "run_state (restart_each E sts i k u) w = (r, w')" and "i < length (sts_statuses (the_cr w))"
    and "UpdatedReplicas (sts_statuses (the_cr w) ! i) = u"
  shows "\<exists>m d. progressed E sts i k u w r w' m d"
  using assms
proof (induction k arbitrary: u w)
  case 0
  then show ?case by (auto simp: progressed_def)
next
  case (Suc k)
  show ?case
  proof (cases "int k \<in> set u")
    case True
    with Suc.IH [of u w] Suc.prems show ?thesis by (simp add: progressed_def)
  next
    case False
    obtain r1 w1 where one: "run_state (restart_replica E sts i (int k) u) w = (r1, w1)" by fastforce
    obtain es where es: "trace w1 = trace w @ es" and len: "i < length (sts_statuses (the_cr w1))"
      and how: "deleted_pods es = [pod_name sts (int k)] \<and> UpdatedReplicas (sts_statuses (the_cr w1) ! i) = u @ [int k] \<and>
          seen_ready E (pod_name sts (int k)) \<or>
        (deleted_pods es = [pod_name sts (int k)] \<or> deleted_pods es = []) \<and> UpdatedReplicas (sts_statuses (the_cr w1) ! i) = u \<and> r1 \<noteq> Inr ()"
      by (rule restart_replica_run [OF one Suc.prems(2,3)])
    show ?thesis
    proof (cases r1)
      case (Inl e)
      then have "r = Inl e" "w' = w1" using Suc.prems(1) False one by (auto simp: run_simps)
      then show ?thesis using how es False
        by (intro exI [of _ "length (UpdatedReplicas (sts_statuses (the_cr w1) ! i)) - length u"] exI [of _ "length (deleted_pods es)"])
          (auto simp: progressed_def)
    next
      case (Inr x)
      then have "run_state (restart_each E sts i k (u @ [int k])) w1 = (r, w')"
        using Suc.prems(1) False one by (auto simp: run_simps)
      from Suc.IH [OF this len] how Inr obtain m d where "progressed E sts i k (u @ [int k]) w1 r w' m d" by auto
      from progressed_first [OF this False _ es] how Inr show ?thesis by auto
    qed
  qed
qed

lemma distinct_pending: "distinct (pending_replicas k u)"
  by (simp add: pending_replicas_def distinct_map inj_on_def)

lemma filter_not_taken: "distinct xs \<Longrightarrow> filter (\<lambda>x. x \<notin> set (take m xs)) xs = drop m xs"
proof (induction xs arbitrary: m)
  case Nil
  then show ?case by simp
next
  case (Cons x xs)
  show ?case
  proof (cases m)
    case 0
    then show ?thesis by simp
  next
    case (Suc n)
    have "filter (\<lambda>y. y \<noteq> x \<and> y \<notin> set (take n xs)) xs = filter (\<lambda>y. y \<notin> set (take n xs)) xs"
      using Cons.prems by (intro filter_cong) auto
    then show ?thesis using Cons Suc by simp
  qed
qed

lemma pending_resumes: "pending_replicas k (u @ take m (pending_replicas k u)) = drop m (pending_replicas k u)"
proof -
  have "pending_replicas k (u @ take m (pending_replicas k u)) = filter (\<lambda>x. x \<notin> set (take m (pending_replicas k u))) (pending_replicas k u)"
    by (subst (1 3) pending_replicas_def) (simp add: conj_commute)
  then show ?thesis by (simp add: filter_not_taken distinct_pending)
qed

section \<open>Allocation\<close>

definition allocation_request :: "rest_client \<Rightarrow> bool \<Rightarrow> http_request" where
  "allocation_request rc b =
     rest_request rc ''PUT'' ''_cluster/settings'' (Some (Doc (enc_allocation (makeOpenSearchSettings b)))) True"

definition not_disabling :: "rest_client \<Rightarrow> op_event \<Rightarrow> bool" where
  "not_disabling rc e \<longleftrightarrow> e \<noteq> Rest (allocation_request rc False)"

lemma allocation_body_first [simp]: "allocation_body E settings 0 = return (Doc settings)"
  by (simp add: allocation_body_def)

lemma not_disabling_request:
  "b \<noteq> Some (Doc (enc_allocation (Some ''primaries''))) \<Longrightarrow> not_disabling rc (Rest (rest_request rc verb path b h))"
  by (auto simp: not_disabling_def allocation_request_def rest_request_def makeOpenSearchSettings_def)

lemma sends_allocation_attempt:
  "sends (not_disabling rc) (do {
     b \<leftarrow> allocation_body E (enc_allocation (makeOpenSearchSettings True)) k;
     r \<leftarrow> updateSettings E rc b;
     return (Inr (case r of Inl _ \<Rightarrow> False | Inr _ \<Rightarrow> True)) :: ('s, go_error + bool) operator })"
proof (rule sends_bind_run)
  show "sends (not_disabling rc) (allocation_body E (enc_allocation (makeOpenSearchSettings True)) k)"
    unfolding allocation_body_def by (intro sends_intros)
next
  fix b and w w' :: "'s op_world"
  assume "run_state (allocation_body E (enc_allocation (makeOpenSearchSettings True)) k) w = (b, w')"
  then have "Some b \<noteq> Some (Doc (enc_allocation (Some ''primaries'')))"
    by (auto simp: allocation_body_def makeOpenSearchSettings_def enc_allocation_def run_simps split: if_splits prod.splits)
  then show "sends (not_disabling rc) (do {
      r \<leftarrow> updateSettings E rc b;
      return (Inr (case r of Inl _ \<Rightarrow> False | Inr _ \<Rightarrow> True)) :: ('s, go_error + bool) operator })"
    unfolding updateSettings_def by (intro sends_intros not_disabling_request)
qed

lemma sends_settings: "sends (not_disabling rc) (getSettings E rc)"
  unfolding getSettings_def by (intro sends_intros not_disabling_request) simp

lemma checked_request_trace:
  assumes "url_ok (rq_url (rest_request rc verb path b True))"
  shows "trace (snd (run_state (SendRequestWithStatusCodeCheck E rc verb path b) w)) = trace w @ [Rest (rest_request rc verb path b True)]"
proof -
  obtain x s where "http_do E (rest_request rc verb path b True) (srv w) = (x, s)" by fastforce
  moreover obtain c y e where "rest_outcome x = (c, y, e)" by (rule prod_cases3)
  ultimately show ?thesis using assms
    by (simp add: SendRequestWithStatusCodeCheck_def SendRequest_def SendBasicRequest_def Let_def run_simps)
qed

lemma first_attempt_trace:
  assumes "url_ok (rq_url (allocation_request rc True))"
  shows "trace (snd (run_state (updateSettings E rc (Doc (enc_allocation (makeOpenSearchSettings True)))) w)) =
    trace w @ [Rest (allocation_request rc True)]"
proof -
  obtain r w1 where r: "run_state (SendRequestWithStatusCodeCheck E rc ''PUT'' ''_cluster/settings''
      (Some (Doc (enc_allocation (makeOpenSearchSettings True))))) w = (r, w1)" by fastforce
  then have "trace w1 = trace w @ [Rest (allocation_request rc True)]"
    using checked_request_trace [OF assms [unfolded allocation_request_def], of E w] by (simp add: allocation_request_def)
  then show ?thesis using r by (cases r) (simp_all add: updateSettings_def run_simps)
qed

lemma enabling_run:
  assumes "url_ok (rq_url (allocation_request rc True))" and "run_state (changeAllocationSetting E True rc) w = (r, w')"
  shows "\<exists>es. trace w' = trace w @ Rest (allocation_request rc True) # es \<and> (\<forall>e \<in> set es. not_disabling rc e)"
proof -
  let ?c = "\<lambda>k. do {
     b \<leftarrow> allocation_body E (enc_allocation (makeOpenSearchSettings True)) k;
     r \<leftarrow> updateSettings E rc b;
     return (Inr (case r of Inl _ \<Rightarrow> False | Inr _ \<Rightarrow> True)) :: ('a, go_error + bool) operator }"
  obtain n w1 where n: "run_state (try_times E) w = (n, w1)" by fastforce
  then have t1: "trace w1 = trace w" by (auto simp: try_times_def run_simps split: prod.splits)
  obtain r1 w2 where u: "run_state (updateSettings E rc (Doc (enc_allocation (makeOpenSearchSettings True)))) w1 = (r1, w2)" by fastforce
  then have t2: "trace w2 = trace w @ [Rest (allocation_request rc True)]"
    using first_attempt_trace [OF assms(1), of E w1] t1 by simp
  define b where "b = (case r1 of Inl _ \<Rightarrow> False | Inr _ \<Rightarrow> True)"
  let ?k = "onOk (if b then return (Inr ()) else poll_from 1 n ?c) (\<lambda>_. onOk (getSettings E rc) (\<lambda>_. return (Inr ())))"
  have "run_state ?k w2 = (r, w')"
    using assms(2) n u by (cases r1) (simp_all add: changeAllocationSetting_def poll_immediate_def b_def run_simps)
  moreover have "sends (not_disabling rc) ?k"
    by (intro sends_intros sends_poll_from sends_settings sends_allocation_attempt)
  ultimately show ?thesis using t2 by (auto dest: sends_traceD)
qed

text \<open>Before and after the enabling request.\<close>

lemma sends_restarts: "sends (\<lambda>_. True) (restart_each E sts i k u)"
  by (induction k arbitrary: u)
    (auto intro!: sends_intros simp: restart_replica_def deletePodByName_def waitUntilOpenSearchPodIsReady_def
      uploadUpdatedReplicasSlice_def change_status_def updateStatefulSetStatuses_def)

lemma sends_pods: "sends (\<lambda>_. True) (restartOpenSearchPods E sets)"
  by (induction sets)
    (auto intro!: sends_intros sends_restarts simp: findStatefulSetStatus_def restartOpenSearchPod_def getUpdatedReplicasSlice_def
      clear_status_def uploadUpdatedReplicasSlice_def change_status_def updateStatefulSetStatuses_def)

lemma sends_prepare: "sends (\<lambda>_. True) (prepare_and_restart E rc sets)"
  unfolding prepare_and_restart_def changeAllocationSetting_def allocation_body_def updateSettings_def getSettings_def
    execFlushProcedure_def updateRollingUpdateStatus_def
  by (intro sends_intros sends_pods TrueI) simp_all

definition conclude :: "'s op_env \<Rightarrow> rest_client \<Rightarrow> ('s, go_error + unit) operator" where
  "conclude E rc = onOk (checkOpenSearchHealth E rc) (\<lambda>_. updateRollingUpdateStatus E rollingUpdateDoneStatus)"

lemma sends_conclude: "sends (not_disabling rc) (conclude E rc)"
  unfolding conclude_def checkOpenSearchHealth_def isOpenSearchHealthy_def updateRollingUpdateStatus_def
  by (intro sends_intros not_disabling_request) (simp_all add: not_disabling_def)

section \<open>Properties\<close>


definition test_set :: stateful_set where
  "test_set = \<lparr>sts_Name = ''os'', sts_Owners = [], sts_Generation = 2, UpdateStrategy = ''OnDelete'', sts_Replicas = 3, sts_UpdatedReplicas = 0\<rparr>"

definition resumed_cr :: opensearch_service where
  "resumed_cr = set_statuses [\<lparr>sss_Name = ''os'', LastStatefulSetGeneration = 2, UpdatedReplicas = [2]\<rparr>] test_cr"

definition restart_run :: "(go_error + unit) \<times> script op_world" where
  "restart_run = run_state (restart_each test_op_env test_set 0 3 [2]) (op_world_of resumed_cr [])"

lemmas restart_steps = restart_replica_def deletePodByName_def waitUntilOpenSearchPodIsReady_def uploadUpdatedReplicasSlice_def
  change_status_def updateStatefulSetStatuses_def UpdateStatusWithRetry_def update_status_once_def try_times_def findPod_def poll_def
  op_world_of_def test_op_env_def first_container_ready_def run_simps

lemma restart_run_eval:
  "fst restart_run = Inr ()" "deleted_pods (trace (snd restart_run)) = map (pod_name test_set) [1, 0]"
  by (simp_all add: restart_run_def numeral_eq_Suc restart_steps)


text \<open>
  C10. A rolling update never leaves the allocation of shards disabled for good: on every path, with
  every error, the request that enables it is sent, and no request that disables it after that.
\<close>

theorem allocation_reenabled:
  assumes "url_ok (rq_url (allocation_request rc True))" and "run_state (runRollingUpdate E rc sets) w = (r, w')"
  shows "\<exists>es1 es2. trace w' = trace w @ es1 @ Rest (allocation_request rc True) # es2 \<and>
    Rest (allocation_request rc False) \<notin> set es2"
proof -
  obtain r1 w1 where p: "run_state (prepare_and_restart E rc sets) w = (r1, w1)" by fastforce
  obtain es1 where es1: "trace w1 = trace w @ es1" using sends_traceD [OF sends_prepare p] by blast
  obtain r2 w2 where a: "run_state (changeAllocationSetting E True rc) w1 = (r2, w2)" by fastforce
  obtain es2 where es2: "trace w2 = trace w1 @ Rest (allocation_request rc True) # es2" "\<forall>e \<in> set es2. not_disabling rc e"
    using enabling_run [OF assms(1) a] by blast
  have "\<exists>es3. trace w' = trace w2 @ es3 \<and> (\<forall>e \<in> set es3. not_disabling rc e)"
  proof (cases "(\<exists>e. r1 = Inl e) \<or> (\<exists>e. r2 = Inl e)")
    case True
    then have "w' = w2" using assms(2) p a by (auto simp: runRollingUpdate_def run_simps split: sum.splits)
    then show ?thesis by simp
  next
    case False
    then have "run_state (conclude E rc) w2 = (r, w')"
      using assms(2) p a by (cases r1; cases r2) (auto simp: runRollingUpdate_def conclude_def run_simps)
    then show ?thesis by (rule sends_traceD [OF sends_conclude])
  qed
  then obtain es3 where es3: "trace w' = trace w2 @ es3" "\<forall>e \<in> set es3. not_disabling rc e" by blast
  have "trace w' = trace w @ es1 @ Rest (allocation_request rc True) # (es2 @ es3)" using es1 es2 es3 by simp
  moreover have "Rest (allocation_request rc False) \<notin> set (es2 @ es3)" using es2 es3 by (auto simp: not_disabling_def)
  ultimately show ?thesis by blast
qed

definition test_client :: rest_client where
  "test_client = NewRestClient ''http://os'' zero_credentials"

theorem allocation_reenabled_witness:
  "\<exists>es1 es2. trace (snd (run_state (runRollingUpdate test_op_env test_client [test_set]) (op_world_of test_cr []))) =
     es1 @ Rest (allocation_request test_client True) # es2 \<and> Rest (allocation_request test_client False) \<notin> set es2"
proof -
  have "url_ok (rq_url (allocation_request test_client True))" by code_simp
  moreover obtain r w' where "run_state (runRollingUpdate test_op_env test_client [test_set]) (op_world_of test_cr []) = (r, w')"
    by fastforce
  moreover have "trace (op_world_of test_cr []) = []" by (simp add: op_world_of_def)
  ultimately show ?thesis using allocation_reenabled [of test_client test_op_env "[test_set]" "op_world_of test_cr []" r w'] by simp
qed

end
