(* ===== verification/Security_Config.thy ===== *)
theory Security_Config
  imports Rolling_Update Json_Round_Trip
begin

text \<open>
  The security and the settings of the cluster: \<^verbatim>\<open>OpenSearchReconciler.Configure\<close> and what it calls
  (\<^verbatim>\<open>opensearch_reconciler.go\<close>, second half): the change of the credentials, roles, audit and security
  configuration, LDAP role mappings, the snapshots repository and the compatibility mode. YAML is a
  parameter that gives a document; one with keys that are not strings is not represented. Running a
  command in a pod is a parameter.
\<close>

section \<open>Role mappings\<close>

text \<open>A slice is \<open>None\<close> when it is \<^verbatim>\<open>nil\<close>, which prints as \<^verbatim>\<open>null\<close>.\<close>

record os_role_mapping =
  osm_RoleName :: string
  osm_Description :: string
  osm_BackendRoles :: "string list option"
  osm_AndBackendRoles :: "string list option"
  osm_Hosts :: "string list option"
  osm_Users :: "string list option"
  osm_Reserved :: bool
  osm_Hidden :: bool

definition zero_os_mapping :: os_role_mapping where
  "zero_os_mapping = \<lparr>osm_RoleName = [], osm_Description = [], osm_BackendRoles = None, osm_AndBackendRoles = None,
     osm_Hosts = None, osm_Users = None, osm_Reserved = False, osm_Hidden = False\<rparr>"

definition dec_slice :: "string list option decoder" where
  "dec_slice = dec_ptr [] (dec_list [] dec_string)"

definition dec_os_mapping :: "os_role_mapping decoder" where
  "dec_os_mapping = dec_struct
     [field ''role_name'' dec_string osm_RoleName osm_RoleName_update,
      field ''description'' dec_string osm_Description osm_Description_update,
      field ''backend_roles'' dec_slice osm_BackendRoles osm_BackendRoles_update,
      field ''and_backend_roles'' dec_slice osm_AndBackendRoles osm_AndBackendRoles_update,
      field ''hosts'' dec_slice osm_Hosts osm_Hosts_update,
      field ''users'' dec_slice osm_Users osm_Users_update,
      field ''reserved'' dec_bool osm_Reserved osm_Reserved_update,
      field ''hidden'' dec_bool osm_Hidden osm_Hidden_update]"

definition enc_nil_slice :: "string list option \<Rightarrow> json" where
  "enc_nil_slice x = (case x of None \<Rightarrow> JNull | Some xs \<Rightarrow> JArr (map JStr xs))"

definition enc_os_mapping :: "os_role_mapping \<Rightarrow> json" where
  "enc_os_mapping r = JObj (
     (if osm_RoleName r \<noteq> [] then [(''role_name'', JStr (osm_RoleName r))] else []) @
     [(''description'', JStr (osm_Description r)), (''backend_roles'', enc_nil_slice (osm_BackendRoles r)),
      (''and_backend_roles'', enc_nil_slice (osm_AndBackendRoles r)), (''hosts'', enc_nil_slice (osm_Hosts r)), (''users'', enc_nil_slice (osm_Users r))] @
     (if osm_Reserved r then [(''reserved'', JBool True)] else []) @
     (if osm_Hidden r then [(''hidden'', JBool True)] else []))"

definition dec_mapping_all_access :: "os_role_mapping decoder" where
  "dec_mapping_all_access = nested ''all_access'' dec_os_mapping"

section \<open>Requests\<close>

text \<open>The common end of the requests: a status code outside the given ones is an error with the body.\<close>

definition accepted :: "int list \<Rightarrow> string \<Rightarrow> rest_result \<Rightarrow> go_error + unit" where
  "accepted codes message res =
     (case res of (statusCode, responseBody, err) \<Rightarrow>
        (case err of
           Some e \<Rightarrow> Inl e
         | None \<Rightarrow> if statusCode \<in> set codes then Inr ()
             else Inl (Err (message @ '': ['' @ show_int statusCode @ ''] '' @ body_text responseBody))))"

definition getRoleMapping :: "'s op_env \<Rightarrow> rest_client \<Rightarrow> string \<Rightarrow> ('s, go_error + os_role_mapping) operator" where
  "getRoleMapping E rc roleName = do {
     (_, responseBody, err) \<leftarrow> SendRequest E rc ''GET'' (''_plugins/_security/api/rolesmapping/'' @ roleName) None;
     return (case err of Some e \<Rightarrow> Inl e | None \<Rightarrow> unmarshal dec_mapping_all_access responseBody zero_os_mapping) }"

definition add_mapping_text :: "string \<Rightarrow> string" where
  "add_mapping_text role = ''[{'' @ member_text ''op'' ''add'' @ '', '' @ member_text ''path'' (''/'' @ role) @ '', '' @
     dquote ''value'' @ '': {'' @ dquote ''backend_roles'' @ '': ['' @ dquote ''admin'' @ '']}}]''"

definition no_roles_text :: string where
  "no_roles_text = ''[{'' @ member_text ''op'' ''replace'' @ '', '' @ member_text ''path'' ''/opendistro_security_roles'' @ '', '' @
     dquote ''value'' @ '': []}]''"

definition user_path :: "string \<Rightarrow> string" where
  "user_path username = ''_plugins/_security/api/internalusers/'' @ username"

text \<open>The error of the second request is assigned to a variable of the inner block, so it is not returned.\<close>

definition UpdateRoles :: "'s op_env \<Rightarrow> rest_client \<Rightarrow> string \<Rightarrow> string \<Rightarrow> ('s, go_error + unit) operator" where
  "UpdateRoles E rc userName role = do {
     (statusCode, responseBody, err) \<leftarrow> SendRequest E rc ''PATCH'' ''_plugins/_security/api/rolesmapping''
       (Some (Text (add_mapping_text role)));
     (case err of
        Some e \<Rightarrow> return (Inl e)
      | None \<Rightarrow>
          (if statusCode = 200 then do {
             (statusCodeOD, responseBodyOD, errOD) \<leftarrow> SendRequest E rc ''PATCH'' (user_path userName)
               (Some (Text no_roles_text));
             return (case errOD of
               Some _ \<Rightarrow> Inr ()
             | None \<Rightarrow> accepted [200] ''opendistro security roles update went wrong'' (statusCodeOD, responseBodyOD, None)) }
           else return (accepted [] ''mapping roles update went wrong'' (statusCode, responseBody, None)))) }"

definition new_user_text :: "string \<Rightarrow> string" where
  "new_user_text password =
     ''{'' @ member_text ''password'' password @ '', '' @ member_text ''description'' ''Admin user'' @ '', '' @
     dquote ''backend_roles'' @ '': ['' @ dquote ''admin'' @ ''], '' @ nl 0 @
     dquote ''opendistro_security_roles'' @ '': ['' @ dquote ''all_access'' @ '', '' @ dquote ''manage_snapshots'' @ '']}''"

definition createNewUser :: "'s op_env \<Rightarrow> string \<Rightarrow> string \<Rightarrow> rest_client \<Rightarrow> ('s, go_error + unit) operator" where
  "createNewUser E username password rc =
     (if username = [] \<or> password = [] then return (Inr ())
      else do {
        r \<leftarrow> SendRequest E rc ''PUT'' (user_path username) (Some (Text (new_user_text password)));
        return (accepted [200, 201] ''user creation went wrong'' r) })"

definition password_text :: "string \<Rightarrow> string" where
  "password_text password =
     ''[{'' @ member_text ''op'' ''add'' @ '', '' @ member_text ''path'' ''/password'' @ '', '' @ member_text ''value'' password @ ''}]''"

definition changeUserPassword :: "'s op_env \<Rightarrow> string \<Rightarrow> string \<Rightarrow> rest_client \<Rightarrow> ('s, go_error + unit) operator" where
  "changeUserPassword E username password rc =
     (if username = [] \<or> password = [] then return (Inr ())
      else do {
        r \<leftarrow> SendRequest E rc ''PATCH'' (user_path username) (Some (Text (password_text password)));
        return (accepted [200] ''user update went wrong'' r) })"

definition removeUser :: "'s op_env \<Rightarrow> string \<Rightarrow> rest_client \<Rightarrow> ('s, go_error + unit) operator" where
  "removeUser E username rc =
     (if username = [] then return (Inr ())
      else do {
        r \<leftarrow> SendRequest E rc ''DELETE'' (user_path username) None;
        return (accepted [200, 404] ''user removal went wrong'' r) })"

definition change_user :: "'s op_env \<Rightarrow> credentials \<Rightarrow> credentials \<Rightarrow> rest_client \<Rightarrow> ('s, go_error + unit) operator" where
  "change_user E old new rc =
     (if cr_Username new \<noteq> cr_Username old then
        onOk (createNewUser E (cr_Username new) (cr_Password new) rc) (\<lambda>_. removeUser E (cr_Username old) rc)
      else changeUserPassword E (cr_Username new) (cr_Password new) rc)"

text \<open>With an error the client returned beside it is the one with the old credentials.\<close>

definition updateCredentials :: "'s op_env \<Rightarrow> string \<Rightarrow> credentials \<Rightarrow> ('s, go_error + rest_client) operator" where
  "updateCredentials E url old = do {
     c \<leftarrow> recall the_cr;
     new \<leftarrow> parseSecretCredentials E (secret_name c) (cr_Namespace c);
     (if cr_Username new \<noteq> cr_Username old \<or> cr_Password new \<noteq> cr_Password old then
        onOk (change_user E old new (NewRestClient url old)) (\<lambda>_. do {
          n \<leftarrow> try_times E;
          onOk (poll_immediate n (\<lambda>_. do {
              r \<leftarrow> updateSecretWithCredentials E (old_secret_name c) (cr_Namespace c) new;
              return (Inr (case r of Inl _ \<Rightarrow> False | Inr _ \<Rightarrow> True)) })) (\<lambda>_.
          return (Inr (NewRestClient url new))) })
      else return (Inr (NewRestClient url old))) }"

definition TrimSpace :: "string \<Rightarrow> string" where
  "TrimSpace s = (let blank = (\<lambda>c. c \<in> set [CHR 32, CHR 9, CHR 10, CHR 11, CHR 12, CHR 13]) in
     rev (dropWhile blank (rev (dropWhile blank s))))"

definition getClusterManagerNode :: "'s op_env \<Rightarrow> rest_client \<Rightarrow> ('s, go_error + string) operator" where
  "getClusterManagerNode E rc = do {
     (statusCode, responseBody, err) \<leftarrow> SendBasicRequest E rc ''GET'' ''_cat/cluster_manager?h=node'' None False;
     return (case err of
       Some e \<Rightarrow> Inl e
     | None \<Rightarrow>
         (if statusCode = 200 then Inr (TrimSpace (body_text responseBody))
          else Inl (Err (''unable to receive cluster_manager node: ['' @ show_int statusCode @ ''] '' @ body_text responseBody)))) }"

section \<open>Audit and security configuration\<close>

record audit_config =
  audit_Enabled :: bool
  audit_Audit :: "json go_map option"
  audit_Compliance :: "json go_map option"

definition dec_audit_config :: "audit_config decoder" where
  "dec_audit_config = nested ''config'' (dec_struct
     [field ''enabled'' dec_bool audit_Enabled audit_Enabled_update,
      field ''audit'' (dec_nil_map JNull dec_any) audit_Audit audit_Audit_update,
      field ''compliance'' (dec_nil_map JNull dec_any) audit_Compliance audit_Compliance_update])"

definition enc_nil_map :: "json go_map option \<Rightarrow> json" where
  "enc_nil_map m = (case m of None \<Rightarrow> JNull | Some kvs \<Rightarrow> JObj (sort_key fst kvs))"

definition enc_audit_config :: "audit_config \<Rightarrow> json" where
  "enc_audit_config a = JObj [(''enabled'', JBool (audit_Enabled a)), (''audit'', enc_nil_map (audit_Audit a)),
     (''compliance'', enc_nil_map (audit_Compliance a))]"

text \<open>A response without an audit section leaves the map \<^verbatim>\<open>nil\<close>, and writing to it panics.\<close>

definition updateAuditConfiguration :: "'s op_env \<Rightarrow> rest_client \<Rightarrow> string list \<Rightarrow> ('s, (go_error + unit) go) operator" where
  "updateAuditConfiguration E rc categories = do {
     (_, responseBody, err) \<leftarrow> SendRequest E rc ''GET'' ''_plugins/_security/api/audit'' None;
     (case err of
        Some e \<Rightarrow> return (Ret (Inl e))
      | None \<Rightarrow>
          (case unmarshal dec_audit_config responseBody \<lparr>audit_Enabled = False, audit_Audit = None, audit_Compliance = None\<rparr> of
             Inl e \<Rightarrow> return (Ret (Inl e))
           | Inr config \<Rightarrow>
               (case audit_Audit config of
                  None \<Rightarrow> return (Panic ''assignment to entry in nil map'')
                | Some audit \<Rightarrow> do {
                    r \<leftarrow> SendRequest E rc ''PUT'' ''_plugins/_security/api/audit/config'' (Some (Doc (enc_audit_config
                      (config\<lparr>audit_Audit := Some (map_put ''disabled_rest_categories'' (JArr (map JStr categories)) audit)\<rparr>))));
                    return (Ret (accepted [200] ''audit config update went wrong'' r)) }))) }"

definition updateSecurityConfig :: "'s op_env \<Rightarrow> json \<Rightarrow> rest_client \<Rightarrow> ('s, go_error + unit) operator" where
  "updateSecurityConfig E configuration rc = do {
     r \<leftarrow> SendRequest E rc ''PUT'' ''_plugins/_security/api/securityconfig/config'' (Some (Doc configuration));
     return (accepted [200] ''security configuration update went wrong'' r) }"

definition updateSecurityConfiguration :: "'s op_env \<Rightarrow> opensearch_spec \<Rightarrow> rest_client \<Rightarrow> ('s, go_error + unit) operator" where
  "updateSecurityConfiguration E os rc = do {
     c \<leftarrow> recall the_cr;
     onOk (findSecret E (SecurityConfigurationName os) (cr_Namespace c)) (\<lambda>s.
       (case map_of (secret_Data s) ''config.yml'' of
          None \<Rightarrow> return (Inr ())
        | Some content \<Rightarrow>
            (case yaml_Unmarshal E content of
               Inl e \<Rightarrow> return (Inl e)
             | Inr document \<Rightarrow>
                 (case dec_map JNull dec_any document [] of
                    None \<Rightarrow> return (Inl (Err ''yaml: unmarshal errors''))
                  | Some configuration \<Rightarrow>
                      (if map_get JNull configuration ''config'' = JNull then return (Inr ())
                       else updateSecurityConfig E (map_get JNull configuration ''config'') rc))))) }"

section \<open>LDAP role mappings\<close>

definition mergeBackendRolesLists :: "string list \<Rightarrow> string list \<Rightarrow> string list \<Rightarrow> string list" where
  "mergeBackendRolesLists oldSecretList newSecretList listFromOpensearch =
     (let exclude = filter (\<lambda>role. role \<notin> set newSecretList) oldSecretList;
          result = filter (\<lambda>role. role \<notin> set exclude) listFromOpensearch in
      foldl (\<lambda>result role. if role \<in> set result then result else result @ [role]) result newSecretList)"

definition slice_elems :: "string list option \<Rightarrow> string list" where
  "slice_elems x = (case x of None \<Rightarrow> [] | Some xs \<Rightarrow> xs)"

text \<open>The parameters that are written: the slice built by appending is \<^verbatim>\<open>nil\<close> when it is empty.\<close>

definition merged_mapping :: "string list \<Rightarrow> string list \<Rightarrow> os_role_mapping \<Rightarrow> os_role_mapping" where
  "merged_mapping oldList newList r =
     (let final = mergeBackendRolesLists oldList newList (slice_elems (osm_BackendRoles r)) in
      r\<lparr>osm_Reserved := False, osm_Hidden := False, osm_BackendRoles := (if final = [] then None else Some final)\<rparr>)"

definition updateRoleMappingBackendRoles ::
  "'s op_env \<Rightarrow> string \<Rightarrow> string list \<Rightarrow> string list \<Rightarrow> rest_client \<Rightarrow> ('s, go_error + unit) operator" where
  "updateRoleMappingBackendRoles E role oldList newList rc =
     (let path = ''_plugins/_security/api/rolesmapping/'' @ role in do {
      (statusCode, responseBody, err) \<leftarrow> SendRequest E rc ''GET'' path None;
      (case err of
         Some e \<Rightarrow> return (Inl e)
       | None \<Rightarrow>
           (if statusCode \<noteq> 200 \<and> statusCode \<noteq> 404 then
              return (Inl (Err (''can not get rolemapping for role '' @ role @ '': ['' @ show_int statusCode @ ''] '' @ body_text responseBody)))
            else
              (case (if statusCode = 200 then
                       (case unmarshal (dec_map zero_os_mapping dec_os_mapping) responseBody [] of
                          Inl e \<Rightarrow> Inl e | Inr result \<Rightarrow> Inr (map_get zero_os_mapping result role))
                     else Inr (zero_os_mapping\<lparr>osm_Hosts := Some [], osm_Users := Some [], osm_AndBackendRoles := Some []\<rparr>)) of
                 Inl e \<Rightarrow> return (Inl e)
               | Inr parameters \<Rightarrow> do {
                   r \<leftarrow> SendRequest E rc ''PUT'' path (Some (Doc (enc_os_mapping (merged_mapping oldList newList parameters))));
                   return (accepted [200, 201] (''can not update or create rolemapping for role '' @ role) r) }))) })"

definition getRoleMappingListFromSecret :: "'s op_env \<Rightarrow> string \<Rightarrow> ('s, go_error + os_role_mapping list option) operator" where
  "getRoleMappingListFromSecret E secretName = do {
     c \<leftarrow> recall the_cr;
     onOk (findSecret E secretName (cr_Namespace c)) (\<lambda>s.
       return (unmarshal (dec_ptr [] (dec_list zero_os_mapping dec_os_mapping)) (text_body (map_get [] (secret_Data s) ''rolemappings'')) None)) }"

definition old_roles_of :: "os_role_mapping list \<Rightarrow> string \<Rightarrow> string list" where
  "old_roles_of olds name = (case find (\<lambda>o1. osm_RoleName o1 = name) olds of None \<Rightarrow> [] | Some o1 \<Rightarrow> slice_elems (osm_BackendRoles o1))"

definition updateLdapRolesmapping :: "'s op_env \<Rightarrow> rest_client \<Rightarrow> ('s, go_error + unit) operator" where
  "updateLdapRolesmapping E rc = do {
     c \<leftarrow> recall the_cr;
     onOk (getRoleMappingListFromSecret E (cr_Name c @ ''-ldap-rolemappings'')) (\<lambda>new.
       (case new of
          None \<Rightarrow> return (Inr ())
        | Some newMappings \<Rightarrow>
            onOk (getRoleMappingListFromSecret E (cr_Name c @ ''-ldap-rolemappings-old'')) (\<lambda>old.
              onOk (for_ok (\<lambda>mapping. updateRoleMappingBackendRoles E (osm_RoleName mapping)
                  (old_roles_of (case old of None \<Rightarrow> [] | Some olds \<Rightarrow> olds) (osm_RoleName mapping))
                  (slice_elems (osm_BackendRoles mapping)) rc) newMappings) (\<lambda>_. return (Inr ()))))) }"

section \<open>The snapshots repository and the compatibility mode\<close>

definition getS3Credentials :: "'s op_env \<Rightarrow> s3 \<Rightarrow> ('s, string \<times> string) operator" where
  "getS3Credentials E s = do {
     c \<leftarrow> recall the_cr;
     r \<leftarrow> findSecret E (s3_SecretName s) (cr_Namespace c);
     return (case r of
       Inl _ \<Rightarrow> ([], [])
     | Inr sec \<Rightarrow> (map_get [] (secret_Data sec) ''s3-key-id'', map_get [] (secret_Data sec) ''s3-key-secret'')) }"

definition fs_repository :: string where
  "fs_repository = ''{'' @ member_text ''type'' ''fs'' @ '', '' @ dquote ''settings'' @ '': {'' @
     member_text ''location'' ''/usr/share/opensearch/snapshots'' @ '', '' @ dquote ''compress'' @ '': true}}''"

definition gcs_repository :: "s3 \<Rightarrow> string" where
  "gcs_repository s = ''{'' @ member_text ''type'' ''gcs'' @ '', '' @ dquote ''settings'' @ '': {'' @
     member_text ''bucket'' (s3_Bucket s) @ '', '' @ member_text ''client'' ''default'' @ ''}}''"

definition s3_repository :: "s3 \<Rightarrow> string \<Rightarrow> string \<Rightarrow> string" where
  "s3_repository s keyId keySecret = ''{'' @ member_text ''type'' ''s3'' @ '', '' @ dquote ''settings'' @ '': {'' @
     member_text ''base_path'' (s3_BasePath s) @ '', '' @ member_text ''bucket'' (s3_Bucket s) @ '', '' @
     member_text ''region'' (s3_Region s) @ '', '' @ member_text ''endpoint'' (s3_Url s) @ '', '' @
     member_text ''protocol'' ''http'' @ '', '' @ member_text ''access_key'' keyId @ '', '' @
     member_text ''secret_key'' keySecret @ '', '' @ dquote ''compress'' @ '': true, '' @
     member_text ''path_style_access'' (if s3_PathStyleAccess s then ''true'' else ''false'') @ ''}}''"

definition getSnapshotsRepositoryBody :: "'s op_env \<Rightarrow> snapshots \<Rightarrow> ('s, string) operator" where
  "getSnapshotsRepositoryBody E sn =
     (case snapshots_S3 sn of
        None \<Rightarrow> return fs_repository
      | Some s \<Rightarrow>
          (if s3_GcsEnabled s then return (gcs_repository s)
           else if s3_Enabled s then do {
             (keyId, keySecret) \<leftarrow> getS3Credentials E s;
             return (s3_repository s keyId keySecret) }
           else return fs_repository))"

definition deleteSnapshotsRepository :: "'s op_env \<Rightarrow> rest_client \<Rightarrow> string \<Rightarrow> ('s, unit) operator" where
  "deleteSnapshotsRepository E rc path = do { _ \<leftarrow> SendRequestWithStatusCodeCheck E rc ''DELETE'' path None; return () }"

text \<open>One round of the loop: the status code of the last request and whether the repository is created.\<close>

definition create_attempt :: "'s op_env \<Rightarrow> rest_client \<Rightarrow> string \<Rightarrow> string \<Rightarrow> ('s, int \<times> bool) operator" where
  "create_attempt E rc path requestBody = do {
     (found, b, err) \<leftarrow> SendRequest E rc ''GET'' path None;
     _ \<leftarrow> (if err = None \<and> found = 404 \<and> Contains (body_text b) ''repository_missing_exception''
          then deleteSnapshotsRepository E rc path else return ());
     (statusCode, _, err2) \<leftarrow> SendRequest E rc ''PUT'' path (Some (Text requestBody));
     return (statusCode, err2 = None \<and> statusCode = 200) }"

fun create_loop :: "nat \<Rightarrow> 's op_env \<Rightarrow> rest_client \<Rightarrow> string \<Rightarrow> string \<Rightarrow> int \<Rightarrow> ('s, go_error + unit) operator" where
  "create_loop 0 E rc path requestBody statusCode =
     return (Inl (Err (''snapshots repository is not created; response status code is '' @ show_int statusCode)))"
| "create_loop (Suc n) E rc path requestBody _ = do {
     (statusCode, created) \<leftarrow> create_attempt E rc path requestBody;
     (if created then return (Inr ()) else create_loop n E rc path requestBody statusCode) }"

definition createSnapshotsRepository :: "'s op_env \<Rightarrow> snapshots \<Rightarrow> rest_client \<Rightarrow> nat \<Rightarrow> ('s, go_error + unit) operator" where
  "createSnapshotsRepository E sn rc attemptsNumber = do {
     requestBody \<leftarrow> getSnapshotsRepositoryBody E sn;
     create_loop attemptsNumber E rc (''_snapshot/'' @ RepositoryName sn) requestBody 0 }"

definition updateCompatibilityMode :: "'s op_env \<Rightarrow> opensearch_spec \<Rightarrow> rest_client \<Rightarrow> ('s, go_error + unit) operator" where
  "updateCompatibilityMode E os rc = updateSettings E rc (Text (''{'' @ dquote ''persistent'' @ '': {'' @
     dquote ''compatibility.override_main_response_version'' @ '': '' @ (if CompatibilityModeEnabled os then ''true'' else ''null'') @ ''}}''))"

section \<open>Configure\<close>

definition opensearchConfigHashName :: string where "opensearchConfigHashName = ''config.opensearch''"
definition opensearchRoleMappingsHashName :: string where "opensearchRoleMappingsHashName = ''rolemappings''"

text \<open>The roles of a cluster whose mapping of the role \<^verbatim>\<open>all_access\<close> has no backend roles.\<close>

definition repair_all_access :: "'s op_env \<Rightarrow> rest_client \<Rightarrow> ('s, go_error + unit) operator" where
  "repair_all_access E rc =
     onOk (getRoleMapping E rc ''all_access'') (\<lambda>mapping.
       if osm_BackendRoles mapping = None then do {
         c \<leftarrow> recall the_cr;
         new \<leftarrow> parseSecretCredentials E (secret_name c) (cr_Namespace c);
         UpdateRoles E rc (cr_Username new) ''all_access'' }
       else return (Inr ()))"

text \<open>A user that is read-only is handed to a script in the pod of the cluster manager; the error stays.\<close>

definition on_read_only :: "'s op_env \<Rightarrow> rest_client \<Rightarrow> go_error \<Rightarrow> ('s, go_error) operator" where
  "on_read_only E rc e =
     (if Contains (err_text e) ''is read-only'' then do {
        found \<leftarrow> getClusterManagerNode E rc;
        (case found of
           Inl requestErr \<Rightarrow> return requestErr
         | Inr podName \<Rightarrow> do {
             c \<leftarrow> recall the_cr;
             r \<leftarrow> runCommandInPod E podName ''opensearch'' (cr_Namespace c)
               [''/bin/sh'', ''-c'', ''/usr/share/opensearch/bin/reconfiguration.sh''];
             return (case r of Inl commandErr \<Rightarrow> commandErr | Inr _ \<Rightarrow> e) }) }
      else return e)"

definition apply_security_hash :: "'s op_env \<Rightarrow> opensearch_spec \<Rightarrow> rest_client \<Rightarrow> ('s, go_error + unit) operator" where
  "apply_security_hash E os rc =
     onOk (calculateSecretDataHash E (SecurityConfigurationName os) opensearchConfigHashName) (\<lambda>hash. do {
       hashes \<leftarrow> recall ResourceHashes;
       (let known = map_get [] hashes opensearchConfigHashName in
        onOk (if known \<noteq> [] \<and> known \<noteq> hash then updateSecurityConfiguration E os rc else return (Inr ())) (\<lambda>_. do {
          _ \<leftarrow> remember (ResourceHashes_update (map_put opensearchConfigHashName hash));
          return (Inr ()) })) })"

definition apply_mappings_hash :: "'s op_env \<Rightarrow> rest_client \<Rightarrow> ('s, go_error + unit) operator" where
  "apply_mappings_hash E rc = do {
     c \<leftarrow> recall the_cr;
     computed \<leftarrow> calculateSecretDataHash E (cr_Name c @ ''-ldap-rolemappings'') opensearchRoleMappingsHashName;
     (case computed of
        Inl _ \<Rightarrow> return (Inr ())
      | Inr hash \<Rightarrow> do {
          hashes \<leftarrow> recall ResourceHashes;
          (let known = map_get [] hashes opensearchRoleMappingsHashName in
           onOk (if known = [] \<or> known \<noteq> hash then updateLdapRolesmapping E rc else return (Inr ())) (\<lambda>_. do {
             _ \<leftarrow> remember (ResourceHashes_update (map_put opensearchRoleMappingsHashName hash));
             return (Inr ()) })) }) }"

definition processSecurity :: "'s op_env \<Rightarrow> opensearch_spec \<Rightarrow> ('s, (go_error + rest_client) go) operator" where
  "processSecurity E os = do {
     c \<leftarrow> recall the_cr;
     (case configureClient E of
        Some e \<Rightarrow> return (Ret (Inl e))
      | None \<Rightarrow> do {
          old \<leftarrow> parseSecretCredentials E (old_secret_name c) (cr_Namespace c);
          (let url = createUrl E (cr_Name c) 9200; oldClient = NewRestClient url old in
           onDone (no_panic (repair_all_access E oldClient)) (\<lambda>_. do {
             updated \<leftarrow> updateCredentials E url old;
             (case updated of
                Inl e \<Rightarrow> do { e2 \<leftarrow> on_read_only E oldClient e; return (Ret (Inl e2)) }
              | Inr rc \<Rightarrow>
                  onDone (case DisabledRestCategories os of
                      None \<Rightarrow> return (Ret (Inr ()))
                    | Some categories \<Rightarrow> updateAuditConfiguration E rc categories) (\<lambda>_.
                  onDone (no_panic (apply_security_hash E os rc)) (\<lambda>_.
                  onDone (no_panic (apply_mappings_hash E rc)) (\<lambda>_.
                  return (Ret (Inr rc)))))) })) }) }"

definition opensearch_Configure :: "'s op_env \<Rightarrow> opensearch_spec \<Rightarrow> ('s, (go_error + unit) go) operator" where
  "opensearch_Configure E os =
     onDone (processSecurity E os) (\<lambda>rc.
     onDone (case Snapshots os of
         None \<Rightarrow> return (Ret (Inr ()))
       | Some sn \<Rightarrow> no_panic (createSnapshotsRepository E sn rc 5)) (\<lambda>_.
     no_panic (updateCompatibilityMode E os rc)))"

section \<open>Facts\<close>

lemma append_new_set: "set (foldl (\<lambda>acc x. if x \<in> set acc then acc else acc @ [x]) ys xs) = set ys \<union> set xs"
  by (induction xs arbitrary: ys) auto

lemma append_new_distinct: "distinct ys \<Longrightarrow> distinct (foldl (\<lambda>acc x. if x \<in> set acc then acc else acc @ [x]) ys xs)"
  by (induction xs arbitrary: ys) auto

lemma append_new_keeps: "\<exists>zs. foldl (\<lambda>acc x. if x \<in> set acc then acc else acc @ [x]) ys xs = ys @ zs \<and> set zs = set xs - set ys"
proof (induction xs arbitrary: ys)
  case Nil
  then show ?case by simp
next
  case (Cons x xs)
  show ?case
  proof (cases "x \<in> set ys")
    case True
    then show ?thesis using Cons [of ys] by auto
  next
    case False
    then obtain zs where "foldl (\<lambda>acc x. if x \<in> set acc then acc else acc @ [x]) (ys @ [x]) xs = (ys @ [x]) @ zs"
      "set zs = set xs - set (ys @ [x])"
      using Cons [of "ys @ [x]"] by blast
    then show ?thesis using False by (intro exI [of _ "x # zs"]) auto
  qed
qed

lemma append_new_none: "set xs \<subseteq> set ys \<Longrightarrow> foldl (\<lambda>acc x. if x \<in> set acc then acc else acc @ [x]) ys xs = ys"
  by (induction xs) auto

text \<open>At most \<open>n\<close> events in a run.\<close>

definition at_most :: "nat \<Rightarrow> ('s, 'a) operator \<Rightarrow> bool" where
  "at_most n m \<longleftrightarrow> (\<forall>w. length (trace (snd (run_state m w))) \<le> length (trace w) + n)"

lemma at_most_return: "at_most n (return a)"
  by (simp add: at_most_def)

lemma at_most_bind:
  assumes "at_most n m" and "\<And>a. at_most k (f a)" and "n + k \<le> l"
  shows "at_most l (State_Monad.bind m f)"
  unfolding at_most_def
proof
  fix w
  obtain a w1 where m: "run_state m w = (a, w1)" by fastforce
  have "length (trace w1) \<le> length (trace w) + n" using assms(1) m unfolding at_most_def by (metis snd_conv)
  moreover have "length (trace (snd (run_state (f a) w1))) \<le> length (trace w1) + k" using assms(2) by (simp add: at_most_def)
  ultimately show "length (trace (snd (run_state (State_Monad.bind m f) w))) \<le> length (trace w) + l" using m assms(3) by simp
qed

lemma at_most_prod: "(\<And>a b. at_most n (f a b)) \<Longrightarrow> at_most n (case x of (a, b) \<Rightarrow> f a b)"
  by (cases x) simp

lemma at_most_send: "at_most 1 (SendRequest E rc verb path b)"
proof -
  have "length (trace (snd (run_state (SendBasicRequest E rc verb path b True) w))) \<le> length (trace w) + 1" for w
    by (cases "http_do E (rest_request rc verb path b True) (srv w)") (simp add: SendBasicRequest_def Let_def run_simps)
  then show ?thesis by (simp add: at_most_def SendRequest_def)
qed

lemma at_most_delete: "at_most 1 (deleteSnapshotsRepository E rc path)"
  unfolding deleteSnapshotsRepository_def SendRequestWithStatusCodeCheck_def
  by (rule at_most_bind [where n = 1 and k = 0])
    (auto intro!: at_most_bind [where n = 1 and k = 0] at_most_send at_most_return at_most_prod)

lemma at_most_if: "at_most n m \<Longrightarrow> at_most n (if c then m else return a)"
  by (simp add: at_most_return)

lemma at_most_attempt: "at_most 3 (create_attempt E rc path b)"
proof -
  have put: "at_most 1 (do {
      (statusCode, _, err2) \<leftarrow> SendRequest E rc ''PUT'' path (Some (Text b));
      return (statusCode, err2 = None \<and> statusCode = 200) })"
    by (rule at_most_bind [OF at_most_send, where k = 0]) (auto intro!: at_most_prod at_most_return)
  have "at_most 2 (do {
      _ \<leftarrow> (if c then deleteSnapshotsRepository E rc path else return ());
      (statusCode, _, err2) \<leftarrow> SendRequest E rc ''PUT'' path (Some (Text b));
      return (statusCode, err2 = None \<and> statusCode = 200) })" for c
    by (rule at_most_bind [OF at_most_if [OF at_most_delete] put]) simp
  then show ?thesis
    unfolding create_attempt_def
    by (intro at_most_bind [OF at_most_send, where k = 2] at_most_prod) simp_all
qed

lemma at_most_loop: "at_most (3 * n) (create_loop n E rc path b c)"
proof (induction n arbitrary: c)
  case 0
  show ?case by (simp add: at_most_return)
next
  case (Suc n)
  show ?case
    by (simp, rule at_most_bind [where n = 3 and k = "3 * n"], rule at_most_attempt)
      (auto intro!: at_most_prod at_most_return Suc)
qed

lemma at_most_body: "at_most 1 (getSnapshotsRepositoryBody E sn)"
proof -
  have "at_most 1 (getS3Credentials E s)" for s
    by (auto simp: at_most_def getS3Credentials_def findSecret_def run_simps split: prod.splits)
  then show ?thesis
    unfolding getSnapshotsRepositoryBody_def
    by (auto intro!: at_most_return at_most_bind [where n = 1 and k = 0] at_most_prod split: option.splits)
qed

text \<open>The loop succeeds only when the cluster has answered a creation with 200.\<close>

lemma create_loop_ok:
  "run_state (create_loop n E rc path b c) w = (Inr (), w') \<Longrightarrow>
     \<exists>w1 w2 body1. run_state (SendRequest E rc ''PUT'' path (Some (Text b))) w1 = ((200, body1, None), w2)"
proof (induction n arbitrary: c w)
  case 0
  then show ?case by simp
next
  case (Suc n)
  obtain code created w1 where a: "run_state (create_attempt E rc path b) w = ((code, created), w1)" by (metis prod.exhaust)
  show ?case
  proof (cases created)
    case True
    obtain w2 x where "run_state (SendRequest E rc ''PUT'' path (Some (Text b))) w2 = ((code, x, None), w1)" "code = 200"
      using a True by (auto simp: create_attempt_def split: prod.splits)
    then show ?thesis by blast
  next
    case False
    then have "run_state (create_loop n E rc path b code) w1 = (Inr (), w')" using Suc.prems a by simp
    then show ?thesis by (rule Suc.IH)
  qed
qed

section \<open>Properties\<close>

text \<open>
  C15. Merging backend roles is the update of a set: what the cluster has, without the roles the old
  secret had and the new one has not, and with all roles of the new secret. The roles of the cluster
  that stay keep their order and come first, no role is repeated that was not before, and merging
  again changes nothing.
\<close>

theorem mergeBackendRolesLists_spec:
  "set (mergeBackendRolesLists old new roles) = (set roles - (set old - set new)) \<union> set new \<and>
   (\<exists>added. mergeBackendRolesLists old new roles = filter (\<lambda>r. r \<in> set new \<or> r \<notin> set old) roles @ added) \<and>
   (distinct roles \<longrightarrow> distinct (mergeBackendRolesLists old new roles)) \<and>
   mergeBackendRolesLists old new (mergeBackendRolesLists old new roles) = mergeBackendRolesLists old new roles"
proof -
  let ?kept = "\<lambda>xs. filter (\<lambda>r. r \<notin> set (filter (\<lambda>role. role \<notin> set new) old)) xs"
  let ?add = "\<lambda>ys. foldl (\<lambda>acc x. if x \<in> set acc then acc else acc @ [x]) ys new"
  have m: "mergeBackendRolesLists old new xs = ?add (?kept xs)" for xs by (simp add: mergeBackendRolesLists_def Let_def)
  have k: "?kept xs = filter (\<lambda>r. r \<in> set new \<or> r \<notin> set old) xs" for xs by (rule filter_cong) auto
  have s: "set (?add (?kept roles)) = (set roles - (set old - set new)) \<union> set new" by (auto simp: append_new_set)
  have "?kept (?add (?kept roles)) = ?add (?kept roles)" by (rule filter_True) (auto simp: append_new_set)
  then have again: "?add (?kept (?add (?kept roles))) = ?add (?kept roles)" using s by (simp add: append_new_none)
  obtain added where "?add (?kept roles) = ?kept roles @ added" using append_new_keeps [of "?kept roles" new] by blast
  then show ?thesis using s again append_new_distinct [of "?kept roles" new] unfolding m k by auto
qed

theorem mergeBackendRolesLists_spec_witness:
  "mergeBackendRolesLists [''a'', ''b''] [''b'', ''c''] [''x'', ''a''] = [''x'', ''b'', ''c''] \<and>
   distinct (mergeBackendRolesLists [''a'', ''b''] [''b'', ''c''] [''x'', ''a''])"
  using mergeBackendRolesLists_spec [of "[''a'', ''b'']" "[''b'', ''c'']" "[''x'', ''a'']"]
  by (simp add: mergeBackendRolesLists_def)

text \<open>
  Creating the snapshots repository ends after at most five rounds of three requests, and it
  succeeds only when the cluster has answered the creation of the repository with 200.
\<close>

theorem createSnapshotsRepository_bounded:
  assumes "run_state (createSnapshotsRepository E sn rc 5) w = (r, w')"
  shows "length (trace w') \<le> length (trace w) + 16 \<and>
    (r = Inr () \<longrightarrow> (\<exists>b w1 w2 x. run_state (SendRequest E rc ''PUT'' (''_snapshot/'' @ RepositoryName sn) (Some (Text b))) w1 = ((200, x, None), w2)))"
proof
  have "at_most 16 (createSnapshotsRepository E sn rc 5)"
    unfolding createSnapshotsRepository_def
    using at_most_loop [of 5] by (intro at_most_bind [where n = 1 and k = 15] at_most_body) simp_all
  then show "length (trace w') \<le> length (trace w) + 16" using assms by (metis at_most_def snd_conv)
  show "r = Inr () \<longrightarrow> (\<exists>b w1 w2 x. run_state (SendRequest E rc ''PUT'' (''_snapshot/'' @ RepositoryName sn) (Some (Text b))) w1 = ((200, x, None), w2))"
    using assms create_loop_ok [of 5 E rc] by (fastforce simp: createSnapshotsRepository_def split: prod.splits)
qed

definition test_snapshots :: snapshots where
  "test_snapshots = \<lparr>RepositoryName = ''snapshots'', snapshots_S3 = None\<rparr>"

theorem createSnapshotsRepository_bounded_witness:
  "length (trace (snd (run_state (createSnapshotsRepository test_op_env test_snapshots test_client 5) (op_world_of test_cr [])))) \<le> 16"
proof -
  obtain r w' where "run_state (createSnapshotsRepository test_op_env test_snapshots test_client 5) (op_world_of test_cr []) = (r, w')"
    by fastforce
  with createSnapshotsRepository_bounded [OF this] show ?thesis by (simp add: op_world_of_def)
qed

text \<open>
  A transport error of the second request of \<^verbatim>\<open>UpdateRoles\<close> is lost: the roles of the user are
  reported as updated.
\<close>

theorem UpdateRoles_loses_error:
  assumes "run_state (SendRequest E rc ''PATCH'' ''_plugins/_security/api/rolesmapping'' (Some (Text (add_mapping_text role)))) w = ((200, b, None), w1)"
    and "run_state (SendRequest E rc ''PATCH'' (user_path userName) (Some (Text no_roles_text))) w1 = ((c, b2, Some e), w2)"
  shows "run_state (UpdateRoles E rc userName role) w = (Inr (), w2)"
  using assms by (simp add: UpdateRoles_def)

theorem UpdateRoles_loses_error_witness:
  "fst (run_state (UpdateRoles test_op_env test_client ''admin'' ''all_access'') (op_world_of test_cr [status_only 200])) = Inr ()"
proof -
  have urls: "url_ok (rq_url (rest_request test_client ''PATCH'' ''_plugins/_security/api/rolesmapping'' b True))"
    "url_ok (rq_url (rest_request test_client ''PATCH'' (user_path ''admin'') b True))" for b
    by (simp_all add: rest_request_def) code_simp+
  obtain w1 where one: "run_state (SendRequest test_op_env test_client ''PATCH'' ''_plugins/_security/api/rolesmapping''
      (Some (Text (add_mapping_text ''all_access'')))) (op_world_of test_cr [status_only 200]) = ((200, Text [], None), w1)"
    and left: "srv w1 = ([], 0)"
    using urls by (simp add: SendRequest_def SendBasicRequest_def Let_def run_simps test_op_env_def op_world_of_def status_only_def rest_outcome_def)
  obtain w2 where "run_state (SendRequest test_op_env test_client ''PATCH'' (user_path ''admin'') (Some (Text no_roles_text))) w1 =
      ((0, Text [], Some (Err ''connection refused'')), w2)"
    using urls left by (simp add: SendRequest_def SendBasicRequest_def Let_def run_simps test_op_env_def rest_outcome_def)
  from UpdateRoles_loses_error [OF one this] show ?thesis by simp
qed


definition old_credentials :: credentials where
  "old_credentials = \<lparr>cr_Username = ''admin'', cr_Password = ''before''\<rparr>"

definition credentials_run :: "(go_error + rest_client) \<times> script op_world" where
  "credentials_run = run_state (updateCredentials test_op_env ''http://os'' old_credentials) (op_world_of test_cr [status_only 200])"


section \<open>The texts with the password\<close>

text \<open>The documents the two texts stand for when the password needs no escapes.\<close>

definition new_user_doc :: "string \<Rightarrow> json" where
  "new_user_doc p = JObj [(''password'', JStr p), (''description'', JStr ''Admin user''),
     (''backend_roles'', JArr [JStr ''admin'']),
     (''opendistro_security_roles'', JArr [JStr ''all_access'', JStr ''manage_snapshots''])]"

definition password_doc :: "string \<Rightarrow> json" where
  "password_doc p = JArr [JObj [(''op'', JStr ''add''), (''path'', JStr ''/password''), (''value'', JStr p)]]"

lemma new_user_text_reads: "plain p \<Longrightarrow> text_body (new_user_text p) = Doc (new_user_doc p)"
  by (rule text_body_read [of 10])
    (simp_all add: new_user_text_def new_user_doc_def member_text_def dquote_def nl_def numeral_eq_Suc reading)

lemma password_text_reads: "plain p \<Longrightarrow> text_body (password_text p) = Doc (password_doc p)"
  by (rule text_body_read [of 8])
    (simp_all add: password_text_def password_doc_def member_text_def dquote_def numeral_eq_Suc reading)


definition new_credentials :: credentials where
  "new_credentials = \<lparr>cr_Username = ''admin'', cr_Password = ''after''\<rparr>"


text \<open>
  Any other password is put into the text as it is. With a backslash the text can still be a document, of
  another password: the request is accepted, the secret holds the one and OpenSearch the other.
\<close>

theorem escaped_password_differs:
  "text_body (password_text [CHR ''a'', CHR 92, CHR ''t'', CHR ''b'']) = Doc (password_doc [CHR ''a'', CHR 9, CHR ''b''])"
  by (rule text_body_read [of 8])
    (simp_all add: password_text_def password_doc_def member_text_def dquote_def numeral_eq_Suc reading
      read_simple_escape simple_escape_def)

end
