(* ===== verification/Controller.thy ===== *)
theory Controller
  imports Disaster_Recovery Security_Config
begin

text \<open>
  The reconciliation cycle: the controller (\<^verbatim>\<open>opensearchservice_controller.go\<close>), the reconcilers of the
  deployments beside OpenSearch (\<^verbatim>\<open>curator_\<close>, \<^verbatim>\<open>dashboards_\<close>, \<^verbatim>\<open>dbaas_adapter_\<close>,
  \<^verbatim>\<open>elasticsearch_dbaas_adapter_\<close>, \<^verbatim>\<open>monitoring_\<close> and \<^verbatim>\<open>external_opensearch_reconciler.go\<close>) and the watcher of
  the slow log (\<^verbatim>\<open>slowlog_indices_watcher.go\<close>). The methods \<^verbatim>\<open>Status\<close> return nil everywhere and are left out.
  The readiness timeout bounds the number of tries of a poll, which comes from outside, and is left out
  of the text of the error.
\<close>

section \<open>Hashes\<close>

definition opensearchSecretHashName :: string where "opensearchSecretHashName = ''secret.opensearch''"
definition opensearchOldSecretHashName :: string where "opensearchOldSecretHashName = ''secret.opensearch.old''"
definition curatorSecretHashName :: string where "curatorSecretHashName = ''secret.curator''"
definition dashboardsSecretHashName :: string where "dashboardsSecretHashName = ''secret.dashboards''"
definition dbaasAdapterSecretHashName :: string where "dbaasAdapterSecretHashName = ''secret.dbaasAdapter''"
definition elasticsearchDbaasAdapterSecretHashName :: string where
  "elasticsearchDbaasAdapterSecretHashName = ''secret.elasticsearchDbaasAdapter''"
definition monitoringSecretHashName :: string where "monitoringSecretHashName = ''secret.monitoring''"
definition monitoringSpecHashName :: string where "monitoringSpecHashName = ''spec.monitoring''"
definition externalSpecHashName :: string where "externalSpecHashName = ''spec.externalOpenSearch''"

lemmas hash_names = opensearchSecretHashName_def opensearchOldSecretHashName_def curatorSecretHashName_def dashboardsSecretHashName_def
  dbaasAdapterSecretHashName_def elasticsearchDbaasAdapterSecretHashName_def monitoringSecretHashName_def monitoringSpecHashName_def
  externalSpecHashName_def drConfigHashName_def opensearchConfigHashName_def opensearchRoleMappingsHashName_def

text \<open>A hash was known and is another one now.\<close>

definition hash_changed :: "string go_map \<Rightarrow> string \<Rightarrow> string \<Rightarrow> bool" where
  "hash_changed hashes name hash \<longleftrightarrow> map_get [] hashes name \<noteq> [] \<and> map_get [] hashes name \<noteq> hash"

definition keep_hash :: "string \<Rightarrow> string \<Rightarrow> ('s, unit) operator" where
  "keep_hash name hash = remember (ResourceHashes_update (map_put name hash))"

section \<open>The reconcilers of the deployments\<close>

text \<open>
  What the reconcilers share: a change of the secret of OpenSearch or of the own one is written to the
  annotations of the pods, which restarts them.
\<close>

definition annotate_on_change :: "'s op_env \<Rightarrow> string \<Rightarrow> string \<Rightarrow> string \<Rightarrow> ('s, go_error + unit) operator" where
  "annotate_on_change E deploymentName hashName hash = do {
     c \<leftarrow> recall the_cr;
     hashes \<leftarrow> recall ResourceHashes;
     current \<leftarrow> recall opensearchSecretHash;
     onOk (if hash_changed hashes opensearchSecretHashName current \<or> hash_changed hashes hashName hash then
             addAnnotationsToDeployment E deploymentName (cr_Namespace c) [(opensearchSecretHashName, current), (hashName, hash)]
           else return (Inr ())) (\<lambda>_. do {
       _ \<leftarrow> keep_hash hashName hash;
       return (Inr ()) }) }"

definition curator_Reconcile :: "'s op_env \<Rightarrow> curator_spec \<Rightarrow> ('s, go_error + unit) operator" where
  "curator_Reconcile E s =
     onOk (calculateSecretDataHash E (curator_SecretName s) curatorSecretHashName)
       (annotate_on_change E (curator_Name s) curatorSecretHashName)"

definition dashboards_Reconcile :: "'s op_env \<Rightarrow> dashboards \<Rightarrow> ('s, go_error + unit) operator" where
  "dashboards_Reconcile E s =
     onOk (if dashboards_SecretName s \<noteq> [] then calculateSecretDataHash E (dashboards_SecretName s) dashboardsSecretHashName
           else return (Inr [])) (annotate_on_change E (dashboards_Name s) dashboardsSecretHashName)"

definition dbaas_Reconcile :: "'s op_env \<Rightarrow> dbaas_adapter \<Rightarrow> ('s, go_error + unit) operator" where
  "dbaas_Reconcile E s =
     onOk (calculateSecretDataHash E (dbaas_SecretName s) dbaasAdapterSecretHashName)
       (annotate_on_change E (dbaas_Name s) dbaasAdapterSecretHashName)"

definition elasticsearch_Reconcile :: "'s op_env \<Rightarrow> elasticsearch_dbaas_adapter \<Rightarrow> ('s, go_error + unit) operator" where
  "elasticsearch_Reconcile E s =
     onOk (calculateSecretDataHash E (elasticsearch_SecretName s) elasticsearchDbaasAdapterSecretHashName)
       (annotate_on_change E (elasticsearch_Name s) elasticsearchDbaasAdapterSecretHashName)"

definition enc_external :: "external_opensearch \<Rightarrow> json" where
  "enc_external s = JObj [(''config'', enc_nil_map (map_option (map (\<lambda>(k, v). (k, JStr v))) (ext_Config s))), (''url'', JStr (ext_Url s))]"

definition performExternalOpenSearchConfiguration :: "'s op_env \<Rightarrow> external_opensearch \<Rightarrow> ('s, go_error + unit) operator" where
  "performExternalOpenSearchConfiguration E s = do {
     c \<leftarrow> recall the_cr;
     creds \<leftarrow> parseSecretCredentials E (secret_name c) (cr_Namespace c);
     r \<leftarrow> SendRequest E (NewRestClient (ext_Url s) creds) ''PUT'' ''_cluster/settings''
       (Some (Doc (JObj [(''persistent'', enc_nil_map (map_option (map (\<lambda>(k, v). (k, JStr v))) (ext_Config s)))])));
     return (accepted [200] ''setting applying went wrong'' r) }"

definition external_Reconcile :: "'s op_env \<Rightarrow> external_opensearch \<Rightarrow> ('s, go_error + unit) operator" where
  "external_Reconcile E s = do {
     hashes \<leftarrow> recall ResourceHashes;
     (let hash = Hash E (enc_external s) in
      onOk (if map_get [] hashes externalSpecHashName \<noteq> hash then performExternalOpenSearchConfiguration E s
            else return (Inr ())) (\<lambda>_. do {
        _ \<leftarrow> keep_hash externalSpecHashName hash;
        return (Inr ()) })) }"

section \<open>The slow log\<close>

definition runningWatcherState :: string where "runningWatcherState = ''running''"
definition stoppedWatcherState :: string where "stoppedWatcherState = ''stopped''"

definition slowlog_updateSettings :: "'s op_env \<Rightarrow> rest_client \<Rightarrow> string \<Rightarrow> string \<Rightarrow> ('s, unit) operator" where
  "slowlog_updateSettings E rc indicesPattern requestBody = do {
     _ \<leftarrow> SendRequest E rc ''PUT'' (indicesPattern @ ''/_settings?allow_no_indices=true'') (Some (Text requestBody));
     return () }"

definition threshold_text :: "string \<Rightarrow> string \<Rightarrow> string" where
  "threshold_text off info = ''{'' @ dquote ''search'' @ '': {'' @ dquote ''slowlog'' @ '': {'' @ dquote ''threshold'' @ '': {'' @
     dquote ''query'' @ '': {'' @ dquote ''warn'' @ '': '' @ off @ '', '' @ dquote ''trace'' @ '': '' @ off @ '', '' @
     dquote ''debug'' @ '': '' @ off @ '', '' @ dquote ''info'' @ '': '' @ info @ ''}}}}}''"

definition addSlowLogSetting :: "'s op_env \<Rightarrow> rest_client \<Rightarrow> string \<Rightarrow> int \<Rightarrow> ('s, unit) operator" where
  "addSlowLogSetting E rc indicesPattern minSeconds =
     slowlog_updateSettings E rc (indicesPattern @ '',-.*'') (threshold_text (dquote ''-1'') (dquote (show_int minSeconds @ ''s'')))"

text \<open>Taking the lock waits for the goroutine, which holds it until it finds the state stopped.\<close>

definition removeSlowLogSetting :: "'s op_env \<Rightarrow> rest_client \<Rightarrow> ('s, unit) operator" where
  "removeSlowLogSetting E rc = slowlog_updateSettings E rc ''*,-.*'' (threshold_text ''null'' ''null'')"

definition slowlog_stop :: "'s op_env \<Rightarrow> rest_client \<Rightarrow> ('s, unit) operator" where
  "slowlog_stop E rc = do {
     state \<leftarrow> recall slowlog_state;
     (if state \<noteq> stoppedWatcherState then do {
        _ \<leftarrow> remember (slowlog_state_update (\<lambda>_. stoppedWatcherState));
        removeSlowLogSetting E rc }
      else return ()) }"

definition slowlog_start :: "'s op_env \<Rightarrow> rest_client \<Rightarrow> string \<Rightarrow> int \<Rightarrow> ('s, unit) operator" where
  "slowlog_start E rc indicesPattern minSeconds = do {
     _ \<leftarrow> slowlog_stop E rc;
     _ \<leftarrow> remember (slowlog_state_update (\<lambda>_. runningWatcherState));
     request (Go (WatchSlowLog indicesPattern minSeconds)) (\<lambda>s. ((), s)) }"

text \<open>One round of the loop of \<^verbatim>\<open>watch\<close>; the result says whether the goroutine goes on.\<close>

definition slowlog_round :: "'s op_env \<Rightarrow> rest_client \<Rightarrow> string \<Rightarrow> int \<Rightarrow> ('s, bool) operator" where
  "slowlog_round E rc indicesPattern minSeconds = do {
     state \<leftarrow> recall slowlog_state;
     (if state = stoppedWatcherState then return False
      else do { _ \<leftarrow> addSlowLogSetting E rc indicesPattern minSeconds; return True }) }"

section \<open>Monitoring\<close>

definition enc_monitoring :: "monitoring \<Rightarrow> json" where
  "enc_monitoring s = JObj ([(''name'', JStr (monitoring_Name s))] @
     (if monitoring_SecretName s \<noteq> [] then [(''secretName'', JStr (monitoring_SecretName s))] else []) @
     (case SlowQueries s of
        None \<Rightarrow> []
      | Some q \<Rightarrow> [(''slowQueries'', JObj [(''indicesPattern'', JStr (IndicesPattern q)), (''minSeconds'', JNum (MinSeconds q))])]))"

definition prepareSlowLogIndicesHelper :: "'s op_env \<Rightarrow> ('s, rest_client) operator" where
  "prepareSlowLogIndicesHelper E = do {
     c \<leftarrow> recall the_cr;
     creds \<leftarrow> parseOpenSearchCredentials E;
     return (NewRestClient (createUrl E (cr_Name c) 9200) creds) }"

definition switch_slow_log :: "'s op_env \<Rightarrow> monitoring \<Rightarrow> ('s, unit) operator" where
  "switch_slow_log E s = do {
     state \<leftarrow> recall slowlog_state;
     (if SlowQueries s \<noteq> None \<or> state \<noteq> stoppedWatcherState then do {
        helper \<leftarrow> prepareSlowLogIndicesHelper E;
        (case SlowQueries s of
           Some q \<Rightarrow> slowlog_start E helper (IndicesPattern q) (MinSeconds q)
         | None \<Rightarrow> slowlog_stop E helper) }
      else return ()) }"

definition monitoring_apply :: "'s op_env \<Rightarrow> monitoring \<Rightarrow> string \<Rightarrow> string \<Rightarrow> ('s, go_error + unit) operator" where
  "monitoring_apply E s secretHash oldSecretHash = do {
     c \<leftarrow> recall the_cr;
     hashes \<leftarrow> recall ResourceHashes;
     current \<leftarrow> recall opensearchSecretHash;
     (let opensearchChanged = hash_changed hashes opensearchSecretHashName current \<or> hash_changed hashes opensearchOldSecretHashName oldSecretHash;
          specHash = Hash E (enc_monitoring s) in
      onOk (if opensearchChanged \<or> hash_changed hashes monitoringSecretHashName secretHash then
              addAnnotationsToDeployment E (monitoring_Name s) (cr_Namespace c)
                [(opensearchSecretHashName, current), (opensearchOldSecretHashName, oldSecretHash), (monitoringSecretHashName, secretHash)]
            else return (Inr ())) (\<lambda>_. do {
        _ \<leftarrow> (if opensearchChanged \<or> map_get [] hashes monitoringSpecHashName \<noteq> specHash then switch_slow_log E s else return ());
        _ \<leftarrow> keep_hash opensearchOldSecretHashName oldSecretHash;
        _ \<leftarrow> keep_hash monitoringSecretHashName secretHash;
        _ \<leftarrow> keep_hash monitoringSpecHashName specHash;
        return (Inr ()) })) }"

definition monitoring_Reconcile :: "'s op_env \<Rightarrow> monitoring \<Rightarrow> ('s, go_error + unit) operator" where
  "monitoring_Reconcile E s =
     onOk (if monitoring_SecretName s \<noteq> [] then calculateSecretDataHash E (monitoring_SecretName s) monitoringSecretHashName
           else return (Inr [])) (\<lambda>secretHash. do {
       c \<leftarrow> recall the_cr;
       onOk (calculateSecretDataHash E (old_secret_name c) opensearchOldSecretHashName) (monitoring_apply E s secretHash) })"

section \<open>The controller\<close>

datatype reconcile_service =
    S_OpenSearch opensearch_spec
  | S_DisasterRecovery disaster_recovery
  | S_Dashboards dashboards
  | S_Monitoring monitoring
  | S_DbaasAdapter dbaas_adapter
  | S_Elasticsearch elasticsearch_dbaas_adapter
  | S_Curator curator_spec
  | S_External external_opensearch

definition section_of :: "('a \<Rightarrow> reconcile_service) \<Rightarrow> 'a option \<Rightarrow> reconcile_service list" where
  "section_of f x = (case x of None \<Rightarrow> [] | Some s \<Rightarrow> [f s])"

definition buildReconcilers :: "service_spec \<Rightarrow> reconcile_service list" where
  "buildReconcilers s =
     section_of S_OpenSearch (OpenSearch_spec s) @ section_of S_DisasterRecovery (DisasterRecovery s) @
     section_of S_Dashboards (Dashboards s) @ section_of S_Monitoring (Monitoring s) @
     section_of S_DbaasAdapter (DbaasAdapter s) @ section_of S_Elasticsearch (ElasticsearchDbaasAdapter s) @
     section_of S_Curator (Curator_spec s) @ section_of S_External (ExternalOpenSearch s)"

fun service_Reconcile :: "'s op_env \<Rightarrow> reconcile_service \<Rightarrow> ('s, go_error + unit) operator" where
  "service_Reconcile E (S_OpenSearch s) = opensearch_Reconcile E s"
| "service_Reconcile E (S_DisasterRecovery s) = return (Inr ())"
| "service_Reconcile E (S_Dashboards s) = dashboards_Reconcile E s"
| "service_Reconcile E (S_Monitoring s) = monitoring_Reconcile E s"
| "service_Reconcile E (S_DbaasAdapter s) = dbaas_Reconcile E s"
| "service_Reconcile E (S_Elasticsearch s) = elasticsearch_Reconcile E s"
| "service_Reconcile E (S_Curator s) = curator_Reconcile E s"
| "service_Reconcile E (S_External s) = external_Reconcile E s"

definition ends :: "('s, go_error + unit) operator \<Rightarrow> ('s, (go_error + unit) go option) operator" where
  "ends m = do { r \<leftarrow> m; return (Some (Ret r)) }"

fun service_Configure :: "nat \<Rightarrow> 's op_env \<Rightarrow> reconcile_service \<Rightarrow> ('s, (go_error + unit) go option) operator" where
  "service_Configure n E (S_OpenSearch s) = do { r \<leftarrow> opensearch_Configure E s; return (Some r) }"
| "service_Configure n E (S_DisasterRecovery s) = dr_Configure n E s"
| "service_Configure n E (S_Dashboards s) = ends (return (Inr ()))"
| "service_Configure n E (S_Monitoring s) = ends (return (Inr ()))"
| "service_Configure n E (S_DbaasAdapter s) = ends (scaleDeploymentForDR E (dbaas_Name s))"
| "service_Configure n E (S_Elasticsearch s) = ends (scaleDeploymentForDR E (elasticsearch_Name s))"
| "service_Configure n E (S_Curator s) = ends (scaleDeploymentForDR E (curator_Name s))"
| "service_Configure n E (S_External s) = ends (return (Inr ()))"

definition not_ready_text :: "int \<Rightarrow> go_error option \<Rightarrow> string" where
  "not_ready_text statusCode err = ''OpenSearch is not ready yet!'' @
     (if statusCode > 0 then '' Status code - ['' @ show_int statusCode @ ''].'' else []) @
     (case err of None \<Rightarrow> [] | Some e \<Rightarrow> '' Error - ['' @ err_text e @ ''].'')"

definition checkOpenSearchIsReady :: "'s op_env \<Rightarrow> ('s, go_error + unit) operator" where
  "checkOpenSearchIsReady E = do {
     c \<leftarrow> recall the_cr;
     creds \<leftarrow> parseOpenSearchCredentials E;
     (case configureClient E of
        Some e \<Rightarrow> return (Inl (Err (not_ready_text 0 (Some e))))
      | None \<Rightarrow> do {
          (statusCode, _, err) \<leftarrow> SendRequest E (NewRestClient (createUrl E (cr_Name c) 9200) creds) ''GET'' [] None;
          return (if err \<noteq> None \<or> statusCode \<noteq> 200 then Inl (Err (not_ready_text statusCode err)) else Inr ()) }) }"

definition await_ready :: "'s op_env \<Rightarrow> ('s, go_error + unit) operator" where
  "await_ready E = do {
     n \<leftarrow> try_times E;
     r \<leftarrow> poll n (\<lambda>_. do { r \<leftarrow> checkOpenSearchIsReady E; return (Inr (case r of Inl _ \<Rightarrow> False | Inr _ \<Rightarrow> True)) });
     return (case r of Inl _ \<Rightarrow> Inl (Err ''OpenSearch is not ready'') | Inr _ \<Rightarrow> Inr ()) }"

fun configure_each :: "nat \<Rightarrow> 's op_env \<Rightarrow> reconcile_service list \<Rightarrow> ('s, (go_error + unit) go option) operator" where
  "configure_each n E [] = return (Some (Ret (Inr ())))"
| "configure_each n E (s # rest) = do {
     r \<leftarrow> service_Configure n E s;
     (if r = Some (Ret (Inr ())) then configure_each n E rest else return r) }"

text \<open>The steps of a cycle before the configuration, and the whole cycle between the two conditions.\<close>

definition prepare_cycle :: "'s op_env \<Rightarrow> opensearch_service \<Rightarrow> ('s, go_error + string) operator" where
  "prepare_cycle E c = do {
     computed \<leftarrow> calculateSecretDataHash E (secret_name c) opensearchSecretHashName;
     _ \<leftarrow> remember (opensearchSecretHash_update (\<lambda>_. case computed of Inl _ \<Rightarrow> [] | Inr h \<Rightarrow> h));
     (case computed of
        Inl e \<Rightarrow> return (Inl e)
      | Inr hash \<Rightarrow>
          onOk (for_ok (service_Reconcile E) (buildReconcilers (cr_Spec c))) (\<lambda>_.
          onOk (if OpenSearch_spec (cr_Spec c) \<noteq> None then await_ready E else return (Inr ())) (\<lambda>_.
          return (Inr hash)))) }"

definition reconcile_cycle :: "nat \<Rightarrow> 's op_env \<Rightarrow> opensearch_service \<Rightarrow> ('s, (go_error + unit) go option) operator" where
  "reconcile_cycle n E c = do {
     prepared \<leftarrow> prepare_cycle E c;
     (case prepared of
        Inl e \<Rightarrow> return (Some (Ret (Inl e)))
      | Inr hash \<Rightarrow> do {
          r \<leftarrow> configure_each n E (buildReconcilers (cr_Spec c));
          (if r = Some (Ret (Inr ())) then do {
             _ \<leftarrow> keep_hash opensearchSecretHashName hash;
             return r }
           else return r) }) }"

definition cycle_condition :: "(go_error + unit) go \<Rightarrow> status_condition" where
  "cycle_condition r =
     (case r of
        Ret (Inl e) \<Rightarrow> NewCondition ''False'' ''Failed'' ''ReconcileCycleStatus'' (''Reconciliation cycle is failed: '' @ err_text e)
      | _ \<Rightarrow> NewCondition ''True'' ''Successful'' ''ReconcileCycleStatus'' ''Reconciliation cycle is successfully finished'')"

definition controller_Reconcile :: "nat \<Rightarrow> 's op_env \<Rightarrow> string \<Rightarrow> string \<Rightarrow> ('s, (go_error + unit) go option) operator" where
  "controller_Reconcile n E name namespace = do {
     found \<leftarrow> request (GetObject K_OpenSearchService name) (get_cr E name namespace);
     (case found of
        Inl e \<Rightarrow> return (Some (Ret (if IsNotFound E e then Inr () else Inl e)))
      | Inr c \<Rightarrow> do {
          _ \<leftarrow> remember (the_cr_update (\<lambda>_. c));
          started \<leftarrow> updateConditions E (NewCondition ''False'' ''In progress'' ''ReconcileCycleStatus'' ''Reconciliation cycle started'');
          (case started of
             Inl e \<Rightarrow> return (Some (Ret (Inl e)))
           | Inr _ \<Rightarrow> do {
               ended \<leftarrow> reconcile_cycle n E c;
               (case ended of
                  None \<Rightarrow> return None
                | Some r \<Rightarrow> do { _ \<leftarrow> updateConditions E (cycle_condition r); return (Some r) }) }) }) }"

text \<open>The filter of the events that start a cycle, over annotations and generations of the old and the new object.\<close>

definition update_filter :: "string go_map \<Rightarrow> string go_map \<Rightarrow> int \<Rightarrow> int \<Rightarrow> bool" where
  "update_filter oldAnnotations newAnnotations oldGeneration newGeneration \<longleftrightarrow>
     (case map_of newAnnotations ''switchoverRetry'' of
        Some v \<Rightarrow> v \<noteq> map_get [] oldAnnotations ''switchoverRetry''
      | None \<Rightarrow> False) \<or>
     newGeneration = 0 \<or> oldGeneration \<noteq> newGeneration"

section \<open>The hash of the secret of OpenSearch\<close>

text \<open>
  The hash that is known of the secret of OpenSearch decides whether the next cycle tells the other
  deployments about a change. Operations that leave it alone:
\<close>

named_theorems hash_intros \<open>operations that keep the known hash of the secret of OpenSearch\<close>

definition known_hash :: "'s op_world \<Rightarrow> string" where
  "known_hash w = map_get [] (ResourceHashes w) opensearchSecretHashName"

definition keeps_hash :: "('s, 'a) operator \<Rightarrow> bool" where
  "keeps_hash m \<longleftrightarrow> (\<forall>w. known_hash (snd (run_state m w)) = known_hash w)"

lemma keeps_hashD: "keeps_hash m \<Longrightarrow> run_state m w = (a, w') \<Longrightarrow> known_hash w' = known_hash w"
  unfolding keeps_hash_def by (metis snd_conv)

lemma hash_basic [hash_intros]:
  "keeps_hash (return a)" "keeps_hash (recall f)" "keeps_hash (silent g)" "keeps_hash (request e g)"
  by (auto simp: keeps_hash_def known_hash_def run_simps split: prod.splits)

lemma hash_remember [hash_intros]: "(\<And>w. known_hash (f w) = known_hash w) \<Longrightarrow> keeps_hash (remember f)"
  by (simp add: keeps_hash_def run_simps)

lemma hash_bind [hash_intros]: "keeps_hash m \<Longrightarrow> (\<And>a. keeps_hash (k a)) \<Longrightarrow> keeps_hash (State_Monad.bind m k)"
  by (auto simp: keeps_hash_def split: prod.splits) (metis snd_conv)

lemma hash_cases [hash_intros]:
  "(\<And>e. keeps_hash (f e)) \<Longrightarrow> (\<And>a. keeps_hash (g a)) \<Longrightarrow> keeps_hash (case x of Inl e \<Rightarrow> f e | Inr a \<Rightarrow> g a)"
  "keeps_hash m \<Longrightarrow> (\<And>a. keeps_hash (g a)) \<Longrightarrow> keeps_hash (case y of None \<Rightarrow> m | Some a \<Rightarrow> g a)"
  "(\<And>a. keeps_hash (g a)) \<Longrightarrow> (\<And>p. keeps_hash (h p)) \<Longrightarrow> keeps_hash (case z of Ret a \<Rightarrow> g a | Panic p \<Rightarrow> h p)"
  "(\<And>a b. keeps_hash (k a b)) \<Longrightarrow> keeps_hash (case q of (a, b) \<Rightarrow> k a b)"
  "keeps_hash m \<Longrightarrow> (\<And>a as. keeps_hash (k2 a as)) \<Longrightarrow> keeps_hash (case l of [] \<Rightarrow> m | a # as \<Rightarrow> k2 a as)"
  by (simp_all split: sum.split option.split go.split prod.split list.split)

lemma hash_if [hash_intros]: "keeps_hash m \<Longrightarrow> keeps_hash n \<Longrightarrow> keeps_hash (if b then m else n)"
  by simp

lemma hash_on [hash_intros]:
  "keeps_hash m \<Longrightarrow> (\<And>a. keeps_hash (k a)) \<Longrightarrow> keeps_hash (onOk m k)"
  "keeps_hash m2 \<Longrightarrow> (\<And>a. keeps_hash (k2 a)) \<Longrightarrow> keeps_hash (onRet m2 k2)"
  "keeps_hash m3 \<Longrightarrow> keeps_hash (no_panic m3)"
  unfolding onOk_def onRet_def no_panic_def by (intro hash_intros; assumption)+

lemma hash_onDone [hash_intros]: "keeps_hash m \<Longrightarrow> (\<And>a. keeps_hash (k a)) \<Longrightarrow> keeps_hash (onDone m k)"
  unfolding onDone_def by (intro hash_intros)

lemma hash_poll_from: "(\<And>k. keeps_hash (c k)) \<Longrightarrow> keeps_hash (poll_from k n c)"
proof (induction n arbitrary: k)
  case 0
  show ?case by (simp add: hash_intros)
next
  case (Suc n)
  have "keeps_hash (case r of Inl e \<Rightarrow> return (Inl e) | Inr True \<Rightarrow> return (Inr ()) | Inr False \<Rightarrow> poll_from (Suc k) n c)" for r
    using Suc by (auto intro: hash_intros split: sum.splits bool.splits)
  then show ?case using Suc.prems by (simp add: hash_bind)
qed

lemma hash_loops [hash_intros]:
  "(\<And>k. keeps_hash (c k)) \<Longrightarrow> keeps_hash (poll n c)"
  "(\<And>k. keeps_hash (c k)) \<Longrightarrow> keeps_hash (poll_immediate n c)"
  by (simp_all add: poll_def poll_immediate_def hash_poll_from del: poll_from.simps)

lemma hash_poll_go [hash_intros]: "keeps_hash c2 \<Longrightarrow> keeps_hash (poll_go n c2)"
  by (induction n) (auto intro!: hash_intros)

lemma hash_for_ok [hash_intros]: "(\<And>x. x \<in> set xs \<Longrightarrow> keeps_hash (f x)) \<Longrightarrow> keeps_hash (for_ok f xs)"
  by (induction xs) (auto intro!: hash_intros)

lemma hash_filter_data [hash_intros]: "(\<And>x. keeps_hash (flt x)) \<Longrightarrow> keeps_hash (filter_data flt xs)"
  by (induction xs) (auto intro!: hash_intros)

lemma hash_retry [hash_intros]: "keeps_hash m \<Longrightarrow> keeps_hash (retry_on_conflict n E m)"
  by (induction n) (auto intro!: hash_intros)

lemma hash_put [simp]: "name \<noteq> opensearchSecretHashName \<Longrightarrow> known_hash (ResourceHashes_update (map_put name h) w) = known_hash w"
  by (simp add: known_hash_def map_get_def gomap.find_put)

lemma hash_other_fields [simp]:
  "known_hash (the_cr_update f w) = known_hash w" "known_hash (watcher_state_update g w) = known_hash w"
  "known_hash (slowlog_state_update g w) = known_hash w" "known_hash (opensearchSecretHash_update g w) = known_hash w"
  by (simp_all add: known_hash_def)

lemma hash_keep [hash_intros]: "name \<noteq> opensearchSecretHashName \<Longrightarrow> keeps_hash (keep_hash name h)"
  unfolding keep_hash_def by (intro hash_intros) simp

text \<open>The client of the cluster, and the objects of Kubernetes.\<close>

lemma hash_rest [hash_intros]: "keeps_hash (SendBasicRequest E rc verb path b h)" "keeps_hash (try_times E)"
  unfolding SendBasicRequest_def try_times_def Let_def by (intro hash_intros)+

lemma hash_rest2 [hash_intros]: "keeps_hash (SendRequest E rc verb path b)"
  unfolding SendRequest_def by (intro hash_intros)

lemma hash_rest3 [hash_intros]:
  "keeps_hash (SendRequestWithStatusCodeCheck E rc verb path b)" "(\<And>x. keeps_hash (flt x)) \<Longrightarrow> keeps_hash (GetArrayData E rc path key flt)"
  unfolding SendRequestWithStatusCodeCheck_def GetArrayData_def by (intro hash_intros; assumption)+

lemma hash_status [hash_intros]: "(\<And>c. keeps_hash (f c)) \<Longrightarrow> keeps_hash (UpdateStatusWithRetry E f)"
  unfolding UpdateStatusWithRetry_def update_status_once_def by (intro hash_intros)

lemmas k8s_defs = findSecret_def updateSecret_def findConfigMap_def updateConfigMap_def findDeployment_def updateDeployment_def
  findService_def updateService_def findStatefulSet_def updateStatefulSet_def findPod_def deletePodByName_def watchSecret_def
  watchConfigMap_def watchStatefulSet_def runCommandInPod_def parseSecretCredentials_def parseSecretCredentialsByKeys_def
  parseOpenSearchCredentials_def

lemma hash_k8s [hash_intros]:
  "keeps_hash (parseSecretCredentials E x y)" "keeps_hash (parseOpenSearchCredentials E)" "keeps_hash (findSecret E x y)"
  "keeps_hash (findConfigMap E x y)" "keeps_hash (watchStatefulSet E x)" "keeps_hash (deletePodByName E x y)" "keeps_hash (findPod E x y)"
  "keeps_hash (parseSecretCredentialsByKeys E x y k1 k2)" "keeps_hash (runCommandInPod E x y k1 cmd)"
  unfolding k8s_defs by (intro hash_intros)+

lemma hash_k8s2 [hash_intros]:
  "keeps_hash (calculateSecretDataHash E x h)" "keeps_hash (calculateConfigDataHash E x h)" "keeps_hash (updateSecretWithCredentials E x y c)"
  "keeps_hash (addAnnotationsToDeployment E x y an)" "keeps_hash (scaleDeploymentForNoWait E x y k nw)" "keeps_hash (updateConditions E cond)"
  unfolding calculateSecretDataHash_def calculateConfigDataHash_def updateSecretWithCredentials_def addAnnotationsToDeployment_def
    scaleDeploymentForNoWait_def scaleDeploymentWithCheck_def scaleDeployment_def isDeploymentReady_def updateConditions_def k8s_defs
  by (intro hash_intros)+

lemma hash_scale [hash_intros]: "keeps_hash (scaleDeploymentForDR E x)"
  unfolding scaleDeploymentForDR_def by (intro hash_intros)

text \<open>The rolling update.\<close>

lemma hash_restarts: "keeps_hash (restart_each E sts i k u)"
  by (induction k arbitrary: u)
    (auto intro!: hash_intros simp: restart_replica_def waitUntilOpenSearchPodIsReady_def uploadUpdatedReplicasSlice_def
      change_status_def updateStatefulSetStatuses_def)

lemma hash_pods: "keeps_hash (restartOpenSearchPods E sets)"
  by (induction sets)
    (auto intro!: hash_intros hash_restarts simp: findStatefulSetStatus_def restartOpenSearchPod_def getUpdatedReplicasSlice_def
      clear_status_def uploadUpdatedReplicasSlice_def change_status_def updateStatefulSetStatuses_def)

lemma hash_sets: "keeps_hash (watch_sets E names)"
  by (induction names) (auto intro!: hash_intros)

lemma hash_settings [hash_intros]: "keeps_hash (updateSettings E rc b)"
  unfolding updateSettings_def by (intro hash_intros)

lemma hash_allocation [hash_intros]: "keeps_hash (changeAllocationSetting E b rc)" "keeps_hash (checkOpenSearchHealth E rc)"
  "keeps_hash (updateRollingUpdateStatus E st)" "keeps_hash (getSettings E rc)"
  unfolding changeAllocationSetting_def allocation_body_def getSettings_def checkOpenSearchHealth_def isOpenSearchHealthy_def
    updateRollingUpdateStatus_def
  by (intro hash_intros; simp)+

lemma hash_opensearch_Reconcile: "keeps_hash (opensearch_Reconcile E os)"
  unfolding opensearch_Reconcile_def createRestClientWithOldCreds_def getStatefulSets_def needToPerformRollingUpdate_def
    runRollingUpdate_def prepare_and_restart_def execFlushProcedure_def enableAllocationIfNecessary_def
  by (intro hash_intros hash_sets hash_pods)

text \<open>The security configuration.\<close>

lemma hash_create: "keeps_hash (create_loop n E rc path b c)"
  by (induction n arbitrary: c) (auto intro!: hash_intros simp: create_attempt_def deleteSnapshotsRepository_def)

lemma hash_mappings [hash_intros]: "keeps_hash (updateLdapRolesmapping E rc)"
  unfolding updateLdapRolesmapping_def getRoleMappingListFromSecret_def updateRoleMappingBackendRoles_def Let_def by (intro hash_intros)

lemma hash_security [hash_intros]:
  "keeps_hash (repair_all_access E rc)" "keeps_hash (updateCredentials E url old)" "keeps_hash (on_read_only E rc e)"
  "keeps_hash (updateAuditConfiguration E rc cats)"
  unfolding repair_all_access_def getRoleMapping_def UpdateRoles_def updateCredentials_def change_user_def createNewUser_def
    removeUser_def changeUserPassword_def on_read_only_def getClusterManagerNode_def updateAuditConfiguration_def
  by (intro hash_intros)+

lemma hash_apply [hash_intros]: "keeps_hash (apply_security_hash E os rc)" "keeps_hash (apply_mappings_hash E rc)"
  unfolding apply_security_hash_def apply_mappings_hash_def updateSecurityConfiguration_def updateSecurityConfig_def Let_def
  by (intro hash_intros; simp add: hash_names)+

lemma hash_opensearch_Configure: "keeps_hash (opensearch_Configure E os)"
  unfolding opensearch_Configure_def processSecurity_def createSnapshotsRepository_def getSnapshotsRepositoryBody_def getS3Credentials_def
    updateCompatibilityMode_def Let_def
  by (intro hash_intros hash_create)

text \<open>Disaster recovery.\<close>

lemma hash_stops: "keeps_hash (stop_each E rm xs)" "keeps_hash (cancel_each E rm xs)" "keeps_hash (find_failed E rc xs)"
  by (induction xs) (auto intro!: hash_intros simp: checker_index_status_def)

lemma hash_deletes: "keeps_hash (DeleteIndicesByPatternWithUnlock E rm pattern)" "keeps_hash (DeleteIndicesByPattern E rm pattern)"
  unfolding DeleteIndicesByPatternWithUnlock_def GetIndicesByPatternExcludeService_def stopIndicesReplication_def DeleteIndicesByPattern_def
  by (intro hash_intros hash_stops)+

lemma hash_delete_each: "keeps_hash (delete_each E rm xs)"
  by (induction xs) (auto intro!: hash_on(1) hash_basic hash_deletes)

lemma hash_classify: "keeps_hash (classify_indices E rm xs m f)"
  by (induction xs arbitrary: m f) (auto intro!: hash_intros simp: getIndexReplicationStatus_def getReplicationIndexStats_def)

lemma hash_update_each: "keeps_hash (update_each E rm m r)"
  by (induction E rm m r rule: update_each.induct) (auto intro!: hash_intros simp: getReplicationIndexStats_def)

lemmas hash_checks = hash_classify hash_update_each

lemma hash_attempts: "keeps_hash (check_attempts n E rm m)"
  by (induction n) (auto intro!: hash_intros hash_checks simp: updateInProgressIndices_def)

lemma hash_manager [hash_intros]: "keeps_hash (getReplicationManager E dr)" "keeps_hash (removePreviousReplication E rm)"
  unfolding getReplicationManager_def removePreviousReplication_def RemoveReplicationRule_def GetAutoFollowRuleStats_def StopReplication_def
    getReplicatedIndices_def StopIndicesReplicationByPattern_def getIndexReplicationStatus_def getReplicationIndexStats_def
    stopIndicesReplication_def DeleteAdminReplicationTasks_def Let_def
  by (intro hash_intros hash_stops)+

lemma hash_process [hash_intros]: "keeps_hash (runReplicationProcess E rm)" "keeps_hash (awaitReplication E rc)"
  unfolding runReplicationProcess_def DeleteIndices_def rm_Configure_def rm_Start_def awaitReplication_def CheckReplication_def check_rule_def
    listUnhealthyIndices_def areFailedReplicationsFound_def
  by (intro hash_intros hash_deletes hash_delete_each hash_stops)+

lemma hash_watcher [hash_intros]: "keeps_hash (watcher_checkReplication E dr b)" "keeps_hash (planned_check E rm)" "keeps_hash (stopReplication E rm)"
  unfolding watcher_checkReplication_def GetAutoFollowRuleStats_def GetIndicesByPatternExcludeService_def watcher_index_failed_def
    getIndexReplicationStatus_def getReplicationIndexStats_def planned_check_def executeReplicationCheck_def getReplicatedIndices_def
    stopReplication_def Let_def
  by (intro hash_intros hash_checks hash_attempts hash_deletes)+

lemma hash_recovery: "keeps_hash (recover_loop n E x y a state)"
  by (induction n arbitrary: state)
    (auto intro!: hash_intros simp: request_recovery_def updateUsersRecoveryStatus_def recovery_state_of_def)

lemma hash_services [hash_intros]: "keeps_hash (enableClientServices E)" "keeps_hash (disableClientServices E)"
  "keeps_hash (updateDisasterRecoveryStatus E dr st m u)"
  unfolding enableClientServices_def disableClientServices_def enableClientService_def disableClientService_def k8s_defs
    updateDisasterRecoveryStatus_def Let_def
  by (intro hash_intros)+

lemma hash_finish [hash_intros]: "keeps_hash (finish_configure dr h e b m u)" "keeps_hash watcher_pause"
  unfolding finish_configure_def watcher_start_def watcher_pause_def by (intro hash_intros; simp add: hash_names)+

lemma hash_switches [hash_intros]: "keeps_hash (switch_to_standby E dr m rm)" "keeps_hash (switch_from_standby n E dr c k rm)"
  unfolding switch_to_standby_def checkConnectionWithOtherSide_def probe_def switch_from_standby_def activate_def recoverUsers_def
    buildAggregatorRestClient_def buildAdapterRestClient_def Let_def
  by (intro hash_intros hash_recovery)+

lemma hash_dr_Configure: "keeps_hash (dr_Configure n E dr)"
  unfolding dr_Configure_def switchover_def report_outcome_def Let_def by (intro hash_intros)

text \<open>The other reconcilers.\<close>

lemma hash_annotate [hash_intros]: "name \<noteq> opensearchSecretHashName \<Longrightarrow> keeps_hash (annotate_on_change E d name h)"
  unfolding annotate_on_change_def by (intro hash_intros)

lemma hash_monitoring: "keeps_hash (monitoring_Reconcile E s)"
  unfolding monitoring_Reconcile_def monitoring_apply_def switch_slow_log_def prepareSlowLogIndicesHelper_def slowlog_start_def slowlog_stop_def
    removeSlowLogSetting_def slowlog_updateSettings_def Let_def
  by (intro hash_intros) (simp_all add: hash_names)

lemma hash_service_Reconcile: "keeps_hash (service_Reconcile E s)"
  by (cases s)
    (auto simp: dashboards_Reconcile_def curator_Reconcile_def dbaas_Reconcile_def elasticsearch_Reconcile_def external_Reconcile_def
      performExternalOpenSearchConfiguration_def Let_def hash_names [symmetric]
      intro!: hash_intros hash_opensearch_Reconcile hash_monitoring, simp_all add: hash_names)

lemma hash_service_Configure: "keeps_hash (service_Configure n E s)"
  by (cases s) (auto simp: ends_def intro!: hash_intros hash_opensearch_Configure hash_dr_Configure)

lemma hash_configure_each: "keeps_hash (configure_each n E ss)"
  by (induction ss) (auto intro!: hash_bind hash_if hash_basic hash_service_Configure)

lemma hash_ready: "keeps_hash (await_ready E)"
  unfolding await_ready_def checkOpenSearchIsReady_def by (intro hash_intros)

lemma hash_prepare: "keeps_hash (prepare_cycle E c)"
  unfolding prepare_cycle_def by (intro hash_intros hash_service_Reconcile hash_ready) simp

section \<open>Readiness\<close>

text \<open>The cluster has answered the operator with 200.\<close>

definition answers_ready :: "'s op_env \<Rightarrow> bool" where
  "answers_ready E \<longleftrightarrow> (\<exists>rc (w :: 's op_world) b w'. run_state (SendRequest E rc ''GET'' [] None) w = ((200, b, None), w'))"

lemma ready_answers: "run_state (checkOpenSearchIsReady E) w = (Inr (), w') \<Longrightarrow> answers_ready E"
  unfolding answers_ready_def checkOpenSearchIsReady_def
  by (auto simp: run_simps split: prod.splits option.splits if_splits)

lemma await_ready_answers:
  assumes "run_state (await_ready E) w = (Inr (), w')"
  shows "answers_ready E"
proof -
  obtain n w1 w2 where "run_state (poll n (\<lambda>_. do {
      r \<leftarrow> checkOpenSearchIsReady E; return (Inr (case r of Inl _ \<Rightarrow> False | Inr _ \<Rightarrow> True)) })) w1 = ((Inr () :: go_error + unit), w2)"
    using assms by (auto simp: await_ready_def split: prod.splits sum.splits)
  then obtain w3 w4 where "run_state (checkOpenSearchIsReady E) w3 = (Inr (), w4)"
    unfolding poll_def by (auto dest!: poll_from_ok split: prod.splits sum.splits)
  then show ?thesis by (rule ready_answers)
qed

lemma prepare_needs_ready:
  assumes "run_state (prepare_cycle E c) w = (Inr hash, w')" and "OpenSearch_spec (cr_Spec c) \<noteq> None"
  shows "answers_ready E"
proof -
  obtain w1 w2 where "run_state (await_ready E) w1 = (Inr (), w2)"
    using assms by (auto simp: prepare_cycle_def run_simps split: prod.splits sum.splits)
  then show ?thesis by (rule await_ready_answers)
qed

lemma prepare_hash:
  assumes "run_state (prepare_cycle E c) w = (Inr hash, w')"
  shows "fst (run_state (calculateSecretDataHash E (secret_name c) opensearchSecretHashName) w) = Inr hash"
  using assms by (auto simp: prepare_cycle_def run_simps split: prod.splits sum.splits)

section \<open>Properties\<close>

text \<open>
  C4. A change of the credentials of OpenSearch is not lost: the operator takes note of the hash of the
  secret only in a cycle in which every reconciler has succeeded. A cycle that ends in an error or a
  panic leaves the hash it knows, whatever the reconcilers did, so that the next cycle sees the change again.
\<close>

theorem secret_change_not_lost:
  assumes "run_state (reconcile_cycle n E c) w = (Some r, w')"
  shows "if r = Ret (Inr ()) then fst (run_state (calculateSecretDataHash E (secret_name c) opensearchSecretHashName) w) = Inr (known_hash w')
    else known_hash w' = known_hash w"
proof -
  obtain p w1 where p: "run_state (prepare_cycle E c) w = (p, w1)" by fastforce
  have k1: "known_hash w1 = known_hash w" by (rule keeps_hashD [OF hash_prepare p])
  show ?thesis
  proof (cases p)
    case (Inl e)
    then have "r = Ret (Inl e)" "w' = w1" using assms p by (auto simp: reconcile_cycle_def)
    then show ?thesis using k1 by simp
  next
    case (Inr hash)
    obtain q w2 where q: "run_state (configure_each n E (buildReconcilers (cr_Spec c))) w1 = (q, w2)" by fastforce
    have k2: "known_hash w2 = known_hash w" using keeps_hashD [OF hash_configure_each q] k1 by simp
    show ?thesis
    proof (cases "q = Some (Ret (Inr ()))")
      case True
      then have "r = Ret (Inr ())" "known_hash w' = hash"
        using assms p q Inr by (auto simp: reconcile_cycle_def keep_hash_def known_hash_def map_get_def gomap.find_put run_simps)
      then show ?thesis using prepare_hash p Inr by simp
    next
      case False
      then have "q = Some r" "w' = w2" using assms p q Inr by (auto simp: reconcile_cycle_def)
      then show ?thesis using False k2 by simp
    qed
  qed
qed

lemma empty_cycle:
  "\<exists>w'. run_state (reconcile_cycle 0 test_op_env test_cr) (op_world_of test_cr []) = (Some (Ret (Inr ())), w')"
  by (simp add: reconcile_cycle_def prepare_cycle_def calculateSecretDataHash_def watchSecret_def findSecret_def updateSecret_def
      take_ownership_def buildReconcilers_def section_of_def keep_hash_def test_op_env_def op_world_of_def test_cr_def test_spec_def
      map_get_def run_simps)

theorem secret_change_not_lost_witness:
  "\<exists>w'. run_state (reconcile_cycle 0 test_op_env test_cr) (op_world_of test_cr []) = (Some (Ret (Inr ())), w') \<and>
    fst (run_state (calculateSecretDataHash test_op_env (secret_name test_cr) opensearchSecretHashName) (op_world_of test_cr [])) = Inr (known_hash w')"
proof -
  obtain w' where "run_state (reconcile_cycle 0 test_op_env test_cr) (op_world_of test_cr []) = (Some (Ret (Inr ())), w')"
    using empty_cycle by blast
  with secret_change_not_lost [OF this] show ?thesis by auto
qed


definition silent_env :: "script op_env" where
  "silent_env = test_op_env\<lparr>http_do := (\<lambda>_ s. (Inl (Err ''connection refused''), s))\<rparr>"

definition section_cr :: opensearch_service where
  "section_cr = test_cr\<lparr>cr_Spec := test_spec\<lparr>OpenSearch_spec := Some \<lparr>DedicatedClientPod = False, DedicatedDataPod = False, Snapshots = None,
     SecurityConfigurationName = ''sec'', CompatibilityModeEnabled = False, RollingUpdate = False, StatefulSetNames = [],
     ReadinessTimeout = ''800s'', DisabledRestCategories = None\<rparr>\<rparr>\<rparr>"


end
