(* ===== verification/Operator_Main.thy ===== *)
theory Operator_Main
  imports Controller Transport
begin

text \<open>
  The operator as a process: \<^verbatim>\<open>main.go\<close>, the set-up of the controller and its rate limiter
  (\<^verbatim>\<open>opensearchservice_controller.go\<close>), and the disaster recovery server that \<^verbatim>\<open>main\<close> starts beside the
  controller (\<^verbatim>\<open>disaster_recovery_server.go\<close>, the constructor in \<^verbatim>\<open>replication_checker.go\<close>).

  The controller runtime is a library: making a manager, completing the controller and adding the probes
  are fields of \<open>boot_env\<close> that give an error or none. What \<^verbatim>\<open>main\<close> does is the trace of \<open>boot_event\<close>s, and
  where it ends is \<open>Exited\<close> or \<open>Running\<close>. The router and the compression of the disaster recovery
  server are parameters.
\<close>

section \<open>The replication checker\<close>

definition NewCredentials :: "string \<Rightarrow> string \<Rightarrow> credentials" where
  "NewCredentials username password = \<lparr>cr_Username = username, cr_Password = password\<rparr>"

text \<open>Unlike the controller's, this URL takes the protocol from the environment and not from the certificate.\<close>

definition checker_createUrl :: "(string \<Rightarrow> string) \<Rightarrow> string \<Rightarrow> string \<Rightarrow> int \<Rightarrow> string" where
  "checker_createUrl getenv protocol host port =
     (if getenv ''OPENSEARCH_HOST'' \<noteq> [] then getenv ''OPENSEARCH_HOST''
      else protocol @ ''://'' @ host @ ''-internal:'' @ show_int port)"

text \<open>The REST client and the HTTP client below it.\<close>

definition NewReplicationCheckerWithClient :: "rest_client \<Rightarrow> rest_client" where
  "NewReplicationCheckerWithClient restClient = restClient"

definition NewReplicationChecker ::
  "(string \<Rightarrow> string) \<Rightarrow> 'c disk \<Rightarrow> string \<Rightarrow> string \<Rightarrow> string \<Rightarrow> string \<Rightarrow> rest_client \<times> 'c http_client" where
  "NewReplicationChecker getenv D opensearchName opensearchProtocol username password =
     (let credentials = (if username \<noteq> [] \<and> password \<noteq> [] then NewCredentials username password else zero_credentials);
          url = checker_createUrl getenv opensearchProtocol opensearchName 9200
      in (NewRestClient url credentials, checker_client D))"

section \<open>The disaster recovery server\<close>

record health_response =
  hr_headers :: "string go_map"
  hr_status :: int
  hr_body :: body

definition health_JsonContentType :: "('w, health_response go) state \<Rightarrow> ('w, health_response go) state" where
  "health_JsonContentType h = onRet h (\<lambda>rs. return (Ret (rs\<lparr>hr_headers := (''Content-Type'', ''application/json'') # hr_headers rs\<rparr>)))"

definition health_routes :: "(string \<times> string) list" where
  "health_routes = [(''GET'', ''/healthz'')]"

text \<open>
  A request is its verb, its path and the values of the parameter \<^verbatim>\<open>mode\<close>. \<open>mux\<close> picks the route or answers
  itself; \<open>compress\<close> is what the compressing handler makes of a response.
\<close>

type_synonym health_mux = "(string \<times> string) list \<Rightarrow> string \<Rightarrow> string \<Rightarrow> reply + (string \<times> string)"

definition plain_response :: "reply \<Rightarrow> health_response" where
  "plain_response r = \<lparr>hr_headers = [], hr_status = fst r, hr_body = snd r\<rparr>"

definition ServerHandlers ::
  "health_mux \<Rightarrow> (health_response \<Rightarrow> health_response) \<Rightarrow> 's op_env \<Rightarrow> rest_client \<Rightarrow>
   string \<Rightarrow> string \<Rightarrow> string list option \<Rightarrow> ('s, health_response go) operator" where
  "ServerHandlers mux compress E checker verb path modes =
     health_JsonContentType
       (case mux health_routes verb path of
          Inl r \<Rightarrow> return (Ret (compress (plain_response r)))
        | Inr _ \<Rightarrow> onRet (GetClusterHealthStatus E checker modes) (\<lambda>r. return (Ret (compress (plain_response r)))))"

record health_server =
  hs_Addr :: string
  hs_checker :: rest_client

definition StartServer :: "rest_client \<Rightarrow> health_server" where
  "StartServer replicationChecker = \<lparr>hs_Addr = '':8069'', hs_checker = replicationChecker\<rparr>"

section \<open>The controller\<close>

definition delete_filter :: "bool \<Rightarrow> bool" where
  "delete_filter deleteStateUnknown \<longleftrightarrow> \<not> deleteStateUnknown"

text \<open>Delays are \<^verbatim>\<open>time.Duration\<close>s: nanoseconds in 64 bits, so a product wraps around.\<close>

record rate_limiter =
  baseDelay :: int
  maxDelay :: int

definition int64 :: "int \<Rightarrow> int" where
  "int64 n = (n + 2 ^ 63) mod 2 ^ 64 - 2 ^ 63"

definition seconds :: "int \<Rightarrow> int" where
  "seconds n = int64 (n * 1000000000)"

definition customRateLimiter :: "'s op_env \<Rightarrow> rate_limiter" where
  "customRateLimiter E =
     \<lparr>baseDelay = seconds 5, maxDelay = seconds (fst (GetIntEnvironmentVariable E ''RECONCILE_PERIOD'' 60))\<rparr>"

record controller_options =
  co_For :: k8s_kind
  co_Owns :: "k8s_kind list"
  co_RateLimiter :: rate_limiter

definition SetupWithManager :: "'s op_env \<Rightarrow> controller_options" where
  "SetupWithManager E =
     \<lparr>co_For = K_OpenSearchService, co_Owns = [K_Secret, K_ConfigMap, K_StatefulSet],
      co_RateLimiter = customRateLimiter E\<rparr>"

section \<open>The process\<close>

record operator_flags =
  metricsAddr :: string
  probeAddr :: string
  enableLeaderElection :: bool

definition default_flags :: operator_flags where
  "default_flags = \<lparr>metricsAddr = '':8082'', probeAddr = '':8081'', enableLeaderElection = False\<rparr>"

record manager_options =
  mo_Namespace :: string
  mo_MetricsBindAddress :: string
  mo_Port :: int
  mo_HealthProbeBindAddress :: string
  mo_LeaderElection :: bool
  mo_LeaderElectionID :: string
  mo_LeaderElectionNamespace :: string

datatype boot_event =
    NewManager manager_options
  | CompleteController controller_options
  | AddHealthzCheck string
  | AddReadyzCheck string
  | GoServer health_server
  | StartManager

text \<open>
  \<open>boot_LookupEnv\<close> is the environment of the process; \<open>boot_config\<close> is whether there is a configuration of the
  cluster, without which \<^verbatim>\<open>GetConfigOrDie\<close> exits.
\<close>

record 's boot_env =
  boot_LookupEnv :: "string \<Rightarrow> string option"
  boot_config :: bool
  boot_NewManager :: "manager_options \<Rightarrow> 's \<Rightarrow> go_error option \<times> 's"
  boot_Complete :: "controller_options \<Rightarrow> 's \<Rightarrow> go_error option \<times> 's"
  boot_AddHealthzCheck :: "string \<Rightarrow> 's \<Rightarrow> go_error option \<times> 's"
  boot_AddReadyzCheck :: "string \<Rightarrow> 's \<Rightarrow> go_error option \<times> 's"

datatype 'c process = Exited int | Running string rest_client "'c http_client"

definition boot_Getenv :: "'s boot_env \<Rightarrow> string \<Rightarrow> string" where
  "boot_Getenv B key = (case boot_LookupEnv B key of None \<Rightarrow> [] | Some v \<Rightarrow> v)"

definition getWatchNamespace :: "'s boot_env \<Rightarrow> go_error + string" where
  "getWatchNamespace B =
     (case boot_LookupEnv B ''WATCH_NAMESPACE'' of
        None \<Rightarrow> Inl (Err ''WATCH_NAMESPACE must be set'')
      | Some ns \<Rightarrow> Inr ns)"

definition options_for :: "operator_flags \<Rightarrow> string \<Rightarrow> manager_options" where
  "options_for f namespace =
     \<lparr>mo_Namespace = namespace, mo_MetricsBindAddress = metricsAddr f, mo_Port = 9443,
      mo_HealthProbeBindAddress = probeAddr f, mo_LeaderElection = enableLeaderElection f,
      mo_LeaderElectionID = ''opensearchservice.'' @ namespace @ ''.qubership.org'',
      mo_LeaderElectionNamespace = namespace\<rparr>"

text \<open>\<^verbatim>\<open>if err := m; err != nil { os.Exit(1) }\<close>\<close>

definition or_exit :: "('w, go_error option) state \<Rightarrow> ('w, 'c process) state \<Rightarrow> ('w, 'c process) state" where
  "or_exit m k = do { err \<leftarrow> m; (case err of Some _ \<Rightarrow> return (Exited 1) | None \<Rightarrow> k) }"

text \<open>\<^verbatim>\<open>main\<close> up to the manager's loop; the memory of the reconciler is \<open>started_memory\<close>.\<close>

definition operator_main ::
  "'s boot_env \<Rightarrow> 's op_env \<Rightarrow> 'c disk \<Rightarrow> operator_flags \<Rightarrow> ('s, boot_event, 'c process) io" where
  "operator_main B E D f =
     (case getWatchNamespace B of
        Inl _ \<Rightarrow> return (Exited 1)
      | Inr namespace \<Rightarrow>
          if \<not> boot_config B then return (Exited 1) else
          or_exit (let o' = options_for f namespace in request (NewManager o') (boot_NewManager B o'))
         (or_exit (let c = SetupWithManager E in request (CompleteController c) (boot_Complete B c))
         (or_exit (request (AddHealthzCheck ''healthz'') (boot_AddHealthzCheck B ''healthz''))
         (or_exit (request (AddReadyzCheck ''readyz'') (boot_AddReadyzCheck B ''readyz''))
         (let opensearchName = boot_Getenv B ''OPENSEARCH_NAME'' in
          if opensearchName = [] then return (Exited 1)
          else (case NewReplicationChecker (boot_Getenv B) D opensearchName (boot_Getenv B ''OPENSEARCH_PROTOCOL'')
                  (boot_Getenv B ''OPENSEARCH_USERNAME'') (boot_Getenv B ''OPENSEARCH_PASSWORD'') of (checker, client) \<Rightarrow> do {
            _ \<leftarrow> request (GoServer (StartServer checker)) (Pair ());
            _ \<leftarrow> request StartManager (Pair ());
            return (Running namespace checker client) }))))))"

definition NewSlowLogIndicesWatcher :: string where
  "NewSlowLogIndicesWatcher = stoppedWatcherState"

definition started_memory :: "'s \<Rightarrow> opensearch_service \<Rightarrow> 's op_world" where
  "started_memory s c =
     \<lparr>srv = s, trace = [], ResourceHashes = [], watcher_state = NewReplicationWatcher,
      slowlog_state = NewSlowLogIndicesWatcher, opensearchSecretHash = [], the_cr = c\<rparr>"

text \<open>
  How the running process ends: the goroutine of the server exits when \<^verbatim>\<open>ListenAndServe\<close> returns, which it only
  does with an error, and \<^verbatim>\<open>main\<close> exits when the manager fails and returns when it is stopped.
\<close>

datatype process_event = ServerReturns go_error | ManagerFails go_error | ManagerStops

inductive process_step :: "'c process \<Rightarrow> process_event \<Rightarrow> 'c process \<Rightarrow> bool" where
  server: "process_step (Running ns rc cl) (ServerReturns e) (Exited 1)"
| manager: "process_step (Running ns rc cl) (ManagerFails e) (Exited 1)"
| stopped: "process_step (Running ns rc cl) ManagerStops (Exited 0)"

inductive_simps process_step_Running: "process_step (Running ns rc cl) ev q"
inductive_simps process_step_Exited: "process_step (Exited n) ev q"

section \<open>Facts\<close>

lemma NewReplicationChecker_auth:
  "rc_credentials (fst (NewReplicationChecker getenv D n p u pw)) =
     (if u \<noteq> [] \<and> pw \<noteq> [] then \<lparr>cr_Username = u, cr_Password = pw\<rparr> else \<lparr>cr_Username = [], cr_Password = []\<rparr>)"
  by (simp add: NewReplicationChecker_def NewRestClient_def NewCredentials_def zero_credentials_def Let_def)

text \<open>The two clients the reconciler configures agree on when there is an error.\<close>

lemma certificate_error:
  assumes "\<And>p. file_exists E p \<longleftrightarrow> os_Stat D p \<noteq> NotExist"
    and "\<And>p. unreadable E p = (case os_ReadFile D p of Inl e \<Rightarrow> Some e | Inr _ \<Rightarrow> None)"
  shows "snd (client_with_certificate standard D p) = configureClientWithCertificate E p"
  using assms by (auto simp: client_with_certificate_def configureClientWithCertificate_def Let_def split: sum.splits prod.splits)

lemma seconds_exact: "\<bar>n\<bar> \<le> 9223372036 \<Longrightarrow> seconds n = n * 1000000000"
  by (simp add: seconds_def int64_def)

lemma or_exit_run:
  "run_state (or_exit m k) w =
     (case run_state m w of (None, w') \<Rightarrow> run_state k w' | (Some _, w') \<Rightarrow> (Exited 1, w'))"
  by (auto simp: or_exit_def run_state_bind split: prod.splits option.splits)

lemma request_run: "run_state (request e g) w = (fst (g (srv w)), w\<lparr>srv := snd (g (srv w)), trace := trace w @ [e]\<rparr>)"
  by (simp add: request_def split: prod.splits)

text \<open>Whether an event of the start lets the operator do its work.\<close>

definition serves :: "boot_event \<Rightarrow> bool" where
  "serves ev \<longleftrightarrow> (case ev of GoServer _ \<Rightarrow> True | StartManager \<Rightarrow> True | _ \<Rightarrow> False)"

definition boot_trace :: "'s op_env \<Rightarrow> operator_flags \<Rightarrow> string \<Rightarrow> rest_client \<Rightarrow> boot_event list" where
  "boot_trace E f namespace checker =
     [NewManager (options_for f namespace), CompleteController (SetupWithManager E), AddHealthzCheck ''healthz'',
      AddReadyzCheck ''readyz'', GoServer (StartServer checker), StartManager]"

lemma boot_traces:
  "\<not> list_ex serves (take 4 (boot_trace E f ns rc))"
  by (simp add: boot_trace_def serves_def)


lemma map_get_Nil: "map_get z [] k = z"
  by (simp add: map_get_def)

lemmas secret_hash_run = apply_security_hash_def calculateSecretDataHash_def watchSecret_def findSecret_def updateSecret_def
  started_memory_def recall_def remember_def onOk_def run_state_bind request_run Let_def map_get_Nil

text \<open>
  A restart forgets which security configuration was applied. The first cycle of a new process
  takes whatever configuration the secret then holds for the applied one: it talks to the API server
  only, never to OpenSearch, and records the hash of the secret as it is stored. So a configuration
  that is changed while no operator runs is not applied.
\<close>

theorem restart_skips_configuration:
  assumes "run_state (apply_security_hash E os rc) (started_memory s c) = (r, w')"
  shows "(\<forall>ev \<in> set (trace w'). \<exists>name. ev = GetObject K_Secret name \<or> (\<exists>x. ev = UpdateSecret x)) \<and>
    (r = Inr () \<longrightarrow> (\<exists>x s' stored. trace w' = [GetObject K_Secret (SecurityConfigurationName os), UpdateSecret x] \<and>
       fst (put_secret E x s') = Inr stored \<and>
       map_get [] (ResourceHashes w') opensearchConfigHashName = Hash E (enc_bytes_map (secret_Data stored))))"
  using assms
  by (auto simp: secret_hash_run split: prod.splits sum.splits if_splits; blast)

definition restart_spec :: opensearch_spec where
  "restart_spec = \<lparr>DedicatedClientPod = False, DedicatedDataPod = False, Snapshots = None,
     SecurityConfigurationName = ''security'', CompatibilityModeEnabled = False, RollingUpdate = False,
     StatefulSetNames = [], ReadinessTimeout = [], DisabledRestCategories = None\<rparr>"

theorem restart_skips_configuration_witness:
  "\<exists>w' x. run_state (apply_security_hash test_op_env restart_spec (NewRestClient ''http://opensearch'' zero_credentials))
       (started_memory ([], 0) test_cr) = (Inr (), w') \<and>
     trace w' = [GetObject K_Secret ''security'', UpdateSecret x]"
proof -
  let ?m = "apply_security_hash test_op_env restart_spec (NewRestClient ''http://opensearch'' zero_credentials)"
  obtain r w' where run: "run_state ?m (started_memory ([], 0) test_cr) = (r, w')"
    by (cases "run_state ?m (started_memory ([], 0) test_cr)")
  have "fst (run_state ?m (started_memory ([], 0) test_cr)) = Inr ()"
    by (simp add: secret_hash_run take_ownership_def test_op_env_def restart_spec_def)
  then have r: "r = Inr ()" using run by simp
  then show ?thesis
    using run restart_skips_configuration [OF run] by (auto simp: restart_spec_def)
qed

text \<open>Everything succeeds and the variables are set: the operator of the chart.\<close>

definition test_boot :: "script boot_env" where
  "test_boot = \<lparr>boot_LookupEnv = map_of [(''WATCH_NAMESPACE'', ''ns''), (''OPENSEARCH_NAME'', ''opensearch''),
       (''OPENSEARCH_PROTOCOL'', ''http'')], boot_config = True,
     boot_NewManager = (\<lambda>_. Pair None), boot_Complete = (\<lambda>_. Pair None),
     boot_AddHealthzCheck = (\<lambda>_. Pair None), boot_AddReadyzCheck = (\<lambda>_. Pair None)\<rparr>"

definition empty_disk :: "unit disk" where
  "empty_disk = \<lparr>os_Stat = (\<lambda>_. NotExist), os_ReadFile = (\<lambda>_. Inl (Err ''no such file'')),
     os_ReadDir = (\<lambda>_. Inl (Err ''no such directory'')), pem_certs = (\<lambda>_. [])\<rparr>"


text \<open>What the router promises: a route it picks is registered, for the verb of the request.\<close>

definition health_mux_ok :: "health_mux \<Rightarrow> bool" where
  "health_mux_ok mux \<longleftrightarrow> (\<forall>rs verb path r. mux rs verb path = Inr r \<longrightarrow> r \<in> set rs \<and> fst r = verb)"

definition only_gets :: "op_event \<Rightarrow> bool" where
  "only_gets ev \<longleftrightarrow> (case ev of Rest rq \<Rightarrow> rq_method rq = ''GET'' | _ \<Rightarrow> False)"

lemma only_gets_request [simp]: "only_gets (Rest (rest_request rc ''GET'' path b h))"
  by (simp add: only_gets_def rest_request_def)

lemma sends_find_failed: "sends only_gets (find_failed E rc xs)"
  by (induction xs) (auto intro!: sends_intros simp: checker_index_status_def)

lemma sends_CheckReplication: "sends only_gets (CheckReplication E rc)"
  unfolding CheckReplication_def check_rule_def listUnhealthyIndices_def areFailedReplicationsFound_def
  by (intro sends_intros sends_find_failed) simp_all

lemma GetClusterHealthStatus_quiet:
  "\<not> (\<exists>ms. modes = Some (''standby'' # ms)) \<Longrightarrow> run_state (GetClusterHealthStatus E rc modes) w = (r, w') \<Longrightarrow> w' = w"
  by (auto simp: GetClusterHealthStatus_def split: option.splits list.splits if_splits)

lemma sends_health: "sends only_gets (GetClusterHealthStatus E rc modes)"
  unfolding GetClusterHealthStatus_def by (intro sends_intros sends_CheckReplication)

text \<open>
  Asking the disaster recovery server about health has no effect beyond reading. Every answer is marked as
  JSON, and OpenSearch is asked only for \<^verbatim>\<open>GET\<close> with the mode \<^verbatim>\<open>standby\<close>, and then with \<^verbatim>\<open>GET\<close> alone.
\<close>

theorem health_server_only_reads:
  assumes "health_mux_ok mux"
    and "run_state (ServerHandlers mux compress E checker verb path modes) w = (Ret rs, w')"
  shows "map_of (hr_headers rs) ''Content-Type'' = Some ''application/json'' \<and>
    (\<exists>es. trace w' = trace w @ es \<and> list_all only_gets es \<and>
      (es \<noteq> [] \<longrightarrow> verb = ''GET'' \<and> (\<exists>ms. modes = Some (''standby'' # ms))))"
proof (cases "mux health_routes verb path")
  case (Inl r)
  then show ?thesis
    using assms(2) by (auto simp: ServerHandlers_def health_JsonContentType_def onRet_def run_state_bind)
next
  case (Inr route)
  then have verb: "verb = ''GET''"
    using assms(1) unfolding health_mux_ok_def health_routes_def by fastforce
  obtain r w1 where run: "run_state (GetClusterHealthStatus E checker modes) w = (r, w1)"
    by (cases "run_state (GetClusterHealthStatus E checker modes) w")
  then obtain reply where "r = Ret reply" "w' = w1" "map_of (hr_headers rs) ''Content-Type'' = Some ''application/json''"
    using assms(2) Inr by (auto simp: ServerHandlers_def health_JsonContentType_def onRet_def run_state_bind split: go.splits)
  moreover obtain es where "trace w1 = trace w @ es" "\<forall>ev \<in> set es. only_gets ev"
    by (rule sendsD [OF sends_health run])
  moreover have "es \<noteq> [] \<Longrightarrow> \<exists>ms. modes = Some (''standby'' # ms)"
    using GetClusterHealthStatus_quiet [OF _ run] calculation(4) by fastforce
  ultimately show ?thesis using verb by (auto simp: list_all_iff)
qed

definition exact_health_mux :: health_mux where
  "exact_health_mux rs verb path =
     (if (verb, path) \<in> set rs then Inr (verb, path) else Inl (404, Text ''404 page not found''))"

lemma exact_health_mux_ok: "health_mux_ok exact_health_mux"
  by (auto simp: health_mux_ok_def exact_health_mux_def split: if_splits)

theorem health_server_only_reads_witness:
  "\<exists>rs w'. run_state (ServerHandlers exact_health_mux id test_op_env (NewRestClient ''http://opensearch'' zero_credentials)
       ''GET'' ''/healthz'' (Some [''active''])) (started_memory ([], 0) test_cr) = (Ret rs, w') \<and>
     hr_status rs = 200 \<and> map_of (hr_headers rs) ''Content-Type'' = Some ''application/json'' \<and> trace w' = []"
proof -
  let ?m = "ServerHandlers exact_health_mux id test_op_env (NewRestClient ''http://opensearch'' zero_credentials)
       ''GET'' ''/healthz'' (Some [''active''])"
  let ?run = "run_state ?m (started_memory ([], 0) test_cr)"
  obtain rs w' where run: "?run = (Ret rs, w')" and status: "hr_status rs = 200"
    by (simp add: ServerHandlers_def health_JsonContentType_def onRet_def run_state_bind exact_health_mux_def health_routes_def
        GetClusterHealthStatus_def plain_response_def)
  have mode: "\<not> (\<exists>ms. Some [''active''] = Some (''standby'' # ms))" by simp
  show ?thesis
    using run status health_server_only_reads [OF exact_health_mux_ok run] mode
    by (auto simp: started_memory_def)
qed

end
