(* ===== verification/Exceptions.thy ===== *)
theory Exceptions
  imports Json
begin

text \<open>
  Exceptions as values, for the parts that are not written in Go: the security filter of OpenSearch (Java) and the
  scripts of the curator and of the monitoring (Python). A call that may raise returns \<open>'x + 'a\<close>, with \<open>'x\<close> the
  exceptions of its language; the combinators run what follows only when nothing was raised. The end
  holds what both use of JSON documents.
\<close>

section \<open>Raising\<close>

definition andThen :: "'x + 'a \<Rightarrow> ('a \<Rightarrow> 'x + 'b) \<Rightarrow> 'x + 'b" where
  "andThen r k = (case r of Inl e \<Rightarrow> Inl e | Inr a \<Rightarrow> k a)"

text \<open>The same for calls with effects.\<close>

definition onSuccess :: "('w, 'x + 'a) state \<Rightarrow> ('a \<Rightarrow> ('w, 'x + 'b) state) \<Rightarrow> ('w, 'x + 'b) state" where
  "onSuccess m k = do { r \<leftarrow> m; (case r of Inl e \<Rightarrow> return (Inl e) | Inr a \<Rightarrow> k a) }"

definition raised :: "'x \<Rightarrow> ('w, 'x + 'a) state" where
  "raised e = return (Inl e)"

definition success :: "'a \<Rightarrow> ('w, 'x + 'a) state" where
  "success a = return (Inr a)"

text \<open>Loops that end at the first exception.\<close>

fun each_ok :: "('a \<Rightarrow> 'x + 'b) \<Rightarrow> 'a list \<Rightarrow> 'x + 'b list" where
  "each_ok f [] = Inr []"
| "each_ok f (x # xs) = andThen (f x) (\<lambda>y. andThen (each_ok f xs) (\<lambda>ys. Inr (y # ys)))"

fun for_success :: "('a \<Rightarrow> ('w, 'x + 'b) state) \<Rightarrow> 'a list \<Rightarrow> ('w, 'x + 'b list) state" where
  "for_success f [] = success []"
| "for_success f (x # xs) = onSuccess (f x) (\<lambda>y. onSuccess (for_success f xs) (\<lambda>ys. success (y # ys)))"

section \<open>Reasoning\<close>

lemma andThen_simps [simp]: "andThen (Inl e) k = Inl e" "andThen (Inr a) k = k a"
  by (simp_all add: andThen_def)

lemma andThen_ok: "andThen r k = Inr b \<longleftrightarrow> (\<exists>a. r = Inr a \<and> k a = Inr b)"
  by (cases r) auto

lemma run_onSuccess [run_simps]:
  "run_state (onSuccess m k) w =
     (case run_state m w of (Inl e, w') \<Rightarrow> (Inl e, w') | (Inr a, w') \<Rightarrow> run_state (k a) w')"
  by (auto simp: onSuccess_def split: prod.splits sum.splits)

lemma run_success [run_simps]: "run_state (success a) w = (Inr a, w)"
  by (simp add: success_def)

lemma run_raised [run_simps]: "run_state (raised e) w = (Inl e, w)"
  by (simp add: raised_def)

lemma sends_onSuccess [sends_intros]:
  "sends R m \<Longrightarrow> (\<And>a. sends R (k a)) \<Longrightarrow> sends R (onSuccess m k)"
  unfolding onSuccess_def by (intro sends_bind) (auto intro: sends_return split: sum.splits)

lemma sends_onSuccess_return: "(\<And>a. r = Inr a \<Longrightarrow> sends R (k a)) \<Longrightarrow> sends R (onSuccess (return r) k)"
  unfolding onSuccess_def by (cases r) (auto intro: sends_return)

text \<open>The continuation may use that its argument is a result of the first part.\<close>

lemma sends_onSuccess_result:
  assumes "sends R m" and "\<And>w a w'. run_state m w = (Inr a, w') \<Longrightarrow> sends R (k a)"
  shows "sends R (onSuccess m k)"
proof (rule sendsI)
  fix w
  obtain r w' where r: "run_state m w = (r, w')" by (cases "run_state m w")
  have "sends R (case r of Inl e \<Rightarrow> return (Inl e) | Inr a \<Rightarrow> k a)"
    using assms(2) r by (auto intro: sends_return split: sum.splits)
  then show "\<exists>es. trace (snd (run_state (onSuccess m k) w)) = trace w @ es \<and> (\<forall>e \<in> set es. R e)"
    unfolding onSuccess_def by (rule sends_two [OF _ assms(1) r])
qed

lemma sends_success [sends_intros]: "sends R (success a)"
  unfolding success_def by (rule sends_return)

lemma sends_raised [sends_intros]: "sends R (raised e)"
  unfolding raised_def by (rule sends_return)

lemma sends_for_success [sends_intros]:
  "(\<And>x. x \<in> set xs \<Longrightarrow> sends R (f x)) \<Longrightarrow> sends R (for_success f xs)"
  by (induction xs) (auto intro!: sends_intros)

lemma each_ok_all: "(\<And>x. x \<in> set xs \<Longrightarrow> f x = Inr (g x)) \<Longrightarrow> each_ok f xs = Inr (map g xs)"
  by (induction xs) auto

section \<open>Members of documents\<close>

text \<open>A member of an object; there is none in anything else. The documents have no repeated names.\<close>

fun get_member :: "string \<Rightarrow> json \<Rightarrow> json option" where
  "get_member k (JObj kvs) = map_of kvs k"
| "get_member k _ = None"

end
