(* ===== verification/Ism_Filter.thy ===== *)
theory Ism_Filter
  imports Exceptions
begin

text \<open>
  The security filter of the OpenSearch image (\<^verbatim>\<open>docker-opensearch/opensearch-filter-plugin\<close>: \<^verbatim>\<open>IsmSecurityFilter.java\<close>,
  \<^verbatim>\<open>User.java\<close>, \<^verbatim>\<open>Constants.java\<close>). It stands before every action of the cluster and looks at those of index
  state management (ISM): a user with the backend role of the adapter for ISM may name only indices and
  policies below the resource prefix of the user.

  The streams of OpenSearch are a parameter: bytes are a list, writing gives the bytes to append, reading
  takes them from the front or throws. What the filter relies on is \<open>streams_ok\<close>: what was written is read
  back. The requests belong to the ISM plugin; how they are written is in the tests of the filter
  (\<open>wire\<close>). A hash set is a list without repetitions, in the order it is iterated over.
\<close>

section \<open>Constants\<close>

definition RESOURCE_PREFIX_ATTRIBUTE_NAME :: string where
  "RESOURCE_PREFIX_ATTRIBUTE_NAME = ''attr.internal.resource_prefix''"

definition ISM_ACTION_PATTERN :: string where
  "ISM_ACTION_PATTERN = ''cluster:admin/opendistro/ism''"

definition ISM_ROLE_NAME :: string where
  "ISM_ROLE_NAME = ''dbaas_ism''"

definition ADD_POLICY_ACTION_NAME :: string where
  "ADD_POLICY_ACTION_NAME = ''cluster:admin/opendistro/ism/managedindex/add''"

definition CHANGE_POLICY_ACTION_NAME :: string where
  "CHANGE_POLICY_ACTION_NAME = ''cluster:admin/opendistro/ism/managedindex/change''"

definition DELETE_POLICY_ACTION_NAME :: string where
  "DELETE_POLICY_ACTION_NAME = ''cluster:admin/opendistro/ism/policy/delete''"

definition EXPLAIN_ACTION_NAME :: string where
  "EXPLAIN_ACTION_NAME = ''cluster:admin/opendistro/ism/managedindex/explain''"

definition GET_POLICY_ACTION_NAME :: string where
  "GET_POLICY_ACTION_NAME = ''cluster:admin/opendistro/ism/policy/get''"

definition INDEX_POLICY_ACTION_NAME :: string where
  "INDEX_POLICY_ACTION_NAME = ''cluster:admin/opendistro/ism/policy/write''"

definition REMOVE_POLICY_ACTION_NAME :: string where
  "REMOVE_POLICY_ACTION_NAME = ''cluster:admin/opendistro/ism/managedindex/remove''"

definition RETRY_FAILED_MANAGED_INDEX_ACTION_NAME :: string where
  "RETRY_FAILED_MANAGED_INDEX_ACTION_NAME = ''cluster:admin/opendistro/ism/managedindex/retry''"

lemmas action_names = ADD_POLICY_ACTION_NAME_def CHANGE_POLICY_ACTION_NAME_def DELETE_POLICY_ACTION_NAME_def
  EXPLAIN_ACTION_NAME_def GET_POLICY_ACTION_NAME_def INDEX_POLICY_ACTION_NAME_def REMOVE_POLICY_ACTION_NAME_def
  RETRY_FAILED_MANAGED_INDEX_ACTION_NAME_def

section \<open>Exceptions and streams\<close>

datatype java_error =
    IOException string
  | RuntimeException java_error
  | NullPointerException
  | InterruptedException
  | ExecutionException string
  | OtherException string

record 'c streams =
  readString :: "'c list \<Rightarrow> java_error + string \<times> 'c list"
  readStringList :: "'c list \<Rightarrow> java_error + string list \<times> 'c list"
  readStringMap :: "'c list \<Rightarrow> java_error + string go_map \<times> 'c list"
  readBoolean :: "'c list \<Rightarrow> java_error + bool \<times> 'c list"
  readInt :: "'c list \<Rightarrow> java_error + int \<times> 'c list"
  readTimeValue :: "'c list \<Rightarrow> java_error + nat \<times> 'c list"
  readOptionalString :: "'c list \<Rightarrow> java_error + string option \<times> 'c list"
  writeString :: "string \<Rightarrow> 'c list"
  writeStringCollection :: "string list \<Rightarrow> 'c list"
  writeStringMap :: "string go_map \<Rightarrow> 'c list"
  writeBoolean :: "bool \<Rightarrow> 'c list"
  writeInt :: "int \<Rightarrow> 'c list"
  writeTimeValue :: "nat \<Rightarrow> 'c list"
  writeOptionalString :: "string option \<Rightarrow> 'c list"

definition streams_ok :: "'c streams \<Rightarrow> bool" where
  "streams_ok S \<longleftrightarrow>
     (\<forall>s rest. readString S (writeString S s @ rest) = Inr (s, rest)) \<and>
     (\<forall>xs rest. readStringList S (writeStringCollection S xs @ rest) = Inr (xs, rest)) \<and>
     (\<forall>m rest. readStringMap S (writeStringMap S m @ rest) = Inr (m, rest)) \<and>
     (\<forall>b rest. readBoolean S (writeBoolean S b @ rest) = Inr (b, rest)) \<and>
     (\<forall>n rest. readInt S (writeInt S n @ rest) = Inr (n, rest)) \<and>
     (\<forall>t rest. readTimeValue S (writeTimeValue S t @ rest) = Inr (t, rest)) \<and>
     (\<forall>x rest. readOptionalString S (writeOptionalString S x @ rest) = Inr (x, rest))"

text \<open>Reading one value and going on with the rest.\<close>

definition reading_then :: "java_error + 'a \<times> 'c list \<Rightarrow> ('a \<Rightarrow> 'c list \<Rightarrow> java_error + 'b) \<Rightarrow> java_error + 'b" where
  "reading_then r k = andThen r (\<lambda>(a, rest). k a rest)"

lemma reading_then_ok [simp]: "reading_then (Inr (a, rest)) k = k a rest"
  by (simp add: reading_then_def)

section \<open>Users\<close>

record security_user =
  su_name :: string
  su_backendRoles :: "string list"
  su_roles :: "string list"
  su_attributes :: "string go_map"
  su_requestedTenant :: "string option"

text \<open>The constructor from a stream.\<close>

definition User :: "'c streams \<Rightarrow> 'c list \<Rightarrow> java_error + security_user" where
  "User S inp =
     reading_then (readString S inp) (\<lambda>name inp.
     reading_then (readStringList S inp) (\<lambda>backendRoles inp.
     reading_then (readString S inp) (\<lambda>tenant inp.
     reading_then (readStringMap S inp) (\<lambda>attributes inp.
     reading_then (readStringList S inp) (\<lambda>roles _.
       Inr \<lparr>su_name = name, su_backendRoles = remdups backendRoles, su_roles = remdups roles,
            su_attributes = attributes, su_requestedTenant = (if tenant = [] then None else Some tenant)\<rparr>)))))"

definition User_writeTo :: "'c streams \<Rightarrow> security_user \<Rightarrow> 'c list" where
  "User_writeTo S u =
     writeString S (su_name u) @ writeStringCollection S (su_backendRoles u) @
     writeString S (case su_requestedTenant u of None \<Rightarrow> [] | Some t \<Rightarrow> t) @
     writeStringMap S (su_attributes u) @ writeStringCollection S (su_roles u)"

definition User_toString :: "security_user \<Rightarrow> string" where
  "User_toString u =
     ''User [name='' @ su_name u @ '', backend_roles=['' @ join '', '' (su_backendRoles u) @ ''], requestedTenant='' @
     (case su_requestedTenant u of None \<Rightarrow> ''null'' | Some t \<Rightarrow> t) @ '']''"

section \<open>What is allowed\<close>

definition allowAccess :: "string list option \<Rightarrow> string option \<Rightarrow> string \<Rightarrow> bool" where
  "allowAccess indices policyId resourcePrefix \<longleftrightarrow>
     (case indices of None \<Rightarrow> True | Some xs \<Rightarrow> list_all (\<lambda>index. HasPrefix index resourcePrefix) xs) \<and>
     (case policyId of None \<Rightarrow> True | Some p \<Rightarrow> HasPrefix p resourcePrefix)"

definition allowAddPolicyAction :: "'c streams \<Rightarrow> 'c list \<Rightarrow> string \<Rightarrow> java_error + bool" where
  "allowAddPolicyAction S inp resourcePrefix =
     reading_then (readStringList S inp) (\<lambda>indices inp.
     reading_then (readString S inp) (\<lambda>policyId _.
     Inr (allowAccess (Some indices) (Some policyId) resourcePrefix)))"

definition allowChangePolicyAction :: "'c streams \<Rightarrow> 'c list \<Rightarrow> string \<Rightarrow> java_error + bool" where
  "allowChangePolicyAction S inp resourcePrefix =
     reading_then (readStringList S inp) (\<lambda>indices inp.
     reading_then (readString S inp) (\<lambda>policyId _.
     Inr (allowAccess (Some indices) (Some policyId) resourcePrefix)))"

definition allowDeletePolicyAction :: "'c streams \<Rightarrow> 'c list \<Rightarrow> string \<Rightarrow> java_error + bool" where
  "allowDeletePolicyAction S inp resourcePrefix =
     reading_then (readString S inp) (\<lambda>policyId _. Inr (allowAccess None (Some policyId) resourcePrefix))"

definition allowExplainAction :: "'c streams \<Rightarrow> 'c list \<Rightarrow> string \<Rightarrow> java_error + bool" where
  "allowExplainAction S inp resourcePrefix =
     reading_then (readStringList S inp) (\<lambda>indices inp.
     reading_then (readBoolean S inp) (\<lambda>_ inp.
     reading_then (readTimeValue S inp) (\<lambda>_ inp.
     reading_then (readInt S inp) (\<lambda>_ inp.
     reading_then (readInt S inp) (\<lambda>_ inp.
     reading_then (readString S inp) (\<lambda>_ inp.
     reading_then (readString S inp) (\<lambda>_ inp.
     reading_then (readString S inp) (\<lambda>_ inp.
     reading_then (readBoolean S inp) (\<lambda>filtered inp.
     andThen (if filtered then reading_then (readOptionalString S inp) (\<lambda>p _. Inr p) else Inr None) (\<lambda>policyId.
     Inr (allowAccess (Some indices) policyId resourcePrefix)))))))))))"

definition allowGetPolicyAction :: "'c streams \<Rightarrow> 'c list \<Rightarrow> string \<Rightarrow> java_error + bool" where
  "allowGetPolicyAction S inp resourcePrefix =
     reading_then (readString S inp) (\<lambda>policyId _. Inr (allowAccess None (Some policyId) resourcePrefix))"

definition allowRemovePolicyAction :: "'c streams \<Rightarrow> 'c list \<Rightarrow> string \<Rightarrow> java_error + bool" where
  "allowRemovePolicyAction S inp resourcePrefix =
     reading_then (readStringList S inp) (\<lambda>indices _. Inr (allowAccess (Some indices) None resourcePrefix))"

definition allowRetryFailedManagedIndexAction :: "'c streams \<Rightarrow> 'c list \<Rightarrow> string \<Rightarrow> java_error + bool" where
  "allowRetryFailedManagedIndexAction S inp resourcePrefix =
     reading_then (readStringList S inp) (\<lambda>indices _. Inr (allowAccess (Some indices) None resourcePrefix))"

text \<open>
  A policy is looked at as a document. \<open>request_policy\<close> is what the library gives for the policy of a request,
  or the exception of the reflective call or of the conversion. The text of a node and its elements
  are those of \<^verbatim>\<open>JsonNode\<close>: an object is iterated over by its values, a scalar has no elements.
\<close>

record ('r, 'c) filter_env =
  fe_streams :: "'c streams"
  writeTo :: "'r \<Rightarrow> java_error + 'c list"
  request_policy :: "'r \<Rightarrow> java_error + json"

fun asText :: "json \<Rightarrow> string" where
  "asText (JStr s) = s"
| "asText (JNum n) = show_int n"
| "asText (JBool b) = (if b then ''true'' else ''false'')"
| "asText JNull = ''null''"
| "asText (JArr _) = []"
| "asText (JObj _) = []"

fun node_elements :: "json \<Rightarrow> json list" where
  "node_elements (JArr js) = js"
| "node_elements (JObj kvs) = map snd kvs"
| "node_elements _ = []"

definition getPolicyContent :: "('r, 'c) filter_env \<Rightarrow> 'r \<Rightarrow> java_error + json option" where
  "getPolicyContent F rq = andThen (request_policy F rq) (\<lambda>doc. Inr (get_member ''policy'' doc))"

definition template_allowed :: "string \<Rightarrow> json \<Rightarrow> bool" where
  "template_allowed resourcePrefix template \<longleftrightarrow>
     (case get_member ''index_patterns'' template of
        None \<Rightarrow> True
      | Some indexPatterns \<Rightarrow> list_all (\<lambda>index. HasPrefix (asText index) resourcePrefix) (node_elements indexPatterns))"

definition allowIndexPolicyAction :: "('r, 'c) filter_env \<Rightarrow> 'r \<Rightarrow> string \<Rightarrow> java_error + bool" where
  "allowIndexPolicyAction F rq resourcePrefix =
     andThen (getPolicyContent F rq) (\<lambda>policyContent.
     (case policyContent of
        None \<Rightarrow> Inl NullPointerException
      | Some content \<Rightarrow>
         (case get_member ''policy_id'' content of
            None \<Rightarrow> Inl NullPointerException
          | Some policy_id \<Rightarrow>
              (let policyId = asText policy_id in
               (case get_member ''ism_template'' content of
                  None \<Rightarrow> Inr (HasPrefix policyId resourcePrefix)
                | Some ismTemplate \<Rightarrow>
                    Inr (list_all (template_allowed resourcePrefix) (node_elements ismTemplate) \<and>
                         HasPrefix policyId resourcePrefix))))))"

definition allowAction :: "('r, 'c) filter_env \<Rightarrow> string \<Rightarrow> 'r \<Rightarrow> string \<Rightarrow> java_error + bool" where
  "allowAction F action rq resourcePrefix =
     andThen (writeTo F rq) (\<lambda>inp.
       let S = fe_streams F in
       if action = ADD_POLICY_ACTION_NAME then allowAddPolicyAction S inp resourcePrefix
       else if action = CHANGE_POLICY_ACTION_NAME then allowChangePolicyAction S inp resourcePrefix
       else if action = DELETE_POLICY_ACTION_NAME then allowDeletePolicyAction S inp resourcePrefix
       else if action = EXPLAIN_ACTION_NAME then allowExplainAction S inp resourcePrefix
       else if action = GET_POLICY_ACTION_NAME then allowGetPolicyAction S inp resourcePrefix
       else if action = INDEX_POLICY_ACTION_NAME then allowIndexPolicyAction F rq resourcePrefix
       else if action = REMOVE_POLICY_ACTION_NAME then allowRemovePolicyAction S inp resourcePrefix
       else if action = RETRY_FAILED_MANAGED_INDEX_ACTION_NAME then allowRetryFailedManagedIndexAction S inp resourcePrefix
       else Inr False)"

section \<open>The filter\<close>

datatype query = IdsQuery string | TermQuery string string | RegexpQuery string string

text \<open>The listener given to the next filter: the one received, or one that also starts an update after a response.\<close>

datatype listener = Original | Updating "query list" string

definition index_regexp :: "string list \<Rightarrow> string" where
  "index_regexp indices = ReplaceAll (join ''|'' indices) (CHR ''*'') ''.*''"

definition overrideActionListener :: "('r, 'c) filter_env \<Rightarrow> string \<Rightarrow> 'r \<Rightarrow> java_error + listener" where
  "overrideActionListener F action rq =
     (let S = fe_streams F in
      if action = INDEX_POLICY_ACTION_NAME then
        andThen (writeTo F rq) (\<lambda>inp.
        reading_then (readString S inp) (\<lambda>policyId _.
        Inr (Updating [IdsQuery policyId] ''ctx._source.policy.user = params.user'')))
      else if action = ADD_POLICY_ACTION_NAME then
        andThen (writeTo F rq) (\<lambda>inp.
        reading_then (readStringList S inp) (\<lambda>indices inp.
        reading_then (readString S inp) (\<lambda>policyId _.
        Inr (Updating [TermQuery ''managed_index.policy_id'' policyId, RegexpQuery ''managed_index.index'' (index_regexp indices)]
          ''ctx._source.managed_index.policy.user = params.user''))))
      else if action = CHANGE_POLICY_ACTION_NAME then
        andThen (writeTo F rq) (\<lambda>inp.
        reading_then (readStringList S inp) (\<lambda>indices inp.
        reading_then (readString S inp) (\<lambda>policyId _.
        Inr (Updating [TermQuery ''managed_index.change_policy.policy_id'' policyId, RegexpQuery ''managed_index.index'' (index_regexp indices)]
          (''ctx._source.managed_index.change_policy.user = params.user; '' @
           ''ctx._source.managed_index.policy.user = params.user'')))))
      else Inr Original)"

datatype verdict = Proceed listener | Forbidden string

definition security_error :: "string \<Rightarrow> security_user \<Rightarrow> string" where
  "security_error action u = ''no permissions for ['' @ action @ ''] and '' @ User_toString u"

text \<open>\<^verbatim>\<open>catch (IOException e) \<Rightarrow> throw new RuntimeException(e)\<close>\<close>

fun rethrow :: "java_error + 'a \<Rightarrow> java_error + 'a" where
  "rethrow (Inl (IOException m)) = Inl (RuntimeException (IOException m))"
| "rethrow r = r"

text \<open>
  \<open>contextUser\<close> is the user the security plugin put into the context of the thread, as it writes itself.
\<close>

definition applyRequest :: "('r, 'c) filter_env \<Rightarrow> (java_error + 'c list) option \<Rightarrow> string \<Rightarrow> 'r \<Rightarrow> java_error + verdict" where
  "applyRequest F contextUser action rq =
     andThen (rethrow (case contextUser of
         None \<Rightarrow> Inr None
       | Some written \<Rightarrow> andThen written (\<lambda>inp. andThen (User (fe_streams F) inp) (\<lambda>u. Inr (Some u))))) (\<lambda>user.
     (case user of
        None \<Rightarrow> Inr (Proceed Original)
      | Some u \<Rightarrow>
         (case map_of (su_attributes u) RESOURCE_PREFIX_ATTRIBUTE_NAME of
            None \<Rightarrow> Inr (Proceed Original)
          | Some resourcePrefix \<Rightarrow>
             (if ISM_ROLE_NAME \<in> set (su_backendRoles u) then
                rethrow (andThen (allowAction F action rq resourcePrefix) (\<lambda>allowed.
                  if allowed then andThen (overrideActionListener F action rq) (\<lambda>l. Inr (Proceed l))
                  else Inr (Forbidden (security_error action u))))
              else Inr (Proceed Original)))))"

definition apply_filter ::
  "('r, 'c) filter_env \<Rightarrow> (java_error + 'c list) option \<Rightarrow> string option \<Rightarrow> 'r \<Rightarrow> java_error + verdict" where
  "apply_filter F contextUser action rq =
     (case action of
        None \<Rightarrow> Inr (Proceed Original)
      | Some a \<Rightarrow>
          if \<not> HasPrefix a ISM_ACTION_PATTERN then Inr (Proceed Original)
          else applyRequest F contextUser a rq)"

section \<open>The stored user\<close>

text \<open>
  After a response to an action that stores a user, the user is replaced by the administrator in the configuration of
  ISM, by a thread of its own. A hit is the text it prints as. \<open>thread_sleep\<close> tells whether the pause was
  interrupted.
\<close>

datatype ism_event = SearchConfig "query list" | UpdateConfig "query list" string json

record 's ism_client =
  env_OPENSEARCH_USERNAME :: "string option"
  client_search :: "query list \<Rightarrow> 's \<Rightarrow> (java_error + string list) \<times> 's"
  client_update :: "query list \<Rightarrow> string \<Rightarrow> json \<Rightarrow> 's \<Rightarrow> (java_error + int \<times> int) \<times> 's"
  thread_sleep :: "'s \<Rightarrow> bool \<times> 's"

definition user_params :: "string \<Rightarrow> json" where
  "user_params name =
     JObj [(''user'', JObj [(''name'', JStr name), (''backend_roles'', JArr [JStr ''admin'']),
       (''roles'', JArr [JStr ''manage_snapshots'', JStr ''all_access'']), (''custom_attribute_names'', JArr [])])]"

definition caught :: "java_error \<Rightarrow> bool" where
  "caught e \<longleftrightarrow> (case e of InterruptedException \<Rightarrow> True | ExecutionException _ \<Rightarrow> True | _ \<Rightarrow> False)"

definition arrays_toString :: "string list \<Rightarrow> string" where
  "arrays_toString xs = ''['' @ join '', '' xs @ '']''"

text \<open>One round; the result is whether the method returns.\<close>

definition update_round :: "'s ism_client \<Rightarrow> query list \<Rightarrow> string \<Rightarrow> json \<Rightarrow> ('s, ism_event, java_error + bool) io" where
  "update_round C combinedQuery scriptCode userParams = do {
     r \<leftarrow> request (SearchConfig combinedQuery) (client_search C combinedQuery);
     (case r of
        Inl e \<Rightarrow> return (if caught e then Inr False else Inl e)
      | Inr searchHits \<Rightarrow>
          if searchHits \<noteq> [] \<and> \<not> Contains (arrays_toString searchHits) ISM_ROLE_NAME then success True
          else if searchHits \<noteq> [] then do {
            u \<leftarrow> request (UpdateConfig combinedQuery scriptCode userParams) (client_update C combinedQuery scriptCode userParams);
            (case u of
               Inl e \<Rightarrow> return (if caught e then Inr False else Inl e)
             | Inr (updated, conflicts) \<Rightarrow> success (int (length searchHits) = updated \<and> conflicts = 0)) }
          else success False) }"

fun update_rounds :: "nat \<Rightarrow> 's ism_client \<Rightarrow> query list \<Rightarrow> string \<Rightarrow> json \<Rightarrow> ('s, ism_event, java_error + unit) io" where
  "update_rounds 0 C combinedQuery scriptCode userParams = success ()"
| "update_rounds (Suc n) C combinedQuery scriptCode userParams =
     onSuccess (update_round C combinedQuery scriptCode userParams) (\<lambda>finished.
       if finished then success ()
       else do {
         interrupted \<leftarrow> silent (thread_sleep C);
         if interrupted then success () else update_rounds n C combinedQuery scriptCode userParams })"

definition updateUserInformation :: "'s ism_client \<Rightarrow> query list \<Rightarrow> string \<Rightarrow> ('s, ism_event, java_error + unit) io" where
  "updateUserInformation C combinedQuery scriptCode =
     (case env_OPENSEARCH_USERNAME C of
        None \<Rightarrow> raised NullPointerException
      | Some name \<Rightarrow> update_rounds 50 C combinedQuery scriptCode (user_params name))"

text \<open>What a response starts in the background.\<close>

definition onResponse :: "'s ism_client \<Rightarrow> listener \<Rightarrow> ('s, ism_event, java_error + unit) io" where
  "onResponse C l = (case l of Original \<Rightarrow> success () | Updating combinedQuery scriptCode \<Rightarrow> updateUserInformation C combinedQuery scriptCode)"

section \<open>Requests\<close>

text \<open>
  The requests of the ISM plugin with what the filter relies on: the first bytes they write, and for a policy
  its document. The wire forms are those of the unit tests of the filter; what follows is open. \<open>names\<close> are the
  indices, patterns and policies a request is about.
\<close>

datatype ism_request =
    AddPolicy "string list" string
  | ChangePolicy "string list" string
  | DeletePolicy string
  | Explain "string list" "string option option"
  | GetPolicy string
  | IndexPolicy string json
  | RemovePolicy "string list"
  | RetryFailed "string list"

fun action_of :: "ism_request \<Rightarrow> string" where
  "action_of (AddPolicy _ _) = ADD_POLICY_ACTION_NAME"
| "action_of (ChangePolicy _ _) = CHANGE_POLICY_ACTION_NAME"
| "action_of (DeletePolicy _) = DELETE_POLICY_ACTION_NAME"
| "action_of (Explain _ _) = EXPLAIN_ACTION_NAME"
| "action_of (GetPolicy _) = GET_POLICY_ACTION_NAME"
| "action_of (IndexPolicy _ _) = INDEX_POLICY_ACTION_NAME"
| "action_of (RemovePolicy _) = REMOVE_POLICY_ACTION_NAME"
| "action_of (RetryFailed _) = RETRY_FAILED_MANAGED_INDEX_ACTION_NAME"

fun wire :: "'c streams \<Rightarrow> ism_request \<Rightarrow> 'c list \<Rightarrow> bool" where
  "wire S (AddPolicy indices p) b \<longleftrightarrow> (\<exists>rest. b = writeStringCollection S indices @ writeString S p @ rest)"
| "wire S (ChangePolicy indices p) b \<longleftrightarrow> (\<exists>rest. b = writeStringCollection S indices @ writeString S p @ rest)"
| "wire S (DeletePolicy p) b \<longleftrightarrow> (\<exists>rest. b = writeString S p @ rest)"
| "wire S (Explain indices f) b \<longleftrightarrow> (\<exists>l t size from sortField sortOrder queryString rest.
     b = writeStringCollection S indices @ writeBoolean S l @ writeTimeValue S t @ writeInt S size @ writeInt S from @
       writeString S sortField @ writeString S sortOrder @ writeString S queryString @
       (case f of None \<Rightarrow> writeBoolean S False | Some p \<Rightarrow> writeBoolean S True @ writeOptionalString S p) @ rest)"
| "wire S (GetPolicy p) b \<longleftrightarrow> (\<exists>rest. b = writeString S p @ rest)"
| "wire S (IndexPolicy p content) b \<longleftrightarrow> (\<exists>rest. b = writeString S p @ rest)"
| "wire S (RemovePolicy indices) b \<longleftrightarrow> (\<exists>rest. b = writeStringCollection S indices @ rest)"
| "wire S (RetryFailed indices) b \<longleftrightarrow> (\<exists>rest. b = writeStringCollection S indices @ rest)"

definition policy_patterns :: "json \<Rightarrow> string list" where
  "policy_patterns content =
     (case get_member ''ism_template'' content of
        None \<Rightarrow> []
      | Some ts \<Rightarrow> concat (map (\<lambda>t. case get_member ''index_patterns'' t of None \<Rightarrow> [] | Some ps \<Rightarrow> map asText (node_elements ps))
          (node_elements ts)))"

fun names :: "ism_request \<Rightarrow> string list" where
  "names (AddPolicy indices p) = p # indices"
| "names (ChangePolicy indices p) = p # indices"
| "names (DeletePolicy p) = [p]"
| "names (Explain indices f) = (case f of Some (Some p) \<Rightarrow> [p] | _ \<Rightarrow> []) @ indices"
| "names (GetPolicy p) = [p]"
| "names (IndexPolicy p content) = p # policy_patterns content"
| "names (RemovePolicy indices) = indices"
| "names (RetryFailed indices) = indices"

text \<open>The request of the library that a described request stands for.\<close>

definition stands_for :: "('r, 'c) filter_env \<Rightarrow> 'r \<Rightarrow> ism_request \<Rightarrow> bool" where
  "stands_for F rq req \<longleftrightarrow>
     (\<exists>b. writeTo F rq = Inr b \<and> wire (fe_streams F) req b) \<and>
     (case req of
        IndexPolicy p content \<Rightarrow>
          request_policy F rq = Inr (JObj [(''policy'', content)]) \<and> get_member ''policy_id'' content = Some (JStr p)
      | _ \<Rightarrow> True)"

fun listener_for :: "ism_request \<Rightarrow> listener" where
  "listener_for (AddPolicy indices p) =
     Updating [TermQuery ''managed_index.policy_id'' p, RegexpQuery ''managed_index.index'' (index_regexp indices)]
       ''ctx._source.managed_index.policy.user = params.user''"
| "listener_for (ChangePolicy indices p) =
     Updating [TermQuery ''managed_index.change_policy.policy_id'' p, RegexpQuery ''managed_index.index'' (index_regexp indices)]
       (''ctx._source.managed_index.change_policy.user = params.user; '' @
        ''ctx._source.managed_index.policy.user = params.user'')"
| "listener_for (IndexPolicy p _) = Updating [IdsQuery p] ''ctx._source.policy.user = params.user''"
| "listener_for _ = Original"

definition user_ok :: "security_user \<Rightarrow> bool" where
  "user_ok u \<longleftrightarrow> distinct (su_backendRoles u) \<and> distinct (su_roles u) \<and> su_requestedTenant u \<noteq> Some []"

section \<open>Lemmas\<close>

lemma streams_okD:
  assumes "streams_ok S"
  shows "readString S (writeString S s @ rest) = Inr (s, rest)"
    and "readStringList S (writeStringCollection S xs @ rest) = Inr (xs, rest)"
    and "readStringMap S (writeStringMap S m @ rest) = Inr (m, rest)"
    and "readBoolean S (writeBoolean S b @ rest) = Inr (b, rest)"
    and "readInt S (writeInt S n @ rest) = Inr (n, rest)"
    and "readTimeValue S (writeTimeValue S t @ rest) = Inr (t, rest)"
    and "readOptionalString S (writeOptionalString S x @ rest) = Inr (x, rest)"
  using assms by (simp_all add: streams_ok_def)

lemma streams_ok_last: "streams_ok S \<Longrightarrow> readStringList S (writeStringCollection S xs) = Inr (xs, [])"
  using streams_okD(2) [of S xs "[]"] by simp

lemma User_read: "streams_ok S \<Longrightarrow> user_ok u \<Longrightarrow> User S (User_writeTo S u) = Inr u"
  by (cases "su_requestedTenant u")
    (simp_all add: User_def User_writeTo_def streams_okD streams_ok_last user_ok_def)

lemma templates_allowed:
  "list_all (template_allowed p) ts \<longleftrightarrow>
     list_all (\<lambda>n. HasPrefix n p) (concat (map (\<lambda>t. case get_member ''index_patterns'' t of None \<Rightarrow> [] | Some ps \<Rightarrow> map asText (node_elements ps)) ts))"
  by (induction ts) (simp_all add: template_allowed_def list.pred_map comp_def split: option.splits)

lemma action_of_ism: "HasPrefix (action_of req) ISM_ACTION_PATTERN"
  by (cases req) (simp_all add: action_names ISM_ACTION_PATTERN_def HasPrefix_def)

lemma allowAction_stands_for:
  assumes "streams_ok (fe_streams F)" and "stands_for F rq req"
  shows "allowAction F (action_of req) rq p = Inr (list_all (\<lambda>n. HasPrefix n p) (names req))"
proof -
  obtain b where b: "writeTo F rq = Inr b" "wire (fe_streams F) req b"
    using assms(2) by (auto simp: stands_for_def)
  note rd = streams_okD [OF assms(1)]
  show ?thesis
  proof (cases req)
    case (Explain indices f)
    then show ?thesis using b
      by (cases f) (auto simp: allowAction_def action_names allowExplainAction_def allowAccess_def rd list_all_iff split: option.splits)
  next
    case (IndexPolicy q content)
    then have "request_policy F rq = Inr (JObj [(''policy'', content)])" "get_member ''policy_id'' content = Some (JStr q)"
      using assms(2) by (simp_all add: stands_for_def)
    then show ?thesis using b IndexPolicy
      by (auto simp: allowAction_def action_names allowIndexPolicyAction_def getPolicyContent_def policy_patterns_def templates_allowed
          split: option.splits)
  qed (use b in \<open>auto simp: allowAction_def action_names allowAddPolicyAction_def allowChangePolicyAction_def allowDeletePolicyAction_def
      allowGetPolicyAction_def allowRemovePolicyAction_def allowRetryFailedManagedIndexAction_def allowAccess_def rd\<close>)
qed

lemma overrideActionListener_stands_for:
  assumes "streams_ok (fe_streams F)" and "stands_for F rq req"
  shows "overrideActionListener F (action_of req) rq = Inr (listener_for req)"
proof -
  obtain b where b: "writeTo F rq = Inr b" "wire (fe_streams F) req b"
    using assms(2) by (auto simp: stands_for_def)
  then show ?thesis using streams_okD [OF assms(1)]
    by (cases req) (auto simp: overrideActionListener_def action_names)
qed

lemma apply_filter_user:
  assumes "streams_ok (fe_streams F)" and "user_ok u" and "HasPrefix action ISM_ACTION_PATTERN"
    and "ISM_ROLE_NAME \<in> set (su_backendRoles u)" and "map_of (su_attributes u) RESOURCE_PREFIX_ATTRIBUTE_NAME = Some p"
  shows "apply_filter F (Some (Inr (User_writeTo (fe_streams F) u))) (Some action) rq =
    rethrow (andThen (allowAction F action rq p) (\<lambda>allowed.
      if allowed then andThen (overrideActionListener F action rq) (\<lambda>l. Inr (Proceed l))
      else Inr (Forbidden (security_error action u))))"
  using assms User_read [OF assms(1,2)] by (simp add: apply_filter_def applyRequest_def)

section \<open>Properties\<close>

text \<open>
  C7. A user with the backend role for ISM and a resource prefix stays below the prefix. An ISM request of such a
  user is passed on exactly when every index, pattern and policy it names starts with the prefix, and is
  answered as forbidden otherwise. When it stores a user, the listener passed on starts an update of
  exactly the policy, or of the managed indices under the policy, that the request names.
\<close>

theorem ism_filter_confines:
  assumes "streams_ok (fe_streams F)" and "user_ok u" and "stands_for F rq req"
    and "ISM_ROLE_NAME \<in> set (su_backendRoles u)" and "map_of (su_attributes u) RESOURCE_PREFIX_ATTRIBUTE_NAME = Some p"
  shows "apply_filter F (Some (Inr (User_writeTo (fe_streams F) u))) (Some (action_of req)) rq =
    Inr (if list_all (\<lambda>n. HasPrefix n p) (names req) then Proceed (listener_for req)
         else Forbidden (security_error (action_of req) u))"
  using apply_filter_user [OF assms(1,2) action_of_ism assms(4,5)] allowAction_stands_for [OF assms(1,3)]
    overrideActionListener_stands_for [OF assms(1,3)] by simp

text \<open>A stream of whole values, for examples.\<close>

datatype token = TString string | TStrings "string list" | TMap "string go_map" | TBool bool | TInt int | TTime nat | TOptional "string option"

fun read_token :: "(token \<Rightarrow> 'a option) \<Rightarrow> token list \<Rightarrow> java_error + 'a \<times> token list" where
  "read_token f [] = Inl (IOException ''end of stream'')"
| "read_token f (t # ts) = (case f t of None \<Rightarrow> Inl (IOException ''unexpected value'') | Some a \<Rightarrow> Inr (a, ts))"

definition token_streams :: "token streams" where
  "token_streams =
     \<lparr>readString = read_token (\<lambda>t. case t of TString s \<Rightarrow> Some s | _ \<Rightarrow> None),
      readStringList = read_token (\<lambda>t. case t of TStrings xs \<Rightarrow> Some xs | _ \<Rightarrow> None),
      readStringMap = read_token (\<lambda>t. case t of TMap m \<Rightarrow> Some m | _ \<Rightarrow> None),
      readBoolean = read_token (\<lambda>t. case t of TBool b \<Rightarrow> Some b | _ \<Rightarrow> None),
      readInt = read_token (\<lambda>t. case t of TInt n \<Rightarrow> Some n | _ \<Rightarrow> None),
      readTimeValue = read_token (\<lambda>t. case t of TTime n \<Rightarrow> Some n | _ \<Rightarrow> None),
      readOptionalString = read_token (\<lambda>t. case t of TOptional x \<Rightarrow> Some x | _ \<Rightarrow> None),
      writeString = (\<lambda>s. [TString s]), writeStringCollection = (\<lambda>xs. [TStrings xs]), writeStringMap = (\<lambda>m. [TMap m]),
      writeBoolean = (\<lambda>b. [TBool b]), writeInt = (\<lambda>n. [TInt n]), writeTimeValue = (\<lambda>n. [TTime n]),
      writeOptionalString = (\<lambda>x. [TOptional x])\<rparr>"

lemma token_streams_ok: "streams_ok token_streams"
  by (simp add: streams_ok_def token_streams_def)

text \<open>A request that adds a policy of the tenant to an index of another one.\<close>

definition foreign_index :: ism_request where
  "foreign_index = AddPolicy [''test-000001'', ''tmp-000001''] ''test-policy''"

definition test_filter_env :: "(ism_request, token) filter_env" where
  "test_filter_env = \<lparr>fe_streams = token_streams,
     writeTo = (\<lambda>rq. Inr [TStrings [''test-000001'', ''tmp-000001''], TString ''test-policy'', TString ''_default'']),
     request_policy = (\<lambda>_. Inl (OtherException ''getPolicy''))\<rparr>"

definition tenant_user :: security_user where
  "tenant_user = \<lparr>su_name = ''test_user'', su_backendRoles = [''dbaas_ism''], su_roles = [],
     su_attributes = [(''attr.internal.resource_prefix'', ''test'')], su_requestedTenant = None\<rparr>"

theorem ism_filter_confines_witness:
  "apply_filter test_filter_env (Some (Inr (User_writeTo token_streams tenant_user))) (Some ADD_POLICY_ACTION_NAME) foreign_index =
     Inr (Forbidden (security_error ADD_POLICY_ACTION_NAME tenant_user))"
proof -
  have "user_ok tenant_user" "ISM_ROLE_NAME \<in> set (su_backendRoles tenant_user)"
    "map_of (su_attributes tenant_user) RESOURCE_PREFIX_ATTRIBUTE_NAME = Some ''test''" by code_simp+
  moreover have "stands_for test_filter_env foreign_index foreign_index"
    by (simp add: stands_for_def test_filter_env_def foreign_index_def token_streams_def)
  moreover have "\<not> list_all (\<lambda>n. HasPrefix n ''test'') (names foreign_index)"
    by (simp add: foreign_index_def HasPrefix_def)
  ultimately show ?thesis
    using ism_filter_confines [where F = test_filter_env and rq = foreign_index and req = foreign_index and u = tenant_user]
      token_streams_ok by (simp add: test_filter_env_def foreign_index_def)
qed

text \<open>
  An ISM action the filter does not know, such as the search for all policies, is forbidden to such a user.
\<close>

theorem unknown_action_forbidden:
  assumes "streams_ok (fe_streams F)" and "user_ok u" and "HasPrefix action ISM_ACTION_PATTERN"
    and "ISM_ROLE_NAME \<in> set (su_backendRoles u)" and "map_of (su_attributes u) RESOURCE_PREFIX_ATTRIBUTE_NAME = Some p"
    and "\<forall>req. action \<noteq> action_of req" and "writeTo F rq = Inr b"
  shows "apply_filter F (Some (Inr (User_writeTo (fe_streams F) u))) (Some action) rq = Inr (Forbidden (security_error action u))"
proof -
  have "action \<noteq> action_of (AddPolicy [] [])" "action \<noteq> action_of (ChangePolicy [] [])" "action \<noteq> action_of (DeletePolicy [])"
    "action \<noteq> action_of (Explain [] None)" "action \<noteq> action_of (GetPolicy [])" "action \<noteq> action_of (IndexPolicy [] JNull)"
    "action \<noteq> action_of (RemovePolicy [])" "action \<noteq> action_of (RetryFailed [])"
    using assms(6) by blast+
  then have "allowAction F action rq p = Inr False" using assms(7) by (simp add: allowAction_def)
  then show ?thesis using apply_filter_user [OF assms(1-5)] by simp
qed

text \<open>A request to explain that names no index, by which ISM is asked about all of them, is passed on.\<close>

lemma explain_all_passes:
  assumes "streams_ok (fe_streams F)" and "user_ok u" and "stands_for F rq (Explain [] None)"
    and "ISM_ROLE_NAME \<in> set (su_backendRoles u)" and "map_of (su_attributes u) RESOURCE_PREFIX_ATTRIBUTE_NAME = Some p"
  shows "apply_filter F (Some (Inr (User_writeTo (fe_streams F) u))) (Some EXPLAIN_ACTION_NAME) rq = Inr (Proceed Original)"
  using apply_filter_user [OF assms(1,2) action_of_ism assms(4,5), of "Explain [] None" rq]
    allowAction_stands_for [OF assms(1,3), of p] overrideActionListener_stands_for [OF assms(1,3)] by simp

text \<open>
  A user survives the way to the filter: what the security plugin writes into the context of the thread is
  read back as the same name, roles, attributes and tenant.
\<close>

theorem user_round_trip:
  assumes "streams_ok S" and "user_ok u"
  shows "User S (User_writeTo S u) = Inr u"
  using assms by (rule User_read)

theorem user_round_trip_witness: "User token_streams (User_writeTo token_streams tenant_user) = Inr tenant_user"
  by (rule user_round_trip) (simp_all add: token_streams_ok user_ok_def tenant_user_def)

definition update_event :: "'s ism_client \<Rightarrow> query list \<Rightarrow> string \<Rightarrow> ism_event \<Rightarrow> bool" where
  "update_event C q script e \<longleftrightarrow>
     e = SearchConfig q \<or> (\<exists>name. env_OPENSEARCH_USERNAME C = Some name \<and> e = UpdateConfig q script (user_params name))"

lemma update_round_trace:
  assumes "run_state (update_round C q script params) w = (r, w')"
  shows "trace w' = trace w @ [SearchConfig q] \<or> trace w' = trace w @ [SearchConfig q, UpdateConfig q script params]"
  using assms by (auto simp: update_round_def run_simps split: prod.splits sum.splits if_splits)

lemma update_rounds_trace:
  assumes "run_state (update_rounds n C q script params) w = (r, w')"
  shows "\<exists>es. trace w' = trace w @ es \<and> length es \<le> 2 * n \<and> set es \<subseteq> {SearchConfig q, UpdateConfig q script params}"
  using assms
proof (induction n arbitrary: w)
  case 0
  then show ?case by (simp add: run_simps)
next
  case (Suc n)
  obtain x w1 where x: "run_state (update_round C q script params) w = (x, w1)"
    by (cases "run_state (update_round C q script params) w")
  then obtain es where es: "trace w1 = trace w @ es" "length es \<le> 2" "set es \<subseteq> {SearchConfig q, UpdateConfig q script params}"
    using update_round_trace [OF x] by fastforce
  consider "trace w' = trace w1" | s where "run_state (update_rounds n C q script params) (w1\<lparr>srv := s\<rparr>) = (r, w')"
    using Suc.prems x by (auto simp: run_simps split: sum.splits if_splits prod.splits)
  then show ?case
  proof cases
    case 1
    then show ?thesis using es by (intro exI [of _ es]) auto
  next
    case 2
    then obtain fs where "trace w' = trace w1 @ fs" "length fs \<le> 2 * n" "set fs \<subseteq> {SearchConfig q, UpdateConfig q script params}"
      using Suc.IH [OF 2] by auto
    then show ?thesis using es by (intro exI [of _ "es @ fs"]) auto
  qed
qed


text \<open>A cluster with one document of the tenant, which the first update changes.\<close>

definition one_document :: "nat ism_client" where
  "one_document = \<lparr>env_OPENSEARCH_USERNAME = Some ''admin'', client_search = (\<lambda>_ n. (Inr [if n = 0 then ''dbaas_ism'' else ''admin''], n)),
     client_update = (\<lambda>_ _ _ n. (Inr (1, 0), Suc n)), thread_sleep = (\<lambda>n. (False, n))\<rparr>"

lemma one_document_run:
  "trace (snd (run_state (updateUserInformation one_document [IdsQuery ''p''] ''s'') \<lparr>srv = 0, trace = []\<rparr>)) =
     [SearchConfig [IdsQuery ''p''], UpdateConfig [IdsQuery ''p''] ''s'' (user_params ''admin'')]"
  by code_simp


end
