(* ===== verification/Python.thy ===== *)
theory Python
  imports Exceptions
begin

text \<open>
  What the scripts of the curator and of the monitoring use of Python: exceptions, operations on strings,
  and documents read by \<^verbatim>\<open>json\<close>, with the exceptions a wrong type or a missing key raises. Strings are sequences of
  characters below 256; the numbers of the documents are integers.
\<close>

section \<open>Exceptions\<close>

datatype py_error =
    ValueError
  | KeyError string
  | IndexError
  | TypeError
  | AttributeError
  | FileNotFoundError
  | RuntimeError string
  | PlainException string
  | ConnectionError
  | NotFoundError
  | OtherError string

section \<open>Strings\<close>

definition py_space :: "char \<Rightarrow> bool" where
  "py_space c \<longleftrightarrow> (of_char c :: nat) \<in> {9, 10, 11, 12, 13, 28, 29, 30, 31, 32, 133, 160}"

definition rstrip_if :: "(char \<Rightarrow> bool) \<Rightarrow> string \<Rightarrow> string" where
  "rstrip_if P s = rev (dropWhile P (rev s))"

text \<open>\<^verbatim>\<open>s.strip(chars)\<close>, \<^verbatim>\<open>s.strip()\<close> and \<^verbatim>\<open>s.rstrip()\<close>\<close>

definition strip_if :: "(char \<Rightarrow> bool) \<Rightarrow> string \<Rightarrow> string" where
  "strip_if P s = rstrip_if P (dropWhile P s)"

text \<open>\<^verbatim>\<open>s.split(sep)\<close> for a separator that is not empty: at its leftmost occurrences.\<close>

function split_str :: "string \<Rightarrow> string \<Rightarrow> string list" where
  "split_str sep [] = [[]]"
| "split_str sep (c # s) =
     (if sep \<noteq> [] \<and> prefix sep (c # s) then [] # split_str sep (drop (length sep) (c # s))
      else (case split_str sep s of [] \<Rightarrow> [[c]] | y # ys \<Rightarrow> (c # y) # ys))"
  by pat_completeness auto
termination by (relation "measure (\<lambda>(sep, s). length s)") auto

text \<open>\<^verbatim>\<open>s.split()\<close>: the words between white space.\<close>

fun words_from :: "string \<Rightarrow> string \<Rightarrow> string list" where
  "words_from [] w = (if w = [] then [] else [rev w])"
| "words_from (c # s) w =
     (if py_space c then (if w = [] then [] else [rev w]) @ words_from s [] else words_from s (c # w))"

text \<open>\<^verbatim>\<open>s.find(c, start)\<close>: a negative start counts from the end; \<open>- 1\<close> when there is none.\<close>

fun find_index :: "char \<Rightarrow> string \<Rightarrow> nat \<Rightarrow> int" where
  "find_index c [] k = - 1"
| "find_index c (x # xs) k = (if x = c then int k else find_index c xs (Suc k))"

definition py_start :: "string \<Rightarrow> int \<Rightarrow> nat" where
  "py_start s i = (if i < 0 then nat (int (length s) + i) else nat i)"

definition find_from :: "string \<Rightarrow> char \<Rightarrow> int \<Rightarrow> int" where
  "find_from s c start = find_index c (drop (py_start s start) s) (py_start s start)"

text \<open>\<^verbatim>\<open>s[a:b]\<close>\<close>

definition py_slice :: "'a list \<Rightarrow> int \<Rightarrow> int \<Rightarrow> 'a list" where
  "py_slice s a b =
     (let n = int (length s); pos = (\<lambda>i. if i < 0 then nat (n + i) else nat (min i n))
      in drop (pos a) (take (pos b) s))"

text \<open>Comparison of strings, by code point.\<close>

fun str_less :: "string \<Rightarrow> string \<Rightarrow> bool" where
  "str_less xs [] = False"
| "str_less [] (y # ys) = True"
| "str_less (x # xs) (y # ys) =
     ((of_char x :: nat) < of_char y \<or> x = y \<and> str_less xs ys)"

text \<open>
  \<^verbatim>\<open>s.isdigit()\<close>, which also takes superscripts (178, 179, 185), and \<^verbatim>\<open>int(s)\<close>, which does not, but takes white space around, a
  sign, and single underscores between digits.
\<close>

definition isdigit :: "string \<Rightarrow> bool" where
  "isdigit s \<longleftrightarrow> s \<noteq> [] \<and> list_all (\<lambda>c. decimal_digit c \<or> (of_char c :: nat) \<in> {178, 179, 185}) s"

definition decimals :: "string \<Rightarrow> bool" where
  "decimals s \<longleftrightarrow> s \<noteq> [] \<and> list_all decimal_digit s"

definition digits_int :: "string \<Rightarrow> int" where
  "digits_int = foldl (\<lambda>acc ch. 10 * acc + (int (of_char ch) - 48)) 0"

definition py_int :: "string \<Rightarrow> py_error + int" where
  "py_int text =
     (let s = strip_if py_space text;
          negative = (s \<noteq> [] \<and> hd s = CHR ''-'');
          ds = (if s \<noteq> [] \<and> hd s \<in> {CHR ''-'', CHR ''+''} then tl s else s);
          parts = split_on (CHR ''_'') ds in
      if list_all decimals parts then Inr ((if negative then - 1 else 1) * digits_int (concat parts)) else Inl ValueError)"

text \<open>\<^verbatim>\<open>str2bool\<close> of the scripts\<close>

definition str2bool :: "string \<Rightarrow> bool" where
  "str2bool v \<longleftrightarrow> ToLower v \<in> {''yes'', ''true'', ''t'', ''1''}"

text \<open>Lines of a text file, as \<^verbatim>\<open>readlines()\<close> gives them, but without their ends: \<^verbatim>\<open>\\n\<close>, \<^verbatim>\<open>\\r\\n\<close> and \<^verbatim>\<open>\\r\<close> end a line.\<close>

fun lines_from :: "string \<Rightarrow> string \<Rightarrow> string list" where
  "lines_from [] l = (if l = [] then [] else [rev l])"
| "lines_from (c # s) l =
     (if c = CHR 10 then rev l # lines_from s []
      else if c = CHR 13 then
        (case s of [] \<Rightarrow> [rev l] | d # s' \<Rightarrow> if d = CHR 10 then rev l # lines_from s' [] else rev l # lines_from s [])
      else lines_from s (c # l))"

definition readlines :: "string \<Rightarrow> string list" where
  "readlines s = lines_from s []"

section \<open>Documents\<close>

text \<open>Truth of a value, \<^verbatim>\<open>d[k]\<close>, \<^verbatim>\<open>d.get(k)\<close>, \<^verbatim>\<open>len(d)\<close>, iteration, \<^verbatim>\<open>k in d\<close> and \<^verbatim>\<open>int(d)\<close>.\<close>

fun truthy :: "json \<Rightarrow> bool" where
  "truthy JNull = False"
| "truthy (JBool b) = b"
| "truthy (JNum n) = (n \<noteq> 0)"
| "truthy (JStr s) = (s \<noteq> [])"
| "truthy (JArr js) = (js \<noteq> [])"
| "truthy (JObj kvs) = (kvs \<noteq> [])"

fun subscript :: "json \<Rightarrow> string \<Rightarrow> py_error + json" where
  "subscript (JObj kvs) k = (case map_of kvs k of None \<Rightarrow> Inl (KeyError k) | Some v \<Rightarrow> Inr v)"
| "subscript _ k = Inl TypeError"

fun dict_get :: "json \<Rightarrow> string \<Rightarrow> py_error + json" where
  "dict_get (JObj kvs) k = Inr (case map_of kvs k of None \<Rightarrow> JNull | Some v \<Rightarrow> v)"
| "dict_get _ k = Inl AttributeError"

fun dict_items :: "json \<Rightarrow> py_error + (string \<times> json) list" where
  "dict_items (JObj kvs) = Inr kvs"
| "dict_items _ = Inl AttributeError"

fun py_len :: "json \<Rightarrow> py_error + nat" where
  "py_len (JObj kvs) = Inr (length kvs)"
| "py_len (JArr js) = Inr (length js)"
| "py_len (JStr s) = Inr (length s)"
| "py_len _ = Inl TypeError"

fun py_iter :: "json \<Rightarrow> py_error + json list" where
  "py_iter (JObj kvs) = Inr (map (\<lambda>kv. JStr (fst kv)) kvs)"
| "py_iter (JArr js) = Inr js"
| "py_iter (JStr s) = Inr (map (\<lambda>c. JStr [c]) s)"
| "py_iter _ = Inl TypeError"

fun contains_key :: "string \<Rightarrow> json \<Rightarrow> py_error + bool" where
  "contains_key k (JObj kvs) = Inr (map_of kvs k \<noteq> None)"
| "contains_key k (JArr js) = Inr (JStr k \<in> set js)"
| "contains_key k (JStr s) = Inr (Contains s k)"
| "contains_key k _ = Inl TypeError"

text \<open>\<^verbatim>\<open>d[-1]\<close>\<close>

fun last_item :: "json \<Rightarrow> py_error + json" where
  "last_item (JArr js) = (if js = [] then Inl IndexError else Inr (last js))"
| "last_item (JStr s) = (if s = [] then Inl IndexError else Inr (JStr [last s]))"
| "last_item (JObj _) = Inl (KeyError ''-1'')"
| "last_item _ = Inl TypeError"

fun as_int :: "json \<Rightarrow> py_error + int" where
  "as_int (JNum n) = Inr n"
| "as_int (JBool b) = Inr (if b then 1 else 0)"
| "as_int (JStr s) = py_int s"
| "as_int _ = Inl TypeError"

text \<open>A value compared with a number by order.\<close>

fun as_number :: "json \<Rightarrow> py_error + int" where
  "as_number (JNum n) = Inr n"
| "as_number (JBool b) = Inr (if b then 1 else 0)"
| "as_number _ = Inl TypeError"

text \<open>A value that is used as a string, such as the receiver of \<^verbatim>\<open>startswith\<close>.\<close>

fun as_string :: "json \<Rightarrow> py_error + string" where
  "as_string (JStr s) = Inr s"
| "as_string _ = Inl AttributeError"

text \<open>
  \<^verbatim>\<open>repr\<close> and \<^verbatim>\<open>str\<close>. A string is quoted by single quotes unless it has those and no double ones; characters
  that do not print are escaped.
\<close>

definition repr_char :: "char \<Rightarrow> char \<Rightarrow> string" where
  "repr_char q c =
     (let n = of_char c :: nat in
      if c = q \<or> n = 92 then [CHR 92, c]
      else if n = 10 then [CHR 92, CHR ''n'']
      else if n = 13 then [CHR 92, CHR ''r'']
      else if n = 9 then [CHR 92, CHR ''t'']
      else if n < 32 \<or> 127 \<le> n \<and> n \<le> 160 \<or> n = 173 then CHR 92 # ''x'' @ [hex_digit (n div 16), hex_digit (n mod 16)]
      else [c])"

definition repr_string :: "string \<Rightarrow> string" where
  "repr_string s =
     (let q = (if CHR 39 \<in> set s \<and> CHR 34 \<notin> set s then CHR 34 else CHR 39)
      in [q] @ concat (map (repr_char q) s) @ [q])"

fun py_repr :: "json \<Rightarrow> string" where
  "py_repr JNull = ''None''"
| "py_repr (JBool b) = (if b then ''True'' else ''False'')"
| "py_repr (JNum n) = show_int n"
| "py_repr (JStr s) = repr_string s"
| "py_repr (JArr js) = ''['' @ join '', '' (map py_repr js) @ '']''"
| "py_repr (JObj kvs) = CHR ''{'' # join '', '' (map (\<lambda>kv. repr_string (fst kv) @ '': '' @ py_repr (snd kv)) kvs) @ ''}''"

fun py_str :: "json \<Rightarrow> string" where
  "py_str (JStr s) = s"
| "py_str j = py_repr j"

section \<open>Facts\<close>

lemma split_str_not_Nil [simp]: "split_str sep s \<noteq> []"
  by (induction sep s rule: split_str.induct) (auto split: list.splits)

text \<open>A separator of two different characters: what does not hold it is not split.\<close>

lemma split_str_append:
  assumes "c \<noteq> d" and "\<not> sublist [c, d] x"
  shows "split_str [c, d] (x @ c # d # t) = x # split_str [c, d] t"
  using assms(2)
proof (induction x)
  case Nil
  then show ?case by simp
next
  case (Cons a x)
  have x: "\<not> sublist [c, d] x" using Cons.prems by (auto simp: sublist_Cons_right)
  have "\<not> prefix [c, d] (a # x)" using Cons.prems prefix_imp_sublist by blast
  then have "\<not> prefix [c, d] (a # x @ c # d # t)" using assms(1) by (cases x) auto
  then show ?case using Cons.IH [OF x] by simp
qed

lemma split_str_single: "c \<noteq> d \<Longrightarrow> \<not> sublist [c, d] x \<Longrightarrow> split_str [c, d] x = [x]"
proof (induction x)
  case Nil
  then show ?case by simp
next
  case (Cons a x)
  have x: "\<not> sublist [c, d] x" using Cons.prems by (auto simp: sublist_Cons_right)
  have "\<not> prefix [c, d] (a # x)" using Cons.prems prefix_imp_sublist by blast
  then show ?case using Cons.IH [OF Cons.prems(1) x] by simp
qed

lemma split_str_join:
  assumes "c \<noteq> d" and "xs \<noteq> []" and "\<forall>x \<in> set xs. \<not> sublist [c, d] x"
  shows "split_str [c, d] (join [c, d] xs) = xs"
  using assms(2,3)
proof (induction "[c, d]" xs rule: join.induct)
  case (3 x y ys)
  then show ?case using split_str_append [OF assms(1), of x] by simp
qed (auto simp: split_str_single assms(1))

lemma find_index_none: "find_index c xs k = - 1 \<longleftrightarrow> c \<notin> set xs"
  by (induction xs arbitrary: k) auto

lemma find_index_some: "c \<in> set xs \<Longrightarrow> find_index c xs k = int (k + length (takeWhile (\<lambda>x. x \<noteq> c) xs))"
  by (induction xs arbitrary: k) auto

lemma find_index_append: "c \<notin> set xs \<Longrightarrow> find_index c (xs @ c # ys) k = int (k + length xs)"
  by (induction xs arbitrary: k) auto

lemma subscript_ok: "subscript d k = Inr v \<longleftrightarrow> (\<exists>kvs. d = JObj kvs \<and> map_of kvs k = Some v)"
  by (cases d) (auto split: option.splits)

lemma dropWhile_hd: "s \<noteq> [] \<Longrightarrow> \<not> P (hd s) \<Longrightarrow> dropWhile P s = s"
  by (cases s) auto

lemma strip_if_ends: "s \<noteq> [] \<Longrightarrow> \<not> P (hd s) \<Longrightarrow> \<not> P (last s) \<Longrightarrow> strip_if P s = s"
  by (simp add: strip_if_def rstrip_if_def dropWhile_hd hd_rev)

lemma py_int_isdigit:
  assumes "isdigit s"
  shows "py_int s = (if decimals s then Inr (digits_int s) else Inl ValueError)"
proof -
  have d: "\<not> py_space c \<and> c \<noteq> CHR ''-'' \<and> c \<noteq> CHR ''+'' \<and> c \<noteq> CHR ''_''" if "c \<in> set s" for c
    using assms that by (auto simp: isdigit_def list_all_iff decimal_digit_def py_space_def)
  have s: "s \<noteq> []" using assms by (simp add: isdigit_def)
  have "strip_if py_space s = s" using d [of "hd s"] d [of "last s"] s by (intro strip_if_ends) auto
  moreover have "split_on (CHR ''_'') s = [s]" using d by (intro split_on_no_sep) blast
  ultimately show ?thesis using s d [of "hd s"] by (simp add: py_int_def)
qed

lemma decimals_isdigit: "decimals s \<Longrightarrow> isdigit s"
  by (auto simp: decimals_def isdigit_def list_all_iff)

lemma py_int_digits: "decimals s \<Longrightarrow> py_int s = Inr (digits_int s)"
  by (simp add: py_int_isdigit decimals_isdigit)

end
