(* ===== verification/Metrics.thy ===== *)
theory Metrics
  imports Python Registration
begin

text \<open>
  The scripts of the monitoring that ask the cluster and the adapter for their state and print one metric line
  per item (\<^verbatim>\<open>monitoring/exec-scripts\<close>: \<^verbatim>\<open>health_metric.py\<close>, \<^verbatim>\<open>dbaas_health_metric.py\<close>, \<^verbatim>\<open>replication_metric.py\<close>, \<^verbatim>\<open>backup_metric.py\<close>).
  A request is answered by a status and a body or by an exception; the address, the credentials and the
  certificate are the same for all requests of a script, so an event holds the path.
\<close>

section \<open>Requests\<close>

record 's metric_env =
  metric_get :: "string \<Rightarrow> 's \<Rightarrow> (py_error + int \<times> body) \<times> 's"

type_synonym ('s, 'a) script_io = "('s, string, 'a) io"

definition metric_request :: "'s metric_env \<Rightarrow> string \<Rightarrow> ('s, py_error + int \<times> body) script_io" where
  "metric_request E url = request url (metric_get E url)"

text \<open>\<^verbatim>\<open>response.json()\<close> and the text of a response; a response is true unless its status is an error.\<close>

fun response_json :: "body \<Rightarrow> py_error + json" where
  "response_json (Doc j) = Inr j"
| "response_json (Text _) = Inl ValueError"
| "response_json (Unreadable e) = Inl (OtherError (err_text e))"

fun response_text :: "body \<Rightarrow> py_error + string" where
  "response_text (Doc j) = Inr (json_print j)"
| "response_text (Text s) = Inr s"
| "response_text (Unreadable e) = Inl (OtherError (err_text e))"

definition response_true :: "(int \<times> body) option \<Rightarrow> bool" where
  "response_true r \<longleftrightarrow> (case r of None \<Rightarrow> False | Some (status, _) \<Rightarrow> \<not> (400 \<le> status \<and> status < 600))"

section \<open>Health of the cluster\<close>

definition get_health_code :: "string \<Rightarrow> int" where
  "get_health_code health =
     (if health = ''green'' then 0 else if health = ''yellow'' then 6 else if health = ''red'' then 10 else - 1)"

definition health_status_code :: "string \<Rightarrow> int \<Rightarrow> int \<Rightarrow> py_error + int" where
  "health_status_code active_nodes health_code elasticsearch_total_nodes_count =
     (if active_nodes = [] then Inr 10
      else andThen (py_int active_nodes) (\<lambda>n.
        let failed_nodes = elasticsearch_total_nodes_count - n in
        if health_code = 10 then Inr 10
        else if health_code = 6 \<or> failed_nodes > 0 then Inr 6
        else Inr 0))"

text \<open>An empty text stands for a cluster that is not available.\<close>

definition get_health_data :: "'s metric_env \<Rightarrow> string \<Rightarrow> string \<Rightarrow> ('s, string) script_io" where
  "get_health_data E elasticsearch_url parameter = do {
     r \<leftarrow> metric_request E (elasticsearch_url @ ''/_cat/health?'' @ parameter);
     return (case r of
        Inl _ \<Rightarrow> []
      | Inr (status, b) \<Rightarrow>
          if status = 200 then (case response_text b of Inl _ \<Rightarrow> [] | Inr t \<Rightarrow> strip_if py_space t) else []) }"

text \<open>\<^verbatim>\<open>status, active_nodes = health_data.split(maxsplit=1)\<close>\<close>

definition split_once :: "string \<Rightarrow> py_error + string \<times> string" where
  "split_once s =
     (let t = dropWhile py_space s; w = takeWhile (\<lambda>c. \<not> py_space c) t; rest = dropWhile py_space (dropWhile (\<lambda>c. \<not> py_space c) t)
      in if rest = [] then Inl ValueError else Inr (w, rest))"

definition health_collect_metrics :: "'s metric_env \<Rightarrow> string \<Rightarrow> int \<Rightarrow> ('s, py_error + string) script_io" where
  "health_collect_metrics E elasticsearch_url elasticsearch_total_nodes_count = do {
     health_data \<leftarrow> get_health_data E elasticsearch_url ''h=status,node.total'';
     return (andThen (if health_data \<noteq> [] then split_once health_data else Inr ([], [])) (\<lambda>(status, active_nodes).
       let health_code = get_health_code status in
       andThen (health_status_code active_nodes health_code elasticsearch_total_nodes_count) (\<lambda>status_code.
       Inr (''elasticsearch_cluster_health status_code='' @ show_int status_code @ '',health_code='' @ show_int health_code @ '','' @
         ''total_number_of_nodes='' @ show_int elasticsearch_total_nodes_count @
         (if active_nodes = [] then '',number_of_nodes=0i'' else []))))) }"

definition health_run :: "(string \<Rightarrow> string option) \<Rightarrow> 's metric_env \<Rightarrow> ('s, py_error + string) script_io" where
  "health_run getenv E =
     (let part = (\<lambda>k. case getenv k of None \<Rightarrow> ''None'' | Some v \<Rightarrow> v) in
      (case getenv ''ELASTICSEARCH_TOTAL_NODES_COUNT'' of
         None \<Rightarrow> raised TypeError
       | Some n \<Rightarrow>
          (case py_int n of
             Inl e \<Rightarrow> raised e
           | Inr nodes_count \<Rightarrow> health_collect_metrics E
               (part ''ELASTICSEARCH_PROTOCOL'' @ ''://'' @ part ''ELASTICSEARCH_HOST'' @ '':'' @ part ''ELASTICSEARCH_PORT'') nodes_count)))"

section \<open>Health of the adapter\<close>

definition dbaas_status_code :: "json \<Rightarrow> int" where
  "dbaas_status_code status =
     (if status = JStr ''UP'' then 5 else if status = JStr ''WARNING'' then 4 else if status = JStr ''UNKNOWN'' then 3
      else if status = JStr ''PROBLEM'' then 2 else 1)"

definition dbaas_get_health_data :: "'s metric_env \<Rightarrow> string \<Rightarrow> ('s, json) script_io" where
  "dbaas_get_health_data E dbaas_adapter_url = do {
     r \<leftarrow> metric_request E (dbaas_adapter_url @ ''/health'');
     return (case andThen r (\<lambda>(status, b). response_json b) of Inl _ \<Rightarrow> JStr [] | Inr j \<Rightarrow> j) }"

definition dbaas_collect_metrics :: "'s metric_env \<Rightarrow> string \<Rightarrow> ('s, py_error + string) script_io" where
  "dbaas_collect_metrics E dbaas_adapter_url = do {
     health \<leftarrow> dbaas_get_health_data E dbaas_adapter_url;
     return (if \<not> truthy health then Inr ''elasticsearch_dbaas_health status=1,elastic_cluster_status=3''
       else andThen (subscript health ''status'') (\<lambda>dbaas_status.
         andThen (dict_get health ''opensearchHealth'') (\<lambda>h1.
         andThen (if truthy h1 then Inr h1 else dict_get health ''elasticCluster'') (\<lambda>elasticsearch_health.
         andThen (subscript elasticsearch_health ''status'') (\<lambda>elasticsearch_status.
         Inr (''elasticsearch_dbaas_health status='' @ show_int (dbaas_status_code dbaas_status) @
           '',elastic_cluster_status='' @ show_int (dbaas_status_code elasticsearch_status))))))) }"

definition dbaas_run :: "(string \<Rightarrow> string option) \<Rightarrow> 's metric_env \<Rightarrow> ('s, py_error + string option) script_io" where
  "dbaas_run getenv E =
     (case (getenv ''ELASTICSEARCH_DBAAS_ADAPTER_HOST'', getenv ''ELASTICSEARCH_DBAAS_ADAPTER_PORT'') of
        (Some host, Some port) \<Rightarrow>
          if host \<noteq> [] \<and> port \<noteq> [] then
            onSuccess (dbaas_collect_metrics E (''http://'' @ host @ '':'' @ port)) (\<lambda>message. success (Some message))
          else success None
      | _ \<Rightarrow> success None)"

section \<open>Replication\<close>

definition get_request :: "'s metric_env \<Rightarrow> string \<Rightarrow> ('s, (int \<times> body) option) script_io" where
  "get_request E url = do {
     r \<leftarrow> metric_request E url;
     return (case r of Inl _ \<Rightarrow> None | Inr response \<Rightarrow> Some response) }"

text \<open>What is done with the document of a response that is true, and the value otherwise.\<close>

definition with_json ::
  "'s metric_env \<Rightarrow> string \<Rightarrow> (int \<Rightarrow> json \<Rightarrow> py_error + 'a) \<Rightarrow> 'a \<Rightarrow> ('s, py_error + 'a) script_io" where
  "with_json E url f otherwise = do {
     response \<leftarrow> get_request E url;
     return (case response of
        Some (status, b) \<Rightarrow> if response_true response then andThen (response_json b) (f status) else Inr otherwise
      | None \<Rightarrow> Inr otherwise) }"

definition is_elasticsearch_available :: "'s metric_env \<Rightarrow> string \<Rightarrow> ('s, py_error + bool) script_io" where
  "is_elasticsearch_available E elasticsearch_url =
     with_json E (elasticsearch_url @ ''/_cat/health?format=json'') (\<lambda>status _. Inr (status = 200)) False"

definition replication_status_path :: "string \<Rightarrow> string \<Rightarrow> string" where
  "replication_status_path elasticsearch_url index = elasticsearch_url @ ''/_plugins/_replication/'' @ index @ ''/_status''"

definition is_replication_fetched :: "'s metric_env \<Rightarrow> string \<Rightarrow> string \<Rightarrow> ('s, py_error + bool) script_io" where
  "is_replication_fetched E elasticsearch_url index =
     with_json E (replication_status_path elasticsearch_url index) (\<lambda>status _. Inr (status \<noteq> 500)) False"

definition get_follower_stats :: "'s metric_env \<Rightarrow> string \<Rightarrow> ('s, py_error + json) script_io" where
  "get_follower_stats E elasticsearch_url =
     with_json E (elasticsearch_url @ ''/_plugins/_replication/follower_stats'') (\<lambda>_ j. Inr j) (JStr [])"

definition get_autofollow_stats :: "'s metric_env \<Rightarrow> string \<Rightarrow> ('s, py_error + json) script_io" where
  "get_autofollow_stats E elasticsearch_url =
     with_json E (elasticsearch_url @ ''/_plugins/_replication/autofollow_stats'') (\<lambda>_ j. Inr j) (JStr [])"

definition get_indices :: "'s metric_env \<Rightarrow> string \<Rightarrow> string \<Rightarrow> ('s, py_error + json) script_io" where
  "get_indices E elasticsearch_url pattern =
     with_json E (elasticsearch_url @ ''/_cat/indices/'' @ pattern @ ''?h=index&format=json'') (\<lambda>_ j. Inr j) (JArr [])"

definition get_index_status :: "'s metric_env \<Rightarrow> string \<Rightarrow> string \<Rightarrow> ('s, py_error + json) script_io" where
  "get_index_status E elasticsearch_url index =
     with_json E (replication_status_path elasticsearch_url index) (\<lambda>_ j. dict_get j ''status'') (JStr ''FAILED'')"

definition index_status_code :: "json \<Rightarrow> int" where
  "index_status_code status = (if status = JStr ''BOOTSTRAPPING'' then 2 else if status = JStr ''PAUSED'' then 3 else - 1)"

definition equals_zero :: "json \<Rightarrow> bool" where
  "equals_zero j \<longleftrightarrow> j = JNum 0 \<or> j = JBool False"

definition determine_replication_status :: "json \<Rightarrow> json \<Rightarrow> py_error + int" where
  "determine_replication_status syncing_indices failed_indices =
     andThen (as_number syncing_indices) (\<lambda>n.
     Inr (if n > 0 then (if equals_zero failed_indices then 1 else 2) else if equals_zero failed_indices then 3 else 4))"

definition index_line :: "string \<Rightarrow> string \<Rightarrow> string" where
  "index_line index values = [CHR 10] @ ''elasticsearch_replication_metric,index='' @ index @ '' '' @ values"

definition lag_of :: "int \<Rightarrow> int \<Rightarrow> int" where
  "lag_of leader_checkpoint follower_checkpoint =
     (if follower_checkpoint > leader_checkpoint \<and> leader_checkpoint = 0 then 0 else leader_checkpoint - follower_checkpoint)"

definition stats_line :: "json \<Rightarrow> string \<Rightarrow> py_error + string" where
  "stats_line index_stats index =
     andThen (subscript index_stats index) (\<lambda>stats.
     andThen (andThen (subscript stats ''leader_checkpoint'') as_int) (\<lambda>leader_checkpoint.
     andThen (andThen (subscript stats ''follower_checkpoint'') as_int) (\<lambda>follower_checkpoint.
     andThen (subscript stats ''operations_written'') (\<lambda>operations_written.
     Inr (index_line index (''index_lag='' @ show_int (lag_of leader_checkpoint follower_checkpoint) @
       '',index_operations_written='' @ py_str operations_written @ '',index_status=1''))))))"

definition status_line :: "'s metric_env \<Rightarrow> string \<Rightarrow> json \<Rightarrow> ('s, py_error + string) script_io" where
  "status_line E elasticsearch_url index =
     onSuccess (return (subscript index ''index'')) (\<lambda>index_name.
     onSuccess (get_index_status E elasticsearch_url (py_str index_name)) (\<lambda>index_status.
     success (if index_status = JStr ''BOOTSTRAPPING'' \<or> index_status = JStr ''PAUSED''
         then index_line (py_str index_name) (''index_status='' @ show_int (index_status_code index_status))
       else if index_status = JStr ''FAILED'' then index_line (py_str index_name) ''index_status=4''
       else [])))"

definition rule_lines :: "'s metric_env \<Rightarrow> string \<Rightarrow> json \<Rightarrow> ('s, py_error + string) script_io" where
  "rule_lines E elasticsearch_url rule =
     onSuccess (return (subscript rule ''pattern'')) (\<lambda>pattern.
     onSuccess (get_indices E elasticsearch_url (py_str pattern)) (\<lambda>indices.
     onSuccess (return (py_iter indices)) (\<lambda>js.
     onSuccess (for_success (status_line E elasticsearch_url) js) (\<lambda>lines. success (concat lines)))))"

text \<open>The part of the metrics once both statistics are there.\<close>

definition replication_message :: "'s metric_env \<Rightarrow> string \<Rightarrow> json \<Rightarrow> json \<Rightarrow> ('s, py_error + string) script_io" where
  "replication_message E elasticsearch_url follower_stats autofollow_stats =
     onSuccess (return (dict_get follower_stats ''num_syncing_indices'')) (\<lambda>num_syncing_indices.
     onSuccess (return (dict_get follower_stats ''num_bootstrapping_indices'')) (\<lambda>num_bootstrapping_indices.
     onSuccess (return (dict_get follower_stats ''num_paused_indices'')) (\<lambda>num_paused_indices.
     onSuccess (return (dict_get follower_stats ''num_failed_indices'')) (\<lambda>num_failed_indices.
     onSuccess (return (dict_get follower_stats ''index_stats'')) (\<lambda>index_stats.
     onSuccess (return (py_len index_stats)) (\<lambda>n.
     onSuccess (if n = 0 then success True
         else onSuccess (return (dict_items index_stats)) (\<lambda>items. is_replication_fetched E elasticsearch_url (fst (hd items)))) (\<lambda>fetched.
     if \<not> fetched then
       onSuccess (return (dict_items index_stats)) (\<lambda>items.
       success (''elasticsearch_replication_metric status=-1'' @ concat (map (\<lambda>kv. index_line (fst kv) ''index_status=-1'') items)))
     else
       onSuccess (return (determine_replication_status num_syncing_indices num_failed_indices)) (\<lambda>replication_status.
       onSuccess (return (if n = 0 then Inr [] else andThen (dict_items index_stats) (\<lambda>items. each_ok (\<lambda>kv. stats_line index_stats (fst kv)) items))) (\<lambda>stats_lines.
       onSuccess (return (dict_get autofollow_stats ''failed_indices'')) (\<lambda>failed_indices.
       onSuccess (return (andThen (py_len failed_indices) (\<lambda>_. py_iter failed_indices))) (\<lambda>failed.
       onSuccess (return (dict_get autofollow_stats ''autofollow_stats'')) (\<lambda>rules.
       onSuccess (return (andThen (py_len rules) (\<lambda>_. py_iter rules))) (\<lambda>rs.
       onSuccess (for_success (rule_lines E elasticsearch_url) rs) (\<lambda>lines.
       success (''elasticsearch_replication_metric status='' @ show_int replication_status @ '','' @
         ''syncing_indices='' @ py_str num_syncing_indices @ '',bootstrapping_indices='' @ py_str num_bootstrapping_indices @
         '',paused_indices='' @ py_str num_paused_indices @ '',failed_indices='' @ py_str num_failed_indices @
         concat stats_lines @ concat (map (\<lambda>j. index_line (py_str j) ''index_status=4'') failed) @ concat lines)))))))))))))))"

definition replication_collect_metrics :: "'s metric_env \<Rightarrow> string \<Rightarrow> ('s, py_error + string) script_io" where
  "replication_collect_metrics E elasticsearch_url =
     onSuccess (is_elasticsearch_available E elasticsearch_url) (\<lambda>available.
     if \<not> available then success ''elasticsearch_replication_metric status=-2''
     else
       onSuccess (get_follower_stats E elasticsearch_url) (\<lambda>follower_stats.
       onSuccess (get_autofollow_stats E elasticsearch_url) (\<lambda>autofollow_stats.
       if \<not> truthy follower_stats \<or> \<not> truthy autofollow_stats then success ''elasticsearch_replication_metric status=-2''
       else replication_message E elasticsearch_url follower_stats autofollow_stats)))"

section \<open>Backups\<close>

definition backup_available :: "'s metric_env \<Rightarrow> string \<Rightarrow> ('s, bool) script_io" where
  "backup_available E elasticsearch_url = do {
     r \<leftarrow> metric_request E (elasticsearch_url @ ''/_cat/health'');
     return (case r of Inl _ \<Rightarrow> False | Inr (status, _) \<Rightarrow> status = 200) }"

definition get_request_with_parameter :: "'s metric_env \<Rightarrow> string \<Rightarrow> string \<Rightarrow> ('s, json) script_io" where
  "get_request_with_parameter E elasticsearch_url parameter = do {
     r \<leftarrow> metric_request E (elasticsearch_url @ ''/_snapshot/'' @ parameter);
     return (case andThen r (\<lambda>(_, b). response_json b) of Inl _ \<Rightarrow> JStr [] | Inr j \<Rightarrow> j) }"

definition get_repositories :: "'s metric_env \<Rightarrow> string \<Rightarrow> ('s, py_error + string list) script_io" where
  "get_repositories E elasticsearch_url = do {
     repositories \<leftarrow> get_request_with_parameter E elasticsearch_url [];
     return (andThen (dict_items repositories) (\<lambda>items. Inr (map fst items))) }"

definition get_repository_storage_type :: "'s metric_env \<Rightarrow> string \<Rightarrow> string \<Rightarrow> ('s, py_error + json) script_io" where
  "get_repository_storage_type E elasticsearch_url repository_name = do {
     repository \<leftarrow> get_request_with_parameter E elasticsearch_url repository_name;
     return (andThen (subscript repository repository_name) (\<lambda>r. subscript r ''type'')) }"

definition get_current_status :: "'s metric_env \<Rightarrow> string \<Rightarrow> ('s, py_error + json) script_io" where
  "get_current_status E elasticsearch_url = do {
     snapshots_status \<leftarrow> get_request_with_parameter E elasticsearch_url ''_status'';
     return (andThen (subscript snapshots_status ''snapshots'') (\<lambda>snapshots.
       andThen (py_len snapshots) (\<lambda>n.
       if n = 0 then Inr (JStr []) else andThen (last_item snapshots) (\<lambda>s. subscript s ''state'')))) }"

definition get_state_code :: "json \<Rightarrow> int" where
  "get_state_code state =
     (if state = JStr ''SUCCESS'' then 1 else if state = JStr ''STARTED'' then 2 else if state = JStr ''IN_PROGRESS'' then 3
      else if state = JStr ''PARTIAL'' then 4 else if state = JStr ''INCOMPATIBLE'' then 5 else if state = JStr ''FAILED'' then 6 else - 1)"

definition get_storage_code :: "json \<Rightarrow> int" where
  "get_storage_code storage = (if storage = JStr ''fs'' then 1 else if storage = JStr ''s3'' then 2 else - 1)"

record snapshots_info =
  last_snapshot :: "json option"
  last_repository_name :: string
  snapshots_count :: nat
  successful_snapshots_count :: nat
  last_snapshot_time :: int
  last_successful_snapshot_time :: int

definition no_snapshots :: snapshots_info where
  "no_snapshots = \<lparr>last_snapshot = None, last_repository_name = [], snapshots_count = 0, successful_snapshots_count = 0,
     last_snapshot_time = - 1, last_successful_snapshot_time = - 1\<rparr>"

definition note_snapshot :: "string \<Rightarrow> snapshots_info \<Rightarrow> json \<Rightarrow> py_error + snapshots_info" where
  "note_snapshot repository_name info snapshot =
     andThen (andThen (subscript snapshot ''end_time_in_millis'') as_number) (\<lambda>t.
     let info1 = info\<lparr>snapshots_count := snapshots_count info + 1\<rparr>;
         info2 = (if t > last_snapshot_time info1
           then info1\<lparr>last_repository_name := repository_name, last_snapshot := Some snapshot, last_snapshot_time := t\<rparr> else info1) in
     andThen (subscript snapshot ''state'') (\<lambda>state.
     Inr (if state = JStr ''SUCCESS'' then
         info2\<lparr>successful_snapshots_count := successful_snapshots_count info2 + 1,
           last_successful_snapshot_time := max (last_successful_snapshot_time info2) t\<rparr>
       else info2)))"

fun note_snapshots :: "string \<Rightarrow> snapshots_info \<Rightarrow> json list \<Rightarrow> py_error + snapshots_info" where
  "note_snapshots repository_name info [] = Inr info"
| "note_snapshots repository_name info (s # ss) =
     andThen (note_snapshot repository_name info s) (\<lambda>info'. note_snapshots repository_name info' ss)"

fun note_repositories :: "'s metric_env \<Rightarrow> string \<Rightarrow> snapshots_info \<Rightarrow> string list \<Rightarrow> ('s, py_error + snapshots_info) script_io" where
  "note_repositories E elasticsearch_url info [] = success info"
| "note_repositories E elasticsearch_url info (repository_name # rest) = do {
     snapshots \<leftarrow> get_request_with_parameter E elasticsearch_url (repository_name @ ''/*'');
     onSuccess (return (contains_key ''error'' snapshots)) (\<lambda>failed.
     onSuccess (return (if failed then Inr info
         else andThen (subscript snapshots ''snapshots'') (\<lambda>ss. andThen (py_iter ss) (note_snapshots repository_name info)))) (\<lambda>info'.
     note_repositories E elasticsearch_url info' rest)) }"

definition get_snapshots_info :: "'s metric_env \<Rightarrow> string \<Rightarrow> ('s, py_error + snapshots_info) script_io" where
  "get_snapshots_info E elasticsearch_url =
     onSuccess (get_repositories E elasticsearch_url) (\<lambda>repository_names.
     onSuccess (note_repositories E elasticsearch_url no_snapshots repository_names) (\<lambda>info.
     success (if repository_names \<noteq> [] \<and> last_repository_name info = []
       then info\<lparr>last_repository_name := last repository_names\<rparr> else info)))"

definition last_backup_part :: "'s metric_env \<Rightarrow> string \<Rightarrow> snapshots_info \<Rightarrow> ('s, py_error + string \<times> int) script_io" where
  "last_backup_part E elasticsearch_url info =
     (case last_snapshot info of
        None \<Rightarrow> success ([], - 1)
      | Some snapshot \<Rightarrow>
          if \<not> truthy snapshot then success ([], - 1)
          else onSuccess (return (subscript snapshot ''snapshot'')) (\<lambda>name. do {
            status \<leftarrow> get_request_with_parameter E elasticsearch_url (last_repository_name info @ ''/'' @ py_str name @ ''/_status'');
            onSuccess (return (if truthy status then andThen (contains_key ''error'' status) (\<lambda>b. Inr (\<not> b)) else Inr False)) (\<lambda>usable.
            if usable then
              return (andThen (andThen (subscript status ''snapshots'') last_item) (\<lambda>s.
                andThen (subscript s ''state'') (\<lambda>state.
                andThen (subscript s ''stats'') (\<lambda>stats.
                andThen (andThen (subscript stats ''total'') (\<lambda>t. subscript t ''size_in_bytes'')) (\<lambda>size.
                andThen (subscript stats ''time_in_millis'') (\<lambda>spent.
                Inr ('',last_backup_size='' @ py_str size @ '',last_backup_time_spent='' @ py_str spent, get_state_code state)))))))
            else
              return (andThen (subscript snapshot ''state'') (\<lambda>state.
                andThen (subscript snapshot ''duration_in_millis'') (\<lambda>spent.
                Inr ('',last_backup_time_spent='' @ py_str spent, get_state_code state))))) }))"

definition backup_collect_metrics :: "'s metric_env \<Rightarrow> string \<Rightarrow> ('s, py_error + string) script_io" where
  "backup_collect_metrics E elasticsearch_url = do {
     available \<leftarrow> backup_available E elasticsearch_url;
     if \<not> available then success ''elasticsearch_backups_metric current_status=-2''
     else
       onSuccess (get_snapshots_info E elasticsearch_url) (\<lambda>info.
       onSuccess (if last_repository_name info \<noteq> [] then
           onSuccess (get_repository_storage_type E elasticsearch_url (last_repository_name info)) (\<lambda>storage_type.
           success ('',storage_type='' @ show_int (get_storage_code storage_type)))
         else success []) (\<lambda>storage.
       onSuccess (get_current_status E elasticsearch_url) (\<lambda>current_status.
       let current_status_code = (if truthy current_status then get_state_code current_status else - 1) in
       onSuccess (last_backup_part E elasticsearch_url info) (\<lambda>(part, last_backup_status_code).
       success (''elasticsearch_backups_metric count_of_snapshots='' @ show_int (int (snapshots_count info)) @
         '',last_snapshot_time='' @ show_int (last_snapshot_time info) @ '','' @
         ''count_of_successful_snapshots='' @ show_int (int (successful_snapshots_count info)) @
         '',last_successful_snapshot_time='' @ show_int (last_successful_snapshot_time info) @ storage @ part @
         '',last_backup_status='' @ show_int last_backup_status_code @ '',current_status='' @ show_int current_status_code))))) }"

text \<open>\<^verbatim>\<open>run\<close> of the last two scripts: nothing is collected without a host.\<close>

definition metric_run ::
  "(string \<Rightarrow> string option) \<Rightarrow> (string \<Rightarrow> ('s, py_error + string) script_io) \<Rightarrow> ('s, py_error + string option) script_io" where
  "metric_run getenv collect =
     (let part = (\<lambda>k. case getenv k of None \<Rightarrow> ''None'' | Some v \<Rightarrow> v) in
      (case getenv ''ELASTICSEARCH_HOST'' of
         None \<Rightarrow> success None
       | Some host \<Rightarrow>
           if host = [] then success None
           else onSuccess (collect (part ''ELASTICSEARCH_PROTOCOL'' @ ''://'' @ host @ '':'' @ part ''ELASTICSEARCH_PORT''))
             (\<lambda>message. success (Some message))))"

section \<open>Properties\<close>

lemma run_metric_request [run_simps]:
  "run_state (metric_request E url) w = (case metric_get E url (srv w) of (r, s) \<Rightarrow> (r, w\<lparr>srv := s, trace := trace w @ [url]\<rparr>))"
  by (simp add: metric_request_def run_simps)

text \<open>
  C40. The metric of the adapter shows what the adapter answers: asked for its health, the adapter and the script
  together print the code of the overall status and that of the cluster, for every state of the cluster and of the
  aggregator.
\<close>

theorem adapter_health_metric:
  assumes "run_state (HealthHandler A h r) w = (Ret (reply, h'), w')"
    and "metric_get E (url @ ''/health'') s = (Inr reply, s')"
  shows "fst (run_state (dbaas_collect_metrics E url) \<lparr>srv = s, trace = t\<rparr>) =
    Inr (''elasticsearch_dbaas_health status='' @ show_int (dbaas_status_code (JStr (h_Status h'))) @
      '',elastic_cluster_status='' @ show_int (dbaas_status_code (JStr (OpensearchHealth h'))))"
proof -
  have "reply = (200, Doc (enc_health h'))"
    using assms(1) by (auto simp: HealthHandler_def run_simps split: prod.splits go.splits)
  then show ?thesis
    using assms(2) by (simp add: dbaas_collect_metrics_def dbaas_get_health_data_def run_simps enc_health_def)
qed

text \<open>A yellow cluster and an aggregator without problems.\<close>

definition yellow_reply :: "int \<times> body" where
  "yellow_reply = (200, Doc (enc_health \<lparr>h_Status = ''WARNING'', OpensearchHealth = ''WARNING'', DbaasAggregatorHealth = ''UP''\<rparr>))"

theorem adapter_health_metric_witness:
  "fst (run_state (dbaas_collect_metrics \<lparr>metric_get = (\<lambda>_ s. (Inr yellow_reply, s))\<rparr> ''http://adapter:8080'') \<lparr>srv = (), trace = []\<rparr>) =
     Inr ''elasticsearch_dbaas_health status=4,elastic_cluster_status=4''"
proof -
  let ?h = "\<lparr>h_Status = ''UP'', OpensearchHealth = ''UP'', DbaasAggregatorHealth = ''UP''\<rparr>"
  let ?r = "\<lparr>in_id = ''1'', in_vars = [], in_query = [], in_body = Text []\<rparr>"
  let ?w = "answers [ok_doc (JArr [JObj [(''status'', JStr ''yellow'')]])]"
  let ?h' = "\<lparr>h_Status = ''WARNING'', OpensearchHealth = ''WARNING'', DbaasAggregatorHealth = ''UP''\<rparr>"
  have "fst (run_state (HealthHandler script_env ?h ?r) ?w) = Ret (yellow_reply, ?h')" by code_simp
  then obtain w' where "run_state (HealthHandler script_env ?h ?r) ?w = (Ret (yellow_reply, ?h'), w')"
    by (cases "run_state (HealthHandler script_env ?h ?r) ?w") simp
  from adapter_health_metric [OF this, where url = "''http://adapter:8080''" and s = "()" and s' = "()" and t = "[]"
      and E = "\<lparr>metric_get = (\<lambda>_ s. (Inr yellow_reply, s))\<rparr>"]
  have "fst (run_state (dbaas_collect_metrics \<lparr>metric_get = (\<lambda>_ s. (Inr yellow_reply, s))\<rparr> ''http://adapter:8080'') \<lparr>srv = (), trace = []\<rparr>) =
    Inr (''elasticsearch_dbaas_health status='' @ show_int 4 @ '',elastic_cluster_status='' @ show_int 4)"
    by (simp add: dbaas_status_code_def)
  moreover have "show_int 4 = ''4''" by code_simp
  ultimately show ?thesis by simp
qed

lemma adapter_down_metric:
  assumes "metric_get E (url @ ''/health'') s = (Inl e, s')"
  shows "fst (run_state (dbaas_collect_metrics E url) \<lparr>srv = s, trace = t\<rparr>) =
    Inr ''elasticsearch_dbaas_health status=1,elastic_cluster_status=3''"
  using assms by (simp add: dbaas_collect_metrics_def dbaas_get_health_data_def run_simps)

text \<open>Snapshots as the cluster lists them: with the time of their end and a state.\<close>

definition snapshot_entry :: "json \<times> int \<times> json \<Rightarrow> bool" where
  "snapshot_entry x \<longleftrightarrow> (case x of (s, t, state) \<Rightarrow>
     subscript s ''end_time_in_millis'' = Inr (JNum t) \<and> subscript s ''state'' = Inr state)"

definition latest :: "int \<Rightarrow> int list \<Rightarrow> int" where
  "latest = foldl max"

lemma latest_Cons: "latest m (t # ts) = latest (max m t) ts"
  by (simp add: latest_def)

lemma latest_bounds: "m \<le> latest m ts" "t \<in> set ts \<Longrightarrow> t \<le> latest m ts"
proof -
  have "m \<le> latest m ts \<and> (\<forall>t \<in> set ts. t \<le> latest m ts)" for m
  proof (induction ts arbitrary: m)
    case (Cons t ts)
    have "max m t \<le> latest (max m t) ts" using Cons.IH by blast
    then have "m \<le> latest (max m t) ts" "t \<le> latest (max m t) ts" by simp_all
    then show ?case using Cons.IH [of "max m t"] by (simp add: latest_Cons)
  qed (simp add: latest_def)
  then show "m \<le> latest m ts" "t \<in> set ts \<Longrightarrow> t \<le> latest m ts" by auto
qed

abbreviation succeeded :: "json \<times> int \<times> json \<Rightarrow> bool" where
  "succeeded x \<equiv> snd (snd x) = JStr ''SUCCESS''"

lemma note_snapshots_spec:
  assumes "list_all snapshot_entry xs"
  shows "\<exists>info'. note_snapshots r info (map fst xs) = Inr info' \<and>
    snapshots_count info' = snapshots_count info + length xs \<and>
    successful_snapshots_count info' = successful_snapshots_count info + length (filter succeeded xs) \<and>
    last_snapshot_time info' = latest (last_snapshot_time info) (map (\<lambda>x. fst (snd x)) xs) \<and>
    last_successful_snapshot_time info' = latest (last_successful_snapshot_time info) (map (\<lambda>x. fst (snd x)) (filter succeeded xs)) \<and>
    (if last_snapshot_time info' = last_snapshot_time info
     then last_snapshot info' = last_snapshot info \<and> last_repository_name info' = last_repository_name info
     else last_repository_name info' = r \<and>
       (\<exists>x \<in> set xs. last_snapshot info' = Some (fst x) \<and> fst (snd x) = last_snapshot_time info'))"
  using assms
proof (induction xs arbitrary: info)
  case Nil
  then show ?case by (simp add: latest_def)
next
  case (Cons x xs)
  obtain s t state where x: "x = (s, t, state)" by (cases x)
  have l: "list_all snapshot_entry xs" using Cons.prems by simp
  define i where "i = (if t > last_snapshot_time info
    then info\<lparr>snapshots_count := snapshots_count info + 1, last_repository_name := r, last_snapshot := Some s, last_snapshot_time := t\<rparr>
    else info\<lparr>snapshots_count := snapshots_count info + 1\<rparr>)"
  define j where "j = (if state = JStr ''SUCCESS'' then i\<lparr>successful_snapshots_count := successful_snapshots_count i + 1,
    last_successful_snapshot_time := max (last_successful_snapshot_time i) t\<rparr> else i)"
  have step: "note_snapshot r info s = Inr j"
    using Cons.prems unfolding x j_def i_def by (simp add: snapshot_entry_def note_snapshot_def Let_def)
  obtain info' where info': "note_snapshots r j (map fst xs) = Inr info'"
      "snapshots_count info' = snapshots_count j + length xs"
      "successful_snapshots_count info' = successful_snapshots_count j + length (filter succeeded xs)"
      "last_snapshot_time info' = latest (last_snapshot_time j) (map (\<lambda>x. fst (snd x)) xs)"
      "last_successful_snapshot_time info' = latest (last_successful_snapshot_time j) (map (\<lambda>x. fst (snd x)) (filter succeeded xs))"
      "if last_snapshot_time info' = last_snapshot_time j
       then last_snapshot info' = last_snapshot j \<and> last_repository_name info' = last_repository_name j
       else last_repository_name info' = r \<and> (\<exists>x \<in> set xs. last_snapshot info' = Some (fst x) \<and> fst (snd x) = last_snapshot_time info')"
    using Cons.IH [OF l, of j] by blast
  have j: "snapshots_count j = snapshots_count info + 1" "last_snapshot_time j = max (last_snapshot_time info) t"
      "successful_snapshots_count j = successful_snapshots_count info + (if state = JStr ''SUCCESS'' then 1 else 0)"
      "last_successful_snapshot_time j = (if state = JStr ''SUCCESS'' then max (last_successful_snapshot_time info) t else last_successful_snapshot_time info)"
      "last_snapshot j = (if t > last_snapshot_time info then Some s else last_snapshot info)"
      "last_repository_name j = (if t > last_snapshot_time info then r else last_repository_name info)"
    unfolding j_def i_def by (auto simp: max_def)
  have le: "last_snapshot_time j \<le> last_snapshot_time info'" unfolding info'(4) by (rule latest_bounds(1))
  show ?case
    using step info' j le unfolding x by (auto simp: latest_Cons split: if_splits)
qed



end
