(* ===== verification/Slow_Queries.thy ===== *)
theory Slow_Queries
  imports Python
begin

text \<open>
  The script of the monitoring that turns slow logs into metrics (\<^verbatim>\<open>monitoring/exec-scripts/slow_queries_metric.py\<close>): parsing of log
  lines, selection of the slowest queries, collection from the pods. Kubernetes, the clock and the reading of
  a time are parameters; what is printed is part of the trace.
\<close>

section \<open>Records\<close>

record slow_log_record =
  sl_log_level :: string
  sl_time :: string
  sl_node :: string
  sl_index :: string
  sl_shard :: string
  sl_took :: string
  sl_took_millis :: string
  sl_total_hits :: string
  sl_stats :: string
  sl_search_type :: string
  sl_total_shards :: string
  sl_source :: string
  sl_id :: string

definition SlowLogRecord :: "string list \<Rightarrow> py_error + slow_log_record" where
  "SlowLogRecord data =
     (if length data \<noteq> 13 then Inl ValueError
      else Inr \<lparr>sl_log_level = data ! 0, sl_time = data ! 1, sl_node = data ! 2, sl_index = data ! 3, sl_shard = data ! 4,
        sl_took = data ! 5, sl_took_millis = data ! 6, sl_total_hits = data ! 7, sl_stats = data ! 8,
        sl_search_type = data ! 9, sl_total_shards = data ! 10, sl_source = data ! 11, sl_id = data ! 12\<rparr>)"

definition record_str :: "slow_log_record \<Rightarrow> string" where
  "record_str r =
     ''['' @ sl_log_level r @ ''], '' @ sl_time r @ '', ['' @ sl_node r @ ''], ['' @ sl_index r @ ''][''  @ sl_shard r @ ''] took['' @ sl_took r @ ''], '' @
     ''took_millis['' @ sl_took_millis r @ ''], total_hits['' @ sl_total_hits r @ '' hits], stats['' @ sl_stats r @ ''], '' @
     ''search_type['' @ sl_search_type r @ ''], total_shards['' @ sl_total_shards r @ ''], source['' @ sl_source r @ ''], '' @
     ''id['' @ sl_id r @ '']''"

definition convert_to_metric_line :: "slow_log_record \<Rightarrow> string" where
  "convert_to_metric_line r =
     ''opensearch_slow_query,node='' @ sl_node r @ '',index='' @ sl_index r @ '',shard='' @ sl_shard r @ '',query='' @
     ReplaceAll (sl_source r) (CHR '','') '';'' @ '',total_hits='' @ sl_total_hits r @ '',registered_time='' @ sl_time r @
     '' took_millis='' @ sl_took_millis r"

section \<open>Parsing\<close>

text \<open>The loop may not end, which is \<open>None\<close>.\<close>

definition strip_hits :: "string \<Rightarrow> string" where
  "strip_hits value = (if HasSuffix value '' hits'' then take (length value - 5) value else value)"

partial_function (option) bracket_values :: "string \<Rightarrow> int \<Rightarrow> string list \<Rightarrow> string list option" where
  "bracket_values element index values =
     (if index = - 1 then Some values
      else (let end_index = find_from element (CHR '']'') index;
                value = py_slice element (index + 1) end_index
            in bracket_values element (find_from element (CHR ''['') end_index) (values @ [strip_hits value])))"

declare bracket_values.simps [code]

definition extract_values_from_brackets :: "string \<Rightarrow> string list option" where
  "extract_values_from_brackets element =
     (let index = find_from element (CHR ''['') 0 in
      if index = - 1 then Some [element] else bracket_values element index [])"

fun extract_all :: "string list \<Rightarrow> string list option" where
  "extract_all [] = Some []"
| "extract_all (e # es) =
     (case extract_values_from_brackets e of
        None \<Rightarrow> None
      | Some vs \<Rightarrow> (case extract_all es of None \<Rightarrow> None | Some ws \<Rightarrow> Some (vs @ ws)))"

definition record_elements :: "string \<Rightarrow> string list" where
  "record_elements line = split_str '', '' (strip_if (\<lambda>c. c = CHR '','' \<or> c = CHR '' '') line)"

definition convert_slow_log_record :: "string \<Rightarrow> (py_error + slow_log_record option) option" where
  "convert_slow_log_record line =
     (let elements = record_elements line in
      if length elements \<noteq> 11 then Some (Inr None)
      else (case extract_all elements of
          None \<Rightarrow> None
        | Some data \<Rightarrow> Some (andThen (SlowLogRecord data) (\<lambda>r. Inr (Some r)))))"

section \<open>Selection\<close>

definition record_name :: "slow_log_record \<Rightarrow> string" where
  "record_name r = sl_index r @ ''_'' @ sl_source r"

definition keep_record :: "slow_log_record go_map \<Rightarrow> slow_log_record \<Rightarrow> slow_log_record go_map" where
  "keep_record d r =
     (case map_of d (record_name r) of
        None \<Rightarrow> map_put (record_name r) r d
      | Some old \<Rightarrow> if str_less (sl_took_millis old) (sl_took_millis r) then map_put (record_name r) r d else d)"

text \<open>The keys are computed before sorting; the sort is stable, also in reverse.\<close>

definition filter_slow_logs_records :: "slow_log_record list \<Rightarrow> int \<Rightarrow> py_error + slow_log_record list" where
  "filter_slow_logs_records records top_number =
     (let kept = map snd (foldl keep_record [] records) in
      andThen (each_ok (\<lambda>r. andThen (py_int (sl_took_millis r)) (\<lambda>n. Inr (n, r))) kept) (\<lambda>keyed.
      Inr (py_slice (map snd (sort_key (\<lambda>x. - fst x) keyed)) 0 top_number)))"

section \<open>The script\<close>

datatype slow_event =
    ReadService string
  | ListPods string
  | ExecCat string
  | Printed string

record 's slow_env =
  slow_getenv :: "string \<Rightarrow> string option"
  core_v1_api :: "py_error + unit"
  read_namespaced_service :: "string \<Rightarrow> 's \<Rightarrow> (py_error + string go_map) \<times> 's"
  list_namespaced_pod :: "string \<Rightarrow> 's \<Rightarrow> (py_error + string list) \<times> 's"
  exec_rounds :: "string \<Rightarrow> 's \<Rightarrow> (py_error + (string \<times> string) list) \<times> 's"
  now :: "'s \<Rightarrow> int \<times> 's"
  fromisoformat :: "string \<Rightarrow> py_error + int"

text \<open>\<^verbatim>\<open>re.sub('-monitoring.*', '-data-svc', hostname)\<close>, for a name of one line\<close>

fun service_name :: "string \<Rightarrow> string" where
  "service_name [] = []"
| "service_name (c # s) = (if prefix ''-monitoring'' (c # s) then ''-data-svc'' else c # service_name s)"

definition get_search_engine_pod_names :: "'s slow_env \<Rightarrow> ('s, slow_event, py_error + string list) io" where
  "get_search_engine_pod_names E =
     (case slow_getenv E ''HOSTNAME'' of
        None \<Rightarrow> raised TypeError
      | Some host \<Rightarrow>
          onSuccess (request (ReadService (service_name host)) (read_namespaced_service E (service_name host))) (\<lambda>selector.
          let labels = join '','' (map (\<lambda>kv. fst kv @ ''='' @ snd kv) selector) in
          request (ListPods labels) (list_namespaced_pod E labels)))"

definition get_slow_queries_top_number :: "'s slow_env \<Rightarrow> py_error + int" where
  "get_slow_queries_top_number E = py_int (case slow_getenv E ''SLOW_QUERIES_TOP_NUMBER'' of None \<Rightarrow> ''10'' | Some v \<Rightarrow> v)"

definition get_processing_interval_minutes :: "'s slow_env \<Rightarrow> py_error + int" where
  "get_processing_interval_minutes E =
     andThen (py_int (case slow_getenv E ''PROCESSING_INTERVAL_MINUTES'' of None \<Rightarrow> ''0'' | Some v \<Rightarrow> v)) (\<lambda>period.
     if period < 0 then Inl (PlainException (''Incorrect value of PROCESSING_INTERVAL_MINUTES parameter is used: '' @ show_int period))
     else Inr period)"

text \<open>The lines, from the last one on.\<close>

fun process_lines ::
  "(string \<Rightarrow> py_error + int) \<Rightarrow> int \<Rightarrow> string list \<Rightarrow> slow_log_record list \<Rightarrow> (py_error + slow_log_record list) option" where
  "process_lines parse_time time_to_stop [] slow_logs = Some (Inr slow_logs)"
| "process_lines parse_time time_to_stop (line # rest) slow_logs =
     (case convert_slow_log_record (rstrip_if py_space line) of
        None \<Rightarrow> None
      | Some (Inl e) \<Rightarrow> Some (Inl e)
      | Some (Inr None) \<Rightarrow> process_lines parse_time time_to_stop rest slow_logs
      | Some (Inr (Some slow_log)) \<Rightarrow>
          (case parse_time (sl_time slow_log) of
             Inl e \<Rightarrow> Some (Inl e)
           | Inr t \<Rightarrow> if t < time_to_stop then Some (Inr slow_logs)
                     else process_lines parse_time time_to_stop rest (slow_logs @ [slow_log])))"

definition process_log_records ::
  "(string \<Rightarrow> py_error + int) \<Rightarrow> string \<Rightarrow> int \<Rightarrow> (py_error + slow_log_record list) option" where
  "process_log_records parse_time text time_to_stop = process_lines parse_time time_to_stop (rev (readlines text)) []"

text \<open>
  The log of a pod, by \<^verbatim>\<open>cat\<close>: \<open>exec_rounds\<close> is what the stream has on its two outputs in each round of the loop, until it
  is closed. What comes on the second one is printed.
\<close>

definition copy_slow_log_file :: "'s slow_env \<Rightarrow> string \<Rightarrow> ('s, slow_event, py_error + string) io" where
  "copy_slow_log_file E pod =
     onSuccess (request (ExecCat pod) (exec_rounds E pod)) (\<lambda>rounds. do {
       _ \<leftarrow> for_each (\<lambda>err. request (Printed (''STDERR: '' @ err)) (Pair ())) (filter (\<lambda>err. err \<noteq> []) (map snd rounds));
       success (concat (map fst rounds)) })"

text \<open>
  One pod after the other. An exception is logged and the records of its pod are left out. The copy of
  the log lives only from the command to the processing. \<open>None\<close> is a script that does not end.
\<close>

fun process_pods :: "'s slow_env \<Rightarrow> int \<Rightarrow> string list \<Rightarrow> ('s, slow_event, slow_log_record list option) io" where
  "process_pods E time_to_stop [] = return (Some [])"
| "process_pods E time_to_stop (pod # pods) = do {
     copied \<leftarrow> copy_slow_log_file E pod;
     (case copied of
        Inl _ \<Rightarrow> process_pods E time_to_stop pods
      | Inr text \<Rightarrow>
         (case process_log_records (fromisoformat E) text time_to_stop of
            None \<Rightarrow> return None
          | Some r \<Rightarrow> do {
              rest \<leftarrow> process_pods E time_to_stop pods;
              return (map_option (\<lambda>records. (case r of Inl _ \<Rightarrow> [] | Inr xs \<Rightarrow> xs) @ records) rest) })) }"

definition send_slow_logs_metrics :: "slow_log_record list \<Rightarrow> ('s, slow_event, unit list) io" where
  "send_slow_logs_metrics records = for_each (\<lambda>r. request (Printed (convert_to_metric_line r)) (Pair ())) records"

definition slow_run :: "'s slow_env \<Rightarrow> ('s, slow_event, (py_error + unit) option) io" where
  "slow_run E =
     (case (get_slow_queries_top_number E, get_processing_interval_minutes E, core_v1_api E) of
        (Inl e, _, _) \<Rightarrow> return (Some (Inl e))
      | (_, Inl e, _) \<Rightarrow> return (Some (Inl e))
      | (_, _, Inl e) \<Rightarrow> return (Some (Inl e))
      | (Inr top_number, Inr minutes, Inr _) \<Rightarrow> do {
          pods \<leftarrow> get_search_engine_pod_names E;
          (case pods of
             Inl e \<Rightarrow> return (Some (Inl e))
           | Inr [] \<Rightarrow> return (Some (Inr ()))
           | Inr (p # ps) \<Rightarrow> do {
               t \<leftarrow> silent (now E);
               collected \<leftarrow> process_pods E (t - 60 * minutes) (p # ps);
               (case collected of
                  None \<Rightarrow> return None
                | Some records \<Rightarrow>
                   (case filter_slow_logs_records records top_number of
                      Inl e \<Rightarrow> return (Some (Inl e))
                    | Inr result \<Rightarrow> do {
                        _ \<leftarrow> send_slow_logs_metrics result;
                        return (Some (Inr ())) })) }) })"

section \<open>Brackets\<close>

lemma find_from_append:
  "c \<notin> set x \<Longrightarrow> find_from (p @ x @ c # t) c (int (length p)) = int (length p + length x)"
  by (simp add: find_from_def py_start_def find_index_append)

lemma find_from_absent: "c \<notin> set (drop k s) \<Longrightarrow> find_from s c (int k) = - 1"
  by (simp add: find_from_def py_start_def find_index_none)

definition chunk :: "string \<times> string \<Rightarrow> string" where
  "chunk c = fst c @ CHR ''['' # snd c @ '']''"

definition chunk_ok :: "string \<times> string \<Rightarrow> bool" where
  "chunk_ok c \<longleftrightarrow> CHR ''['' \<notin> set (fst c) \<and> CHR '']'' \<notin> set (snd c)"

definition next_bracket :: "string \<Rightarrow> (string \<times> string) list \<Rightarrow> int" where
  "next_bracket p cs = (case cs of [] \<Rightarrow> - 1 | c # _ \<Rightarrow> int (length p + length (fst c)))"

lemma next_bracket_find:
  assumes "list_all chunk_ok cs" and "x \<noteq> CHR ''[''"
  shows "find_from (p @ x # concat (map chunk cs)) (CHR ''['') (int (length p)) = next_bracket (p @ [x]) cs"
proof (cases cs)
  case Nil
  then show ?thesis using assms(2) by (simp add: next_bracket_def find_from_absent)
next
  case (Cons c cs')
  then show ?thesis
    using assms find_from_append [of "CHR ''[''" "x # fst c" p "snd c @ '']'' @ concat (map chunk cs')"]
    by (simp add: next_bracket_def chunk_def chunk_ok_def)
qed

lemma bracket_values_chunks:
  assumes "list_all chunk_ok cs"
  shows "bracket_values (p @ concat (map chunk cs)) (next_bracket p cs) vs = Some (vs @ map (strip_hits \<circ> snd) cs)"
  using assms
proof (induction cs arbitrary: p vs)
  case Nil
  then show ?case by (simp add: next_bracket_def bracket_values.simps)
next
  case (Cons c cs)
  let ?q = "p @ fst c" and ?e = "p @ concat (map chunk (c # cs))"
  let ?p' = "p @ fst c @ CHR ''['' # snd c"
  have e: "?e = ?q @ (CHR ''['' # snd c) @ CHR '']'' # concat (map chunk cs)" by (simp add: chunk_def [of c])
  have c: "CHR '']'' \<notin> set (CHR ''['' # snd c)" "list_all chunk_ok cs" using Cons.prems by (simp_all add: chunk_ok_def [of c])
  have i: "next_bracket p (c # cs) = int (length ?q)" by (simp add: next_bracket_def)
  have j: "find_from ?e (CHR '']'') (int (length ?q)) = int (length ?p')"
    unfolding e using find_from_append [OF c(1), of ?q] by simp
  have v: "py_slice ?e (int (length ?q) + 1) (int (length ?p')) = snd c"
    by (simp add: py_slice_def chunk_def [of c] nat_add_distrib)
  have k: "find_from ?e (CHR ''['') (int (length ?p')) = next_bracket (?p' @ '']'') cs"
    using next_bracket_find [OF c(2), of "CHR '']''" ?p'] by (simp add: chunk_def [of c])
  have "bracket_values ?e (int (length ?q)) vs = bracket_values ?e (next_bracket (?p' @ '']'') cs) (vs @ [strip_hits (snd c)])"
    by (subst bracket_values.simps) (simp only: j v k Let_def of_nat_eq_iff, simp)
  also have "\<dots> = Some (vs @ map (strip_hits \<circ> snd) (c # cs))"
    using Cons.IH [OF c(2), of "?p' @ '']''" "vs @ [strip_hits (snd c)]"] by (simp add: chunk_def [of c])
  finally show ?case using i by simp
qed

lemma extract_chunks:
  assumes "list_all chunk_ok cs" and "cs \<noteq> []"
  shows "extract_values_from_brackets (concat (map chunk cs)) = Some (map (strip_hits \<circ> snd) cs)"
proof -
  obtain c cs' where cs: "cs = c # cs'" using assms(2) by (cases cs) auto
  have "find_from (concat (map chunk cs)) (CHR ''['') 0 = next_bracket [] cs"
    using assms(1) find_from_append [of "CHR ''[''" "fst c" "[]" "snd c @ '']'' @ concat (map chunk cs')"]
    by (simp add: cs next_bracket_def chunk_def chunk_ok_def)
  then show ?thesis
    using bracket_values_chunks [OF assms(1), of "[]" "[]"] by (simp add: extract_values_from_brackets_def next_bracket_def cs)
qed

lemma extract_plain: "CHR ''['' \<notin> set e \<Longrightarrow> extract_values_from_brackets e = Some [e]"
  using find_from_absent [of "CHR ''[''" 0 e] by (simp add: extract_values_from_brackets_def)

lemma takeWhile_found:
  "c \<in> set xs \<Longrightarrow> length (takeWhile (\<lambda>x. x \<noteq> c) xs) < length xs \<and> xs ! length (takeWhile (\<lambda>x. x \<noteq> c) xs) = c"
  by (induction xs) auto

lemma find_from_found:
  assumes "find_from s c k \<noteq> - 1"
  shows "int (py_start s k) \<le> find_from s c k" and "find_from s c k < int (length s)"
    and "s ! nat (find_from s c k) = c"
proof -
  let ?xs = "drop (py_start s k) s" and ?n = "length (takeWhile (\<lambda>x. x \<noteq> c) (drop (py_start s k) s))"
  have c: "c \<in> set ?xs" using assms by (simp add: find_from_def find_index_none)
  then have f: "find_from s c k = int (py_start s k + ?n)" by (simp only: find_from_def find_index_some)
  have n: "?n < length ?xs" "?xs ! ?n = c"
    using takeWhile_found [OF c] by simp_all
  then show "int (py_start s k) \<le> find_from s c k" "find_from s c k < int (length s)" "s ! nat (find_from s c k) = c"
    using f by (auto simp: nat_add_distrib)
qed

lemma find_from_last: "py_start s k < length s \<Longrightarrow> find_from s (last s) k \<noteq> - 1"
  by (simp add: find_from_def find_index_none) (metis last_drop last_in_set drop_eq_Nil not_le)

lemma bracket_values_stuck:
  assumes "bracket_values e i vs = Some r" and "e \<noteq> []" and "last e = CHR ''[''"
  shows "i = - 1"
proof -
  have "e \<noteq> [] \<longrightarrow> last e = CHR ''['' \<longrightarrow> i = - 1"
  proof (rule bracket_values.raw_induct [where P = "\<lambda>e i vs r. e \<noteq> [] \<longrightarrow> last e = CHR ''['' \<longrightarrow> i = - 1", OF _ assms(1)], intro impI)
    fix f e i vs r
    assume rec: "\<And>e i vs r. f e i vs = Some r \<Longrightarrow> e \<noteq> [] \<longrightarrow> last e = CHR ''['' \<longrightarrow> i = - 1"
      and body: "(if i = - 1 then Some vs
         else let end_index = find_from e (CHR '']'') i; value = py_slice e (i + 1) end_index
              in f e (find_from e (CHR ''['') end_index) (vs @ [strip_hits value])) = Some r"
      and e: "e \<noteq> []" "last e = CHR ''[''"
    let ?j = "find_from e (CHR '']'') i"
    show "i = - 1"
    proof (rule ccontr)
      assume i: "i \<noteq> - 1"
      have "py_start e ?j < length e"
        using find_from_found(1,2) [of e "CHR '']''" i] e(1) by (cases "?j = - 1") (auto simp: py_start_def nat_less_iff)
      then have "find_from e (CHR ''['') ?j \<noteq> - 1" using find_from_last [of e ?j] e(2) by simp
      moreover have "f e (find_from e (CHR ''['') ?j) (vs @ [strip_hits (py_slice e (i + 1) ?j)]) = Some r"
        using body i by (simp add: Let_def)
      ultimately show False using rec e by blast
    qed
  qed
  then show ?thesis using assms(2,3) by blast
qed

lemma bracket_values_ends:
  assumes "e = [] \<or> last e \<noteq> CHR ''[''" and "i = - 1 \<or> 0 \<le> i \<and> i < int (length e)"
  shows "\<exists>r. bracket_values e i vs = Some r"
  using assms(2)
proof (induction "length e - nat i" arbitrary: i vs rule: less_induct)
  case less
  show ?case
  proof (cases "i = - 1")
    case True
    then show ?thesis by (simp add: bracket_values.simps)
  next
    case False
    let ?j = "find_from e (CHR '']'') i"
    let ?k = "find_from e (CHR ''['') ?j" and ?vs = "vs @ [strip_hits (py_slice e (i + 1) ?j)]"
    have step: "bracket_values e i vs = bracket_values e ?k ?vs"
      by (subst bracket_values.simps) (simp add: False Let_def)
    have e: "0 \<le> i" "i < int (length e)" "e \<noteq> []" using less.prems False by auto
    have "?k = - 1 \<or> i < ?k \<and> ?k < int (length e)"
    proof (cases "?j = - 1")
      case True
      have "drop (length e - 1) e = [last e]" using e(3) by (metis append_butlast_last_id append_eq_conv_conj length_butlast)
      then have "?k = - 1" using assms(1) e(3) True by (simp add: find_from_def py_start_def nat_diff_distrib')
      then show ?thesis ..
    next
      case False
      note j = find_from_found [OF False]
      have "i \<le> ?j" using j(1) e(1) by (simp add: py_start_def)
      show ?thesis
      proof (rule disjCI)
        assume "\<not> (i < ?k \<and> ?k < int (length e))"
        show "?k = - 1"
        proof (rule ccontr)
          assume k: "?k \<noteq> - 1"
          note k' = find_from_found [OF k]
          have "?j \<le> ?k" using k'(1) \<open>i \<le> ?j\<close> e(1) by (simp add: py_start_def)
          moreover have "?j \<noteq> ?k" using j(3) k'(3) by auto
          ultimately show False using \<open>i \<le> ?j\<close> k'(2) \<open>\<not> (i < ?k \<and> ?k < int (length e))\<close> by simp
        qed
      qed
    qed
    then show ?thesis
    proof
      assume "?k = - 1"
      then show ?thesis using step by (simp add: bracket_values.simps)
    next
      assume k: "i < ?k \<and> ?k < int (length e)"
      then have "length e - nat ?k < length e - nat i" using e(1) by linarith
      then show ?thesis using step less.hyps [of ?k ?vs] k e(1) by auto
    qed
  qed
qed

text \<open>
  The loop over the brackets of an element ends unless the element ends with an opening bracket.
\<close>

theorem extract_ends:
  "extract_values_from_brackets e = None \<longleftrightarrow> e \<noteq> [] \<and> last e = CHR ''[''"
proof (cases "find_from e (CHR ''['') 0 = - 1")
  case True
  then have "CHR ''['' \<notin> set e" by (simp add: find_from_def py_start_def find_index_none)
  then have "e \<noteq> [] \<Longrightarrow> last e \<noteq> CHR ''[''" by (metis last_in_set)
  then show ?thesis using True by (auto simp: extract_values_from_brackets_def)
next
  case False
  note i = find_from_found [OF False]
  show ?thesis
  proof (cases "e \<noteq> [] \<and> last e = CHR ''[''")
    case True
    then show ?thesis using bracket_values_stuck [of e _ "[]"] False
      by (cases "bracket_values e (find_from e (CHR ''['') 0) []") (auto simp: extract_values_from_brackets_def Let_def)
  next
    case ends: False
    then show ?thesis
      using bracket_values_ends [of e "find_from e (CHR ''['') 0" "[]"] i False
      by (auto simp: extract_values_from_brackets_def py_start_def)
  qed
qed

section \<open>Parsing what was printed\<close>

definition comma_free :: "string \<Rightarrow> bool" where
  "comma_free s \<longleftrightarrow> \<not> sublist '', '' s"

lemma comma_free_Nil [simp]: "comma_free []"
  by (simp add: comma_free_def)

lemma comma_free_Cons [simp]:
  "comma_free (a # s) \<longleftrightarrow> comma_free s \<and> (a = CHR '','' \<longrightarrow> s = [] \<or> hd s \<noteq> CHR '' '')"
  by (cases s) (auto simp: comma_free_def sublist_Cons_right)

lemma comma_free_append [simp]:
  "comma_free (x @ y) \<longleftrightarrow> comma_free x \<and> comma_free y \<and> (x \<noteq> [] \<and> last x = CHR '','' \<longrightarrow> y = [] \<or> hd y \<noteq> CHR '' '')"
  by (induction x) (auto simp: hd_append)

lemma comma_free_no_comma: "CHR '','' \<notin> set s \<Longrightarrow> comma_free s"
  by (induction s) auto

definition field_ok :: "string \<Rightarrow> bool" where
  "field_ok f \<longleftrightarrow> comma_free f \<and> CHR ''['' \<notin> set f \<and> CHR '']'' \<notin> set f \<and> \<not> HasSuffix f '' hits''"

text \<open>Fields without brackets and without a comma before a space; the number of hits has no comma at all.\<close>

definition clean_record :: "slow_log_record \<Rightarrow> bool" where
  "clean_record r \<longleftrightarrow>
     list_all field_ok [sl_log_level r, sl_time r, sl_node r, sl_index r, sl_shard r, sl_took r, sl_took_millis r, sl_stats r,
       sl_search_type r, sl_total_shards r, sl_source r, sl_id r] \<and>
     set (sl_total_hits r) \<inter> {CHR '','', CHR ''['', CHR '']''} = {}"

definition element :: "(string \<times> string) list \<Rightarrow> string" where
  "element cs = concat (map chunk cs)"

definition printed_elements :: "slow_log_record \<Rightarrow> string list" where
  "printed_elements r =
     [element [([], sl_log_level r)], sl_time r, element [([], sl_node r)],
      element [([], sl_index r), ([], sl_shard r), ('' took'', sl_took r)],
      element [(''took_millis'', sl_took_millis r)], element [(''total_hits'', sl_total_hits r @ '' hits'')],
      element [(''stats'', sl_stats r)], element [(''search_type'', sl_search_type r)],
      element [(''total_shards'', sl_total_shards r)], element [(''source'', sl_source r)],
      element [(''id'', sl_id r)]]"

lemma record_str_elements: "record_str r = join '', '' (printed_elements r)"
  by (simp add: record_str_def printed_elements_def element_def chunk_def)

lemma strip_hits_ok: "field_ok f \<Longrightarrow> strip_hits f = f" "strip_hits (f @ '' hits'') = f"
  by (simp_all add: strip_hits_def field_ok_def HasSuffix_def suffix_def)

lemma printed_elements_comma_free: "clean_record r \<Longrightarrow> \<forall>e \<in> set (printed_elements r). \<not> sublist [CHR '','', CHR '' ''] e"
  unfolding printed_elements_def clean_record_def
  by (auto simp: element_def chunk_def field_ok_def comma_free_no_comma last_in_set comma_free_def [symmetric] dest: last_in_set)

lemma record_elements_printed: "clean_record r \<Longrightarrow> record_elements (record_str r) = printed_elements r"
proof -
  assume r: "clean_record r"
  have "hd (record_str r) = CHR ''[''" "last (record_str r) = CHR '']''" "record_str r \<noteq> []"
    by (simp_all add: record_str_def)
  then have "record_elements (record_str r) = split_str [CHR '','', CHR '' ''] (join [CHR '','', CHR '' ''] (printed_elements r))"
    unfolding record_elements_def by (subst strip_if_ends) (simp_all add: record_str_elements)
  also have "\<dots> = printed_elements r"
    by (rule split_str_join) (use printed_elements_comma_free [OF r] in \<open>simp_all add: printed_elements_def\<close>)
  finally show ?thesis .
qed

lemma extract_element:
  "cs \<noteq> [] \<Longrightarrow> list_all chunk_ok cs \<Longrightarrow> extract_values_from_brackets (element cs) = Some (map (strip_hits \<circ> snd) cs)"
  unfolding element_def by (rule extract_chunks)

lemma extract_printed:
  assumes "clean_record r"
  shows "extract_all (printed_elements r) = Some [sl_log_level r, sl_time r, sl_node r, sl_index r, sl_shard r, sl_took r,
    sl_took_millis r, sl_total_hits r, sl_stats r, sl_search_type r, sl_total_shards r, sl_source r, sl_id r]"
proof -
  have "\<forall>f \<in> {sl_log_level r, sl_node r, sl_index r, sl_shard r, sl_took r, sl_took_millis r, sl_stats r, sl_search_type r,
      sl_total_shards r, sl_source r, sl_id r}. CHR '']'' \<notin> set f \<and> strip_hits f = f"
    using assms strip_hits_ok(1) by (auto simp: clean_record_def field_ok_def)
  moreover have "CHR '']'' \<notin> set (sl_total_hits r)" "CHR ''['' \<notin> set (sl_time r)"
    using assms by (auto simp: clean_record_def field_ok_def)
  ultimately show ?thesis
    by (simp add: printed_elements_def extract_element extract_plain chunk_ok_def strip_hits_ok(2))
qed


definition example_record :: slow_log_record where
  "example_record = \<lparr>sl_log_level = ''WARN '', sl_time = ''2023-07-27T08:00:43'', sl_node = ''opensearch-1'', sl_index = ''test-index-1'',
     sl_shard = ''0'', sl_took = ''12.4ms'', sl_took_millis = ''12'', sl_total_hits = ''0'', sl_stats = [], sl_search_type = ''QUERY_THEN_FETCH'',
     sl_total_shards = ''1'', sl_source = ''{query:{match:{phrase:heuristic,boost:1.0}}}'', sl_id = []\<rparr>"


text \<open>
  A query with a list in it has brackets of its own: it is cut at the first closing one, and two lists make the
  record raise, which loses all records of its pod.
\<close>

lemma list_in_query_cut:
  "convert_slow_log_record (record_str (example_record\<lparr>sl_source := ''{tag:[1,2],size:5}''\<rparr>)) =
     Some (Inr (Some (example_record\<lparr>sl_source := ''{tag:[1,2''\<rparr>)))"
  by code_simp

lemma lists_in_query_raise:
  "convert_slow_log_record (record_str (example_record\<lparr>sl_source := ''{tag:[1],sort:[2]}''\<rparr>)) = Some (Inl ValueError)"
  by code_simp

section \<open>The slowest queries\<close>

definition millis :: "slow_log_record \<Rightarrow> int" where
  "millis r = digits_int (sl_took_millis r)"

definition same_width :: "nat \<Rightarrow> slow_log_record list \<Rightarrow> bool" where
  "same_width n rs \<longleftrightarrow> (\<forall>r \<in> set rs. decimals (sl_took_millis r) \<and> length (sl_took_millis r) = n)"

lemma digits_foldl:
  "foldl (\<lambda>acc ch. 10 * acc + (int (of_char ch) - 48)) a ds = a * 10 ^ length ds + digits_int ds"
proof (induction ds arbitrary: a)
  case Nil
  then show ?case by (simp add: digits_int_def)
next
  case (Cons d ds)
  have "digits_int (d # ds) = foldl (\<lambda>acc ch. 10 * acc + (int (of_char ch) - 48)) (int (of_char d) - 48) ds"
    by (simp add: digits_int_def)
  then show ?case
    using Cons.IH [of "int (of_char d) - 48"] Cons.IH [of "10 * a + (int (of_char d) - 48)"] by (simp add: algebra_simps)
qed

lemma digits_int_Cons: "digits_int (d # ds) = (int (of_char d) - 48) * 10 ^ length ds + digits_int ds"
proof -
  have "digits_int (d # ds) = foldl (\<lambda>acc ch. 10 * acc + (int (of_char ch) - 48)) (int (of_char d) - 48) ds"
    by (simp add: digits_int_def)
  then show ?thesis using digits_foldl by metis
qed

lemma digits_int_range: "list_all decimal_digit ds \<Longrightarrow> 0 \<le> digits_int ds \<and> digits_int ds < 10 ^ length ds"
proof (induction ds)
  case Nil
  then show ?case by (simp add: digits_int_def)
next
  case (Cons d ds)
  let ?d = "int (of_char d) - 48"
  have d: "0 \<le> ?d" "?d \<le> 9" using Cons.prems by (auto simp: decimal_digit_def)
  have "?d * 10 ^ length ds \<le> 9 * 10 ^ length ds" using d(2) by (intro mult_right_mono) auto
  moreover have "0 \<le> ?d * 10 ^ length ds" using d(1) by simp
  moreover have "0 \<le> digits_int ds" "digits_int ds < 10 ^ length ds" using Cons by auto
  ultimately show ?case unfolding digits_int_Cons length_Cons power_Suc by linarith
qed

lemma str_less_digits:
  assumes "length xs = length ys" and "list_all decimal_digit xs" and "list_all decimal_digit ys"
  shows "str_less xs ys \<longleftrightarrow> digits_int xs < digits_int ys"
  using assms
proof (induction xs ys rule: list_induct2)
  case Nil
  then show ?case by simp
next
  case (Cons x xs y ys)
  have IH: "str_less xs ys \<longleftrightarrow> digits_int xs < digits_int ys" using Cons by simp
  let ?k = "10 ^ length ys :: int" and ?x = "int (of_char x) - 48" and ?y = "int (of_char y) - 48"
  have r': "0 \<le> digits_int xs" "digits_int xs < ?k" "0 \<le> digits_int ys" "digits_int ys < ?k"
    using digits_int_range [of xs] digits_int_range [of ys] Cons.hyps Cons.prems by auto
  have e: "digits_int (x # xs) = ?x * ?k + digits_int xs" "digits_int (y # ys) = ?y * ?k + digits_int ys"
    using Cons.hyps by (simp_all add: digits_int_Cons)
  have "(of_char x :: nat) = of_char y \<longleftrightarrow> x = y" by simp
  then consider "(of_char x :: nat) < of_char y" | "x = y" | "(of_char y :: nat) < of_char x" by linarith
  then show ?case
  proof cases
    case 1
    then have "(?x + 1) * ?k \<le> ?y * ?k" by (intro mult_right_mono) auto
    then have "?x * ?k + ?k \<le> ?y * ?k" by (simp only: distrib_right mult_1)
    then have "?x * ?k + digits_int xs < ?y * ?k + digits_int ys" using r' by linarith
    then show ?thesis using 1 e by simp
  next
    case 2
    then show ?thesis using e IH by simp
  next
    case 3
    then have "(?y + 1) * ?k \<le> ?x * ?k" by (intro mult_right_mono) auto
    then have "?y * ?k + ?k \<le> ?x * ?k" by (simp only: distrib_right mult_1)
    then have "\<not> ?x * ?k + digits_int xs < ?y * ?k + digits_int ys" using r' by linarith
    then show ?thesis using 3 e by auto
  qed
qed

text \<open>What the dictionary holds after the records \<open>rs\<close>.\<close>

definition kept :: "slow_log_record list \<Rightarrow> slow_log_record go_map \<Rightarrow> bool" where
  "kept rs d \<longleftrightarrow> wf_map d \<and> fst ` set d = record_name ` set rs \<and>
     (\<forall>(k, r) \<in> set d. k = record_name r \<and> r \<in> set rs \<and> (\<forall>r' \<in> set rs. record_name r' = k \<longrightarrow> millis r' \<le> millis r))"

lemma map_put_set: "wf_map d \<Longrightarrow> set (map_put k v d) = {(k', v') \<in> set d. k' \<noteq> k} \<union> {(k, v)}"
  unfolding wf_map_def map_put_def by (induction d) (auto intro: rev_image_eqI)

lemma keptI:
  assumes "wf_map d" and "fst ` set d = record_name ` set rs"
    and "\<And>k r. (k, r) \<in> set d \<Longrightarrow> k = record_name r \<and> r \<in> set rs"
    and "\<And>k r r'. (k, r) \<in> set d \<Longrightarrow> r' \<in> set rs \<Longrightarrow> record_name r' = k \<Longrightarrow> millis r' \<le> millis r"
  shows "kept rs d"
  unfolding kept_def using assms by blast

lemma keptD:
  assumes "kept rs d"
  shows "wf_map d" and "fst ` set d = record_name ` set rs"
    and "(k, r) \<in> set d \<Longrightarrow> k = record_name r \<and> r \<in> set rs"
    and "(k, r) \<in> set d \<Longrightarrow> r' \<in> set rs \<Longrightarrow> record_name r' = k \<Longrightarrow> millis r' \<le> millis r"
  using assms unfolding kept_def by blast+

lemma kept_put:
  assumes d: "kept rs d" and r: "\<And>r'. r' \<in> set rs \<Longrightarrow> record_name r' = record_name r \<Longrightarrow> millis r' \<le> millis r"
  shows "kept (rs @ [r]) (map_put (record_name r) r d)"
proof (rule keptI)
  note D = keptD [OF d]
  note S = map_put_set [OF D(1), of "record_name r" r]
  show "wf_map (map_put (record_name r) r d)" using D(1) by (rule gomap.invar_put)
  have "fst ` {(k', v') \<in> set d. k' \<noteq> record_name r} = fst ` set d - {record_name r}" by force
  then show "fst ` set (map_put (record_name r) r d) = record_name ` set (rs @ [r])" using D(2) unfolding S image_Un by auto
  show "k = record_name x \<and> x \<in> set (rs @ [r])" if "(k, x) \<in> set (map_put (record_name r) r d)" for k x
    using that D(3) unfolding S by auto
  show "millis r' \<le> millis x"
    if "(k, x) \<in> set (map_put (record_name r) r d)" "r' \<in> set (rs @ [r])" "record_name r' = k" for k x r'
    using that D(4) r unfolding S by auto
qed

lemma keep_record_kept:
  assumes "kept rs d" and "same_width n (rs @ [r])"
  shows "kept (rs @ [r]) (keep_record d r)"
proof (cases "map_of d (record_name r)")
  case None
  then have "record_name r \<notin> record_name ` set rs" using keptD(2) [OF assms(1)] by (simp add: map_of_eq_None_iff)
  then have "\<And>r'. r' \<in> set rs \<Longrightarrow> record_name r' \<noteq> record_name r" by (metis image_eqI)
  then have "kept (rs @ [r]) (map_put (record_name r) r d)" by (intro kept_put [OF assms(1)]) simp
  then show ?thesis using None by (simp add: keep_record_def)
next
  case (Some old)
  then have m: "(record_name r, old) \<in> set d" by (rule map_of_SomeD)
  note D = keptD [OF assms(1)]
  have old: "record_name old = record_name r" "old \<in> set rs" using D(3) [OF m] by auto
  have less: "str_less (sl_took_millis old) (sl_took_millis r) \<longleftrightarrow> millis old < millis r"
    unfolding millis_def using assms(2) old(2) by (intro str_less_digits) (auto simp: same_width_def decimals_def)
  show ?thesis
  proof (cases "millis old < millis r")
    case True
    then have "keep_record d r = map_put (record_name r) r d" using Some less by (simp add: keep_record_def)
    moreover have "kept (rs @ [r]) (map_put (record_name r) r d)"
    proof (rule kept_put [OF assms(1)])
      fix r'
      assume "r' \<in> set rs" "record_name r' = record_name r"
      then have "millis r' \<le> millis old" using D(4) [OF m] by blast
      then show "millis r' \<le> millis r" using True by simp
    qed
    ultimately show ?thesis by simp
  next
    case False
    then have keep: "keep_record d r = d" using Some less by (simp add: keep_record_def)
    have unique: "x = old" if "(record_name r, x) \<in> set d" for x
      using eq_key_imp_eq_value [OF D(1) [unfolded wf_map_def] that m] .
    have "kept (rs @ [r]) d"
    proof (rule keptI)
      show "fst ` set d = record_name ` set (rs @ [r])" using D(2) imageI [OF old(2), of record_name] old(1) by auto
      show "k = record_name x \<and> x \<in> set (rs @ [r])" if "(k, x) \<in> set d" for k x using D(3) [OF that] by simp
      show "millis r' \<le> millis x" if "(k, x) \<in> set d" "r' \<in> set (rs @ [r])" "record_name r' = k" for k x r'
      proof (cases "r' = r")
        case True
        then show ?thesis using unique that False by auto
      next
        case False
        then show ?thesis using that(2,3) D(4) [OF that(1)] by auto
      qed
    qed (rule D(1))
    then show ?thesis using keep by simp
  qed
qed

lemma foldl_kept: "same_width n rs \<Longrightarrow> kept rs (foldl keep_record [] rs)"
proof (induction rs rule: rev_induct)
  case Nil
  then show ?case by (simp add: kept_def wf_map_def)
next
  case (snoc r rs)
  then have "kept rs (foldl keep_record [] rs)" by (auto simp: same_width_def)
  then show ?case using keep_record_kept snoc.prems by fastforce
qed

lemma insort_key_map: "insort_key f (g x) (map g xs) = map g (insort_key (\<lambda>x. f (g x)) x xs)"
  by (induction xs) auto

lemma sort_key_map: "sort_key f (map g xs) = map g (sort_key (\<lambda>x. f (g x)) xs)"
  by (induction xs) (simp_all add: insort_key_map)

lemma py_slice_take: "0 \<le> n \<Longrightarrow> py_slice xs 0 n = take (nat n) xs"
  by (cases "nat n \<le> length xs") (auto simp: py_slice_def min_def Let_def)

text \<open>A record of the dictionary stands for all records of its name.\<close>

lemma kept_values:
  assumes "kept rs d"
  shows "distinct (map record_name (map snd d))" and "set (map snd d) \<subseteq> set rs"
    and "record_name ` set (map snd d) = record_name ` set rs"
    and "r \<in> set (map snd d) \<Longrightarrow> r' \<in> set rs \<Longrightarrow> record_name r' = record_name r \<Longrightarrow> millis r' \<le> millis r"
proof -
  note D = keptD [OF assms]
  have names: "map record_name (map snd d) = map fst d" using D(3) by (auto simp: comp_def)
  show "distinct (map record_name (map snd d))" unfolding names using D(1) by (simp add: wf_map_def)
  show "set (map snd d) \<subseteq> set rs" using D(3) by auto
  show "record_name ` set (map snd d) = record_name ` set rs" using D(2) names by (metis image_set)
  show "millis r' \<le> millis r" if "r \<in> set (map snd d)" "r' \<in> set rs" "record_name r' = record_name r"
    using that D(3,4) by fastforce
qed

lemma filter_slow_logs_records_run:
  assumes "same_width n rs" and "0 \<le> top_number"
  shows "filter_slow_logs_records rs top_number =
    Inr (take (nat top_number) (sort_key (\<lambda>r. - millis r) (map snd (foldl keep_record [] rs))))"
proof -
  let ?vs = "map snd (foldl keep_record [] rs)"
  have "set ?vs \<subseteq> set rs" by (rule kept_values(2) [OF foldl_kept [OF assms(1)]])
  then have digits: "decimals (sl_took_millis r)" if "r \<in> set ?vs" for r using that assms(1) by (auto simp: same_width_def)
  have "each_ok (\<lambda>r. andThen (py_int (sl_took_millis r)) (\<lambda>n. Inr (n, r))) ?vs = Inr (map (\<lambda>r. (millis r, r)) ?vs)"
    by (rule each_ok_all) (simp add: py_int_digits digits millis_def)
  then show ?thesis using assms(2)
    by (simp add: filter_slow_logs_records_def Let_def sort_key_map py_slice_take comp_def)
qed

text \<open>
  C18. When all execution times have the same number of digits, the script reports the slowest queries: at
  most the given number of records, one per index and query, slowest first. A reported record is a slowest one of
  its index and query, and no index and query that is left out has a slower record than a reported one.
\<close>

theorem slowest_queries:
  assumes "same_width n rs" and "0 \<le> top_number"
  shows "\<exists>result. filter_slow_logs_records rs top_number = Inr result \<and>
    length result = min (nat top_number) (card (record_name ` set rs)) \<and>
    distinct (map record_name result) \<and> set result \<subseteq> set rs \<and> sorted (map (\<lambda>r. - millis r) result) \<and>
    (\<forall>r \<in> set result. \<forall>r' \<in> set rs. record_name r' = record_name r \<or> record_name r' \<notin> record_name ` set result \<longrightarrow>
       millis r' \<le> millis r)"
proof -
  define vs where "vs = map snd (foldl keep_record [] rs)"
  let ?all = "sort_key (\<lambda>r. - millis r) vs"
  let ?result = "take (nat top_number) ?all"
  note V = kept_values [OF foldl_kept [OF assms(1)], folded vs_def]
  have all: "sorted (map (\<lambda>r. - millis r) ?all)" "set ?all = set vs" "distinct (map record_name ?all)" "length ?all = length vs"
    using V(1) by (auto simp: distinct_map)
  have "length vs = card (record_name ` set rs)"
    using V(1,3) by (metis distinct_card length_map set_map)
  then have 1: "length ?result = min (nat top_number) (card (record_name ` set rs))" by simp
  have 2: "distinct (map record_name ?result)" using all(3) by (simp only: take_map [symmetric] distinct_take)
  have 3: "set ?result \<subseteq> set rs" using V(2) all(2) set_take_subset by fastforce
  have 4: "sorted (map (\<lambda>r. - millis r) ?result)" using all(1) by (simp only: take_map [symmetric] sorted_wrt_take)
  have rest: "millis x \<le> millis r" if "r \<in> set ?result" "x \<in> set (drop (nat top_number) ?all)" for r x
  proof -
    have "sorted (map (\<lambda>r. - millis r) ?result @ map (\<lambda>r. - millis r) (drop (nat top_number) ?all))"
      using all(1) by (simp only: map_append [symmetric] append_take_drop_id)
    then show ?thesis using that by (auto simp: sorted_append)
  qed
  have 5: "millis r' \<le> millis r" if r: "r \<in> set ?result" and r': "r' \<in> set rs"
    and n: "record_name r' = record_name r \<or> record_name r' \<notin> record_name ` set ?result" for r r'
  proof -
    have rv: "r \<in> set vs" using r all(2) by (metis in_set_takeD)
    obtain x where x: "x \<in> set vs" "record_name x = record_name r'" using V(3) r' by (metis (no_types, lifting) imageE image_eqI)
    show ?thesis
    proof (cases "record_name r' = record_name r")
      case True
      then show ?thesis using V(4) rv r' by blast
    next
      case False
      then have "x \<notin> set ?result" using n x(2) by (metis image_eqI)
      then have "x \<in> set (drop (nat top_number) ?all)" using x(1) all(2) by (metis Un_iff append_take_drop_id set_append)
      then show ?thesis using rest [OF r] V(4) [OF x(1) r'] x(2) by fastforce
    qed
  qed
  show ?thesis
    using 1 2 3 4 5 filter_slow_logs_records_run [OF assms, folded vs_def] by (intro exI [of _ ?result]) blast
qed

definition slower_record :: slow_log_record where
  "slower_record = example_record\<lparr>sl_took_millis := ''31''\<rparr>"

theorem slowest_queries_witness:
  "\<exists>result. filter_slow_logs_records [example_record, slower_record] 1 = Inr result \<and>
     length result = 1 \<and> (\<forall>r \<in> set result. 31 \<le> millis r)"
proof -
  have w: "same_width 2 [example_record, slower_record]" "0 \<le> (1 :: int)"
    by (simp_all add: same_width_def example_record_def slower_record_def decimals_def decimal_digit_def)
  have names: "record_name slower_record = record_name example_record" "millis slower_record = 31"
    by (simp_all add: slower_record_def example_record_def record_name_def millis_def digits_int_def)
  obtain result where r: "filter_slow_logs_records [example_record, slower_record] 1 = Inr result"
      "length result = min (nat 1) (card (record_name ` set [example_record, slower_record]))"
      "set result \<subseteq> set [example_record, slower_record]"
      "\<forall>r \<in> set result. \<forall>r' \<in> set [example_record, slower_record].
         record_name r' = record_name r \<or> record_name r' \<notin> record_name ` set result \<longrightarrow> millis r' \<le> millis r"
    using slowest_queries [OF w] by blast
  have "millis slower_record \<le> millis x" if x: "x \<in> set result" for x
  proof -
    have "record_name slower_record = record_name x" using r(3) x names(1) by auto
    then show ?thesis using r(4) x by (meson list.set_intros)
  qed
  then show ?thesis using r(1,2) names by simp
qed

text \<open>
  Execution times are compared as texts, so of two records of a query the faster one is kept when it
  has fewer digits.
\<close>

theorem text_order_keeps_faster:
  "keep_record (keep_record [] (example_record\<lparr>sl_took_millis := ''9''\<rparr>)) (example_record\<lparr>sl_took_millis := ''12''\<rparr>) =
     [(record_name example_record, example_record\<lparr>sl_took_millis := ''9''\<rparr>)]"
  by (simp add: keep_record_def map_put_def record_name_def)

end
