(* ===== verification/Curator_Backup.thy ===== *)
theory Curator_Backup
  imports Python
begin

text \<open>
  The scripts by which the backup daemon (curator) saves, lists and evicts backups
  (\<^verbatim>\<open>opensearch-curator/docker/backup-docker/scripts\<close>: \<^verbatim>\<open>utils.py\<close>, \<^verbatim>\<open>backup.py\<close>, \<^verbatim>\<open>evict.py\<close>, \<^verbatim>\<open>list_instances_in_vault.py\<close>). The
  client of OpenSearch and the library \<^verbatim>\<open>curator\<close> are parameters; what they send is in the trace. The folder of
  a backup is part of the state: a file holds text or a JSON document. The client gives lists of templates as lists and
  obsolete templates as a dictionary.
\<close>

section \<open>The outside\<close>

datatype stored_file = TextFile string | JsonFile json

datatype curator_event =
    Fetch string
  | PutAlias string string json
  | PutComponentTemplate string json
  | PutIndexTemplate string json
  | PutTemplate string json
  | DeleteIndexTemplate string
  | DeleteComponentTemplate string
  | DeleteTemplate string
  | DeleteIndices string
  | CloseIndices "string list"
  | TakeSnapshot string "string list"
  | RestoreSnapshot string "string list option" bool "(string \<times> string) option"
  | DropSnapshots "string list"
  | HttpCall string string "json option"
  | Sleep nat

record 's curator_world = "('s, curator_event) world" +
  folder :: "stored_file go_map"

type_synonym ('s, 'a) curator_io = "('s curator_world, py_error + 'a) state"

text \<open>
  \<open>fetch\<close> answers the reads of the client by their name (\<^verbatim>\<open>get_alias\<close>, ...), \<open>send\<close> all other requests; \<open>index_names\<close>
  are the indices of a new \<^verbatim>\<open>IndexList\<close> and \<open>snapshots\<close> the snapshots of a new \<^verbatim>\<open>SnapshotList\<close> with their indices.
  \<open>filter_by_regex kind value exclude\<close> is the filter of both.
\<close>

record 's curator_env =
  fetch :: "string \<Rightarrow> 's \<Rightarrow> (py_error + json) \<times> 's"
  send :: "curator_event \<Rightarrow> 's \<Rightarrow> (py_error + unit) \<times> 's"
  index_names :: "'s \<Rightarrow> (py_error + string list) \<times> 's"
  snapshots :: "'s \<Rightarrow> (py_error + string list go_map) \<times> 's"
  filter_by_regex :: "string \<Rightarrow> string \<Rightarrow> bool \<Rightarrow> string list \<Rightarrow> string list"

definition fetching :: "'s curator_env \<Rightarrow> string \<Rightarrow> ('s, json) curator_io" where
  "fetching E what = request (Fetch what) (fetch E what)"

definition sending :: "'s curator_env \<Rightarrow> curator_event \<Rightarrow> ('s, unit) curator_io" where
  "sending E ev = request ev (send E ev)"

definition IndexList :: "'s curator_env \<Rightarrow> ('s, string list) curator_io" where
  "IndexList E = request (Fetch ''indices'') (index_names E)"

definition SnapshotList :: "'s curator_env \<Rightarrow> ('s, string list go_map) curator_io" where
  "SnapshotList E = request (Fetch ''snapshots'') (snapshots E)"

definition write_file :: "string \<Rightarrow> stored_file \<Rightarrow> ('s, unit) curator_io" where
  "write_file name f = do { _ \<leftarrow> remember (\<lambda>w. w\<lparr>folder := map_put name f (folder w)\<rparr>); success () }"

definition read_file :: "string \<Rightarrow> ('s, stored_file) curator_io" where
  "read_file name = do {
     files \<leftarrow> recall folder;
     return (case map_of files name of None \<Rightarrow> Inl FileNotFoundError | Some f \<Rightarrow> Inr f) }"

text \<open>\<^verbatim>\<open>f.read().splitlines()\<close> and \<^verbatim>\<open>json.load(f)\<close>; text is taken not to be a document.\<close>

definition line_end :: "char \<Rightarrow> bool" where
  "line_end c \<longleftrightarrow> (of_char c :: nat) \<in> {10, 11, 12, 13, 28, 29, 30, 133}"

fun splitlines_from :: "string \<Rightarrow> string \<Rightarrow> string list" where
  "splitlines_from [] l = (if l = [] then [] else [rev l])"
| "splitlines_from (c # s) l =
     (if line_end c then
        (case s of
           d # s' \<Rightarrow> if c = CHR 13 \<and> d = CHR 10 then rev l # splitlines_from s' [] else rev l # splitlines_from s []
         | [] \<Rightarrow> [rev l])
      else splitlines_from s (c # l))"

definition splitlines :: "string \<Rightarrow> string list" where
  "splitlines s = splitlines_from s []"

definition read_lines :: "string \<Rightarrow> ('s, string list) curator_io" where
  "read_lines name = onSuccess (read_file name) (\<lambda>f.
     return (case f of TextFile t \<Rightarrow> Inr (splitlines t) | JsonFile j \<Rightarrow> Inr (splitlines (json_print j))))"

definition load_json :: "string \<Rightarrow> ('s, json) curator_io" where
  "load_json name = onSuccess (read_file name) (\<lambda>f.
     return (case f of TextFile _ \<Rightarrow> Inl ValueError | JsonFile j \<Rightarrow> Inr j))"

definition write_lines :: "string \<Rightarrow> string list \<Rightarrow> ('s, unit) curator_io" where
  "write_lines name xs = write_file name (TextFile (concat (map (\<lambda>x. x @ [CHR 10]) xs)))"

section \<open>utils.py\<close>

definition basename :: "string \<Rightarrow> string" where
  "basename path = last (split_on (CHR ''/'') path)"

definition extract_snapshot_name :: "string \<Rightarrow> string" where
  "extract_snapshot_name path = ToLower (basename path)"

definition create_elasticsearch_url :: "(string \<Rightarrow> string option) \<Rightarrow> py_error + string" where
  "create_elasticsearch_url getenv =
     (case getenv ''ES_HOST'' of
        None \<Rightarrow> Inl (RuntimeError ''Elasticsearch url is not specified correctly, host is empty'')
      | Some host \<Rightarrow>
          if host = [] then Inl (RuntimeError ''Elasticsearch url is not specified correctly, host is empty'')
          else (case getenv ''TLS_HTTP_ENABLED'' of
              None \<Rightarrow> Inl AttributeError
            | Some tls \<Rightarrow> Inr ((if str2bool tls then ''https'' else ''http'') @ ''://'' @ host)))"

text \<open>The conditional binds tighter than the comma: the result is always a pair.\<close>

definition get_credentials :: "(string \<Rightarrow> string option) \<Rightarrow> string option \<times> string option" where
  "get_credentials getenv =
     (let user = getenv ''ES_USERNAME''; password = getenv ''ES_PASSWORD'';
          given = (\<lambda>x. case x of None \<Rightarrow> False | Some s \<Rightarrow> s \<noteq> []) in
      (user, if given user \<and> given password then password else None))"

definition get_certificate :: "(string \<Rightarrow> string option) \<Rightarrow> string option" where
  "get_certificate getenv =
     (case getenv ''ROOT_CA_CERTIFICATE'' of None \<Rightarrow> None | Some c \<Rightarrow> if c = [] then None else Some c)"

section \<open>backup.py\<close>

definition starts_with_any :: "string list \<Rightarrow> string \<Rightarrow> bool" where
  "starts_with_any dbs name \<longleftrightarrow> list_ex (\<lambda>db. HasPrefix name db) dbs"

definition name_of :: "json \<Rightarrow> py_error + string" where
  "name_of template = andThen (subscript template ''name'') as_string"

fun select_named :: "(string \<Rightarrow> bool) \<Rightarrow> json list \<Rightarrow> py_error + json list" where
  "select_named P [] = Inr []"
| "select_named P (t # ts) =
     andThen (name_of t) (\<lambda>name. andThen (select_named P ts) (\<lambda>rest. Inr (if P name then t # rest else rest)))"

text \<open>\<open>dbs = None\<close> is a full backup. An empty list of databases selects everything, too.\<close>

definition restricted :: "string list option \<Rightarrow> bool" where
  "restricted dbs \<longleftrightarrow> (case dbs of None \<Rightarrow> False | Some xs \<Rightarrow> xs \<noteq> [])"

definition named_templates :: "string list option \<Rightarrow> json \<Rightarrow> py_error + json list" where
  "named_templates dbs templates =
     andThen (py_iter templates) (\<lambda>ts. if restricted dbs then select_named (starts_with_any (the dbs)) ts else Inr ts)"

definition write_unless_empty :: "string \<Rightarrow> json list \<Rightarrow> ('s, unit) curator_io" where
  "write_unless_empty name ts = (if ts = [] then success () else write_file name (JsonFile (JArr ts)))"

definition backup_templates :: "'s curator_env \<Rightarrow> string list option \<Rightarrow> ('s, unit) curator_io" where
  "backup_templates E dbs =
     onSuccess (fetching E ''get_index_template'') (\<lambda>r1.
     onSuccess (return (subscript r1 ''index_templates'')) (\<lambda>templates0.
     onSuccess (fetching E ''get_template'') (\<lambda>obsolete0.
     onSuccess (fetching E ''get_component_template'') (\<lambda>r2.
     onSuccess (return (subscript r2 ''component_templates'')) (\<lambda>components0.
     onSuccess (return (named_templates dbs templates0)) (\<lambda>templates.
     onSuccess (return (andThen (dict_items obsolete0) (\<lambda>kvs.
         Inr (if restricted dbs then filter (\<lambda>kv. starts_with_any (the dbs) (fst kv)) kvs else kvs)))) (\<lambda>obsolete.
     onSuccess (return (named_templates dbs components0)) (\<lambda>components.
     onSuccess (write_unless_empty ''templates.json'' templates) (\<lambda>_.
     onSuccess (if obsolete = [] then success ()
       else write_file ''obsolete_templates.json'' (JsonFile (JObj (map_del ''tenant_template'' obsolete)))) (\<lambda>_.
     write_unless_empty ''component_templates.json'' components))))))))))"

definition aliases_of :: "json \<Rightarrow> string \<Rightarrow> py_error + (string \<times> json) list" where
  "aliases_of all_aliases name =
     andThen (contains_key name all_aliases) (\<lambda>present.
     if present then andThen (subscript all_aliases name) (\<lambda>v. Inr [(name, v)]) else Inr [])"

definition granular_backup :: "'s curator_env \<Rightarrow> string \<Rightarrow> string list \<Rightarrow> ('s, unit) curator_io" where
  "granular_backup E storage_folder dbs =
     onSuccess (backup_templates E (Some dbs)) (\<lambda>_.
     onSuccess (IndexList E) (\<lambda>names.
     onSuccess (fetching E ''get_alias'') (\<lambda>all_aliases.
     let indices = filter_by_regex E ''prefix'' (join ''|'' dbs) False names in
     onSuccess (return (andThen (each_ok (aliases_of all_aliases) indices) (\<lambda>found. Inr (concat found)))) (\<lambda>aliases.
     if indices = [] then write_lines ''databases.txt'' dbs
     else
       onSuccess (if aliases \<noteq> [] then write_file ''aliases.json'' (JsonFile (JObj aliases)) else success ()) (\<lambda>_.
       onSuccess (write_lines ''indices.txt'' indices) (\<lambda>_.
       onSuccess (write_lines ''databases.txt'' dbs) (\<lambda>_.
       sending E (TakeSnapshot (extract_snapshot_name storage_folder) indices))))))))"

definition full_backup :: "'s curator_env \<Rightarrow> string \<Rightarrow> ('s, unit) curator_io" where
  "full_backup E storage_folder =
     onSuccess (backup_templates E None) (\<lambda>_.
     onSuccess (IndexList E) (\<lambda>names.
     sending E (TakeSnapshot (extract_snapshot_name storage_folder) (filter_by_regex E ''prefix'' [CHR 92, CHR ''.''] True names))))"

text \<open>The program, with its arguments as they are parsed; an empty argument is none.\<close>

definition backup_main :: "'s curator_env \<Rightarrow> string \<Rightarrow> string list option \<Rightarrow> ('s, unit) curator_io" where
  "backup_main E storage_folder dbs =
     (case dbs of Some xs \<Rightarrow> granular_backup E storage_folder xs | None \<Rightarrow> full_backup E storage_folder)"

section \<open>evict.py and list_instances_in_vault.py\<close>

definition evict :: "'s curator_env \<Rightarrow> string \<Rightarrow> ('s, unit) curator_io" where
  "evict E storage_folder =
     onSuccess (SnapshotList E) (\<lambda>all_snapshots.
     let chosen = filter_by_regex E ''regex'' (extract_snapshot_name storage_folder) False (map fst all_snapshots) in
     do {
       _ \<leftarrow> remember (\<lambda>w. w\<lparr>folder := []\<rparr>);
       sending E (DropSnapshots chosen) })"

definition list_instances :: "'s curator_env \<Rightarrow> string \<Rightarrow> ('s, string list) curator_io" where
  "list_instances E storage_folder = do {
     r \<leftarrow> read_lines ''databases.txt'';
     (case r of
        Inr dbs \<Rightarrow> success dbs
      | Inl FileNotFoundError \<Rightarrow>
          onSuccess (SnapshotList E) (\<lambda>all_snapshots.
          success (concat (map snd (filter (\<lambda>s. fst s = extract_snapshot_name storage_folder) all_snapshots))))
      | Inl e \<Rightarrow> raised e) }"

section \<open>What is saved\<close>

text \<open>Programs that leave a part of the state as it is.\<close>

definition leaves :: "('w \<Rightarrow> 'b) \<Rightarrow> ('w, 'a) state \<Rightarrow> bool" where
  "leaves f m \<longleftrightarrow> (\<forall>w. f (snd (run_state m w)) = f w)"

named_theorems leaves_intros

lemma leavesD: "leaves f m \<Longrightarrow> run_state m w = (r, w') \<Longrightarrow> f w' = f w"
  by (metis leaves_def snd_conv)

lemma leaves_return [leaves_intros]: "leaves f (return a)" "leaves f (success b)" "leaves f (raised e)" "leaves f (recall g)"
  by (simp_all add: leaves_def run_simps)

lemma leaves_bind [leaves_intros]: "leaves f m \<Longrightarrow> (\<And>a. leaves f (k a)) \<Longrightarrow> leaves f (State_Monad.bind m k)"
  by (simp add: leaves_def split_beta)

lemma leaves_onSuccess [leaves_intros]: "leaves f m \<Longrightarrow> (\<And>a. leaves f (k a)) \<Longrightarrow> leaves f (onSuccess m k)"
  unfolding onSuccess_def by (auto intro!: leaves_intros split: sum.splits)

lemma leaves_for_success [leaves_intros]: "(\<And>x. x \<in> set xs \<Longrightarrow> leaves f (g x)) \<Longrightarrow> leaves f (for_success g xs)"
  by (induction xs) (auto intro!: leaves_intros)

lemma leaves_if [leaves_intros]: "leaves f m \<Longrightarrow> leaves f m' \<Longrightarrow> leaves f (if b then m else m')"
  by simp

lemma leaves_sending [leaves_intros]:
  "leaves folder (sending E ev)" "leaves folder (fetching E what)" "leaves folder (IndexList E)" "leaves folder (SnapshotList E)"
  by (simp_all add: leaves_def sending_def fetching_def IndexList_def SnapshotList_def run_simps split: prod.split)

lemma leaves_read [leaves_intros]:
  "leaves folder (read_file name)" "leaves folder (read_lines name)" "leaves folder (load_json name)"
  unfolding read_lines_def load_json_def read_file_def by (intro leaves_intros)+

lemma run_write_file [run_simps]:
  "run_state (write_file name f) w = (Inr (), w\<lparr>folder := map_put name f (folder w)\<rparr>)"
  by (simp add: write_file_def run_simps)

lemma run_read_file [run_simps]:
  "run_state (read_file name) w = (case map_of (folder w) name of None \<Rightarrow> Inl FileNotFoundError | Some f \<Rightarrow> Inr f, w)"
  by (simp add: read_file_def run_simps)

lemma run_sending [run_simps]:
  "run_state (sending E ev) w = (case send E ev (srv w) of (r, s) \<Rightarrow> (r, w\<lparr>srv := s, trace := trace w @ [ev]\<rparr>))"
  by (simp add: sending_def run_simps)

text \<open>Lines that are written are read back.\<close>

definition is_line :: "string \<Rightarrow> bool" where
  "is_line s \<longleftrightarrow> list_all (\<lambda>c. \<not> line_end c) s"

lemma splitlines_step:
  assumes "is_line x"
  shows "splitlines_from (x @ CHR 10 # s) l = (rev l @ x) # splitlines s"
  using assms
proof (induction x arbitrary: l)
  case Nil
  then show ?case by (simp add: line_end_def splitlines_def split: list.split)
qed (simp add: is_line_def)

lemma splitlines_written: "list_all is_line xs \<Longrightarrow> splitlines (concat (map (\<lambda>x. x @ [CHR 10]) xs)) = xs"
  by (induction xs) (simp_all add: splitlines_def [of "_ @ _"] splitlines_step, simp add: splitlines_def)

lemma run_read_lines_written:
  "map_of (folder w) name = Some (TextFile (concat (map (\<lambda>x. x @ [CHR 10]) xs))) \<Longrightarrow> list_all is_line xs \<Longrightarrow>
   run_state (read_lines name) w = (Inr xs, w)"
  by (simp add: read_lines_def run_simps splitlines_written)

lemma granular_backup_databases:
  assumes "run_state (granular_backup E storage_folder dbs) w = (Inr (), w')"
  shows "map_of (folder w') ''databases.txt'' = Some (TextFile (concat (map (\<lambda>x. x @ [CHR 10]) dbs)))"
  using assms
  by (auto simp: granular_backup_def run_simps write_lines_def Let_def gomap.find_put split: prod.splits sum.splits if_splits)

text \<open>
  The databases of a backup that was taken without an exception are listed as they were asked for, from
  whatever the folder held before, when their names are lines.
\<close>

theorem backup_is_listed:
  assumes "run_state (granular_backup E storage_folder dbs) w = (Inr (), w')" and "list_all is_line dbs"
  shows "run_state (list_instances E' other_folder) w' = (Inr dbs, w')"
  using run_read_lines_written [OF granular_backup_databases [OF assms(1)] assms(2)]
  by (simp add: list_instances_def run_simps)

definition one_index_env :: "unit curator_env" where
  "one_index_env =
     \<lparr>fetch = (\<lambda>what s. (Inr (if what = ''get_index_template'' then JObj [(''index_templates'', JArr [])]
         else if what = ''get_component_template'' then JObj [(''component_templates'', JArr [])] else JObj []), s)),
      send = (\<lambda>ev s. (Inr (), s)), index_names = (\<lambda>s. (Inr [''db-one''], s)), snapshots = (\<lambda>s. (Inr [], s)),
      filter_by_regex = (\<lambda>kind value exclude xs. xs)\<rparr>"

theorem backup_is_listed_witness:
  "\<exists>w'. run_state (granular_backup one_index_env ''b'' [''db''])  \<lparr>srv = (), trace = [], folder = []\<rparr> = (Inr (), w') \<and>
     run_state (list_instances one_index_env ''b'') w' = (Inr [''db''], w')"
proof -
  have ok: "fst (run_state (granular_backup one_index_env ''b'' [''db'']) \<lparr>srv = (), trace = [], folder = []\<rparr>) = Inr ()"
    by code_simp
  have lines: "list_all is_line [''db'']" by code_simp
  obtain w' where w': "run_state (granular_backup one_index_env ''b'' [''db'']) \<lparr>srv = (), trace = [], folder = []\<rparr> = (Inr (), w')"
    using ok by (metis prod.collapse)
  then show ?thesis using backup_is_listed [OF w' lines] by blast
qed

end
