(* ===== verification/Curator_Restore.thy ===== *)
theory Curator_Restore
  imports Curator_Backup
begin

text \<open>
  Restoring a backup and the users after it (\<^verbatim>\<open>restore.py\<close>, \<^verbatim>\<open>dbaas_client.py\<close>). Names are lines, and databases and their
  new names consist of letters, digits, dashes and underscores, which the backup daemon checks; so the
  patterns built from them match literally.
\<close>

section \<open>Renaming\<close>

text \<open>\<^verbatim>\<open>re.sub(f'{p}(.*)', f'{r}\1', name)\<close>: the dot stops at the end of a line.\<close>

function rename_text :: "string \<Rightarrow> string \<Rightarrow> string \<Rightarrow> string" where
  "rename_text p r [] = []"
| "rename_text p r (c # s) =
     (if p \<noteq> [] \<and> prefix p (c # s) then
        (let rest = drop (length p) (c # s)
         in r @ takeWhile (\<lambda>x. x \<noteq> CHR 10) rest @ rename_text p r (dropWhile (\<lambda>x. x \<noteq> CHR 10) rest))
      else c # rename_text p r s)"
  by pat_completeness auto
termination
proof (relation "measure (\<lambda>(p, r, s). length s)")
  fix p :: string and r :: string and c s rest
  assume "p \<noteq> [] \<and> prefix p (c # s)" and "rest = drop (length p) (c # s)"
  then have "length rest < length (c # s)" by (cases p) auto
  with length_dropWhile_le [of "\<lambda>x. x \<noteq> CHR 10" rest] have "length (dropWhile (\<lambda>x. x \<noteq> CHR 10) rest) < length (c # s)"
    by simp
  then show "((p, r, dropWhile (\<lambda>x. x \<noteq> CHR 10) rest), p, r, c # s) \<in> measure (\<lambda>(p, r, s). length s)" by simp
qed auto

type_synonym renames = "string go_map"

definition rename :: "renames \<Rightarrow> string \<Rightarrow> json \<Rightarrow> py_error + string" where
  "rename renames p name =
     (case map_of renames p of
        None \<Rightarrow> Inl (KeyError p)
      | Some r \<Rightarrow> (case name of JStr s \<Rightarrow> Inr (rename_text p r s) | _ \<Rightarrow> Inl TypeError))"

text \<open>\<^verbatim>\<open>d[k] = v\<close> of a dictionary\<close>

fun set_item :: "string \<Rightarrow> json \<Rightarrow> json \<Rightarrow> py_error + json" where
  "set_item k v (JObj kvs) = Inr (JObj (map_put k v kvs))"
| "set_item k v _ = Inl TypeError"

fun rename_aliases :: "renames \<Rightarrow> string \<Rightarrow> (string \<times> json) list \<Rightarrow> (string \<times> json) list \<Rightarrow> py_error + (string \<times> json) list" where
  "rename_aliases renames p [] out = Inr out"
| "rename_aliases renames p ((name, body) # rest) out =
     andThen (rename renames p (JStr name)) (\<lambda>n. rename_aliases renames p rest (map_put n body out))"

text \<open>The value of the only key \<^verbatim>\<open>aliases\<close> of the result\<close>

definition rename_index_aliases :: "renames \<Rightarrow> string \<Rightarrow> json \<Rightarrow> py_error + json" where
  "rename_index_aliases renames p index_aliases =
     andThen (dict_get index_aliases ''aliases'') (\<lambda>aliases.
     andThen (if truthy aliases then dict_items aliases else Inr []) (\<lambda>kvs.
     andThen (rename_aliases renames p kvs []) (\<lambda>out. Inr (JObj out))))"

text \<open>A list of names under a key, if there are any\<close>

definition rename_list :: "renames \<Rightarrow> string \<Rightarrow> string \<Rightarrow> json \<Rightarrow> py_error + json" where
  "rename_list renames p k template =
     andThen (dict_get template k) (\<lambda>names.
     if truthy names then
       andThen (py_iter names) (\<lambda>js.
       andThen (each_ok (rename renames p) js) (\<lambda>new. set_item k (JArr (map JStr new)) template))
     else Inr template)"

definition rename_inner :: "renames \<Rightarrow> string \<Rightarrow> json \<Rightarrow> py_error + json" where
  "rename_inner renames p inner =
     andThen (rename_list renames p ''index_patterns'' inner) (\<lambda>inner.
     andThen (rename_list renames p ''composed_of'' inner) (\<lambda>inner.
     andThen (dict_get inner ''template'') (\<lambda>template.
     if truthy template then
       andThen (rename_index_aliases renames p template) (\<lambda>aliases.
       andThen (set_item ''aliases'' aliases template) (\<lambda>template'. set_item ''template'' template' inner))
     else andThen (rename_index_aliases renames p inner) (\<lambda>aliases. set_item ''aliases'' aliases inner))))"

definition rename_template :: "renames \<Rightarrow> string \<Rightarrow> string option \<Rightarrow> json \<Rightarrow> py_error + json" where
  "rename_template renames p template_key template =
     andThen (dict_get template ''name'') (\<lambda>name.
     andThen (if truthy name then andThen (rename renames p name) (\<lambda>n. set_item ''name'' (JStr n) template) else Inr template) (\<lambda>template.
     (case template_key of
        None \<Rightarrow> rename_inner renames p template
      | Some k \<Rightarrow>
          andThen (dict_get template k) (\<lambda>inner.
          if truthy inner then andThen (rename_inner renames p inner) (\<lambda>inner'. set_item k inner' template)
          else rename_inner renames p template))))"

section \<open>Restoring templates\<close>

text \<open>
  The lists of templates by database share the templates themselves, and renaming changes them in place. So the
  templates are a store, a list by database is a list of positions, and what is sent is looked up at the end.
\<close>

fun positions :: "(string \<Rightarrow> bool) \<Rightarrow> nat \<Rightarrow> string list \<Rightarrow> nat list" where
  "positions P k [] = []"
| "positions P k (n # ns) = (if P n then k # positions P (Suc k) ns else positions P (Suc k) ns)"

fun change_at :: "(json \<Rightarrow> py_error + json) \<Rightarrow> nat list \<Rightarrow> json list \<Rightarrow> py_error + json list" where
  "change_at f [] store = Inr store"
| "change_at f (i # is) store = andThen (f (store ! i)) (\<lambda>t. change_at f is (store[i := t]))"

fun rename_by_db :: "(string \<Rightarrow> json \<Rightarrow> py_error + json) \<Rightarrow> renames \<Rightarrow> (string \<times> nat list) list \<Rightarrow> json list \<Rightarrow> py_error + json list" where
  "rename_by_db f renames [] store = Inr store"
| "rename_by_db f renames ((p, is) # rest) store =
     andThen (if map_of renames p \<noteq> None then change_at (f p) is store else Inr store) (rename_by_db f renames rest)"

text \<open>\<^verbatim>\<open>{prefix: ... for prefix in dbs}\<close>: one entry per database, at its first place\<close>

definition by_db :: "string list \<Rightarrow> string list \<Rightarrow> (string \<times> nat list) list" where
  "by_db dbs names = map (\<lambda>p. (p, positions (\<lambda>n. HasPrefix n p) 0 names)) (rev (remdups (rev dbs)))"

definition chosen_templates :: "renames \<Rightarrow> string list option \<Rightarrow> string \<Rightarrow> json list \<Rightarrow> py_error + json list" where
  "chosen_templates renames dbs template_key ts =
     (if restricted dbs then
        andThen (each_ok name_of ts) (\<lambda>names.
        let parts = by_db (the dbs) names in
        andThen (rename_by_db (\<lambda>p. rename_template renames p (Some template_key)) renames parts ts) (\<lambda>store.
        Inr (map (\<lambda>i. store ! i) (concat (map snd parts)))))
      else Inr ts)"

definition put_templates :: "'s curator_env \<Rightarrow> (string \<Rightarrow> json \<Rightarrow> curator_event) \<Rightarrow> string \<Rightarrow> json list \<Rightarrow> ('s, unit) curator_io" where
  "put_templates E put template_key ts =
     onSuccess (for_success (\<lambda>t.
       onSuccess (return (subscript t ''name'')) (\<lambda>name.
       onSuccess (return (subscript t template_key)) (\<lambda>body. sending E (put (py_str name) body)))) ts) (\<lambda>_. success ())"

text \<open>\<^verbatim>\<open>try: ... except FileNotFoundError\<close>\<close>

definition unless_missing :: "('s, unit) curator_io \<Rightarrow> ('s, unit) curator_io" where
  "unless_missing m = do { r \<leftarrow> m; return (case r of Inl FileNotFoundError \<Rightarrow> Inr () | _ \<Rightarrow> r) }"

definition restore_template_file ::
  "'s curator_env \<Rightarrow> renames \<Rightarrow> string list option \<Rightarrow> string \<Rightarrow> string \<Rightarrow> (string \<Rightarrow> json \<Rightarrow> curator_event) \<Rightarrow> ('s, unit) curator_io" where
  "restore_template_file E renames dbs file_name template_key put =
     unless_missing (onSuccess (load_json file_name) (\<lambda>doc.
       onSuccess (return (andThen (py_iter doc) (chosen_templates renames dbs template_key))) (\<lambda>ts.
       put_templates E put template_key ts)))"

definition chosen_obsolete :: "renames \<Rightarrow> string list option \<Rightarrow> (string \<times> json) list \<Rightarrow> py_error + (string \<times> json) list" where
  "chosen_obsolete renames dbs kvs =
     (if restricted dbs then
        let parts = by_db (the dbs) (map fst kvs) in
        andThen (rename_by_db (\<lambda>p. rename_template renames p None) renames parts (map snd kvs)) (\<lambda>store.
        Inr (concat (map (\<lambda>(p, is). map (\<lambda>i.
          (case map_of renames p of None \<Rightarrow> fst (kvs ! i) | Some r \<Rightarrow> rename_text p r (fst (kvs ! i)), store ! i)) is) parts)))
      else Inr kvs)"

definition restore_obsolete :: "'s curator_env \<Rightarrow> renames \<Rightarrow> string list option \<Rightarrow> ('s, unit) curator_io" where
  "restore_obsolete E renames dbs =
     unless_missing (onSuccess (load_json ''obsolete_templates.json'') (\<lambda>doc.
       onSuccess (return (andThen (dict_items doc) (chosen_obsolete renames dbs))) (\<lambda>kvs.
       onSuccess (for_success (\<lambda>(name, body). if name = ''tenant_template'' then success () else sending E (PutTemplate name body)) kvs)
         (\<lambda>_. success ()))))"

definition restore_templates :: "'s curator_env \<Rightarrow> renames \<Rightarrow> string list option \<Rightarrow> ('s, unit) curator_io" where
  "restore_templates E renames dbs =
     onSuccess (restore_template_file E renames dbs ''component_templates.json'' ''component_template'' PutComponentTemplate) (\<lambda>_.
     onSuccess (restore_template_file E renames dbs ''templates.json'' ''index_template'' PutIndexTemplate) (\<lambda>_.
     restore_obsolete E renames dbs))"

section \<open>Restoring indices\<close>

definition target :: "renames \<Rightarrow> string \<Rightarrow> string" where
  "target renames db = (case map_of renames db of None \<Rightarrow> db | Some r \<Rightarrow> if r = [] then db else r)"

text \<open>An exception \<^verbatim>\<open>NotFoundError\<close> ends the removal of the templates of a database.\<close>

definition delete_templates :: "'s curator_env \<Rightarrow> string \<Rightarrow> ('s, unit) curator_io" where
  "delete_templates E pattern =
     onSuccess (sending E (DeleteIndexTemplate pattern)) (\<lambda>_.
     onSuccess (sending E (DeleteComponentTemplate pattern)) (\<lambda>_.
     sending E (DeleteTemplate pattern)))"

definition clean_restore :: "'s curator_env \<Rightarrow> bool \<Rightarrow> renames \<Rightarrow> string list option \<Rightarrow> ('s, unit) curator_io" where
  "clean_restore E clean_recovery renames dbs =
     (if \<not> clean_recovery then success ()
      else if restricted dbs then
        (let pattern_list = map (\<lambda>db. target renames db @ ''*'') (the dbs) in
         onSuccess (for_success (\<lambda>p. do {
             r \<leftarrow> delete_templates E p;
             return (case r of Inl NotFoundError \<Rightarrow> Inr () | _ \<Rightarrow> r) }) pattern_list) (\<lambda>_.
         sending E (DeleteIndices (join '','' pattern_list @ '',-.*''))))
      else
        onSuccess (delete_templates E ''*'') (\<lambda>_. sending E (DeleteIndices ''*,-.*'')))"

definition restore_indices ::
  "'s curator_env \<Rightarrow> string \<Rightarrow> string list option \<Rightarrow> bool \<Rightarrow> (string \<times> string) option \<Rightarrow> ('s, unit) curator_io" where
  "restore_indices E storage_folder indices include_aliases renaming =
     onSuccess (SnapshotList E) (\<lambda>slo.
     let snapshot_name = extract_snapshot_name storage_folder;
         given = (case indices of None \<Rightarrow> False | Some xs \<Rightarrow> xs \<noteq> []);
         renamed = (case renaming of None \<Rightarrow> False | Some (p, r) \<Rightarrow> given \<and> p \<noteq> [] \<and> r \<noteq> []) in
     onSuccess (return (
         if renamed then Inr (map (rename_text (fst (the renaming)) (snd (the renaming))) (the indices))
         else if given then Inr (the indices)
         else (case map_of slo snapshot_name of None \<Rightarrow> Inl (KeyError snapshot_name) | Some xs \<Rightarrow> Inr xs))) (\<lambda>indices_to_stop.
     onSuccess (sending E (CloseIndices indices_to_stop)) (\<lambda>_.
     sending E (RestoreSnapshot snapshot_name indices include_aliases
       (if renamed then Some (fst (the renaming) @ ''(.*)'', snd (the renaming) @ ''$1'') else None)))))"

definition full_restore :: "'s curator_env \<Rightarrow> string \<Rightarrow> bool \<Rightarrow> ('s, unit) curator_io" where
  "full_restore E storage_folder clean_recovery =
     onSuccess (clean_restore E clean_recovery [] None) (\<lambda>_.
     onSuccess (restore_templates E [] None) (\<lambda>_.
     restore_indices E storage_folder None True None))"

definition alias_event :: "renames \<Rightarrow> string \<Rightarrow> string \<times> json \<Rightarrow> py_error + (string \<times> json)" where
  "alias_event renames p kv =
     (case map_of renames p of
        None \<Rightarrow> Inr kv
      | Some r \<Rightarrow> andThen (rename_index_aliases renames p (snd kv)) (\<lambda>a. Inr (rename_text p r (fst kv), JObj [(''aliases'', a)])))"

definition alias_events :: "renames \<Rightarrow> string list \<Rightarrow> json \<Rightarrow> py_error + (string \<times> json) list" where
  "alias_events renames dbs doc =
     andThen (dict_items doc) (\<lambda>kvs.
     andThen (each_ok (\<lambda>p. each_ok (alias_event renames p) (filter (\<lambda>kv. HasPrefix (fst kv) p) kvs)) (rev (remdups (rev dbs))))
       (\<lambda>parts. Inr (concat parts)))"

definition put_aliases :: "'s curator_env \<Rightarrow> renames \<Rightarrow> string list \<Rightarrow> ('s, unit) curator_io" where
  "put_aliases E renames dbs =
     unless_missing (onSuccess (load_json ''aliases.json'') (\<lambda>doc.
       onSuccess (return (alias_events renames dbs doc)) (\<lambda>aliases.
       onSuccess (for_success (\<lambda>(index, index_aliases).
         onSuccess (return (andThen (subscript index_aliases ''aliases'') dict_items)) (\<lambda>kvs.
         for_success (\<lambda>(name, body). sending E (PutAlias index name body)) kvs)) aliases) (\<lambda>_. success ()))))"

text \<open>The file of indices by database; without the file a database is an index.\<close>

definition indices_by_dbs :: "string list \<Rightarrow> ('s, (string \<times> string list) list) curator_io" where
  "indices_by_dbs dbs = do {
     r \<leftarrow> read_lines ''indices.txt'';
     return (case r of
        Inr indices \<Rightarrow> Inr (map (\<lambda>p. (p, filter (\<lambda>index. HasPrefix index p) indices)) (rev (remdups (rev dbs))))
      | Inl FileNotFoundError \<Rightarrow> Inr (map (\<lambda>db. (db, [db])) (rev (remdups (rev dbs))))
      | Inl e \<Rightarrow> Inl e) }"

definition stored_databases :: "('s, string list option) curator_io" where
  "stored_databases = do {
     r \<leftarrow> read_lines ''databases.txt'';
     return (case r of Inr xs \<Rightarrow> Inr (Some xs) | Inl FileNotFoundError \<Rightarrow> Inr None | Inl e \<Rightarrow> Inl e) }"

definition restore_parts :: "'s curator_env \<Rightarrow> string \<Rightarrow> renames \<Rightarrow> (string \<times> string list) list \<Rightarrow> ('s, unit) curator_io" where
  "restore_parts E storage_folder renames parts =
     onSuccess (for_success (\<lambda>(p, indices). restore_indices E storage_folder (Some indices) False
         (Some (p, the (map_of renames p)))) (filter (\<lambda>part. map_of renames (fst part) \<noteq> None) parts)) (\<lambda>_.
     let indices = concat (map snd (filter (\<lambda>part. map_of renames (fst part) = None) parts)) in
     if indices \<noteq> [] then restore_indices E storage_folder (Some indices) False None else success ())"

definition path_exists :: "string \<Rightarrow> ('s, bool) curator_io" where
  "path_exists name = do { files \<leftarrow> recall folder; success (map_of files name \<noteq> None) }"

definition granular_restore :: "'s curator_env \<Rightarrow> string \<Rightarrow> bool \<Rightarrow> renames \<Rightarrow> string list \<Rightarrow> ('s, unit) curator_io" where
  "granular_restore E storage_folder clean_recovery renames dbs =
     onSuccess stored_databases (\<lambda>stored.
     let known = (case stored of None \<Rightarrow> [] | Some xs \<Rightarrow> xs) in
     if known \<noteq> [] \<and> \<not> list_all (\<lambda>item. item \<in> set known) dbs
     then raised (PlainException (''Databases are not valid. Valid databases are '' @ py_repr (JArr (map JStr known))))
     else
       onSuccess (clean_restore E clean_recovery renames (Some dbs)) (\<lambda>_.
       onSuccess (restore_templates E renames (Some dbs)) (\<lambda>_.
       onSuccess (indices_by_dbs dbs) (\<lambda>parts.
       onSuccess (path_exists ''indices.txt'') (\<lambda>present.
       if known \<noteq> [] \<and> \<not> present then success ()
       else
         onSuccess (restore_parts E storage_folder renames parts) (\<lambda>_.
         put_aliases E renames dbs))))))"

section \<open>What a restoration touches\<close>

lemma rename_text_target: "p \<noteq> [] \<Longrightarrow> prefix p s \<Longrightarrow> prefix r (rename_text p r s)"
  by (cases s) (auto simp: Let_def)

text \<open>A name on one line keeps what follows the old prefix.\<close>

lemma rename_text_line: "p \<noteq> [] \<Longrightarrow> CHR 10 \<notin> set s \<Longrightarrow> rename_text p r (p @ s) = r @ s"
proof -
  assume p: "p \<noteq> []" and s: "CHR 10 \<notin> set s"
  then obtain c q where q: "p = c # q" by (cases p) auto
  have "takeWhile (\<lambda>x. x \<noteq> CHR 10) s = s" "dropWhile (\<lambda>x. x \<noteq> CHR 10) s = []"
    using s by (auto simp: takeWhile_eq_all_conv dropWhile_eq_Nil_conv)
  moreover have "rename_text p r (p @ s) =
      r @ takeWhile (\<lambda>x. x \<noteq> CHR 10) s @ rename_text p r (dropWhile (\<lambda>x. x \<noteq> CHR 10) s)"
    using p by (simp add: q Let_def)
  ultimately show ?thesis by (simp only: rename_text.simps append_Nil2)
qed

lemma set_item_member:
  "set_item k v t = Inr t' \<Longrightarrow> get_member k' t' = (if k' = k then Some v else get_member k' t)"
  by (cases t) (auto simp: gomap.find_put)

lemma rename_list_member: "rename_list renames p k t = Inr t' \<Longrightarrow> k' \<noteq> k \<Longrightarrow> get_member k' t' = get_member k' t"
  by (auto simp: rename_list_def andThen_ok set_item_member split: if_splits)

lemma rename_inner_name: "rename_inner renames p t = Inr t' \<Longrightarrow> get_member ''name'' t' = get_member ''name'' t"
  by (auto simp: rename_inner_def andThen_ok set_item_member rename_list_member split: if_splits)

lemma name_of_member: "name_of t = Inr n \<longleftrightarrow> get_member ''name'' t = Some (JStr n)"
proof (cases t)
  case (JObj kvs)
  show ?thesis
  proof (cases "map_of kvs ''name''")
    case (Some v)
    then show ?thesis using JObj by (cases v) (auto simp: name_of_def)
  qed (simp add: JObj name_of_def)
qed (auto simp: name_of_def)

lemma rename_template_name:
  assumes "rename_template renames p (Some k) t = Inr t'" and "name_of t = Inr n" and "n \<noteq> []" and "k \<noteq> ''name''"
    and "map_of renames p = Some r"
  shows "name_of t' = Inr (rename_text p r n)"
proof -
  have "dict_get t ''name'' = Inr (JStr n)" using assms(2) by (cases t) (auto simp: name_of_member)
  then have "get_member ''name'' t' = Some (JStr (rename_text p r n))"
    using assms by (auto simp: rename_template_def rename_def andThen_ok set_item_member rename_inner_name split: if_splits)
  then show ?thesis by (simp add: name_of_member)
qed

text \<open>Databases no two of which begin one another: a template belongs to one of them at most.\<close>

definition prefix_free :: "string list \<Rightarrow> bool" where
  "prefix_free dbs \<longleftrightarrow> sorted_wrt (\<lambda>a b. \<not> prefix a b \<and> \<not> prefix b a) dbs"

definition renames_ok :: "renames \<Rightarrow> bool" where
  "renames_ok renames \<longleftrightarrow> list_all (\<lambda>(p, r). p \<noteq> [] \<and> r \<noteq> []) renames"

lemma prefix_free_distinct: "prefix_free dbs \<Longrightarrow> distinct dbs"
  unfolding prefix_free_def by (induction dbs) auto

lemma positions_iff: "i \<in> set (positions P k ns) \<longleftrightarrow> k \<le> i \<and> i < k + length ns \<and> P (ns ! (i - k))"
proof (induction ns arbitrary: k)
  case (Cons n ns)
  show ?case
  proof (cases "k < i")
    case True
    then have "(n # ns) ! (i - k) = ns ! (i - Suc k)" by (simp add: nth_Cons')
    then show ?thesis using True Cons.IH [of "Suc k"] by auto
  qed (auto simp: Cons.IH)
qed auto

lemma distinct_positions: "distinct (positions P k ns)"
  by (induction ns arbitrary: k) (auto simp: positions_iff)

lemma change_at_effect:
  assumes "change_at f is store = Inr store'" and "distinct is" and "set is \<subseteq> {..<length store}"
  shows "length store' = length store \<and> (\<forall>i. i \<notin> set is \<longrightarrow> store' ! i = store ! i) \<and> (\<forall>i \<in> set is. f (store ! i) = Inr (store' ! i))"
  using assms
proof (induction "is" arbitrary: store)
  case (Cons i "is")
  then obtain t where t: "f (store ! i) = Inr t" "change_at f is (store[i := t]) = Inr store'" by (auto simp: andThen_ok)
  have "length store' = length (store[i := t]) \<and> (\<forall>j. j \<notin> set is \<longrightarrow> store' ! j = store[i := t] ! j) \<and>
      (\<forall>j \<in> set is. f (store[i := t] ! j) = Inr (store' ! j))"
    using Cons.IH [OF t(2)] Cons.prems by simp
  moreover have "store[i := t] ! j = store ! j" if "j \<in> set is" for j
    using that Cons.prems(2) by (cases "i = j") auto
  moreover have "i \<notin> set is" "i < length store" using Cons.prems by auto
  ultimately show ?case using t(1) by (auto simp: nth_list_update)
qed simp

lemma rename_by_db_effect:
  assumes "rename_by_db f renames parts store = Inr store'"
    and "sorted_wrt (\<lambda>a b. set (snd a) \<inter> set (snd b) = {}) parts"
    and "\<forall>part \<in> set parts. distinct (snd part) \<and> set (snd part) \<subseteq> {..<length store}"
  shows "length store' = length store \<and> (\<forall>i. (\<forall>part \<in> set parts. i \<notin> set (snd part)) \<longrightarrow> store' ! i = store ! i) \<and>
    (\<forall>part \<in> set parts. \<forall>i \<in> set (snd part).
       if map_of renames (fst part) \<noteq> None then f (fst part) (store ! i) = Inr (store' ! i) else store' ! i = store ! i)"
  using assms
proof (induction parts arbitrary: store)
  case (Cons part parts)
  obtain p js where part: "part = (p, js)" by (cases part)
  obtain st where st: "(if map_of renames p \<noteq> None then change_at (f p) js store else Inr store) = Inr st"
    "rename_by_db f renames parts st = Inr store'"
    using Cons.prems(1) by (auto simp: part andThen_ok)
  have 1: "length st = length store" "\<And>i. i \<notin> set js \<Longrightarrow> st ! i = store ! i"
    "\<And>i. i \<in> set js \<Longrightarrow> if map_of renames p \<noteq> None then f p (store ! i) = Inr (st ! i) else st ! i = store ! i"
    using change_at_effect [of "f p" js store st] st(1) Cons.prems(3) by (auto simp: part split: if_splits)
  have 2: "length store' = length st" "\<And>i. \<forall>part \<in> set parts. i \<notin> set (snd part) \<Longrightarrow> store' ! i = st ! i"
    "\<And>part i. part \<in> set parts \<Longrightarrow> i \<in> set (snd part) \<Longrightarrow>
       if map_of renames (fst part) \<noteq> None then f (fst part) (st ! i) = Inr (store' ! i) else store' ! i = st ! i"
    using Cons.IH [OF st(2)] Cons.prems 1(1) by simp_all
  have 3: "st ! i = store ! i" if "part' \<in> set parts" "i \<in> set (snd part')" for part' i
    using that Cons.prems(2) 1(2) by (fastforce simp: part)
  have 4: "store' ! i = st ! i" if "i \<in> set js" for i
    using that Cons.prems(2) by (intro 2(2)) (fastforce simp: part)
  have "if map_of renames (fst part') \<noteq> None then f (fst part') (store ! i) = Inr (store' ! i) else store' ! i = store ! i"
    if "part' \<in> set (part # parts)" "i \<in> set (snd part')" for part' i
    using that 1(3) [of i] 2(3) [of part' i] 3 [of part' i] 4 [of i] by (cases "part' = part") (auto simp: part)
  moreover have "\<forall>i. (\<forall>part' \<in> set (part # parts). i \<notin> set (snd part')) \<longrightarrow> store' ! i = store ! i"
    using 1(2) 2(2) by (simp add: part)
  ultimately show ?case using 1(1) 2(1) by (intro conjI ballI) (simp, blast, blast)
qed simp

lemma by_db_distinct: "distinct dbs \<Longrightarrow> by_db dbs names = map (\<lambda>p. (p, positions (\<lambda>n. HasPrefix n p) 0 names)) dbs"
  by (simp add: by_db_def distinct_remdups_id)

lemma by_db_disjoint:
  assumes "prefix_free dbs"
  shows "sorted_wrt (\<lambda>a b. set (snd a) \<inter> set (snd b) = {}) (by_db dbs names)"
proof -
  have "sorted_wrt (\<lambda>p q. set (positions (\<lambda>n. HasPrefix n p) 0 names) \<inter> set (positions (\<lambda>n. HasPrefix n q) 0 names) = {}) dbs"
    using assms unfolding prefix_free_def
    by (rule sorted_wrt_mono_rel [rotated]) (auto simp: positions_iff HasPrefix_def dest: prefix_same_cases)
  then show ?thesis by (simp add: by_db_distinct [OF prefix_free_distinct [OF assms]] sorted_wrt_map)
qed

lemma by_db_range: "part \<in> set (by_db dbs names) \<Longrightarrow> distinct (snd part) \<and> set (snd part) \<subseteq> {..<length names}"
  by (auto simp: by_db_def distinct_positions positions_iff)

lemma by_db_member:
  "part \<in> set (by_db dbs names) \<Longrightarrow> i \<in> set (snd part) \<Longrightarrow> fst part \<in> set dbs \<and> i < length names \<and> prefix (fst part) (names ! i)"
  by (auto simp: by_db_def positions_iff HasPrefix_def)

lemma each_ok_nth: "each_ok f xs = Inr ys \<Longrightarrow> length ys = length xs \<and> (\<forall>i < length xs. f (xs ! i) = Inr (ys ! i))"
proof (induction xs arbitrary: ys)
  case (Cons x xs)
  then obtain y ys' where "ys = y # ys'" "f x = Inr y" "each_ok f xs = Inr ys'" by (auto simp: andThen_ok)
  then show ?case using Cons.IH by (auto simp: nth_Cons split: nat.splits)
qed simp

lemma each_ok_origin: "each_ok f xs = Inr ys \<Longrightarrow> y \<in> set ys \<Longrightarrow> \<exists>x \<in> set xs. f x = Inr y"
  by (metis each_ok_nth in_set_conv_nth)

lemma target_renamed: "renames_ok renames \<Longrightarrow> map_of renames db = Some r \<Longrightarrow> target renames db = r \<and> db \<noteq> [] \<and> r \<noteq> []"
  using map_of_SomeD [of renames db r] by (auto simp: renames_ok_def list_all_iff target_def)

lemma chosen_templates_inside:
  assumes "chosen_templates renames (Some dbs) k ts = Inr us" and "prefix_free dbs" and "renames_ok renames"
    and "dbs \<noteq> []" and "k \<noteq> ''name''" and "u \<in> set us"
  shows "\<exists>n. name_of u = Inr n \<and> starts_with_any (map (target renames) dbs) n"
proof -
  let ?f = "\<lambda>p. rename_template renames p (Some k)"
  obtain names store where names: "each_ok name_of ts = Inr names"
    and store: "rename_by_db ?f renames (by_db dbs names) ts = Inr store"
    and us: "us = map (\<lambda>i. store ! i) (concat (map snd (by_db dbs names)))"
    using assms(1,4) by (auto simp: chosen_templates_def restricted_def andThen_ok Let_def)
  note n = each_ok_nth [OF names]
  obtain part i where part: "part \<in> set (by_db dbs names)" "i \<in> set (snd part)" "u = store ! i" using assms(6) us by auto
  note m = by_db_member [OF part(1,2)]
  have e: "if map_of renames (fst part) \<noteq> None then ?f (fst part) (ts ! i) = Inr (store ! i) else store ! i = ts ! i"
    using rename_by_db_effect [OF store by_db_disjoint [OF assms(2)]] by_db_range [of _ dbs names] n part(1,2) by metis
  have name: "name_of (ts ! i) = Inr (names ! i)" using n m by simp
  show ?thesis
  proof (cases "map_of renames (fst part)")
    case None
    then show ?thesis using e name part(3) m
      by (auto simp: starts_with_any_def list_ex_iff HasPrefix_def target_def intro!: bexI [of _ "fst part"])
  next
    case (Some r)
    note t = target_renamed [OF assms(3) Some]
    have "names ! i \<noteq> []" using m t by auto
    then have "name_of u = Inr (rename_text (fst part) r (names ! i))"
      using rename_template_name [OF _ name _ assms(5) Some, of u] e Some part(3) by simp
    moreover have "prefix r (rename_text (fst part) r (names ! i))" using rename_text_target m t by blast
    ultimately show ?thesis using m t by (auto simp: starts_with_any_def list_ex_iff HasPrefix_def)
  qed
qed

text \<open>
  The events of a granular restoration that concern only the databases, under their new names. A snapshot is
  restored for indices that are named, either as they are or under the new name of their database.
\<close>

definition restores_inside :: "renames \<Rightarrow> string list \<Rightarrow> (string \<times> string) option \<Rightarrow> string \<Rightarrow> bool" where
  "restores_inside renames dbs renaming index \<longleftrightarrow>
     (case renaming of
        None \<Rightarrow> starts_with_any (map (target renames) dbs) index
      | Some (pattern, replacement) \<Rightarrow>
          list_ex (\<lambda>db. prefix db index \<and> pattern = db @ ''(.*)'' \<and> replacement = target renames db @ ''$1'') dbs)"

fun confined :: "renames \<Rightarrow> string list \<Rightarrow> curator_event \<Rightarrow> bool" where
  "confined renames dbs (Fetch _) = True"
| "confined renames dbs (PutAlias index _ _) = starts_with_any (map (target renames) dbs) index"
| "confined renames dbs (PutComponentTemplate n _) = starts_with_any (map (target renames) dbs) n"
| "confined renames dbs (PutIndexTemplate n _) = starts_with_any (map (target renames) dbs) n"
| "confined renames dbs (PutTemplate n _) = starts_with_any (map (target renames) dbs) n"
| "confined renames dbs (DeleteIndexTemplate p) = list_ex (\<lambda>db. p = target renames db @ ''*'') dbs"
| "confined renames dbs (DeleteComponentTemplate p) = list_ex (\<lambda>db. p = target renames db @ ''*'') dbs"
| "confined renames dbs (DeleteTemplate p) = list_ex (\<lambda>db. p = target renames db @ ''*'') dbs"
| "confined renames dbs (DeleteIndices p) = (p = join '','' (map (\<lambda>db. target renames db @ ''*'') dbs) @ '',-.*'')"
| "confined renames dbs (CloseIndices xs) = (xs \<noteq> [] \<and> list_all (starts_with_any (map (target renames) dbs)) xs)"
| "confined renames dbs (RestoreSnapshot _ (Some xs) include_aliases renaming) =
     (xs \<noteq> [] \<and> \<not> include_aliases \<and> list_all (restores_inside renames dbs renaming) xs)"
| "confined renames dbs _ = False"

lemma starts_with_anyI: "db \<in> set dbs \<Longrightarrow> prefix (target renames db) s \<Longrightarrow> starts_with_any (map (target renames) dbs) s"
  by (auto simp: starts_with_any_def list_ex_iff HasPrefix_def)

lemma target_same: "map_of renames db = None \<Longrightarrow> target renames db = db"
  by (simp add: target_def)

lemma sends_sending [sends_intros]: "R ev \<Longrightarrow> sends R (sending E ev)"
  unfolding sending_def by (rule sends_request)

lemma sends_read [sends_intros]: "sends R (read_file name)" "sends R (read_lines name)" "sends R (load_json name)"
  unfolding read_lines_def load_json_def read_file_def by (intro sends_intros)+

lemma sends_unless_missing [sends_intros]: "sends R m \<Longrightarrow> sends R (unless_missing m)"
  unfolding unless_missing_def by (intro sends_intros)

lemma sends_SnapshotList [sends_intros]: "R (Fetch ''snapshots'') \<Longrightarrow> sends R (SnapshotList E)"
  unfolding SnapshotList_def by (rule sends_request)

lemma clean_restore_confined:
  "dbs \<noteq> [] \<Longrightarrow> sends (confined renames dbs) (clean_restore E clean renames (Some dbs))"
  unfolding clean_restore_def delete_templates_def Let_def restricted_def
  by (auto intro!: sends_intros simp: list_ex_iff o_def)

lemma restore_template_file_confined:
  assumes "prefix_free dbs" and "renames_ok renames" and "dbs \<noteq> []" and "k \<noteq> ''name''"
    and "\<And>n body. starts_with_any (map (target renames) dbs) n \<Longrightarrow> confined renames dbs (put n body)"
  shows "sends (confined renames dbs) (restore_template_file E renames (Some dbs) file_name k put)"
proof -
  have "sends (confined renames dbs) (put_templates E put k us)" if us: "chosen_templates renames (Some dbs) k ts = Inr us" for ts us
    unfolding put_templates_def
  proof (intro sends_onSuccess_return sends_onSuccess sends_success sends_for_success sends_sending)
    fix t name body assume t: "t \<in> set us" and name: "subscript t ''name'' = Inr name"
    obtain n where n: "name_of t = Inr n" "starts_with_any (map (target renames) dbs) n"
      using chosen_templates_inside [OF us assms(1-4) t] by blast
    then have "py_str name = n" using name by (cases name) (auto simp: name_of_def)
    then show "confined renames dbs (put (py_str name) body)" using assms(5) n(2) by simp
  qed
  then show ?thesis
    unfolding restore_template_file_def by (auto intro!: sends_intros(2-) sends_onSuccess_return sends_onSuccess sends_unless_missing sends_read simp: andThen_ok)
qed

lemma chosen_obsolete_inside:
  assumes "chosen_obsolete renames (Some dbs) kvs = Inr us" and "prefix_free dbs" and "renames_ok renames"
    and "dbs \<noteq> []" and "(n, body) \<in> set us"
  shows "starts_with_any (map (target renames) dbs) n"
proof -
  obtain p js i where part: "(p, js) \<in> set (by_db dbs (map fst kvs))" "i \<in> set js"
    "n = (case map_of renames p of None \<Rightarrow> fst (kvs ! i) | Some r \<Rightarrow> rename_text p r (fst (kvs ! i)))"
    using assms(1,4,5) by (auto simp: chosen_obsolete_def restricted_def andThen_ok Let_def)
  have m: "p \<in> set dbs" "prefix p (fst (kvs ! i))" using by_db_member [OF part(1), of i] part(2) by auto
  show ?thesis
  proof (cases "map_of renames p")
    case None
    then show ?thesis using m part(3) by (auto intro!: starts_with_anyI simp: target_same)
  next
    case (Some r)
    note t = target_renamed [OF assms(3) Some]
    then show ?thesis using m part(3) Some rename_text_target [OF _ m(2)] by (auto intro!: starts_with_anyI)
  qed
qed

lemma restore_templates_confined:
  assumes "prefix_free dbs" and "renames_ok renames" and "dbs \<noteq> []"
  shows "sends (confined renames dbs) (restore_templates E renames (Some dbs))"
proof -
  have "sends (confined renames dbs) (restore_obsolete E renames (Some dbs))"
    unfolding restore_obsolete_def
    by (intro sends_unless_missing sends_onSuccess_return sends_onSuccess sends_read sends_success sends_for_success
        sends_case_prod sends_if sends_sending) (auto simp: andThen_ok intro: chosen_obsolete_inside [OF _ assms])
  then show ?thesis unfolding restore_templates_def
    by (intro sends_onSuccess restore_template_file_confined assms) simp_all
qed

lemma restore_indices_confined:
  assumes "indices \<noteq> []" and "db \<in> set dbs" and "list_all (prefix db) indices" and "renames_ok renames"
    and "map_of renames db = Some r"
  shows "sends (confined renames dbs) (restore_indices E storage_folder (Some indices) False (Some (db, r)))"
proof -
  note t = target_renamed [OF assms(4,5)]
  have "list_all (starts_with_any (map (target renames) dbs)) (map (rename_text db r) indices)"
    using assms(2,3) t by (auto simp: list_all_iff intro!: starts_with_anyI rename_text_target)
  moreover have "list_all (restores_inside renames dbs (Some (db @ ''(.*)'', r @ ''$1''))) indices"
    using assms(2,3) t by (auto simp: list_all_iff restores_inside_def list_ex_iff)
  ultimately show ?thesis using assms(1) t unfolding restore_indices_def Let_def
    by (auto intro!: sends_onSuccess sends_onSuccess_return sends_SnapshotList sends_sending)
qed

lemma restore_named_confined:
  assumes "indices \<noteq> []" and "list_all (starts_with_any (map (target renames) dbs)) indices"
  shows "sends (confined renames dbs) (restore_indices E storage_folder (Some indices) False None)"
  using assms unfolding restore_indices_def Let_def
  by (auto intro!: sends_onSuccess sends_onSuccess_return sends_SnapshotList sends_sending simp: restores_inside_def list_all_iff)

definition parts_ok :: "renames \<Rightarrow> string list \<Rightarrow> (string \<times> string list) list \<Rightarrow> bool" where
  "parts_ok renames dbs parts \<longleftrightarrow>
     list_all (\<lambda>(p, indices). p \<in> set dbs \<and> list_all (prefix p) indices \<and> (map_of renames p \<noteq> None \<longrightarrow> indices \<noteq> [])) parts"

lemma restore_parts_confined:
  assumes "parts_ok renames dbs parts" and "renames_ok renames"
  shows "sends (confined renames dbs) (restore_parts E storage_folder renames parts)"
proof -
  have "sends (confined renames dbs) (restore_indices E storage_folder (Some indices) False (Some (p, r)))"
    if "(p, indices) \<in> set parts" "map_of renames p = Some r" for p indices r
    using that assms by (auto intro!: restore_indices_confined simp: parts_ok_def list_all_iff)
  moreover have "list_all (starts_with_any (map (target renames) dbs))
      (concat (map snd (filter (\<lambda>part. map_of renames (fst part) = None) parts)))"
    using assms(1) by (fastforce simp: list_all_iff parts_ok_def target_same intro: starts_with_anyI)
  ultimately show ?thesis unfolding restore_parts_def Let_def
    by (intro sends_onSuccess sends_for_success sends_if sends_success restore_named_confined) auto
qed

lemma put_aliases_confined:
  assumes "renames_ok renames"
  shows "sends (confined renames dbs) (put_aliases E renames dbs)"
proof -
  have "starts_with_any (map (target renames) dbs) index"
    if ok: "alias_events renames dbs doc = Inr parts" and member: "(index, aliases) \<in> set parts" for doc parts index aliases
  proof -
    obtain kvs ls where kvs: "each_ok (\<lambda>p. each_ok (alias_event renames p) (filter (\<lambda>kv. HasPrefix (fst kv) p) kvs))
        (rev (remdups (rev dbs))) = Inr ls" "(index, aliases) \<in> set (concat ls)"
      using ok member by (auto simp: alias_events_def andThen_ok)
    obtain p l where l: "p \<in> set dbs" "l \<in> set ls" "(index, aliases) \<in> set l"
      "each_ok (alias_event renames p) (filter (\<lambda>kv. HasPrefix (fst kv) p) kvs) = Inr l"
      using each_ok_origin [OF kvs(1)] kvs(2) by fastforce
    obtain kv where kv: "kv \<in> set (filter (\<lambda>kv. HasPrefix (fst kv) p) kvs)" "alias_event renames p kv = Inr (index, aliases)"
      using each_ok_origin [OF l(4)] l(3) by fastforce
    then have p: "p \<in> set dbs" "prefix p (fst kv)"
      "index = (case map_of renames p of None \<Rightarrow> fst kv | Some r \<Rightarrow> rename_text p r (fst kv))"
      using l(1) by (auto simp: HasPrefix_def alias_event_def andThen_ok split: option.splits)
    show ?thesis
    proof (cases "map_of renames p")
      case None
      then show ?thesis using p by (auto intro!: starts_with_anyI simp: target_same)
    next
      case (Some r)
      then show ?thesis using p target_renamed [OF assms Some] by (auto intro!: starts_with_anyI rename_text_target)
    qed
  qed
  then show ?thesis unfolding put_aliases_def
    by (fastforce intro!: sends_unless_missing sends_onSuccess sends_onSuccess_return sends_read sends_success sends_for_success
        sends_sending simp: andThen_ok)
qed

text \<open>From one state\<close>

definition sends_from :: "('e \<Rightarrow> bool) \<Rightarrow> ('s, 'e, 'm, 'a) io_with \<Rightarrow> ('s, 'e, 'm) world_scheme \<Rightarrow> bool" where
  "sends_from R m w \<longleftrightarrow> (\<exists>es. trace (snd (run_state m w)) = trace w @ es \<and> list_all R es)"

lemma sends_from_all: "sends R m \<Longrightarrow> sends_from R m w"
  by (auto simp: sends_def sends_from_def list_all_iff)

lemma sends_from_onSuccess:
  assumes "sends R m" and "\<And>a w'. run_state m w = (Inr a, w') \<Longrightarrow> sends_from R (k a) w'"
  shows "sends_from R (onSuccess m k) w"
proof -
  obtain r w' where r: "run_state m w = (r, w')" by (cases "run_state m w")
  obtain es where es: "trace w' = trace w @ es" "list_all R es"
    using sendsD [OF assms(1) r] by (auto simp: list_all_iff)
  show ?thesis
  proof (cases r)
    case (Inl e)
    then show ?thesis using r es by (auto simp: sends_from_def run_simps)
  next
    case (Inr a)
    then obtain es' where "trace (snd (run_state (k a) w')) = trace w' @ es'" "list_all R es'"
      using assms(2) r by (auto simp: sends_from_def)
    then show ?thesis using r Inr es by (auto simp: sends_from_def run_simps)
  qed
qed

lemma sends_from_if: "(b \<Longrightarrow> sends_from R m w) \<Longrightarrow> (\<not> b \<Longrightarrow> sends_from R n w) \<Longrightarrow> sends_from R (if b then m else n) w"
  by simp

lemma leaves_unless_missing [leaves_intros]: "leaves f m \<Longrightarrow> leaves f (unless_missing m)"
  unfolding unless_missing_def by (intro leaves_intros)

lemma leaves_case_prod [leaves_intros]: "(\<And>a b. x = (a, b) \<Longrightarrow> leaves f (g a b)) \<Longrightarrow> leaves f (case x of (a, b) \<Rightarrow> g a b)"
  by (cases x) auto

lemma leaves_clean_restore: "leaves folder (clean_restore E clean renames dbs)"
  unfolding clean_restore_def delete_templates_def Let_def by (intro leaves_intros)

lemma leaves_restore_templates: "leaves folder (restore_templates E renames dbs)"
  unfolding restore_templates_def restore_template_file_def restore_obsolete_def put_templates_def by (intro leaves_intros)

lemma leaves_stored_databases: "leaves folder stored_databases"
  unfolding stored_databases_def by (intro leaves_intros)

lemma sends_lookups [sends_intros]: "sends R stored_databases" "sends R (indices_by_dbs dbs)" "sends R (path_exists name)"
  unfolding stored_databases_def indices_by_dbs_def path_exists_def by (intro sends_intros)+

text \<open>Every database that is renamed has an index in the backup, when the backup lists its indices.\<close>

definition renamed_have_indices :: "renames \<Rightarrow> string list \<Rightarrow> stored_file go_map \<Rightarrow> bool" where
  "renamed_have_indices renames dbs files \<longleftrightarrow>
     (case map_of files ''indices.txt'' of
        Some (TextFile t) \<Rightarrow>
          list_all (\<lambda>db. map_of renames db \<noteq> None \<longrightarrow> list_ex (\<lambda>index. HasPrefix index db) (splitlines t)) dbs
      | Some (JsonFile _) \<Rightarrow> False
      | None \<Rightarrow> True)"

lemma indices_by_dbs_ok:
  assumes "run_state (indices_by_dbs dbs) w = (Inr parts, w')" and "renamed_have_indices renames dbs (folder w)"
  shows "parts_ok renames dbs parts"
proof (cases "map_of (folder w) ''indices.txt''")
  case None
  then have "parts = map (\<lambda>db. (db, [db])) (rev (remdups (rev dbs)))"
    using assms(1) by (auto simp: indices_by_dbs_def read_lines_def run_simps)
  then show ?thesis by (auto simp: parts_ok_def list_all_iff)
next
  case (Some f)
  then obtain t where t: "f = TextFile t" using assms(2) by (cases f) (auto simp: renamed_have_indices_def)
  then have "parts = map (\<lambda>p. (p, filter (\<lambda>index. HasPrefix index p) (splitlines t))) (rev (remdups (rev dbs)))"
    using assms(1) Some by (auto simp: indices_by_dbs_def read_lines_def run_simps)
  then show ?thesis using assms(2) Some t
    by (auto simp: parts_ok_def list_all_iff list_ex_iff renamed_have_indices_def HasPrefix_def filter_empty_conv)
qed

text \<open>
  C6. A granular restoration, cleaning or not, touches only the databases it was asked for, under their new names: every
  template and alias it writes, every index it closes and every index it restores belongs to one of them. This holds for
  databases none of which begins another, and when every renamed database has an index in the backup.
\<close>

theorem restore_confined:
  assumes "dbs \<noteq> []" and "prefix_free dbs" and "renames_ok renames" and "renamed_have_indices renames dbs (folder w)"
    and "run_state (granular_restore E storage_folder clean renames dbs) w = (r, w')"
  shows "\<exists>es. trace w' = trace w @ es \<and> list_all (confined renames dbs) es"
proof -
  let ?R = "confined renames dbs"
  have "sends_from ?R (granular_restore E storage_folder clean renames dbs) w"
    unfolding granular_restore_def Let_def
  proof (intro sends_from_onSuccess sends_from_if sends_lookups clean_restore_confined restore_templates_confined
      sends_from_all [OF sends_raised] sends_from_all [OF sends_success] restore_parts_confined assms
      sends_from_all [OF put_aliases_confined])
    fix known :: "string list option" and w1 w2 w3 w4 w5 :: "'a curator_world" and parts present and u1 u2 :: unit
    assume run: "run_state stored_databases w = (Inr known, w1)"
      "run_state (clean_restore E clean renames (Some dbs)) w1 = (Inr u1, w2)"
      "run_state (restore_templates E renames (Some dbs)) w2 = (Inr u2, w3)"
      "run_state (indices_by_dbs dbs) w3 = (Inr parts, w4)"
    have "folder w3 = folder w"
      using leavesD [OF leaves_stored_databases run(1)] leavesD [OF leaves_clean_restore run(2)]
        leavesD [OF leaves_restore_templates run(3)] by simp
    then show "parts_ok renames dbs parts" using indices_by_dbs_ok [OF run(4)] assms(4) by simp
  qed
  then show ?thesis using assms(5) by (simp add: sends_from_def)
qed

definition saved_world :: "unit curator_world" where
  "saved_world = \<lparr>srv = (), trace = [], folder =
     [(''databases.txt'', TextFile (''db'' @ [CHR 10])), (''indices.txt'', TextFile (''db-1'' @ [CHR 10])),
      (''templates.json'', JsonFile (JArr [JObj [(''name'', JStr ''db_t''),
         (''index_template'', JObj [(''index_patterns'', JArr [JStr ''db-*''])])]])),
      (''aliases.json'', JsonFile (JObj [(''db-1'', JObj [(''aliases'', JObj [(''db_alias'', JObj [])])])]))]\<rparr>"

theorem restore_confined_witness:
  "\<exists>w'. run_state (granular_restore one_index_env ''b'' True [(''db'', ''new'')] [''db'']) saved_world = (Inr (), w') \<and>
     (\<exists>es. trace w' = trace saved_world @ es \<and> list_all (confined [(''db'', ''new'')] [''db'']) es) \<and>
     PutIndexTemplate ''new_t'' (JObj [(''index_patterns'', JArr [JStr ''new-*'']), (''aliases'', JObj [])]) \<in> set (trace w')"
proof -
  let ?run = "run_state (granular_restore one_index_env ''b'' True [(''db'', ''new'')] [''db'']) saved_world"
  have ok: "fst ?run = Inr ()" by code_simp
  have put: "PutIndexTemplate ''new_t'' (JObj [(''index_patterns'', JArr [JStr ''new-*'']), (''aliases'', JObj [])]) \<in> set (trace (snd ?run))"
    by code_simp
  have "prefix_free [''db'']" "renames_ok [(''db'', ''new'')]" by code_simp+
  moreover have "renamed_have_indices [(''db'', ''new'')] [''db''] (folder saved_world)" by code_simp
  ultimately have "\<exists>es. trace (snd ?run) = trace saved_world @ es \<and> list_all (confined [(''db'', ''new'')] [''db'']) es"
    by (intro restore_confined [of "[''db'']" "[(''db'', ''new'')]" saved_world one_index_env "''b''" True "fst ?run"]) simp_all
  then show ?thesis using ok put by (metis prod.collapse)
qed

text \<open>Without the last condition it does not hold: without indices, the whole snapshot is closed and restored.\<close>

lemma renamed_without_indices:
  assumes "snapshots E (srv w) = (Inr slo, s)" and "map_of slo (extract_snapshot_name storage_folder) = Some indices"
    and "send E (CloseIndices indices) s = (Inr (), s')"
  shows "run_state (restore_indices E storage_folder (Some []) False (Some (p, r))) w =
    run_state (sending E (RestoreSnapshot (extract_snapshot_name storage_folder) (Some []) False None))
      (w\<lparr>srv := s', trace := trace w @ [Fetch ''snapshots'', CloseIndices indices]\<rparr>)"
  using assms by (simp add: restore_indices_def SnapshotList_def run_simps)

text \<open>And a database whose index templates are not found keeps its other templates when it is cleaned.\<close>

lemma clean_restore_skips:
  assumes "send E (DeleteIndexTemplate (target renames db @ ''*'')) (srv w) = (Inl NotFoundError, s)"
  shows "run_state (clean_restore E True renames (Some [db])) w =
    run_state (sending E (DeleteIndices (target renames db @ ''*,-.*'')))
      (w\<lparr>srv := s, trace := trace w @ [DeleteIndexTemplate (target renames db @ ''*'')]\<rparr>)"
  using assms by (simp add: clean_restore_def delete_templates_def restricted_def run_simps)

section \<open>Saving and restoring templates\<close>

definition put_event :: "(string \<Rightarrow> json \<Rightarrow> curator_event) \<Rightarrow> string \<Rightarrow> json \<Rightarrow> curator_event" where
  "put_event put k t =
     put (case get_member ''name'' t of Some n \<Rightarrow> py_str n | None \<Rightarrow> []) (case get_member k t of Some b \<Rightarrow> b | None \<Rightarrow> JNull)"

definition template_ok :: "string \<Rightarrow> json \<Rightarrow> bool" where
  "template_ok k t \<longleftrightarrow> get_member ''name'' t \<noteq> None \<and> get_member k t \<noteq> None"

definition accepting :: "'s curator_env \<Rightarrow> bool" where
  "accepting E \<longleftrightarrow> (\<forall>ev s. fst (send E ev s) = Inr ())"

definition sent :: "('s, 'a) curator_io \<Rightarrow> 's curator_world \<Rightarrow> curator_event list \<Rightarrow> bool" where
  "sent m w es \<longleftrightarrow> (\<exists>a s. run_state m w = (Inr a, w\<lparr>srv := s, trace := trace w @ es\<rparr>))"

lemma sent_sending: "accepting E \<Longrightarrow> sent (sending E ev) w [ev]"
  by (auto simp: accepting_def sent_def run_simps split: prod.splits dest: spec [of _ ev] intro!: exI) (metis fst_conv)

lemma sent_onSuccess:
  assumes "sent m w es" and "\<And>a s. sent (k a) (w\<lparr>srv := s, trace := trace w @ es\<rparr>) es'"
  shows "sent (onSuccess m k) w (es @ es')"
proof -
  obtain a s where a: "run_state m w = (Inr a, w\<lparr>srv := s, trace := trace w @ es\<rparr>)" using assms(1) by (auto simp: sent_def)
  then show ?thesis using assms(2) [of a s] by (auto simp: sent_def run_simps)
qed

lemma sent_return: "sent (success a) w []" "sent (return (Inr b)) w []"
  by (auto simp: sent_def run_simps intro!: exI [of _ "srv w"])

lemma sent_onSuccess_return: "sent (k a) w es \<Longrightarrow> sent (onSuccess (return (Inr a)) k) w es"
  by (simp add: onSuccess_def)

lemma sent_for_success:
  "(\<And>x v. x \<in> set xs \<Longrightarrow> sent (f x) v (g x)) \<Longrightarrow> sent (for_success f xs) w (concat (map g xs))"
proof (induction xs arbitrary: w)
  case (Cons x xs)
  have "sent (onSuccess (f x) (\<lambda>y. onSuccess (for_success f xs) (\<lambda>ys. success (y # ys)))) w (g x @ concat (map g xs) @ [])"
    by (intro sent_onSuccess sent_return Cons.IH) (auto intro: Cons.prems)
  then show ?case by simp
qed (simp add: sent_return)

lemma sent_put_templates:
  assumes "accepting E" and "list_all (template_ok k) ts"
  shows "sent (put_templates E put k ts) w (map (put_event put k) ts)"
proof -
  let ?put = "\<lambda>t. onSuccess (return (subscript t ''name'')) (\<lambda>name.
       onSuccess (return (subscript t k)) (\<lambda>body. sending E (put (py_str name) body)))"
  have "sent (?put t) v [put_event put k t]" if t: "t \<in> set ts" for t v
  proof -
    obtain n b where "subscript t ''name'' = Inr n" "subscript t k = Inr b" "get_member ''name'' t = Some n" "get_member k t = Some b"
    proof -
      have "template_ok k t" using assms(2) t by (simp add: list_all_iff)
      then show thesis using that by (cases t) (auto simp: template_ok_def)
    qed
    then show ?thesis using sent_sending [OF assms(1)] by (simp add: put_event_def sent_onSuccess_return)
  qed
  then have "sent (put_templates E put k ts) w (concat (map (\<lambda>t. [put_event put k t]) ts) @ [])"
    unfolding put_templates_def by (intro sent_onSuccess sent_for_success sent_return)
  then show ?thesis by (simp add: map_concat)
qed

lemma sent_unless_missing: "sent m w es \<Longrightarrow> sent (unless_missing m) w es"
  by (auto simp: sent_def unless_missing_def run_simps)

lemma sent_absent: "map_of (folder w) name = None \<Longrightarrow> sent (unless_missing (onSuccess (load_json name) k)) w []"
  by (auto simp: sent_def unless_missing_def load_json_def run_simps intro!: exI [of _ "srv w"])

lemma sent_load:
  "map_of (folder w) name = Some (JsonFile doc) \<Longrightarrow> sent (k doc) w es \<Longrightarrow> sent (onSuccess (load_json name) k) w es"
  by (simp add: sent_def load_json_def run_simps)

lemma sent_template_file:
  assumes "accepting E" and "list_all (template_ok k) ts"
    and "map_of (folder w) name = (if ts = [] then None else Some (JsonFile (JArr ts)))"
  shows "sent (restore_template_file E [] None name k put) w (map (put_event put k) ts)"
proof (cases "ts = []")
  case True
  then show ?thesis using assms(3) by (simp add: restore_template_file_def sent_absent)
next
  case False
  have "sent (put_templates E put k ts) w (map (put_event put k) ts)" by (rule sent_put_templates [OF assms(1,2)])
  then show ?thesis using assms(3) False unfolding restore_template_file_def
    by (intro sent_unless_missing sent_load [of w name "JArr ts"])
      (simp_all add: chosen_templates_def restricted_def sent_onSuccess_return)
qed

lemma sent_obsolete:
  assumes "accepting E" and "map_of (folder w) ''obsolete_templates.json'' = (if kvs = [] then None else Some (JsonFile (JObj us)))"
    and "filter (\<lambda>kv. fst kv \<noteq> ''tenant_template'') us = filter (\<lambda>kv. fst kv \<noteq> ''tenant_template'') kvs"
  shows "sent (restore_obsolete E [] None) w (map (\<lambda>(n, b). PutTemplate n b) (filter (\<lambda>kv. fst kv \<noteq> ''tenant_template'') kvs))"
proof (cases "kvs = []")
  case True
  then show ?thesis using assms(2) by (simp add: restore_obsolete_def sent_absent)
next
  case False
  let ?f = "\<lambda>(name, body). if name = ''tenant_template'' then success () else sending E (PutTemplate name body)"
  let ?g = "\<lambda>(name, body). if name = ''tenant_template'' then [] else [PutTemplate name body]"
  have "sent (?f kv) v (?g kv)" for kv v by (cases kv) (auto intro: sent_return sent_sending [OF assms(1)])
  then have "sent (onSuccess (for_success ?f us) (\<lambda>_. success ())) w (concat (map ?g us) @ [])"
    by (intro sent_onSuccess sent_for_success sent_return)
  moreover have "concat (map ?g us) = map (\<lambda>(n, b). PutTemplate n b) (filter (\<lambda>kv. fst kv \<noteq> ''tenant_template'') us)"
    by (induction us) auto
  ultimately show ?thesis using assms(2,3) False unfolding restore_obsolete_def
    by (intro sent_unless_missing sent_load [of w _ "JObj us"])
      (simp_all add: chosen_obsolete_def restricted_def sent_onSuccess_return)
qed

lemma backup_templates_files:
  assumes "\<And>what s. fetch E what s = (Inr (doc what), s)"
    and "doc ''get_index_template'' = JObj [(''index_templates'', JArr its)]" and "doc ''get_template'' = JObj obs"
    and "doc ''get_component_template'' = JObj [(''component_templates'', JArr cts)]" and "folder w = []"
  obtains w' where "run_state (backup_templates E None) w = (Inr (), w')"
    and "map_of (folder w') ''templates.json'' = (if its = [] then None else Some (JsonFile (JArr its)))"
    and "map_of (folder w') ''obsolete_templates.json'' = (if obs = [] then None else Some (JsonFile (JObj (map_del ''tenant_template'' obs))))"
    and "map_of (folder w') ''component_templates.json'' = (if cts = [] then None else Some (JsonFile (JArr cts)))"
proof -
  let ?r = "run_state (backup_templates E None) w"
  have "fst ?r = Inr ()"
    "map_of (folder (snd ?r)) ''templates.json'' = (if its = [] then None else Some (JsonFile (JArr its)))"
    "map_of (folder (snd ?r)) ''obsolete_templates.json'' = (if obs = [] then None else Some (JsonFile (JObj (map_del ''tenant_template'' obs))))"
    "map_of (folder (snd ?r)) ''component_templates.json'' = (if cts = [] then None else Some (JsonFile (JArr cts)))"
    using assms by (simp_all add: backup_templates_def fetching_def named_templates_def restricted_def write_unless_empty_def
        run_simps gomap.find_put)
  then show thesis by (intro that [of "snd ?r"]) (simp_all add: prod_eq_iff)
qed

text \<open>
  C16. What a full backup saves of the templates of a cluster, a full restoration puts into another one: first the component
  templates, then the index templates that may use them, then the obsolete templates, but for \<^verbatim>\<open>tenant_template\<close>, each under
  its name and with its body, in order and nothing else.
\<close>

theorem templates_restored:
  assumes "\<And>what s. fetch E what s = (Inr (doc what), s)"
    and "doc ''get_index_template'' = JObj [(''index_templates'', JArr its)]" and "doc ''get_template'' = JObj obs"
    and "doc ''get_component_template'' = JObj [(''component_templates'', JArr cts)]" and "folder w = []"
    and "list_all (template_ok ''index_template'') its" and "list_all (template_ok ''component_template'') cts"
    and "accepting E'"
  shows "\<exists>w'. run_state (backup_templates E None) w = (Inr (), w') \<and>
    sent (restore_templates E' [] None) (v\<lparr>folder := folder w'\<rparr>)
      (map (put_event PutComponentTemplate ''component_template'') cts @
       map (put_event PutIndexTemplate ''index_template'') its @
       map (\<lambda>(n, b). PutTemplate n b) (filter (\<lambda>kv. fst kv \<noteq> ''tenant_template'') obs))"
proof -
  obtain w' where w': "run_state (backup_templates E None) w = (Inr (), w')"
    "map_of (folder w') ''templates.json'' = (if its = [] then None else Some (JsonFile (JArr its)))"
    "map_of (folder w') ''obsolete_templates.json'' = (if obs = [] then None else Some (JsonFile (JObj (map_del ''tenant_template'' obs))))"
    "map_of (folder w') ''component_templates.json'' = (if cts = [] then None else Some (JsonFile (JArr cts)))"
    using backup_templates_files [OF assms(1-5)] by blast
  have "filter (\<lambda>kv. fst kv \<noteq> ''tenant_template'') (map_del ''tenant_template'' obs) =
      filter (\<lambda>kv. fst kv \<noteq> ''tenant_template'') obs"
    unfolding map_del_def AList.delete_eq filter_filter by (rule filter_cong) auto
  then have "sent (restore_templates E' [] None) (v\<lparr>folder := folder w'\<rparr>)
      (map (put_event PutComponentTemplate ''component_template'') cts @
       map (put_event PutIndexTemplate ''index_template'') its @
       map (\<lambda>(n, b). PutTemplate n b) (filter (\<lambda>kv. fst kv \<noteq> ''tenant_template'') obs))"
    unfolding restore_templates_def
    by (intro sent_onSuccess sent_template_file sent_obsolete [where us = "map_del ''tenant_template'' obs"] assms(6-8)) (simp_all add: w')
  then show ?thesis using w'(1) by blast
qed

definition template_doc :: "string \<Rightarrow> json" where
  "template_doc what =
     (if what = ''get_index_template'' then JObj [(''index_templates'', JArr [JObj [(''name'', JStr ''a''), (''index_template'', JObj [])]])]
      else if what = ''get_component_template'' then JObj [(''component_templates'', JArr [])]
      else JObj [(''old'', JNull), (''tenant_template'', JNull)])"

definition two_templates_env :: "unit curator_env" where
  "two_templates_env = one_index_env\<lparr>fetch := (\<lambda>what s. (Inr (template_doc what), s))\<rparr>"

theorem templates_restored_witness:
  "\<exists>w'. run_state (backup_templates two_templates_env None) \<lparr>srv = (), trace = [], folder = []\<rparr> = (Inr (), w') \<and>
     sent (restore_templates one_index_env [] None) \<lparr>srv = (), trace = [], folder = folder w'\<rparr>
       [PutIndexTemplate ''a'' (JObj []), PutTemplate ''old'' JNull]"
proof -
  let ?t = "JObj [(''name'', JStr ''a''), (''index_template'', JObj [])]"
  have "template_ok ''index_template'' ?t" "put_event PutIndexTemplate ''index_template'' ?t = PutIndexTemplate ''a'' (JObj [])" by code_simp+
  then show ?thesis
    using templates_restored [of two_templates_env template_doc "[?t]" "[(''old'', JNull), (''tenant_template'', JNull)]" "[]"
        "\<lparr>srv = (), trace = [], folder = []\<rparr>" one_index_env "\<lparr>srv = (), trace = [], folder = []\<rparr>"]
    by (simp add: two_templates_env_def template_doc_def accepting_def one_index_env_def)
qed

end
