(* ===== verification/Curator_Users.thy ===== *)
theory Curator_Users
  imports Curator_Restore
begin

text \<open>
  The users after a restoration: the script asks the aggregator to restore their passwords and waits for the adapter to report
  that it has (\<^verbatim>\<open>recover_users\<close> and the program of \<^verbatim>\<open>restore.py\<close>, \<^verbatim>\<open>dbaas_client.py\<close>). Both loops may run forever,
  so they take fuel, and \<open>None\<close> says it is used up. The library for requests and the clock are parameters.
\<close>

section \<open>The program\<close>

text \<open>The clients of the aggregator and of the adapter: \<open>None\<close> is a client without an address.\<close>

record 's recovery_env = "'s curator_env" +
  http_call :: "string \<Rightarrow> string \<Rightarrow> json option \<Rightarrow> 's \<Rightarrow> (py_error + (nat \<times> string)) \<times> 's"
  time_now :: "'s \<Rightarrow> int \<times> 's"
  getenv :: "string \<Rightarrow> string option"

definition get_url :: "'s recovery_env \<Rightarrow> string \<Rightarrow> string option" where
  "get_url E variable = (case getenv E variable of None \<Rightarrow> None | Some host \<Rightarrow> if host = [] then None else Some host)"

definition send_request ::
  "'s recovery_env \<Rightarrow> string option \<Rightarrow> string \<Rightarrow> string \<Rightarrow> json option \<Rightarrow> ('s, nat \<times> string) curator_io" where
  "send_request E url path method body =
     (case url of
        None \<Rightarrow> raised TypeError
      | Some u \<Rightarrow> request (HttpCall method (u @ path) body) (http_call E method (u @ path) body))"

definition sleep :: "nat \<Rightarrow> ('s, unit) curator_io" where
  "sleep n = request (Sleep n) (\<lambda>s. (Inr (), s))"

definition state_path :: string where
  "state_path = ''/api/v2/dbaas/adapter/opensearch/users/restore-password/state''"

definition restore_password_path :: string where
  "restore_password_path = ''/api/v3/dbaas/internal/physical_databases/users/restore-password''"

definition recovery_data :: "string \<Rightarrow> json" where
  "recovery_data db_identifier =
     JObj [(''physicalDbId'', JStr db_identifier), (''type'', JStr ''opensearch''), (''settings'', JObj [])]"

text \<open>
  The inner loop: it gives whether the restoration failed, \<open>None\<close> when the fuel is used up.
  Only \<^verbatim>\<open>ConnectionError\<close> is caught.
\<close>

fun ask_aggregator ::
  "'s recovery_env \<Rightarrow> string option \<Rightarrow> json \<Rightarrow> int \<Rightarrow> nat \<Rightarrow> ('s, bool option) curator_io" where
  "ask_aggregator E url body start_time 0 = success None"
| "ask_aggregator E url body start_time (Suc n) = do {
     now \<leftarrow> silent (time_now E);
     if now - start_time > 240 then success (Some True)
     else do {
       r \<leftarrow> send_request E url restore_password_path ''POST'' (Some body);
       (case r of
          Inl ConnectionError \<Rightarrow> onSuccess (sleep 10) (\<lambda>_. ask_aggregator E url body start_time n)
        | Inl e \<Rightarrow> raised e
        | Inr (status, _) \<Rightarrow>
            if status = 200 then success (Some False)
            else onSuccess (sleep 10) (\<lambda>_. ask_aggregator E url body start_time n)) } }"

definition poll_state :: "'s recovery_env \<Rightarrow> string option \<Rightarrow> string \<Rightarrow> ('s, string) curator_io" where
  "poll_state E url state =
     onSuccess (sleep 5) (\<lambda>_. do {
       r \<leftarrow> send_request E url state_path ''GET'' None;
       (case r of
          Inl ConnectionError \<Rightarrow> success state
        | Inl e \<Rightarrow> raised e
        | Inr (status, body) \<Rightarrow> success (if status = 200 then body else state)) })"

text \<open>The outer loop, from a state and the mark \<^verbatim>\<open>restore_failed\<close>.\<close>

fun recovery_loop ::
  "'s recovery_env \<Rightarrow> string option \<Rightarrow> string option \<Rightarrow> json \<Rightarrow> string \<Rightarrow> bool \<Rightarrow> nat \<Rightarrow> ('s, (string \<times> bool) option) curator_io" where
  "recovery_loop E adapter aggregator body state failed 0 = success None"
| "recovery_loop E adapter aggregator body state failed (Suc n) =
     (if state = ''done'' \<or> state = ''failed'' then success (Some (state, failed))
      else if state = ''idle'' then do {
        start_time \<leftarrow> silent (time_now E);
        onSuccess (ask_aggregator E aggregator body start_time (Suc n)) (\<lambda>r.
          case r of
            None \<Rightarrow> success None
          | Some True \<Rightarrow> recovery_loop E adapter aggregator body ''failed'' True n
          | Some False \<Rightarrow>
              onSuccess (poll_state E adapter state) (\<lambda>state'. recovery_loop E adapter aggregator body state' False n)) }
      else onSuccess (poll_state E adapter state) (\<lambda>state'. recovery_loop E adapter aggregator body state' failed n))"

definition initial_state :: "string \<Rightarrow> string" where
  "initial_state answer = (if answer \<noteq> ''running'' then ''idle'' else answer)"

definition recover_users :: "'s recovery_env \<Rightarrow> nat \<Rightarrow> ('s, unit option) curator_io" where
  "recover_users E fuel =
     (let adapter = get_url E ''DBAAS_ADAPTER_ADDRESS'';
          aggregator = get_url E ''DBAAS_AGGREGATOR_REGISTRATION_ADDRESS'';
          db_identifier = (case getenv E ''DBAAS_AGGREGATOR_PHYSICAL_DATABASE_IDENTIFIER'' of None \<Rightarrow> [] | Some s \<Rightarrow> s) in
      if adapter = Some [] \<or> aggregator = Some [] \<or> db_identifier = [] then success (Some ())
      else
        onSuccess (send_request E adapter state_path ''GET'' None) (\<lambda>(_, answer).
        onSuccess (recovery_loop E adapter aggregator (recovery_data db_identifier)
            (initial_state answer) False fuel) (\<lambda>r.
        case r of
          None \<Rightarrow> success None
        | Some (state, failed) \<Rightarrow>
            if state = ''failed'' \<or> failed
            then raised (PlainException (''User recovery has failed with following state: '' @ state))
            else success (Some ()))))"

text \<open>The program, with its arguments as they are parsed; an empty argument is none.\<close>

definition restore_main ::
  "'s recovery_env \<Rightarrow> nat \<Rightarrow> string \<Rightarrow> string list option \<Rightarrow> renames \<Rightarrow> string option \<Rightarrow> string option \<Rightarrow> ('s, unit option) curator_io" where
  "restore_main E fuel storage_folder dbs renames clean skip_users_recovery =
     (let flag = (\<lambda>x. case x of None \<Rightarrow> False | Some v \<Rightarrow> v \<noteq> [] \<and> str2bool v);
          C = curator_env.truncate E in
      onSuccess (case dbs of
          Some xs \<Rightarrow> granular_restore C storage_folder (flag clean) renames xs
        | None \<Rightarrow>
            if Contains storage_folder ''granular'' then raised (PlainException ''Attempt to restore granular backup without databases'')
            else full_restore C storage_folder (flag clean)) (\<lambda>_.
      if flag skip_users_recovery then success (Some ()) else recover_users E fuel))"

section \<open>How a recovery ends\<close>

lemma run_sleep [run_simps]: "run_state (sleep n) w = (Inr (), w\<lparr>trace := trace w @ [Sleep n]\<rparr>)"
  by (simp add: sleep_def run_simps)

lemma ask_aggregator_mono:
  "run_state (ask_aggregator E url body t n) w = (r, w') \<Longrightarrow> r \<noteq> Inr None \<Longrightarrow> n \<le> m \<Longrightarrow>
     run_state (ask_aggregator E url body t m) w = (r, w')"
proof (induction n arbitrary: m w)
  case (Suc n)
  then obtain m' where m: "m = Suc m'" "n \<le> m'" by (cases m) auto
  show ?case using Suc.prems(1,2) Suc.IH m(2)
    by (auto simp: m(1) run_simps split: prod.splits sum.splits py_error.splits if_splits)
qed (simp add: run_simps)

lemma recovery_loop_mono:
  "run_state (recovery_loop E a g body st f n) w = (r, w') \<Longrightarrow> r \<noteq> Inr None \<Longrightarrow> n \<le> m \<Longrightarrow>
     run_state (recovery_loop E a g body st f m) w = (r, w')"
proof (induction n arbitrary: m w st f)
  case (Suc n)
  then obtain k where m: "m = Suc k" "n \<le> k" by (cases m) auto
  show ?case
  proof (cases "st = ''idle''")
    case True
    obtain t s where t: "time_now E (srv w) = (t, s)" by (cases "time_now E (srv w)")
    obtain q w1 where q: "run_state (ask_aggregator E g body t (Suc n)) (w\<lparr>srv := s\<rparr>) = (q, w1)"
      by (cases "run_state (ask_aggregator E g body t (Suc n)) (w\<lparr>srv := s\<rparr>)")
    have "q \<noteq> Inr None" using Suc.prems(1,2) True t q by (auto simp: run_simps simp del: ask_aggregator.simps)
    then have "run_state (ask_aggregator E g body t (Suc k)) (w\<lparr>srv := s\<rparr>) = (q, w1)"
      by (intro ask_aggregator_mono [OF q]) (simp_all add: m(2))
    then show ?thesis using Suc.prems(1,2) Suc.IH [OF _ _ m(2)] True t q
      by (auto simp: m(1) run_simps simp del: ask_aggregator.simps split: prod.splits sum.splits option.splits bool.splits)
  next
    case False
    then show ?thesis using Suc.prems(1,2) Suc.IH [OF _ _ m(2)]
      by (auto simp: m(1) run_simps split: prod.splits sum.splits if_splits)
  qed
qed (simp add: run_simps)

text \<open>The state \<open>done\<close> was read from the adapter, last.\<close>

definition saw_done :: "'s recovery_env \<Rightarrow> string \<Rightarrow> 's curator_world \<Rightarrow> bool" where
  "saw_done E u w \<longleftrightarrow>
     trace w \<noteq> [] \<and> last (trace w) = HttpCall ''GET'' (u @ state_path) None \<and>
     (\<exists>s. http_call E ''GET'' (u @ state_path) None s = (Inr (200, ''done''), srv w))"

lemma poll_state_done:
  assumes "run_state (poll_state E a st) w = (Inr ''done'', w')" and "st \<noteq> ''done''"
  shows "\<exists>u. a = Some u \<and> saw_done E u w'"
  using assms by (auto simp: poll_state_def send_request_def saw_done_def run_simps
      split: prod.splits sum.splits option.splits py_error.splits if_splits)

lemma recovery_loop_done:
  "run_state (recovery_loop E a g body st f n) w = (Inr (Some (''done'', f')), w') \<Longrightarrow> st \<noteq> ''done'' \<Longrightarrow>
     \<exists>u. a = Some u \<and> saw_done E u w'"
proof (induction n arbitrary: w st f)
  case (Suc n)
  have step: "\<exists>u. a = Some u \<and> saw_done E u w'"
    if poll: "run_state (poll_state E a st') v = (Inr st2, v')" and "st' \<noteq> ''done''"
      and rest: "run_state (recovery_loop E a g body st2 f2 n) v' = (Inr (Some (''done'', f')), w')" for st' v st2 v' f2
  proof (cases "st2 = ''done''")
    case True
    then have "w' = v'" using rest by (cases n) (auto simp: run_simps)
    then show ?thesis using poll_state_done [of E a st' v v'] poll that(2) True by simp
  qed (rule Suc.IH [OF rest])
  show ?case
    using Suc.prems Suc.IH [of "''failed''"]
    by (auto simp: run_simps simp del: ask_aggregator.simps split: prod.splits sum.splits option.splits bool.splits if_splits
        dest: step intro: Suc.IH)
qed (simp add: run_simps)

lemma recovery_loop_final:
  "run_state (recovery_loop E a g body st f n) w = (Inr (Some (st', f')), w') \<Longrightarrow> st' = ''done'' \<or> st' = ''failed''"
  by (induction n arbitrary: w st f)
    (auto simp: run_simps simp del: ask_aggregator.simps split: prod.splits sum.splits option.splits bool.splits if_splits)

definition identified :: "'s recovery_env \<Rightarrow> bool" where
  "identified E \<longleftrightarrow> (case getenv E ''DBAAS_AGGREGATOR_PHYSICAL_DATABASE_IDENTIFIER'' of None \<Rightarrow> False | Some s \<Rightarrow> s \<noteq> [])"

lemma get_url_not_empty: "get_url E variable \<noteq> Some []"
  by (auto simp: get_url_def split: option.splits)

text \<open>
  C23. A recovery of users that ends without an exception has read the state \<open>done\<close> from the adapter, as its last
  request, and more fuel gives the same.
\<close>

theorem recovery_seen_done:
  assumes "run_state (recover_users E n) w = (Inr (Some ()), w')" and "identified E"
  shows "(\<exists>u. get_url E ''DBAAS_ADAPTER_ADDRESS'' = Some u \<and> saw_done E u w') \<and>
    (\<forall>m \<ge> n. run_state (recover_users E m) w = (Inr (Some ()), w'))"
proof -
  let ?a = "get_url E ''DBAAS_ADAPTER_ADDRESS''" and ?g = "get_url E ''DBAAS_AGGREGATOR_REGISTRATION_ADDRESS''"
  obtain db where db: "getenv E ''DBAAS_AGGREGATOR_PHYSICAL_DATABASE_IDENTIFIER'' = Some db" "db \<noteq> []"
    using assms(2) by (auto simp: identified_def split: option.splits)
  obtain code answer w1 st f where first: "run_state (send_request E ?a state_path ''GET'' None) w = (Inr (code, answer), w1)"
    and loop: "run_state (recovery_loop E ?a ?g (recovery_data db) (initial_state answer) False n) w1 =
      (Inr (Some (st, f)), w')" and ok: "st \<noteq> ''failed''" "\<not> f"
    using assms(1) db get_url_not_empty
    by (auto simp: recover_users_def Let_def run_simps split: prod.splits sum.splits option.splits if_splits)
  have "st = ''done''" using recovery_loop_final [OF loop] ok by simp
  then have "\<exists>u. ?a = Some u \<and> saw_done E u w'"
    using recovery_loop_done [of E ?a ?g _ _ False n w1 f w'] loop by (auto simp: initial_state_def)
  moreover have "run_state (recover_users E m) w = (Inr (Some ()), w')" if "n \<le> m" for m
    using recovery_loop_mono [OF loop _ that] db ok first
    by (simp add: recover_users_def Let_def run_simps get_url_not_empty)
  ultimately show ?thesis by blast
qed

record polled =
  ticks :: nat
  polls :: nat

text \<open>An outside in which the adapter is idle at first, then running, then done.\<close>

definition polled_env :: "polled recovery_env" where
  "polled_env = curator_env.extend
     \<lparr>fetch = (\<lambda>what s. (Inl ValueError, s)), send = (\<lambda>ev s. (Inr (), s)), index_names = (\<lambda>s. (Inr [], s)),
      snapshots = (\<lambda>s. (Inr [], s)), filter_by_regex = (\<lambda>kind value exclude xs. xs)\<rparr>
     \<lparr>http_call = (\<lambda>method url body s.
        if method = ''GET''
        then (Inr (200, if polls s = 2 then ''idle'' else if polls s = 1 then ''running'' else ''done''), s\<lparr>polls := polls s - 1\<rparr>)
        else (Inr (200, []), s)),
      time_now = (\<lambda>s. (int (ticks s), s\<lparr>ticks := Suc (ticks s)\<rparr>)),
      getenv = (\<lambda>v. Some ''x'')\<rparr>"

definition polled_world :: "polled curator_world" where
  "polled_world = \<lparr>srv = \<lparr>ticks = 0, polls = 2\<rparr>, trace = [], folder = []\<rparr>"

theorem recovery_seen_done_witness:
  "\<exists>w'. run_state (recover_users polled_env 4) polled_world = (Inr (Some ()), w') \<and>
     (\<exists>u. get_url polled_env ''DBAAS_ADAPTER_ADDRESS'' = Some u \<and> saw_done polled_env u w')"
proof -
  let ?r = "run_state (recover_users polled_env 4) polled_world"
  have ok: "fst ?r = Inr (Some ())"
    by (simp add: recover_users_def Let_def run_simps polled_env_def curator_env.defs get_url_def polled_world_def
        initial_state_def send_request_def poll_state_def numeral_eq_Suc)
  have "identified polled_env" by code_simp
  then have "(\<exists>u. get_url polled_env ''DBAAS_ADAPTER_ADDRESS'' = Some u \<and> saw_done polled_env u (snd ?r))"
    by (intro recovery_seen_done [THEN conjunct1, of polled_env 4 polled_world "snd ?r"]) (simp_all only: prod_eq_iff ok fst_conv snd_conv simp_thms)
  then show ?thesis using ok by (metis prod.collapse)
qed

text \<open>Without the address of the adapter the recovery is not disabled: it raises an exception.\<close>

lemma unset_address_raises:
  assumes "getenv E ''DBAAS_ADAPTER_ADDRESS'' = None" and "identified E"
  shows "run_state (recover_users E n) w = (Inl TypeError, w)"
  using assms get_url_not_empty
  by (auto simp: recover_users_def get_url_def send_request_def identified_def run_simps split: option.splits)

text \<open>
  What the recovery relies on to end: time passes, and after finitely many questions the adapter answers that it is done or
  has failed. \<open>work\<close> bounds the questions left.
\<close>

definition lively :: "'s recovery_env \<Rightarrow> ('s \<Rightarrow> int) \<Rightarrow> ('s \<Rightarrow> nat) \<Rightarrow> bool" where
  "lively E clk work \<longleftrightarrow>
     (\<forall>s t s'. time_now E s = (t, s') \<longrightarrow> t = clk s \<and> clk s < clk s' \<and> work s' \<le> work s) \<and>
     (\<forall>method url body s r s'. http_call E method url body s = (r, s') \<longrightarrow> clk s \<le> clk s' \<and> work s' \<le> work s \<and>
        (method = ''GET'' \<longrightarrow> work s' < work s \<or> r = Inr (200, ''done'') \<or> r = Inr (200, ''failed'')))"

lemma livelyD:
  assumes "lively E clk work"
  shows "time_now E s = (t, s') \<Longrightarrow> t = clk s \<and> clk s < clk s' \<and> work s' \<le> work s"
    and "http_call E method url body s = (r, s') \<Longrightarrow> clk s \<le> clk s' \<and> work s' \<le> work s"
    and "http_call E ''GET'' url body s = (r, s') \<Longrightarrow> work s' < work s \<or> r = Inr (200, ''done'') \<or> r = Inr (200, ''failed'')"
  using assms unfolding lively_def by blast+

lemma ask_aggregator_ends:
  assumes "lively E clk work"
  shows "nat (start + 241 - clk (srv w)) < n \<Longrightarrow> run_state (ask_aggregator E url body start n) w = (r, w') \<Longrightarrow>
    r \<noteq> Inr None \<and> work (srv w') \<le> work (srv w)"
proof (induction n arbitrary: w)
  case (Suc n)
  obtain t s where t: "time_now E (srv w) = (t, s)" by (cases "time_now E (srv w)")
  note time = livelyD(1) [OF assms t]
  show ?case
  proof (cases "url = None \<or> t - start > 240")
    case True
    then show ?thesis using Suc.prems(2) t time by (auto simp: run_simps send_request_def split: if_splits)
  next
    case False
    then obtain u where u: "url = Some u" and le: "t - start \<le> 240" by auto
    obtain q s' where q: "http_call E ''POST'' (u @ restore_password_path) (Some body) s = (q, s')"
      by (cases "http_call E ''POST'' (u @ restore_password_path) (Some body) s")
    note call = livelyD(2) [OF assms q]
    have less: "nat (start + 241 - clk s') < n" using Suc.prems(1) time call le by linarith
    have rec: "r \<noteq> Inr None \<and> work (srv w') \<le> work s'"
      if "run_state (ask_aggregator E url body start n) v = (r, w')" "srv v = s'" for v
      using Suc.IH [OF _ that(1)] less that(2) by simp
    show ?thesis using Suc.prems(2) t q u le time call rec
      by (auto simp: run_simps send_request_def split: sum.splits py_error.splits if_splits) fastforce+
  qed
qed simp

lemma poll_state_ends:
  assumes "lively E clk work" and "run_state (poll_state E a st) w = (Inr st', w')"
  shows "work (srv w') < work (srv w) \<or> st' = ''done'' \<or> st' = ''failed''"
  using assms(2) livelyD(3) [OF assms(1)]
  by (auto simp: poll_state_def send_request_def run_simps split: prod.splits sum.splits option.splits py_error.splits if_splits)
    blast+

lemma recovery_loop_ends:
  assumes "lively E clk work"
  shows "work (srv w) + 243 \<le> n \<Longrightarrow> fst (run_state (recovery_loop E a g body st f n) w) \<noteq> Inr None"
proof (induction n arbitrary: w st f)
  case (Suc n)
  have final: "fst (run_state (recovery_loop E a g body st' f' n) v) \<noteq> Inr None" if "st' = ''done'' \<or> st' = ''failed''" for st' f' v
    using that Suc.prems by (cases n) (auto simp: run_simps)
  have poll: "fst (run_state (onSuccess (poll_state E a st) (\<lambda>st'. recovery_loop E a g body st' f' n)) v) \<noteq> Inr None"
    if "work (srv v) \<le> work (srv w)" for v f'
  proof (cases "run_state (poll_state E a st) v")
    case (Pair r v')
    show ?thesis
    proof (cases r)
      case (Inr st')
      then have "work (srv v') < work (srv v) \<or> st' = ''done'' \<or> st' = ''failed''" using poll_state_ends [OF assms] Pair by blast
      then have "fst (run_state (recovery_loop E a g body st' f' n) v') \<noteq> Inr None"
        using final Suc.IH [of v'] Suc.prems that by auto
      then show ?thesis using Pair Inr by (simp add: run_simps)
    qed (simp add: Pair run_simps)
  qed
  show ?case
  proof (cases "st = ''idle''")
    case True
    obtain t s where t: "time_now E (srv w) = (t, s)" by (cases "time_now E (srv w)")
    obtain q v where q: "run_state (ask_aggregator E g body t (Suc n)) (w\<lparr>srv := s\<rparr>) = (q, v)"
      by (cases "run_state (ask_aggregator E g body t (Suc n)) (w\<lparr>srv := s\<rparr>)")
    have "nat (t + 241 - clk s) < Suc n" using livelyD(1) [OF assms t] Suc.prems by linarith
    then have ask: "q \<noteq> Inr None" "work (srv v) \<le> work (srv w)"
      using ask_aggregator_ends [OF assms _ q] livelyD(1) [OF assms t] by fastforce+
    show ?thesis using True t q ask(1) poll [OF ask(2)] final [of "''failed''"]
      by (auto simp: run_simps simp del: ask_aggregator.simps split: sum.splits option.splits bool.splits)
  next
    case False
    then show ?thesis using poll [of w f] by (simp add: run_simps)
  qed
qed simp



end
