(* ===== verification/Indices_Cleaner.thy ===== *)
theory Indices_Cleaner
  imports Python
begin

text \<open>
  The cleaner of old indices (\<^verbatim>\<open>opensearch_indices_cleaner/scripts/indices_cleaner.py\<close>), which runs beside the curator. The libraries
  \<^verbatim>\<open>curator\<close>, \<^verbatim>\<open>schedule\<close> and \<^verbatim>\<open>yaml\<close> are parameters; a configuration is a document of strings, integers and lists.
\<close>

section \<open>The outside\<close>

datatype job = EveryAt string string | Every int string

datatype cleaner_event = ListIndices | DeleteFound "string list" | Schedule job

type_synonym ('s, 'a) cleaner = "(('s, cleaner_event) world, py_error + 'a) state"

text \<open>
  \<open>age_filter\<close> reads the creation dates and the time; its arguments are the direction, the unit and the count.
  \<open>pending\<close> says whether a run is due.
\<close>

record 's cleaner_env =
  variable :: "string \<Rightarrow> string option"
  config_text :: "'s \<Rightarrow> (py_error + string) \<times> 's"
  safe_load :: "string \<Rightarrow> py_error + json"
  found_indices :: "'s \<Rightarrow> (py_error + string list) \<times> 's"
  regex_filter :: "json \<Rightarrow> json \<Rightarrow> string list \<Rightarrow> py_error + string list"
  age_filter :: "json \<Rightarrow> json \<Rightarrow> json \<Rightarrow> string list \<Rightarrow> 's \<Rightarrow> (py_error + string list) \<times> 's"
  delete_found :: "string list \<Rightarrow> 's \<Rightarrow> (py_error + unit) \<times> 's"
  possible_units :: "string list"
  schedule_job :: "job \<Rightarrow> 's \<Rightarrow> (py_error + unit) \<times> 's"
  pending :: "'s \<Rightarrow> bool \<times> 's"

section \<open>The client\<close>

definition cleaner_url :: "'s cleaner_env \<Rightarrow> py_error + string" where
  "cleaner_url E =
     (case variable E ''ELASTICSEARCH_HOST'' of
        None \<Rightarrow> Inl (RuntimeError ''Elasticsearch url does not specified correctly, host is empty'')
      | Some host \<Rightarrow>
          if host = [] then Inl (RuntimeError ''Elasticsearch url does not specified correctly, host is empty'')
          else (case variable E ''TLS_HTTP_ENABLED'' of
              None \<Rightarrow> Inl AttributeError
            | Some tls \<Rightarrow> Inr ((if str2bool tls then ''https'' else ''http'') @ ''://'' @ host)))"

text \<open>The conditional binds tighter than the comma, so the result is always a pair.\<close>

definition cleaner_credentials :: "'s cleaner_env \<Rightarrow> py_error + (string \<times> string option)" where
  "cleaner_credentials E =
     (case variable E ''ES_AUTH'' of
        None \<Rightarrow> Inl AttributeError
      | Some auth \<Rightarrow>
          (case split_on (CHR '':'') auth of
             user # password # _ \<Rightarrow> Inr (user, if user \<noteq> [] \<and> password \<noteq> [] then Some password else None)
           | _ \<Rightarrow> Inl IndexError))"

definition cleaner_certificate :: "'s cleaner_env \<Rightarrow> string option" where
  "cleaner_certificate E =
     (case variable E ''ROOT_CA_CERTIFICATE'' of None \<Rightarrow> None | Some c \<Rightarrow> if c = [] then None else Some c)"

text \<open>The client is built from these; building it sends nothing.\<close>

definition prepare_client :: "'s cleaner_env \<Rightarrow> py_error + (string \<times> (string \<times> string option) \<times> string option)" where
  "prepare_client E =
     andThen (cleaner_url E) (\<lambda>url.
     andThen (cleaner_credentials E) (\<lambda>credentials. Inr (url, credentials, cleaner_certificate E)))"

section \<open>The configuration\<close>

definition CONFIGURATION_KEYS :: "string list" where
  "CONFIGURATION_KEYS = [''filter_kind'', ''filter_value'', ''filter_direction'', ''filter_unit'', ''filter_unit_count'']"

definition invalid_configuration :: "string \<Rightarrow> json \<Rightarrow> string \<Rightarrow> py_error" where
  "invalid_configuration key config what =
     RuntimeError (''Invalid configuration for Elasticsearch Indices Cleaner, key - '' @ key @ '' for configuration - '' @
       py_str config @ what)"

text \<open>A truth value is an integer.\<close>

fun check_keys :: "json \<Rightarrow> (string \<times> json) list \<Rightarrow> string list \<Rightarrow> py_error + unit" where
  "check_keys config kvs [] = Inr ()"
| "check_keys config kvs (key # keys) =
     (case map_of kvs key of
        None \<Rightarrow> Inl (invalid_configuration key config '' is unknown'')
      | Some v \<Rightarrow>
          (case v of
             JStr _ \<Rightarrow> check_keys config kvs keys
           | JNum _ \<Rightarrow> check_keys config kvs keys
           | JBool _ \<Rightarrow> check_keys config kvs keys
           | _ \<Rightarrow> Inl (invalid_configuration key config ('' should be string or integer, '' @ py_str v @ '' given''))))"

definition check_configs_structure :: "json \<Rightarrow> py_error + json list" where
  "check_configs_structure configs =
     (case configs of
        JArr js \<Rightarrow> Inr js
      | _ \<Rightarrow> Inl (RuntimeError (''Not valid Elasticsearch Indices Cleaner configuration - '' @ py_str configs @ '', array is expected'')))"

definition check_configuration :: "json \<Rightarrow> py_error + json list" where
  "check_configuration configs =
     andThen (check_configs_structure configs) (\<lambda>js.
     andThen (each_ok (\<lambda>config. andThen (dict_items config) (\<lambda>kvs. check_keys config kvs CONFIGURATION_KEYS)) js) (\<lambda>_. Inr js))"

definition get_cleaner_config :: "'s cleaner_env \<Rightarrow> ('s, json) cleaner" where
  "get_cleaner_config E =
     (case variable E ''INDICES_CLEANER_CONFIGURATION_KEY'' of
        None \<Rightarrow> raised (RuntimeError ''Invalid value INDICES_CLEANER_CONFIGURATION_KEY. It is empty!'')
      | Some key \<Rightarrow>
          if key = [] then raised (RuntimeError ''Invalid value INDICES_CLEANER_CONFIGURATION_KEY. It is empty!'')
          else onSuccess (silent (config_text E)) (\<lambda>text.
               return (andThen (safe_load E text) (\<lambda>data. subscript data key))))"

section \<open>Cleaning\<close>

definition delete_indices_by_pattern :: "'s cleaner_env \<Rightarrow> json \<Rightarrow> ('s, unit) cleaner" where
  "delete_indices_by_pattern E config =
     onSuccess (request ListIndices (found_indices E)) (\<lambda>all_indices.
     onSuccess (return (subscript config ''filter_kind'')) (\<lambda>kind.
     onSuccess (return (subscript config ''filter_value'')) (\<lambda>val.
     onSuccess (return (regex_filter E kind val all_indices)) (\<lambda>matching.
     onSuccess (return (subscript config ''filter_direction'')) (\<lambda>direction.
     onSuccess (return (subscript config ''filter_unit'')) (\<lambda>unit.
     onSuccess (return (subscript config ''filter_unit_count'')) (\<lambda>unit_count.
     onSuccess (silent (age_filter E direction unit unit_count matching)) (\<lambda>old.
     onSuccess (return (subscript config ''name'')) (\<lambda>_.
     if old \<noteq> [] then request (DeleteFound old) (delete_found E old) else success ())))))))))"

definition cleaner_delete_indices :: "'s cleaner_env \<Rightarrow> ('s, unit) cleaner" where
  "cleaner_delete_indices E =
     onSuccess (get_cleaner_config E) (\<lambda>configs.
     if \<not> truthy configs then success ()
     else
       onSuccess (return (check_configuration configs)) (\<lambda>js.
       onSuccess (return (prepare_client E)) (\<lambda>_.
       onSuccess (for_success (delete_indices_by_pattern E) js) (\<lambda>_. success ()))))"

section \<open>The schedule\<close>

definition unit_count_error :: "string \<Rightarrow> py_error" where
  "unit_count_error what = RuntimeError (''Invalid format for INDICES_CLEANER_SCHEDULER_UNIT_COUNT variable'' @ what)"

definition scheduled_job :: "string \<Rightarrow> string \<Rightarrow> py_error + job" where
  "scheduled_job unit unit_count =
     (if Contains unit_count '':'' then
        (let time_list = split_on (CHR '':'') unit_count in
         if length time_list > 2 then
           Inl (unit_count_error (''. It should contains not more than one '' @ [CHR 34, CHR '':'', CHR 34] @ '' separator, '' @
             show_int (int (length time_list) - 1) @ '' is given''))
         else if time_list ! 0 \<noteq> [] \<and> \<not> isdigit (time_list ! 0) then
           Inl (RuntimeError (''Invalid hours value for Elasticsearch Indices Cleaner scheduler. Digit is expected, '' @
             time_list ! 0 @ '' given''))
         else if time_list ! 1 \<noteq> [] \<and> \<not> isdigit (time_list ! 1) then
           Inl (RuntimeError (''Invalid minutes value for Elasticsearch Indices Cleaner scheduler. Digit is expected, '' @
             time_list ! 1 @ '' given''))
         else Inr (EveryAt unit unit_count))
      else if \<not> isdigit unit_count then
        Inl (unit_count_error ('' - '' @ unit_count @ ''. Variable is not integer and is not separated by '' @ [CHR 34, CHR '':'', CHR 34]))
      else andThen (py_int unit_count) (\<lambda>n. Inr (Every n unit)))"

definition schedule_cleaning :: "'s cleaner_env \<Rightarrow> ('s, unit) cleaner" where
  "schedule_cleaning E =
     (let wrong = (\<lambda>unit. raised (RuntimeError (''Scheduler unit '' @ unit @ '' is not valid, possible values are '' @
            py_repr (JArr (map JStr (possible_units E)))))) in
      case variable E ''INDICES_CLEANER_SCHEDULER_UNIT'' of
        None \<Rightarrow> wrong ''None''
      | Some unit \<Rightarrow>
          if unit \<notin> set (possible_units E) then wrong unit
          else (case variable E ''INDICES_CLEANER_SCHEDULER_UNIT_COUNT'' of
              None \<Rightarrow> raised AttributeError
            | Some unit_count \<Rightarrow>
                onSuccess (return (scheduled_job unit unit_count)) (\<lambda>job. request (Schedule job) (schedule_job E job))))"

text \<open>The program runs forever unless a run raises an exception, so it takes fuel; \<open>Inr ()\<close> says that the fuel is used up.\<close>

fun cleaner_loop :: "'s cleaner_env \<Rightarrow> nat \<Rightarrow> ('s, unit) cleaner" where
  "cleaner_loop E 0 = success ()"
| "cleaner_loop E (Suc n) = do {
     due \<leftarrow> silent (pending E);
     onSuccess (if due then cleaner_delete_indices E else success ()) (\<lambda>_. cleaner_loop E n) }"

definition cleaner_main :: "'s cleaner_env \<Rightarrow> nat \<Rightarrow> ('s, unit) cleaner" where
  "cleaner_main E n = onSuccess (schedule_cleaning E) (\<lambda>_. cleaner_loop E n)"

section \<open>What is deleted\<close>

fun simple_value :: "json option \<Rightarrow> bool" where
  "simple_value (Some (JStr _)) = True"
| "simple_value (Some (JNum _)) = True"
| "simple_value (Some (JBool _)) = True"
| "simple_value _ = False"

definition valid_config :: "json \<Rightarrow> bool" where
  "valid_config config \<longleftrightarrow> list_all (\<lambda>key. simple_value (get_member key config)) CONFIGURATION_KEYS"

lemma check_keys_ok: "check_keys config kvs keys = Inr () \<longleftrightarrow> list_all (\<lambda>key. simple_value (map_of kvs key)) keys"
  by (induction keys) (auto split: option.splits json.splits)

lemma each_ok_unit: "(\<exists>us. each_ok f xs = Inr us) \<longleftrightarrow> list_all (\<lambda>x. \<exists>u. f x = Inr u) xs"
  by (induction xs) (auto simp: andThen_ok)

lemma config_ok: "(\<exists>u. andThen (dict_items config) (\<lambda>kvs. check_keys config kvs CONFIGURATION_KEYS) = Inr u) \<longleftrightarrow> valid_config config"
proof (cases config)
  case (JObj kvs)
  then show ?thesis by (simp add: valid_config_def check_keys_ok)
qed (simp_all add: valid_config_def CONFIGURATION_KEYS_def)

text \<open>The check accepts exactly the lists of configurations that have a string or an integer under every key.\<close>

lemma check_configuration_iff: "check_configuration configs = Inr js \<longleftrightarrow> configs = JArr js \<and> list_all valid_config js"
proof -
  have "(\<exists>us. each_ok (\<lambda>config. andThen (dict_items config) (\<lambda>kvs. check_keys config kvs CONFIGURATION_KEYS)) xs = Inr us) \<longleftrightarrow>
      list_all valid_config xs" for xs
    unfolding each_ok_unit config_ok ..
  then show ?thesis by (cases configs) (auto simp: check_configuration_def check_configs_structure_def andThen_ok)
qed

text \<open>The indices \<open>xs\<close> are what the filters of a configuration leave of a list of indices.\<close>

definition selected :: "'s cleaner_env \<Rightarrow> json \<Rightarrow> string list \<Rightarrow> bool" where
  "selected E config xs \<longleftrightarrow>
     (\<exists>kvs kind val direction unit unit_count all_indices matching s.
        config = JObj kvs \<and> map_of kvs ''filter_kind'' = Some kind \<and> map_of kvs ''filter_value'' = Some val \<and>
        map_of kvs ''filter_direction'' = Some direction \<and> map_of kvs ''filter_unit'' = Some unit \<and>
        map_of kvs ''filter_unit_count'' = Some unit_count \<and> map_of kvs ''name'' \<noteq> None \<and>
        regex_filter E kind val all_indices = Inr matching \<and>
        fst (age_filter E direction unit unit_count matching s) = Inr xs)"

text \<open>A deletion that the configuration asks for, in a configuration that is valid as a whole.\<close>

fun asked_for :: "'s cleaner_env \<Rightarrow> cleaner_event \<Rightarrow> bool" where
  "asked_for E (DeleteFound xs) \<longleftrightarrow> xs \<noteq> [] \<and>
     (\<exists>text data key configs config. safe_load E text = Inr data \<and>
        variable E ''INDICES_CLEANER_CONFIGURATION_KEY'' = Some key \<and> subscript data key = Inr (JArr configs) \<and>
        list_all valid_config configs \<and> config \<in> set configs \<and> selected E config xs)"
| "asked_for E _ \<longleftrightarrow> True"

lemma delete_indices_by_pattern_selected:
  assumes "run_state (delete_indices_by_pattern E config) w = (r, w')"
  shows "\<exists>es. trace w' = trace w @ es \<and> (\<forall>e \<in> set es. e = ListIndices \<or> (\<exists>xs. e = DeleteFound xs \<and> xs \<noteq> [] \<and> selected E config xs))"
proof (cases config)
  case (JObj kvs)
  then show ?thesis using assms
    by (auto simp: delete_indices_by_pattern_def run_simps selected_def split: prod.splits sum.splits option.splits if_splits)
      (metis fst_conv)+
qed (use assms in \<open>auto simp: delete_indices_by_pattern_def run_simps split: prod.splits sum.splits\<close>)

lemma get_cleaner_config_source:
  assumes "run_state (get_cleaner_config E) w = (Inr configs, w')"
  shows "\<exists>text data key. safe_load E text = Inr data \<and> variable E ''INDICES_CLEANER_CONFIGURATION_KEY'' = Some key \<and>
    subscript data key = Inr configs"
  using assms by (auto simp: get_cleaner_config_def run_simps andThen_ok split: option.splits prod.splits sum.splits if_splits)

lemma cleaner_delete_indices_asked_for: "sends (asked_for E) (cleaner_delete_indices E)"
  unfolding cleaner_delete_indices_def
proof (intro sends_onSuccess_return sends_onSuccess_result sends_if sends_success sends_for_success)
  show "sends (asked_for E) (get_cleaner_config E)"
    unfolding get_cleaner_config_def by (intro sends_intros)
next
  fix w configs w' js config
  assume "run_state (get_cleaner_config E) w = (Inr configs, w')" and "check_configuration configs = Inr js" and "config \<in> set js"
  then have "\<exists>text data key. safe_load E text = Inr data \<and> variable E ''INDICES_CLEANER_CONFIGURATION_KEY'' = Some key \<and>
      subscript data key = Inr (JArr js)" and "list_all valid_config js" and "config \<in> set js"
    using get_cleaner_config_source by (auto simp: check_configuration_iff)
  then have asked: "asked_for E e" if "e = ListIndices \<or> (\<exists>xs. e = DeleteFound xs \<and> xs \<noteq> [] \<and> selected E config xs)" for e
    using that by auto blast
  show "sends (asked_for E) (delete_indices_by_pattern E config)"
  proof (rule sendsI)
    fix v
    show "\<exists>es. trace (snd (run_state (delete_indices_by_pattern E config) v)) = trace v @ es \<and> (\<forall>e \<in> set es. asked_for E e)"
      using delete_indices_by_pattern_selected [of E config v "fst (run_state (delete_indices_by_pattern E config) v)"] asked
      by (metis prod.collapse)
  qed
qed

text \<open>
  C25. However long the cleaner runs, every deletion is one that the configuration asks for: some indices that the two
  filters of one configuration select, where every configuration of the list has passed the check.
\<close>

theorem cleaner_deletes_asked_for: "sends (asked_for E) (cleaner_main E n)"
proof -
  have "sends (asked_for E) (cleaner_loop E n)"
    by (induction n) (auto intro!: sends_intros cleaner_delete_indices_asked_for)
  then show ?thesis unfolding cleaner_main_def schedule_cleaning_def Let_def by (auto intro!: sends_intros)
qed

text \<open>The name, which is only logged, is not checked: without it a valid configuration deletes nothing.\<close>

lemma nameless_config_raises:
  assumes "valid_config (JObj kvs)" and "map_of kvs ''name'' = None"
    and "run_state (delete_indices_by_pattern E (JObj kvs)) w = (r, w')"
  shows "r \<noteq> Inr () \<and> trace w' = trace w @ [ListIndices]"
  using assms(2,3) by (auto simp: delete_indices_by_pattern_def run_simps split: prod.splits sum.splits option.splits if_splits)

text \<open>What the schedule accepts: a number, or hours and minutes either of which may be missing.\<close>

definition time_part :: "string \<Rightarrow> bool" where
  "time_part s \<longleftrightarrow> s = [] \<or> isdigit s"

lemma isdigit_no_colon: "isdigit s \<Longrightarrow> CHR '':'' \<notin> set s"
  by (auto simp: isdigit_def list_all_iff decimal_digit_def)

lemma first_separator: "c \<notin> set a \<Longrightarrow> c \<notin> set b \<Longrightarrow> a @ c # x = b @ c # y \<Longrightarrow> a = b \<and> x = y"
proof (induction a arbitrary: b)
  case Nil
  then show ?case by (cases b) auto
next
  case (Cons d a)
  then show ?case by (cases b) auto
qed

lemma scheduled_time:
  assumes "CHR '':'' \<in> set s"
  shows "(\<exists>j. scheduled_job unit s = Inr j) \<longleftrightarrow> (\<exists>h m. s = h @ CHR '':'' # m \<and> time_part h \<and> time_part m)"
proof -
  obtain h m where s: "s = h @ CHR '':'' # m" "CHR '':'' \<notin> set h" using assms by (meson split_list_first)
  have split: "split_on (CHR '':'') s = h # split_on (CHR '':'') m" using s by (simp add: split_on_append)
  show ?thesis
  proof (cases "CHR '':'' \<in> set m")
    case True
    then obtain a b where "m = a @ CHR '':'' # b" "CHR '':'' \<notin> set a" by (meson split_list_first)
    then have "length (split_on (CHR '':'') s) > 2" using split
      by (cases "split_on (CHR '':'') b") (simp_all add: split_on_append)
    moreover have "\<not> (\<exists>h' m'. s = h' @ CHR '':'' # m' \<and> time_part h' \<and> time_part m')"
    proof (intro notI; elim exE conjE)
      fix h' m' assume eq: "s = h' @ CHR '':'' # m'" and parts: "time_part h'" "time_part m'"
      then have "CHR '':'' \<notin> set h'" "CHR '':'' \<notin> set m'" by (auto simp: time_part_def dest: isdigit_no_colon)
      then have "m' = m" using first_separator [of "CHR '':''" h' h m' m] eq s by simp
      then show False using True \<open>CHR '':'' \<notin> set m'\<close> by simp
    qed
    ultimately show ?thesis using assms by (simp add: scheduled_job_def Contains_char Let_def)
  next
    case False
    then have two: "split_on (CHR '':'') s = [h, m]" using split by (simp add: split_on_no_sep)
    have same: "h' = h \<and> m' = m" if "s = h' @ CHR '':'' # m'" "time_part h'" for h' m'
    proof -
      have "CHR '':'' \<notin> set h'" using that(2) by (auto simp: time_part_def dest: isdigit_no_colon)
      then show ?thesis using first_separator [of "CHR '':''" h' h m' m] that(1) s by simp
    qed
    have "(\<exists>j. scheduled_job unit s = Inr j) \<longleftrightarrow> time_part h \<and> time_part m"
      using assms two by (auto simp: scheduled_job_def Contains_char time_part_def Let_def)
    then show ?thesis using same s(1) by blast
  qed
qed

text \<open>
  The schedule is accepted exactly for a count in decimal digits, or a time of one colon whose two parts are digits or
  missing; the check of the time does not look at its range.
\<close>

theorem schedule_accepts:
  "(\<exists>j. scheduled_job unit s = Inr j) \<longleftrightarrow>
     decimals s \<or> (\<exists>h m. s = h @ CHR '':'' # m \<and> time_part h \<and> time_part m)"
proof (cases "CHR '':'' \<in> set s")
  case True
  then have "\<not> decimals s" by (auto dest: decimals_isdigit isdigit_no_colon)
  then show ?thesis using scheduled_time [OF True] by blast
next
  case False
  then show ?thesis
    by (auto simp: scheduled_job_def Contains_char py_int_isdigit decimals_isdigit andThen_ok)
qed

end
