(* ===== verification/Spec2Isabelle.thy ===== *)
theory Spec2Isabelle
  imports Adapter_Client Api_Functions Client_Stub Deep_Copy Operator_Main
    Ism_Filter Metrics Slow_Queries Curator_Users Indices_Cleaner
begin

text \<open>
  Verification of the OpenSearch service: the programs that run beside, and inside, an OpenSearch cluster in
  Kubernetes. The \<^bold>\<open>DBaaS adapter\<close> (\<^verbatim>\<open>opensearch-dbaas-adapter\<close>) serves a REST interface by which the DBaaS
  aggregator creates and removes databases, users and backups in the cluster. The \<^bold>\<open>operator\<close>
  (\<^verbatim>\<open>controllers\<close>, \<^verbatim>\<open>disasterrecovery\<close>, \<^verbatim>\<open>util\<close>, \<^verbatim>\<open>api/v1\<close>) watches a custom resource and brings the cluster
  and the deployments around it to the state the resource describes. They meet in the cluster, and
  during a switchover, when the operator asks the aggregator and the adapter to restore the users. A \<^bold>\<open>filter\<close> inside
  OpenSearch (\<^verbatim>\<open>docker-opensearch/opensearch-filter-plugin\<close>, Java) confines the requests for index state management (ISM) of the
  users the adapter creates. The \<^bold>\<open>curator\<close> (\<^verbatim>\<open>opensearch-curator\<close>, Python) saves and restores databases on behalf of the
  adapter, asks for the users to be restored, and removes old indices. The \<^bold>\<open>monitoring\<close> scripts
  (\<^verbatim>\<open>monitoring/exec-scripts\<close>, Python) turn the answers of the cluster and of the adapter into metrics.

  \<^bold>\<open>How the code is modelled.\<close> Code that talks to the outside is a program of the state monad over a
  world: the abstract state of the outside, the trace of the events sent so far, and, for the operator,
  what the process keeps in memory. Everything outside is a field of the record \<open>env\<close> (adapter) or
  \<open>op_env\<close> (operator), a function on the abstract state: the HTTP transport, the Kubernetes client, the
  generator of passwords, SHA-256, YAML, regular expressions, the clock, and how often a library
  loop such as \<^verbatim>\<open>wait.Poll\<close> or \<^verbatim>\<open>RetryOnConflict\<close> tries. Errors are values (\<open>go_error + 'a\<close>), panics are \<open>Panic\<close>
  of the type \<open>go\<close>, and Go maps are association lists in any order. In Java and Python an exception is a value of
  \<open>java_error\<close> or \<open>py_error\<close>, on the left of a sum; a dictionary is an association list in its order. A claim about what is sent has the
  form \<open>sends R m\<close>: whatever the outside answers, every event of \<open>m\<close> satisfies \<open>R\<close>.

  \<^bold>\<open>Theories.\<close>
  \<^item> \<open>Prelude\<close>: strings, maps, the monad with its combinators, and the collections \<open>run_simps\<close> and
    \<open>sends_intros\<close>. \<open>Json\<close>, \<open>Json_Text\<close> and \<open>Http\<close>: the parts of the standard library for JSON documents,
    their text, and HTTP messages. \<open>Json_Round_Trip\<close>: reading what was printed gives it back. \<open>Transport\<close>:
    the HTTP clients both programs build, with the certificates they trust (\<^verbatim>\<open>cluster.go\<close>, \<^verbatim>\<open>client.go\<close>,
    \<^verbatim>\<open>opensearchservice_reconciler.go\<close>, \<^verbatim>\<open>replication_checker.go\<close>).
  \<^item> \<open>Adapter_Common\<close> (\<^verbatim>\<open>api\<close>, \<^verbatim>\<open>common\<close>), \<open>Security\<close> (\<^verbatim>\<open>basic/role.go\<close>, \<^verbatim>\<open>rolemapping.go\<close>, \<^verbatim>\<open>user.go\<close>),
    \<open>Recovery\<close> (\<^verbatim>\<open>basic/users_recovery.go\<close>), \<open>Databases\<close> (\<^verbatim>\<open>basic/basic.go\<close>), \<open>Backup\<close> (\<^verbatim>\<open>backup/backup.go\<close>),
    \<open>Executor\<close> (\<^verbatim>\<open>common/background.go\<close>), \<open>Registration\<close> (\<^verbatim>\<open>physical/physical.go\<close>, \<^verbatim>\<open>health\<close>, \<^verbatim>\<open>cluster\<close>) and
    \<open>Adapter_Server\<close> (\<^verbatim>\<open>server/server.go\<close>): the adapter. \<open>Adapter_Client\<close> (\<^verbatim>\<open>cmd/main.go\<close>, \<^verbatim>\<open>client/client.go\<close>, the
    start and end of the server): its process and the command line client, which is also run against the
    server. \<open>Api_Functions\<close>: the functions with options of the package \<^verbatim>\<open>api\<close>. \<open>Client_Stub\<close>: the rest of \<^verbatim>\<open>common\<close>
    with the test double of the OpenSearch client, against which unit tests of the repository are replayed.
  \<^item> \<open>Operator_Base\<close> (\<^verbatim>\<open>api/v1\<close>, \<^verbatim>\<open>util\<close>, \<^verbatim>\<open>opensearchservice_reconciler.go\<close>, \<^verbatim>\<open>condition.go\<close>), \<open>Replication\<close>
    (\<^verbatim>\<open>replication_manager.go\<close>, \<^verbatim>\<open>disasterrecovery\<close>), \<open>Disaster_Recovery\<close> (\<^verbatim>\<open>disaster_recovery_reconciler.go\<close>,
    \<^verbatim>\<open>replication_watcher.go\<close>), \<open>Rolling_Update\<close> and \<open>Security_Config\<close> (the methods \<^verbatim>\<open>Reconcile\<close> and \<^verbatim>\<open>Configure\<close>
    of \<^verbatim>\<open>opensearch_reconciler.go\<close>) and \<open>Controller\<close> (\<^verbatim>\<open>opensearchservice_controller.go\<close>, the reconcilers of the
    other deployments, \<^verbatim>\<open>slowlog_indices_watcher.go\<close>): the operator. \<open>Operator_Main\<close> (\<^verbatim>\<open>main.go\<close>, the set-up of
    the controller, the disaster recovery server): its process. \<open>Deep_Copy\<close> (\<^verbatim>\<open>zz_generated.deepcopy.go\<close>): the copies
    of the custom resource, over an explicit heap.
  \<^item> \<open>Exceptions\<close>: raising and what follows, for both other languages. \<open>Ism_Filter\<close> (\<^verbatim>\<open>IsmSecurityFilter.java\<close>, \<^verbatim>\<open>User.java\<close>,
    \<^verbatim>\<open>Constants.java\<close>): the filter. \<open>Python\<close>: strings, numbers and documents of Python. \<open>Metrics\<close> (\<^verbatim>\<open>health_metric.py\<close>,
    \<^verbatim>\<open>dbaas_health_metric.py\<close>, \<^verbatim>\<open>replication_metric.py\<close>, \<^verbatim>\<open>backup_metric.py\<close>) and \<open>Slow_Queries\<close> (\<^verbatim>\<open>slow_queries_metric.py\<close>):
    the monitoring. \<open>Curator_Backup\<close> (\<^verbatim>\<open>utils.py\<close>, \<^verbatim>\<open>backup.py\<close>, \<^verbatim>\<open>evict.py\<close>, \<^verbatim>\<open>list_instances_in_vault.py\<close>), \<open>Curator_Restore\<close>
    and \<open>Curator_Users\<close> (\<^verbatim>\<open>restore.py\<close>, \<^verbatim>\<open>dbaas_client.py\<close>) and \<open>Indices_Cleaner\<close> (\<^verbatim>\<open>indices_cleaner.py\<close>): the curator. The state of
    a backup is the folder it is saved in.

  \<^bold>\<open>What is shown of the adapter.\<close> The roles it creates grant nothing outside the resource prefix of a
  user, up to a fixed list; databases are created with one user per role, and deleted without touching
  what was not asked for; a prefix is accepted exactly under the condition of the code; requests without
  credentials have no effect; recovery, backup, restoration, registration and migration do what they
  report, with their bounds and the cases in which they do not end. Its client of OpenSearch verifies
  certificates unless it has none to trust, and its own smoke test cannot pass on the second API version.

  \<^bold>\<open>What is shown of the operator.\<close> A switchover deletes no replicated index unless the other side is
  active, only the active side serves clients, and the check before it is sound when the list of
  indices can be read; the restarts of a rolling update refine the list of pending replicas and
  continue after a failure, and the allocation of shards is always enabled again; merged backend roles
  are the update of a set; changed credentials are followed; nothing is configured before the cluster is
  ready; and a cycle that fails does not lose a change of the credentials. The last two span all reconcilers.
  Credentials reach the security plugin as they are unless they need escaping; the process starts in
  order or not at all; a new process takes the security configuration it finds for applied; the health
  server only reads; and a deep copy of the resource shares no memory with the original.

  \<^bold>\<open>What is shown of the filter.\<close> A request of an ISM user is passed on exactly when everything it names begins with the
  prefix of the user; the thread that replaces the stored user ends. The end of this theory puts the adapter and
  the filter together: the users the adapter creates are confined to the prefix it was asked for.

  \<^bold>\<open>What is shown of the curator and the monitoring.\<close> A granular restoration touches only the databases it was asked for,
  under their new names, with the condition it needs; templates that were saved are restored; the databases of a backup
  are listed as they were asked for; the recovery of users ends without an exception only when the adapter reported
  that it is done, and ends whenever the adapter does; the cleaner deletes only what its configuration selects, and its
  schedule accepts exactly numbers and times. A slow log line is read back as it was printed, the slowest queries are
  reported under a condition on their times, the metric of the backups counts the snapshots, and the metric of the adapter
  shows what the health handler of the adapter answers.

  \<^bold>\<open>Locales.\<close> Contracts between components are locales with interpretations on the model: the laws of
  a store with string keys (\<open>string_store\<close>), interpreted on Go maps; what the deletion of a resource relies
  on (\<open>deletable\<close>), interpreted on each of the six kinds of resources; the events a switchover may send
  (\<open>switchover_events\<close>), interpreted once for the deletions and once for the services; and what a deep copy
  promises (\<open>copying\<close>), interpreted on the types of the custom resource.

  \<^bold>\<open>Bounds and fuel.\<close> Bounds of the code are kept: batches of 100 users and three attempts per batch, a
  queue of five tasks, 120 tries to track a restored index, five attempts of the replication check and
  of the creation of the snapshots repository, fifty rounds of the update of a stored user. Three loops have no bound
  and take fuel, with \<open>None\<close> for fuel that is used up: the migration of the adapter and the wait for recovered users of
  the operator and of the curator. For all it is shown that a result does not depend on the fuel, so any fuel that gives
  one is enough; for the curator 243 units and one per question are enough, from the limit of 240 seconds. The loop
  over the brackets of a slow log line is a partial function, and when it ends is shown (\<open>extract_ends\<close>). The
  reader of JSON text takes two units of fuel per character and one, which is enough for every text
  (\<open>read_value_fuel\<close>). The shell of the adapter takes fuel to show that it never ends, and the loop of the
  cleaner because it ends only by an exception.

  \<^bold>\<open>Not modelled.\<close> The inside of libraries: the controller runtime, the router, TLS, sockets and the retrying
  HTTP client are parameters. Pauses, and log output other than the shape of a log line. The parsing of
  command line flags: their values are arguments. The registration of the types with the scheme, which is a
  library call, and the registration of the filter with OpenSearch. The reading of times and of YAML, the filters of the
  library \<^verbatim>\<open>curator\<close>, and regular expressions other than the renaming of a plain prefix. Helm charts, images with their
  shell scripts, and the integration tests. The mutex of the replication watcher
  makes rounds and switchovers exclude each other, so they are sequential code here, with a step
  relation for the goroutines of the watcher.
\<close>

section \<open>Users of the adapter and the filter of OpenSearch\<close>

text \<open>
  How the security plugin logs in an internal user with the given content: it has the backend roles, and the
  attributes under names that begin with \<^verbatim>\<open>attr.internal.\<close>.
\<close>

definition logged_in :: "content \<Rightarrow> security_user \<Rightarrow> bool" where
  "logged_in c u \<longleftrightarrow> su_backendRoles u = ct_BackendRoles c \<and>
     su_attributes u = map (\<lambda>(k, v). (''attr.internal.'' @ k, v)) (ct_Attributes c)"

lemma ism_users_have_prefix:
  assumes "pfx \<noteq> []" and "logged_in (new_user_content password pfx IsmRoleType) u"
  shows "ISM_ROLE_NAME \<in> set (su_backendRoles u)"
    and "map_of (su_attributes u) RESOURCE_PREFIX_ATTRIBUTE_NAME = Some (TrimRight pfx (CHR ''*''))"
  using assms by (auto simp: logged_in_def new_user_content_def GetBackendRoles_def backend_role_def IsmRoleType_def
      ISM_ROLE_NAME_def RESOURCE_PREFIX_ATTRIBUTE_NAME_def resourcePrefixAttributeName_def)

text \<open>
  C8. The users the adapter creates for index state management (ISM) are confined by the filter of OpenSearch: an ISM request of such a user proceeds exactly when every index, pattern and policy it names begins
  with the prefix the adapter was asked for, without its stars at the end.
\<close>

theorem adapter_ism_users_confined:
  assumes "streams_ok (fe_streams F)" and "user_ok u" and "stands_for F rq req"
    and "pfx \<noteq> []" and "logged_in (new_user_content password pfx IsmRoleType) u"
  shows "apply_filter F (Some (Inr (User_writeTo (fe_streams F) u))) (Some (action_of req)) rq =
    Inr (if list_all (\<lambda>n. HasPrefix n (TrimRight pfx (CHR ''*''))) (names req) then Proceed (listener_for req)
         else Forbidden (security_error (action_of req) u))"
  using apply_filter_user [OF assms(1,2) action_of_ism ism_users_have_prefix [OF assms(4,5)]]
    allowAction_stands_for [OF assms(1,3)] overrideActionListener_stands_for [OF assms(1,3)] by simp

theorem adapter_ism_users_confined_witness:
  "logged_in (new_user_content ''secret'' ''test*'' IsmRoleType) tenant_user \<and>
   apply_filter test_filter_env (Some (Inr (User_writeTo token_streams tenant_user))) (Some ADD_POLICY_ACTION_NAME) foreign_index =
     Inr (Forbidden (security_error ADD_POLICY_ACTION_NAME tenant_user))"
proof -
  have l: "user_ok tenant_user" "logged_in (new_user_content ''secret'' ''test*'' IsmRoleType) tenant_user" by code_simp+
  have s: "stands_for test_filter_env foreign_index foreign_index"
    by (simp add: stands_for_def test_filter_env_def foreign_index_def token_streams_def)
  have "TrimRight ''test*'' (CHR ''*'') = ''test''" by code_simp
  then have n: "\<not> list_all (\<lambda>n. HasPrefix n (TrimRight ''test*'' (CHR ''*''))) (names foreign_index)"
    by (simp add: foreign_index_def HasPrefix_def)
  have e: "fe_streams test_filter_env = token_streams" "action_of foreign_index = ADD_POLICY_ACTION_NAME"
    by (simp_all add: test_filter_env_def foreign_index_def)
  have "streams_ok (fe_streams test_filter_env)" by (simp add: e token_streams_ok)
  then show ?thesis
    using adapter_ism_users_confined [OF _ l(1) s _ l(2)] l(2) n by (simp add: e)
qed

end
